(* ===== verification/Prelude.thy ===== *)
theory Prelude
  imports Main "HOL-Library.Word"
begin

text \<open>
  Shared vocabulary of the development: machine types, the \<^verbatim>\<open>Result\<close> combinators that the
  models are written in, and the rules by which an action is shown to keep an invariant.

  A fallible pure function returns \<open>'e + 'a\<close>: \<open>Inl\<close> is \<^verbatim>\<open>Err\<close>, \<open>Inr\<close> is \<^verbatim>\<open>Ok\<close>, and
  \<open>and_then\<close> is the \<^verbatim>\<open>?\<close> operator.  A fallible operation on mutable state is an \<open>action\<close>:
  it returns the result together with the state it leaves behind, on the error branch too,
  because \<^verbatim>\<open>&mut self\<close> methods and SQL statements keep what they did before an error.
\<close>

named_theorems result_simps \<open>unfolding rules for Result and action combinators\<close>
named_theorems preserves_intros \<open>rules for proving that an action keeps an invariant\<close>
named_theorems wf_simps \<open>well-formedness predicates of the model's data\<close>

section \<open>Machine types\<close>

type_synonym byte = "8 word"
type_synonym bytes = "8 word list"
type_synonym u16 = "16 word"
type_synonym u32 = "32 word"
type_synonym u64 = "64 word"

section \<open>Results\<close>

definition and_then :: "'e + 'a \<Rightarrow> ('a \<Rightarrow> 'e + 'b) \<Rightarrow> 'e + 'b" where
  "and_then r f = (case r of Inl e \<Rightarrow> Inl e | Inr a \<Rightarrow> f a)"

definition ok_or :: "'e \<Rightarrow> 'a option \<Rightarrow> 'e + 'a" where
  "ok_or e x = (case x of None \<Rightarrow> Inl e | Some a \<Rightarrow> Inr a)"

definition map_err :: "('e \<Rightarrow> 'f) \<Rightarrow> 'e + 'a \<Rightarrow> 'f + 'a" where
  "map_err f r = (case r of Inl e \<Rightarrow> Inl (f e) | Inr a \<Rightarrow> Inr a)"

definition is_ok :: "'e + 'a \<Rightarrow> bool" where
  "is_ok r = (case r of Inl _ \<Rightarrow> False | Inr _ \<Rightarrow> True)"

text \<open>\<^verbatim>\<open>opt.map(f).transpose()?\<close> for a fallible \<open>f\<close>.\<close>

definition transpose_map :: "('a \<Rightarrow> 'e + 'b) \<Rightarrow> 'a option \<Rightarrow> 'e + 'b option" where
  "transpose_map f x =
     (case x of None \<Rightarrow> Inr None | Some a \<Rightarrow> and_then (f a) (\<lambda>b. Inr (Some b)))"

lemma and_then_Inl [simp, result_simps]: "and_then (Inl e) f = Inl e"
  and and_then_Inr [simp, result_simps]: "and_then (Inr a) f = f a"
  by (simp_all add: and_then_def)

lemma ok_or_simps [simp, result_simps]: "ok_or e None = Inl e" "ok_or e (Some a) = Inr a"
  by (simp_all add: ok_or_def)

lemma map_err_simps [simp, result_simps]: "map_err f (Inl e) = Inl (f e)" "map_err f (Inr a) = Inr a"
  by (simp_all add: map_err_def)

lemma is_ok_simps [simp, result_simps]: "\<not> is_ok (Inl e)" "is_ok (Inr a)"
  by (simp_all add: is_ok_def)

lemma transpose_map_simps [simp, result_simps]:
  "transpose_map f None = Inr None"
  "transpose_map f (Some a) = and_then (f a) (\<lambda>b. Inr (Some b))"
  by (simp_all add: transpose_map_def)

lemma and_then_eq_Inr [result_simps]:
  "and_then r f = Inr b \<longleftrightarrow> (\<exists>a. r = Inr a \<and> f a = Inr b)"
  by (cases r) auto

lemma and_then_eq_Inl [result_simps]:
  "and_then r f = Inl e \<longleftrightarrow> r = Inl e \<or> (\<exists>a. r = Inr a \<and> f a = Inl e)"
  by (cases r) auto

lemma ok_or_eq_Inr [result_simps]: "ok_or e x = Inr a \<longleftrightarrow> x = Some a"
  by (cases x) auto

lemma ok_or_eq_Inl [result_simps]: "ok_or e x = Inl e' \<longleftrightarrow> x = None \<and> e' = e"
  by (cases x) auto

lemma map_err_eq_Inr [result_simps]: "map_err f r = Inr a \<longleftrightarrow> r = Inr a"
  by (cases r) auto

lemma map_err_eq_Inl [result_simps]: "map_err f r = Inl e \<longleftrightarrow> (\<exists>d. r = Inl d \<and> e = f d)"
  by (cases r) auto

lemma is_ok_iff: "is_ok r \<longleftrightarrow> (\<exists>a. r = Inr a)"
  by (cases r) auto

section \<open>Actions: Results over a state that survives errors\<close>

type_synonym ('s, 'e, 'a) action = "'s \<Rightarrow> ('e + 'a) \<times> 's"

definition act_ok :: "'a \<Rightarrow> ('s, 'e, 'a) action" where
  "act_ok a = (\<lambda>s. (Inr a, s))"

definition act_err :: "'e \<Rightarrow> ('s, 'e, 'a) action" where
  "act_err e = (\<lambda>s. (Inl e, s))"

definition act_lift :: "'e + 'a \<Rightarrow> ('s, 'e, 'a) action" where
  "act_lift r = (\<lambda>s. (r, s))"

definition act_get :: "('s \<Rightarrow> 'a) \<Rightarrow> ('s, 'e, 'a) action" where
  "act_get f = (\<lambda>s. (Inr (f s), s))"

definition act_mod :: "('s \<Rightarrow> 's) \<Rightarrow> ('s, 'e, unit) action" where
  "act_mod g = (\<lambda>s. (Inr (), g s))"

definition act_then :: "('s, 'e, 'a) action \<Rightarrow> ('a \<Rightarrow> ('s, 'e, 'b) action) \<Rightarrow> ('s, 'e, 'b) action" where
  "act_then m f = (\<lambda>s. case m s of (Inl e, t) \<Rightarrow> (Inl e, t) | (Inr a, t) \<Rightarrow> f a t)"

lemma act_run [simp, result_simps]:
  "act_ok a s = (Inr a, s)"
  "act_err e s = (Inl e, s)"
  "act_lift r s = (r, s)"
  "act_get f s = (Inr (f s), s)"
  "act_mod g s = (Inr (), g s)"
  by (simp_all add: act_ok_def act_err_def act_lift_def act_get_def act_mod_def)

lemma act_then_run:
  "act_then m f s = (case m s of (Inl e, t) \<Rightarrow> (Inl e, t) | (Inr a, t) \<Rightarrow> f a t)"
  by (simp add: act_then_def)

lemma act_then_Inl [simp]: "m s = (Inl e, t) \<Longrightarrow> act_then m f s = (Inl e, t)"
  by (simp add: act_then_def)

lemma act_then_Inr [simp]: "m s = (Inr a, t) \<Longrightarrow> act_then m f s = f a t"
  by (simp add: act_then_def)

lemma act_then_eq_Inr [result_simps]:
  "act_then m f s = (Inr b, u) \<longleftrightarrow> (\<exists>a t. m s = (Inr a, t) \<and> f a t = (Inr b, u))"
  by (auto simp: act_then_def split: prod.splits sum.splits)

lemma act_then_eq_Inl [result_simps]:
  "act_then m f s = (Inl e, u) \<longleftrightarrow>
     m s = (Inl e, u) \<or> (\<exists>a t. m s = (Inr a, t) \<and> f a t = (Inl e, u))"
  by (auto simp: act_then_def split: prod.splits sum.splits)

text \<open>The monad laws, so that definitions may group their steps as the source does.\<close>

lemma act_then_ok: "act_then (act_ok a) f = f a"
  by (rule ext) (simp add: act_then_def)

lemma act_then_assoc: "act_then (act_then m f) g = act_then m (\<lambda>a. act_then (f a) g)"
  by (rule ext) (auto simp: act_then_def split: prod.splits sum.splits)

text \<open>An action keeps an invariant when it holds afterwards on every branch.\<close>

definition preserves :: "('s \<Rightarrow> bool) \<Rightarrow> ('s, 'e, 'a) action \<Rightarrow> bool" where
  "preserves I m \<longleftrightarrow> (\<forall>s. I s \<longrightarrow> I (snd (m s)))"

lemma preservesI: "(\<And>s. I s \<Longrightarrow> I (snd (m s))) \<Longrightarrow> preserves I m"
  by (simp add: preserves_def)

lemma preservesD: "preserves I m \<Longrightarrow> I s \<Longrightarrow> I (snd (m s))"
  by (simp add: preserves_def)

lemma preserves_pure [preserves_intros]:
  "preserves I (act_ok a)" "preserves I (act_err e)" "preserves I (act_lift r)"
  "preserves I (act_get f)"
  by (simp_all add: preserves_def)

lemma preserves_then [preserves_intros]:
  "preserves I m \<Longrightarrow> (\<And>a. preserves I (f a)) \<Longrightarrow> preserves I (act_then m f)"
  by (fastforce simp: preserves_def act_then_def split: prod.splits sum.splits)

lemma preserves_if [preserves_intros]:
  "(b \<Longrightarrow> preserves I m) \<Longrightarrow> (\<not> b \<Longrightarrow> preserves I n) \<Longrightarrow> preserves I (if b then m else n)"
  by simp

lemma preserves_case_option [preserves_intros]:
  "(x = None \<Longrightarrow> preserves I m) \<Longrightarrow> (\<And>a. x = Some a \<Longrightarrow> preserves I (n a)) \<Longrightarrow>
   preserves I (case x of None \<Rightarrow> m | Some a \<Rightarrow> n a)"
  by (cases x) auto

lemma preserves_case_sum [preserves_intros]:
  "(\<And>e. r = Inl e \<Longrightarrow> preserves I (m e)) \<Longrightarrow> (\<And>a. r = Inr a \<Longrightarrow> preserves I (n a)) \<Longrightarrow>
   preserves I (case r of Inl e \<Rightarrow> m e | Inr a \<Rightarrow> n a)"
  by (cases r) auto

lemma preserves_case_prod [preserves_intros]:
  "(\<And>a b. p = (a, b) \<Longrightarrow> preserves I (m a b)) \<Longrightarrow> preserves I (case p of (a, b) \<Rightarrow> m a b)"
  by (cases p) auto

lemma preserves_let [preserves_intros]: "preserves I (f x) \<Longrightarrow> preserves I (let y = x in f y)"
  by simp

section \<open>Counters\<close>

text \<open>A counter below some bound of its type can be increased by one without wrapping.\<close>

lemma unat_plus_one_below:
  fixes a b :: "'w::len word"
  assumes "a < b"
  shows "unat (a + 1) = Suc (unat a)"
proof -
  have "unat a < unat b" using assms by (simp add: word_less_nat_alt)
  moreover have "unat b < 2 ^ LENGTH('w)" by simp
  ultimately have "Suc (unat a) < 2 ^ LENGTH('w)" by linarith
  then show ?thesis by (simp add: unat_word_ariths)
qed

end
