(* ===== verification/Rust_Std.thy ===== *)
theory Rust_Std
  imports Prelude "HOL-Library.List_Lexorder" "HOL-Library.Char_ord"
begin

text \<open>
  The parts of Rust's standard library the sources use: UTF-8 strings as lists of bytes,
  \<^verbatim>\<open>to_be_bytes\<close>, \<^verbatim>\<open>str::trim\<close>, \<^verbatim>\<open>slice::chunks\<close>, and \<^verbatim>\<open>BTreeMap\<close> as a list of pairs
  in strictly increasing key order.  The locale \<open>ordered_map\<close> is the interface through which the
  double ratchet and the in-memory session store use \<^verbatim>\<open>BTreeMap\<close>.
\<close>

section \<open>Strings\<close>

text \<open>A \<^verbatim>\<open>String\<close> is its UTF-8 bytes; \<open>length\<close> is Rust's \<^verbatim>\<open>len()\<close>.\<close>

definition as_bytes :: "string \<Rightarrow> bytes" where
  "as_bytes s = map (\<lambda>c. word_of_nat (of_char c)) s"

definition from_bytes :: "bytes \<Rightarrow> string" where
  "from_bytes bs = map (\<lambda>b. char_of (unat b)) bs"

lemma from_bytes_as_bytes [simp]: "from_bytes (as_bytes s) = s"
proof -
  have "char_of (unat (word_of_nat (of_char c) :: byte)) = c" for c
    using nat_of_char_less_256 [of c] by (simp add: unat_of_nat take_bit_eq_mod)
  then show ?thesis by (simp add: as_bytes_def from_bytes_def comp_def)
qed

lemma as_bytes_from_bytes [simp]: "as_bytes (from_bytes bs) = bs"
proof -
  have "word_of_nat (of_char (char_of (unat b))) = b" for b :: byte
    using unsigned_less [of b, where ?'a = nat] by simp
  then show ?thesis by (simp add: as_bytes_def from_bytes_def comp_def)
qed

lemma as_bytes_inject [simp]: "as_bytes s = as_bytes t \<longleftrightarrow> s = t"
  by (metis from_bytes_as_bytes)

lemma as_bytes_append [simp]: "as_bytes (s @ t) = as_bytes s @ as_bytes t"
  and length_as_bytes [simp]: "length (as_bytes s) = length s"
  and as_bytes_Nil [simp]: "as_bytes [] = []"
  and as_bytes_Cons: "as_bytes (c # s) = word_of_nat (of_char c) # as_bytes s"
  by (simp_all add: as_bytes_def)

lemma length_from_bytes [simp]: "length (from_bytes bs) = length bs"
  by (simp add: from_bytes_def)

definition is_ascii_alphanumeric :: "char \<Rightarrow> bool" where
  "is_ascii_alphanumeric c =
     (let n = (of_char c :: nat) in
      (48 \<le> n \<and> n \<le> 57) \<or> (65 \<le> n \<and> n \<le> 90) \<or> (97 \<le> n \<and> n \<le> 122))"

definition is_ascii_hexdigit :: "char \<Rightarrow> bool" where
  "is_ascii_hexdigit c =
     (let n = (of_char c :: nat) in
      (48 \<le> n \<and> n \<le> 57) \<or> (65 \<le> n \<and> n \<le> 70) \<or> (97 \<le> n \<and> n \<le> 102))"

text \<open>
  \<open>ws_len\<close> is the number of bytes of the white-space scalar a UTF-8 string starts with, 0 if it
  starts with none: the ASCII ones, U+0085 and U+00A0 (two bytes), U+1680, U+2000 to U+200A,
  U+2028, U+2029, U+202F, U+205F and U+3000 (three bytes).
\<close>

fun ws_len :: "nat list \<Rightarrow> nat" where
  "ws_len (b # bs) =
     (if (9 \<le> b \<and> b \<le> 13) \<or> b = 32 then 1
      else if b = 194 then (case bs of c # _ \<Rightarrow> if c = 133 \<or> c = 160 then 2 else 0 | [] \<Rightarrow> 0)
      else (case bs of
          c # d # _ \<Rightarrow>
            if (b = 225 \<and> c = 154 \<and> d = 128)
             \<or> (b = 226 \<and> c = 128 \<and> ((128 \<le> d \<and> d \<le> 138) \<or> d = 168 \<or> d = 169 \<or> d = 175))
             \<or> (b = 226 \<and> c = 129 \<and> d = 159)
             \<or> (b = 227 \<and> c = 128 \<and> d = 128)
            then 3 else 0
        | _ \<Rightarrow> 0))"
| "ws_len [] = 0"

text \<open>The same scalars read from the end of the string: \<open>ws_len_rev\<close> takes the reversed bytes.\<close>

fun ws_len_rev :: "nat list \<Rightarrow> nat" where
  "ws_len_rev (d # bs) =
     (if (9 \<le> d \<and> d \<le> 13) \<or> d = 32 then 1
      else (case bs of
          [] \<Rightarrow> 0
        | [c] \<Rightarrow> if ws_len [c, d] = 2 then 2 else 0
        | c # b # _ \<Rightarrow>
            if ws_len [c, d] = 2 then 2 else if ws_len [b, c, d] = 3 then 3 else 0))"
| "ws_len_rev [] = 0"

function (sequential) strip_while :: "(nat list \<Rightarrow> nat) \<Rightarrow> string \<Rightarrow> string" where
  "strip_while f [] = []"
| "strip_while f (c # cs) =
     (let n = f (map of_char (c # cs)) in
      if n = 0 then c # cs else strip_while f (drop n (c # cs)))"
  by pat_completeness auto
termination by (relation "measure (\<lambda>(f, s). length s)") (auto simp: Let_def)

definition trim :: "string \<Rightarrow> string" where
  "trim s = rev (strip_while ws_len_rev (rev (strip_while ws_len s)))"

lemma length_strip_while: "length (strip_while f s) \<le> length s"
proof (induction f s rule: strip_while.induct)
  case (2 f c cs)
  then show ?case
    by (cases "f (map of_char (c # cs)) = 0") (fastforce simp: Let_def)+
qed simp

lemma length_trim: "length (trim s) \<le> length s"
  using length_strip_while [of ws_len_rev "rev (strip_while ws_len s)"]
    length_strip_while [of ws_len s]
  by (simp add: trim_def)

section \<open>Big-endian encodings\<close>

definition u32_to_be_bytes :: "u32 \<Rightarrow> bytes" where
  "u32_to_be_bytes w =
     [ucast (drop_bit 24 w), ucast (drop_bit 16 w), ucast (drop_bit 8 w), ucast w]"

definition u64_to_be_bytes :: "u64 \<Rightarrow> bytes" where
  "u64_to_be_bytes w =
     [ucast (drop_bit 56 w), ucast (drop_bit 48 w), ucast (drop_bit 40 w), ucast (drop_bit 32 w),
      ucast (drop_bit 24 w), ucast (drop_bit 16 w), ucast (drop_bit 8 w), ucast w]"

lemma length_be_bytes [simp]: "length (u32_to_be_bytes w) = 4" "length (u64_to_be_bytes v) = 8"
  by (simp_all add: u32_to_be_bytes_def u64_to_be_bytes_def)

lemma ucast_drop_bit_eqD:
  fixes v w :: "'a::len word"
  assumes "(ucast (drop_bit k v) :: byte) = ucast (drop_bit k w)" and "k \<le> n" "n < k + 8"
  shows "bit v n = bit w n"
proof -
  have "bit (ucast (drop_bit k v) :: byte) (n - k) = bit (ucast (drop_bit k w) :: byte) (n - k)"
    using assms(1) by simp
  with assms(2,3) show ?thesis
    by (simp add: bit_unsigned_iff bit_drop_bit_eq) linarith
qed

lemma u32_to_be_bytes_inject [simp]: "u32_to_be_bytes v = u32_to_be_bytes w \<longleftrightarrow> v = w"
proof
  assume eq: "u32_to_be_bytes v = u32_to_be_bytes w"
  have "bit v n = bit w n" if n: "n < 32" for n
  proof -
    consider "n < 8" | "8 \<le> n" "n < 16" | "16 \<le> n" "n < 24" | "24 \<le> n" by linarith
    then show ?thesis
      using eq n ucast_drop_bit_eqD [of 0 v w n] ucast_drop_bit_eqD [of 8 v w n]
        ucast_drop_bit_eqD [of 16 v w n] ucast_drop_bit_eqD [of 24 v w n]
      by cases (simp_all add: u32_to_be_bytes_def)
  qed
  then show "v = w" by (intro bit_word_eqI) simp
qed simp

lemma u64_to_be_bytes_inject [simp]: "u64_to_be_bytes v = u64_to_be_bytes w \<longleftrightarrow> v = w"
proof
  assume eq: "u64_to_be_bytes v = u64_to_be_bytes w"
  have "bit v n = bit w n" if n: "n < 64" for n
  proof -
    have "n div 8 \<in> {0, 1, 2, 3, 4, 5, 6, 7}" using n by auto
    then obtain k where k: "k \<in> {0, 8, 16, 24, 32, 40, 48, 56}" "k \<le> n" "n < k + 8"
      by (intro that [of "8 * (n div 8)"]) auto
    then have "(ucast (drop_bit k v) :: byte) = ucast (drop_bit k w)"
      using eq by (auto simp: u64_to_be_bytes_def)
    then show ?thesis using k by (rule_tac ucast_drop_bit_eqD)
  qed
  then show "v = w" by (intro bit_word_eqI) simp
qed simp

section \<open>Slices\<close>

text \<open>\<^verbatim>\<open>xs.chunks(n)\<close>; the library panics on \<open>n = 0\<close>, which every caller excludes.\<close>

function (sequential) chunks :: "nat \<Rightarrow> 'a list \<Rightarrow> 'a list list" where
  "chunks n [] = []"
| "chunks n (x # xs) =
     (if n = 0 then [] else take n (x # xs) # chunks n (drop n (x # xs)))"
  by pat_completeness auto
termination by (relation "measure (\<lambda>(n, xs). length xs)") auto

lemma concat_chunks [simp]: "0 < n \<Longrightarrow> concat (chunks n xs) = xs"
  by (induction n xs rule: chunks.induct) auto

text \<open>Length of the chunk list: the ceiling of the quotient.\<close>

definition ceil_div :: "nat \<Rightarrow> nat \<Rightarrow> nat" where
  "ceil_div a b = a div b + (if 0 < a mod b then 1 else 0)"

lemma ceil_div_pos: "0 < b \<Longrightarrow> 0 < a \<Longrightarrow> ceil_div a b = Suc (ceil_div (a - b) b)"
proof -
  assume b: "0 < b" and a: "0 < a"
  show ?thesis
  proof (cases "b \<le> a")
    case True
    then show ?thesis using b by (simp add: ceil_div_def le_div_geq le_mod_geq)
  next
    case False
    then show ?thesis using a by (simp add: ceil_div_def)
  qed
qed

lemma length_chunks: "0 < n \<Longrightarrow> length (chunks n xs) = ceil_div (length xs) n"
proof (induction n xs rule: chunks.induct)
  case (2 n x xs)
  then show ?case
    using ceil_div_pos [of n "length (x # xs)"] by simp
qed (simp add: ceil_div_def)

lemma length_chunks_le: "c \<in> set (chunks n xs) \<Longrightarrow> length c \<le> n"
  by (induction n xs rule: chunks.induct) (auto split: if_splits)

text \<open>\<^verbatim>\<open>Vec::resize\<close>: truncate or extend with the fill value.\<close>

definition resize :: "'a list \<Rightarrow> nat \<Rightarrow> 'a \<Rightarrow> 'a list" where
  "resize xs n x = take n xs @ replicate (n - length xs) x"

lemma length_resize [simp]: "length (resize xs n x) = n"
  by (simp add: resize_def)

lemma take_resize: "length xs \<le> n \<Longrightarrow> take (length xs) (resize xs n x) = xs"
  by (simp add: resize_def)

text \<open>\<^verbatim>\<open>bytes.try_into::<[u8; N]>()\<close>.\<close>

definition try_into_array :: "nat \<Rightarrow> bytes \<Rightarrow> bytes option" where
  "try_into_array n bs = (if length bs = n then Some bs else None)"

lemma try_into_array_eq_Some [simp]: "try_into_array n bs = Some a \<longleftrightarrow> a = bs \<and> length bs = n"
  by (auto simp: try_into_array_def)

lemma try_into_array_eq_None [simp]: "try_into_array n bs = None \<longleftrightarrow> length bs \<noteq> n"
  by (auto simp: try_into_array_def)

section \<open>Numbers as text\<close>

text \<open>\<^verbatim>\<open>to_string()\<close> of an unsigned integer.\<close>

fun nat_to_string :: "nat \<Rightarrow> string" where
  "nat_to_string n =
     (if n < 10 then [char_of (48 + n)] else nat_to_string (n div 10) @ [char_of (48 + n mod 10)])"

declare nat_to_string.simps [simp del]

end
