(* ===== verification/Crypto_Api.thy ===== *)
theory Crypto_Api
  imports Rust_Std
begin

text \<open>
  The third-party primitives the sources call, as one record of functions that every definition
  using them takes as its parameter: \<^verbatim>\<open>base64ct\<close>, \<^verbatim>\<open>sha2\<close>, \<^verbatim>\<open>hkdf\<close>,
  \<^verbatim>\<open>chacha20poly1305\<close>, \<^verbatim>\<open>x25519-dalek\<close>, \<^verbatim>\<open>ed25519-dalek\<close>, \<^verbatim>\<open>hex\<close> and \<^verbatim>\<open>chrono\<close>'s RFC 3339
  formatter.  Nothing is defined about them.  The predicates \<open>b64_laws\<close>, \<open>kdf_laws\<close>, \<open>aead_laws\<close>,
  \<open>dh_laws\<close>, \<open>sig_laws\<close>, \<open>time_laws\<close> and \<open>hex_laws\<close> state the documented behaviour a property relies on, and
  occur as its hypotheses; \<open>ref_crypto\<close> is one concrete record that satisfies all of them, and is
  used by the witnesses only.

  Random bytes (\<^verbatim>\<open>OsRng\<close>) and clock readings are explicit arguments of the definitions that
  draw them.
\<close>

type_synonym time = int

record crypto =
  b64_encode :: "bytes \<Rightarrow> string"
  b64_decode :: "string \<Rightarrow> bytes option"
  sha256 :: "bytes \<Rightarrow> bytes"
  hkdf_expand :: "bytes option \<Rightarrow> bytes \<Rightarrow> bytes \<Rightarrow> nat \<Rightarrow> bytes option"
    \<comment> \<open>salt, input key material, info, output length\<close>
  aead_encrypt :: "bytes \<Rightarrow> bytes \<Rightarrow> bytes \<Rightarrow> bytes \<Rightarrow> bytes option"
    \<comment> \<open>key, nonce, associated data, message\<close>
  aead_decrypt :: "bytes \<Rightarrow> bytes \<Rightarrow> bytes \<Rightarrow> bytes \<Rightarrow> bytes option"
  x25519_public :: "bytes \<Rightarrow> bytes"
  x25519_dh :: "bytes \<Rightarrow> bytes \<Rightarrow> bytes"
    \<comment> \<open>our secret, their public key\<close>
  x25519_same :: "bytes \<Rightarrow> bytes \<Rightarrow> bool"
    \<comment> \<open>\<^verbatim>\<open>==\<close> of two \<^verbatim>\<open>PublicKey\<close>s, which compares field elements, not bytes\<close>
  ed25519_public :: "bytes \<Rightarrow> bytes"
  ed25519_valid_key :: "bytes \<Rightarrow> bool"
    \<comment> \<open>\<^verbatim>\<open>VerifyingKey::from_bytes\<close> accepts these 32 bytes\<close>
  ed25519_sign :: "bytes \<Rightarrow> bytes \<Rightarrow> bytes"
  ed25519_verify :: "bytes \<Rightarrow> bytes \<Rightarrow> bytes \<Rightarrow> bool"
    \<comment> \<open>public key, message, signature\<close>
  to_rfc3339 :: "time \<Rightarrow> string"
  hex_encode :: "bytes \<Rightarrow> string"
  hex_encode_upper :: "bytes \<Rightarrow> string"

section \<open>Documented behaviour\<close>

text \<open>Decoding inverts encoding; the length of base64 text depends on the number of bytes only.\<close>

definition b64_laws :: "crypto \<Rightarrow> bool" where
  "b64_laws C \<longleftrightarrow> (\<forall>bs. b64_decode C (b64_encode C bs) = Some bs) \<and>
     (\<forall>x y. length x = length y \<longrightarrow> length (b64_encode C x) = length (b64_encode C y))"

text \<open>HKDF-SHA256 delivers any length up to 255 blocks of 32 bytes; SHA-256 digests are 32 bytes.\<close>

definition kdf_laws :: "crypto \<Rightarrow> bool" where
  "kdf_laws C \<longleftrightarrow>
     (\<forall>salt ikm info n. n \<le> 255 * 32 \<longrightarrow>
        (\<exists>out. hkdf_expand C salt ikm info n = Some out \<and> length out = n)) \<and>
     (\<forall>bs. length (sha256 C bs) = 32)"

text \<open>
  XChaCha20-Poly1305 seals every message below its 2^32 - 1 block limit, appends a 16-byte tag,
  opens what it sealed under the same key, nonce and associated data, and opens nothing else.
\<close>

definition aead_laws :: "crypto \<Rightarrow> bool" where
  "aead_laws C \<longleftrightarrow>
     (\<forall>k n a m. length m < 64 * (2 ^ 32 - 1) \<longrightarrow> aead_encrypt C k n a m \<noteq> None) \<and>
     (\<forall>k n a m c. aead_encrypt C k n a m = Some c \<longrightarrow>
        aead_decrypt C k n a c = Some m \<and> length c = length m + 16) \<and>
     (\<forall>k n a m c. aead_decrypt C k n a c = Some m \<longrightarrow> aead_encrypt C k n a m = Some c)"

text \<open>
  Both sides compute one secret.  A key equals itself, and computed public keys are encoded canonically, so
  that two of them are equal only if their bytes are.
\<close>

definition dh_laws :: "crypto \<Rightarrow> bool" where
  "dh_laws C \<longleftrightarrow>
     (\<forall>a b. x25519_dh C a (x25519_public C b) = x25519_dh C b (x25519_public C a)) \<and>
     (\<forall>a. length (x25519_public C a) = 32) \<and> (\<forall>k. x25519_same C k k) \<and>
     (\<forall>a b. x25519_same C (x25519_public C a) (x25519_public C b) \<longrightarrow> x25519_public C a = x25519_public C b)"

definition sig_laws :: "crypto \<Rightarrow> bool" where
  "sig_laws C \<longleftrightarrow>
     (\<forall>sk m. ed25519_verify C (ed25519_public C sk) m (ed25519_sign C sk m)) \<and>
     (\<forall>sk m. length (ed25519_sign C sk m) = 64) \<and>
     (\<forall>sk. length (ed25519_public C sk) = 32 \<and> ed25519_valid_key C (ed25519_public C sk))"

text \<open>RFC 3339 text is printable and determines the instant.\<close>

definition time_laws :: "crypto \<Rightarrow> bool" where
  "time_laws C \<longleftrightarrow>
     inj (to_rfc3339 C) \<and> (\<forall>t. \<forall>b \<in> set (as_bytes (to_rfc3339 C t)). 32 \<le> b)"

text \<open>Hexadecimal text has two hex digits per byte and determines the bytes.\<close>

definition hex_laws :: "crypto \<Rightarrow> bool" where
  "hex_laws C \<longleftrightarrow>
     inj (hex_encode C) \<and> inj (hex_encode_upper C) \<and>
     (\<forall>bs. length (hex_encode C bs) = 2 * length bs \<and> length (hex_encode_upper C bs) = 2 * length bs) \<and>
     (\<forall>bs. list_all is_ascii_hexdigit (hex_encode C bs) \<and>
           list_all is_ascii_hexdigit (hex_encode_upper C bs))"

lemma b64_decode_encode: "b64_laws C \<Longrightarrow> b64_decode C (b64_encode C bs) = Some bs"
  by (simp add: b64_laws_def)

lemma length_b64_encode:
  "b64_laws C \<Longrightarrow> length x = length y \<Longrightarrow> length (b64_encode C x) = length (b64_encode C y)"
  unfolding b64_laws_def by blast

lemma b64_encode_inject: "b64_laws C \<Longrightarrow> b64_encode C x = b64_encode C y \<longleftrightarrow> x = y"
  by (metis b64_decode_encode option.inject)

lemma hkdf_total:
  "kdf_laws C \<Longrightarrow> n \<le> 8160 \<Longrightarrow> \<exists>out. hkdf_expand C salt ikm info n = Some out \<and> length out = n"
  by (simp add: kdf_laws_def)

lemma length_sha256: "kdf_laws C \<Longrightarrow> length (sha256 C bs) = 32"
  by (simp add: kdf_laws_def)

lemma aead_encrypt_total:
  assumes "aead_laws C" and "length m < 274877906880"
  shows "\<exists>c. aead_encrypt C k n a m = Some c"
proof -
  have "length m < 64 * (2 ^ 32 - 1)" using assms(2) by simp
  then have "aead_encrypt C k n a m \<noteq> None" using assms(1) unfolding aead_laws_def by blast
  then show ?thesis by simp
qed

lemma aead_decrypt_encrypt:
  "aead_laws C \<Longrightarrow> aead_encrypt C k n a m = Some c \<Longrightarrow> aead_decrypt C k n a c = Some m"
  unfolding aead_laws_def by blast

lemma aead_encrypt_decrypt:
  "aead_laws C \<Longrightarrow> aead_decrypt C k n a c = Some m \<Longrightarrow> aead_encrypt C k n a m = Some c"
  unfolding aead_laws_def by blast

lemma aead_encrypt_length:
  "aead_laws C \<Longrightarrow> aead_encrypt C k n a m = Some c \<Longrightarrow> length c = length m + 16"
  unfolding aead_laws_def by blast

lemma x25519_dh_commute:
  "dh_laws C \<Longrightarrow> x25519_dh C a (x25519_public C b) = x25519_dh C b (x25519_public C a)"
  unfolding dh_laws_def by blast

lemma length_x25519_public: "dh_laws C \<Longrightarrow> length (x25519_public C a) = 32"
  by (simp add: dh_laws_def)

lemma x25519_same_refl [simp]: "dh_laws C \<Longrightarrow> x25519_same C k k"
  by (simp add: dh_laws_def)

lemma x25519_same_public:
  "dh_laws C \<Longrightarrow> x25519_same C (x25519_public C a) (x25519_public C b) \<longleftrightarrow> x25519_public C a = x25519_public C b"
  unfolding dh_laws_def by metis

lemma ed25519_verify_sign:
  "sig_laws C \<Longrightarrow> ed25519_verify C (ed25519_public C sk) m (ed25519_sign C sk m)"
  by (simp add: sig_laws_def)

lemma length_ed25519:
  "sig_laws C \<Longrightarrow> length (ed25519_sign C sk m) = 64"
  "sig_laws C \<Longrightarrow> length (ed25519_public C sk) = 32"
  by (simp_all add: sig_laws_def)

lemma ed25519_valid_public: "sig_laws C \<Longrightarrow> ed25519_valid_key C (ed25519_public C sk)"
  by (simp add: sig_laws_def)

lemma hex_encode_inject: "hex_laws C \<Longrightarrow> hex_encode C x = hex_encode C y \<longleftrightarrow> x = y"
  by (auto simp: hex_laws_def inj_def)

section \<open>A record that satisfies the laws\<close>

definition ref_pad :: "nat \<Rightarrow> bytes \<Rightarrow> bytes" where
  "ref_pad n bs = resize bs n 0"

definition ref_sum :: "bytes \<Rightarrow> byte" where
  "ref_sum bs = foldr (\<lambda>b acc. b + 3 * acc) bs 1"

definition ref_tag :: "bytes \<Rightarrow> bytes \<Rightarrow> bytes \<Rightarrow> bytes \<Rightarrow> bytes" where
  "ref_tag k n a m = replicate 16 (ref_sum (k @ n @ a @ m))"

definition ref_kdf :: "bytes option \<Rightarrow> bytes \<Rightarrow> bytes \<Rightarrow> nat \<Rightarrow> bytes" where
  "ref_kdf salt ikm info n =
     (let seed = ref_sum (case salt of None \<Rightarrow> ikm @ info | Some s \<Rightarrow> s @ ikm @ info)
      in map (\<lambda>i. seed + of_nat i) [0..<n])"

definition ref_decimal :: "time \<Rightarrow> string" where
  "ref_decimal t = (if t < 0 then CHR ''-'' # replicate (nat (- t)) CHR ''1'' else replicate (nat t) CHR ''1'')"

definition ref_nibble :: "byte \<Rightarrow> char" where
  "ref_nibble w = (if w < 10 then char_of (48 + unat w) else char_of (87 + unat w))"

definition ref_hex :: "bytes \<Rightarrow> string" where
  "ref_hex bs = concat (map (\<lambda>b. [ref_nibble (b div 16), ref_nibble (b mod 16)]) bs)"

definition ref_crypto :: crypto where
  "ref_crypto =
     \<lparr> b64_encode = from_bytes,
       b64_decode = (\<lambda>s. Some (as_bytes s)),
       sha256 = ref_pad 32,
       hkdf_expand = (\<lambda>salt ikm info n. if n \<le> 8160 then Some (ref_kdf salt ikm info n) else None),
       aead_encrypt = (\<lambda>k n a m. Some (m @ ref_tag k n a m)),
       aead_decrypt = (\<lambda>k n a c.
          if 16 \<le> length c \<and> drop (length c - 16) c = ref_tag k n a (take (length c - 16) c)
          then Some (take (length c - 16) c) else None),
       x25519_public = ref_pad 32,
       x25519_dh = (\<lambda>a b. map2 (+) (ref_pad 32 a) (ref_pad 32 b)),
       x25519_same = (=),
       ed25519_public = ref_pad 32,
       ed25519_valid_key = (\<lambda>_. True),
       ed25519_sign = (\<lambda>sk m. ref_pad 32 sk @ ref_pad 32 m),
       ed25519_verify = (\<lambda>pk m s. s = pk @ ref_pad 32 m),
       to_rfc3339 = ref_decimal,
       hex_encode = ref_hex,
       hex_encode_upper = ref_hex \<rparr>"

lemma length_ref_pad [simp]: "length (ref_pad n bs) = n"
  by (simp add: ref_pad_def)

lemma ref_pad_idem [simp]: "ref_pad n (ref_pad n bs) = ref_pad n bs"
  by (simp add: ref_pad_def resize_def)

lemma map2_plus_commute: "map2 (+) xs (ys :: bytes) = map2 (+) ys xs"
proof (induction xs arbitrary: ys)
  case (Cons x xs)
  then show ?case by (cases ys) (auto simp: add.commute)
qed simp

lemma ref_b64_laws [simp]: "b64_laws ref_crypto"
  by (simp add: b64_laws_def ref_crypto_def)

lemma ref_kdf_laws [simp]: "kdf_laws ref_crypto"
  by (simp add: kdf_laws_def ref_crypto_def ref_kdf_def)

lemma ref_aead_laws [simp]: "aead_laws ref_crypto"
  unfolding aead_laws_def
proof (intro conjI allI impI)
  fix k n a m c
  assume "aead_decrypt ref_crypto k n a c = Some m"
  then have "16 \<le> length c" and t: "drop (length c - 16) c = ref_tag k n a m"
    and m: "m = take (length c - 16) c"
    by (auto simp: ref_crypto_def split: if_splits)
  have "c = m @ ref_tag k n a m" using t m by (metis append_take_drop_id)
  then show "aead_encrypt ref_crypto k n a m = Some c" by (simp add: ref_crypto_def)
qed (auto simp: ref_crypto_def ref_tag_def)

lemma ref_same [simp]: "x25519_same ref_crypto a b \<longleftrightarrow> a = b"
  by (simp add: ref_crypto_def)

lemma ref_dh_laws [simp]: "dh_laws ref_crypto"
  by (auto simp: dh_laws_def ref_crypto_def map2_plus_commute)

lemma ref_sig_laws [simp]: "sig_laws ref_crypto"
  by (simp add: sig_laws_def ref_crypto_def)

lemma ref_decimal_inject: "ref_decimal s = ref_decimal t \<Longrightarrow> s = t"
  by (cases "s < 0"; cases "t < 0")
    (auto simp: ref_decimal_def Cons_replicate_eq eq_commute [of "replicate _ _" "_ # _"])

lemma ref_time_laws [simp]: "time_laws ref_crypto"
proof -
  have "32 \<le> b" if "b \<in> set (as_bytes (ref_decimal t))" for b t
    using that by (auto simp: ref_decimal_def as_bytes_def split: if_splits)
  then show ?thesis by (auto simp: time_laws_def ref_crypto_def inj_def dest: ref_decimal_inject)
qed

lemma ref_nibble_all:
  "\<forall>n < 16. is_ascii_hexdigit (ref_nibble (word_of_nat n)) \<and>
            (of_char (ref_nibble (word_of_nat n)) :: nat) = (if n < 10 then 48 + n else 87 + n)"
  by (auto simp: ref_nibble_def is_ascii_hexdigit_def Let_def unat_of_nat take_bit_eq_mod
      of_nat_word_less_iff word_less_nat_alt)

lemma ref_nibble_props:
  assumes "w < (16 :: byte)"
  shows "is_ascii_hexdigit (ref_nibble w)"
    and "(of_char (ref_nibble w) :: nat) = (if unat w < 10 then 48 + unat w else 87 + unat w)"
proof -
  have "unat w < 16" using assms by (simp add: word_less_nat_alt)
  then show "is_ascii_hexdigit (ref_nibble w)"
    and "(of_char (ref_nibble w) :: nat) = (if unat w < 10 then 48 + unat w else 87 + unat w)"
    using ref_nibble_all [rule_format, of "unat w"] by simp_all
qed

lemma byte_nibbles: "(b :: byte) div 16 < 16" "b mod 16 < 16"
  using unsigned_less [of b, where ?'a = nat]
  by (simp_all add: word_less_nat_alt unat_div unat_mod less_mult_imp_div_less)

lemma ref_hex_inject: "ref_hex x = ref_hex y \<longleftrightarrow> x = y"
proof (induction x arbitrary: y)
  case Nil
  then show ?case by (cases y) (auto simp: ref_hex_def)
next
  case (Cons b x)
  have inj: "v = w" if "ref_nibble v = ref_nibble w" "v < 16" "w < 16" for v w
    using that ref_nibble_props(2) [of v] ref_nibble_props(2) [of w]
    by (auto simp: word_unat_eq_iff word_less_nat_alt split: if_splits)
  have "b = c" if "b div 16 = c div 16" "b mod 16 = c mod 16" for c
    using that by (metis div_mult_mod_eq)
  then show ?case
    using Cons.IH inj byte_nibbles by (cases y) (auto simp: ref_hex_def)
qed

lemma ref_hex_laws [simp]: "hex_laws ref_crypto"
proof -
  have "length (ref_hex bs) = 2 * length bs \<and> list_all is_ascii_hexdigit (ref_hex bs)" for bs
    by (induction bs) (auto simp: ref_hex_def ref_nibble_props(1) byte_nibbles)
  then show ?thesis by (auto simp: hex_laws_def ref_crypto_def inj_def ref_hex_inject)
qed

end
