(* ===== verification/Core_Types.thy ===== *)
theory Core_Types
  imports Crypto_Api
begin

text \<open>
  Types shared by all modules of \<^verbatim>\<open>crates/comm-core\<close>: the error enum \<^verbatim>\<open>CoreError\<close> of
  \<^verbatim>\<open>src/lib.rs\<close> with its \<^verbatim>\<open>Display\<close> texts, and \<^verbatim>\<open>RelayContentKind\<close>.
\<close>

datatype core_error =
    InvalidBase64 | InvalidPublicKey | InvalidMediaSize | InvalidChunkSize | MediaTooLarge
  | InvalidKeyMaterial | InvalidNonceMaterial | CryptoFailure | IntegrityMismatch
  | InvalidChunkSequence | InvalidEnvelope | InvalidRatchetMessage | InvalidDeviceRecord
  | InvalidSignature | InvalidPreKeyBundle | MissingOneTimePreKey | MissingChainState
  | TooManySkippedMessages | UnsupportedVersion | KeyDerivationFailure
  | InvalidRatchetSessionId | StorageFailure

fun core_error_to_string :: "core_error \<Rightarrow> string" where
  "core_error_to_string InvalidBase64 = ''invalid base64 public key''"
| "core_error_to_string InvalidPublicKey = ''invalid public key bytes''"
| "core_error_to_string InvalidMediaSize = ''media size must be greater than zero''"
| "core_error_to_string InvalidChunkSize = ''chunk size must be greater than zero''"
| "core_error_to_string MediaTooLarge = ''media exceeds supported padding buckets''"
| "core_error_to_string InvalidKeyMaterial = ''invalid media encryption key material''"
| "core_error_to_string InvalidNonceMaterial = ''invalid media nonce material''"
| "core_error_to_string CryptoFailure = ''media encryption failed''"
| "core_error_to_string IntegrityMismatch = ''chunk integrity verification failed''"
| "core_error_to_string InvalidChunkSequence = ''invalid chunk sequence''"
| "core_error_to_string InvalidEnvelope = ''invalid initial message envelope''"
| "core_error_to_string InvalidRatchetMessage = ''invalid ratchet message''"
| "core_error_to_string InvalidDeviceRecord = ''invalid device record''"
| "core_error_to_string InvalidSignature = ''invalid signed prekey signature''"
| "core_error_to_string InvalidPreKeyBundle = ''invalid prekey bundle''"
| "core_error_to_string MissingOneTimePreKey = ''missing required one-time prekey''"
| "core_error_to_string MissingChainState = ''missing ratchet chain state''"
| "core_error_to_string TooManySkippedMessages = ''too many skipped messages''"
| "core_error_to_string UnsupportedVersion = ''unsupported protocol version''"
| "core_error_to_string KeyDerivationFailure = ''key derivation failed''"
| "core_error_to_string InvalidRatchetSessionId = ''invalid ratchet session id''"
| "core_error_to_string StorageFailure = ''ratchet session storage failure''"

datatype relay_content_kind = DirectMessage | SessionBootstrap | MediaPointer | FeedPost

text \<open>
  \<open>decode_array e1 e2 C n s\<close> is the pattern all modules use on transported key material: decode
  base64 (error \<open>e1\<close>), then convert to an array of exactly \<open>n\<close> bytes (error \<open>e2\<close>).
\<close>

definition decode_array :: "'e \<Rightarrow> 'e \<Rightarrow> crypto \<Rightarrow> nat \<Rightarrow> string \<Rightarrow> 'e + bytes" where
  "decode_array e1 e2 C n value =
     and_then (ok_or e1 (b64_decode C value)) (\<lambda>decoded. ok_or e2 (try_into_array n decoded))"

lemma decode_array_eq_Inr [result_simps]:
  "decode_array e1 e2 C n s = Inr bs \<longleftrightarrow> b64_decode C s = Some bs \<and> length bs = n"
  by (auto simp: decode_array_def result_simps)

lemma decode_array_eq_Inl:
  "decode_array e1 e2 C n s = Inl e \<longleftrightarrow>
     (b64_decode C s = None \<and> e = e1) \<or> (\<exists>bs. b64_decode C s = Some bs \<and> length bs \<noteq> n \<and> e = e2)"
  by (auto simp: decode_array_def result_simps)

lemma decode_array_encode [simp]:
  "b64_laws C \<Longrightarrow> length bs = n \<Longrightarrow> decode_array e1 e2 C n (b64_encode C bs) = Inr bs"
  by (simp add: decode_array_eq_Inr b64_decode_encode)

end
