(* ===== verification/Media.thy ===== *)
theory Media
  imports Core_Types
begin

text \<open>
  \<^verbatim>\<open>crates/comm-core/src/lib.rs\<close>: public identities and fingerprints, padding buckets and
  padding plans, chunked media encryption and the validation of blob pointers.  Sizes keep
  their widths: \<^verbatim>\<open>u64\<close> for byte counts, \<^verbatim>\<open>u32\<close> for chunk sizes and counts; \<^verbatim>\<open>usize\<close> is 64 bits.
\<close>

section \<open>Public identity\<close>

record public_identity =
  pi_algorithm :: string
  pi_public_key_b64 :: string
  pi_fingerprint :: string
  pi_created_at :: time

record identity_material =
  im_signing_key :: bytes
  im_created_at :: time

definition join :: "string \<Rightarrow> string list \<Rightarrow> string" where
  "join sep parts = (case parts of [] \<Rightarrow> [] | p # ps \<Rightarrow> p @ concat (map (\<lambda>q. sep @ q) ps))"

definition fingerprint :: "crypto \<Rightarrow> bytes \<Rightarrow> string" where
  "fingerprint C public_key =
     (let digest = sha256 C public_key;
          hex = hex_encode_upper C digest;
          short = take 60 hex
      in join ''-'' (chunks 5 short))"

definition public_identity_of :: "crypto \<Rightarrow> identity_material \<Rightarrow> public_identity" where
  "public_identity_of C self =
     (let verifying_key = ed25519_public C (im_signing_key self) in
      \<lparr> pi_algorithm = ''ed25519'',
        pi_public_key_b64 = b64_encode C verifying_key,
        pi_fingerprint = fingerprint C verifying_key,
        pi_created_at = im_created_at self \<rparr>)"

definition decode_public_identity :: "crypto \<Rightarrow> string \<Rightarrow> core_error + bytes" where
  "decode_public_identity C value =
     and_then (ok_or InvalidBase64 (b64_decode C value)) (\<lambda>bytes.
     and_then (ok_or InvalidPublicKey (try_into_array 32 bytes)) (\<lambda>array.
     if ed25519_valid_key C array then Inr array else Inl InvalidPublicKey))"

section \<open>Padding\<close>

definition MEDIA_PADDING_BUCKETS :: "u64 list" where
  "MEDIA_PADDING_BUCKETS = [1048576, 5242880, 10485760, 26214400, 52428800]"

definition choose_padding_bucket :: "u64 \<Rightarrow> core_error + u64" where
  "choose_padding_bucket original_size_bytes =
     (if original_size_bytes = 0 then Inl InvalidMediaSize
      else ok_or MediaTooLarge
        (List.find (\<lambda>bucket. original_size_bytes \<le> bucket) MEDIA_PADDING_BUCKETS))"

record blob_padding_plan =
  plan_original_size_bytes :: u64
  plan_padded_size_bytes :: u64
  plan_chunk_size_bytes :: u32
  plan_chunk_count :: u32

text \<open>\<^verbatim>\<open>u64::div_ceil\<close>.\<close>

definition u64_div_ceil :: "u64 \<Rightarrow> u64 \<Rightarrow> u64" where
  "u64_div_ceil a b = (if 0 < a mod b then a div b + 1 else a div b)"

definition build_blob_padding_plan :: "u64 \<Rightarrow> u32 \<Rightarrow> core_error + blob_padding_plan" where
  "build_blob_padding_plan original_size_bytes chunk_size_bytes =
     (if chunk_size_bytes = 0 then Inl InvalidChunkSize
      else and_then (choose_padding_bucket original_size_bytes) (\<lambda>padded_size_bytes.
        let chunk_count = ucast (u64_div_ceil padded_size_bytes (ucast chunk_size_bytes)) in
        Inr \<lparr> plan_original_size_bytes = original_size_bytes,
              plan_padded_size_bytes = padded_size_bytes,
              plan_chunk_size_bytes = chunk_size_bytes,
              plan_chunk_count = chunk_count \<rparr>))"

section \<open>Chunked encryption\<close>

record media_encryption_material =
  mm_algorithm :: string
  mm_key_b64 :: string
  mm_base_nonce_b64 :: string

record encrypted_media_chunk =
  mc_index :: u32
  mc_ciphertext_b64 :: string
  mc_ciphertext_sha256_b64 :: string

record encrypted_media_blob =
  mb_algorithm :: string
  mb_original_size_bytes :: u64
  mb_padded_size_bytes :: u64
  mb_chunk_size_bytes :: u32
  mb_ciphertext_sha256_b64 :: string
  mb_chunks :: "encrypted_media_chunk list"

text \<open>The random key and base nonce are arguments.\<close>

definition generate_media_encryption_material ::
    "crypto \<Rightarrow> bytes \<Rightarrow> bytes \<Rightarrow> media_encryption_material" where
  "generate_media_encryption_material C key base_nonce =
     \<lparr> mm_algorithm = ''xchacha20poly1305'',
       mm_key_b64 = b64_encode C key,
       mm_base_nonce_b64 = b64_encode C base_nonce \<rparr>"

definition decode_media_material ::
    "crypto \<Rightarrow> media_encryption_material \<Rightarrow> core_error + (bytes \<times> bytes)" where
  "decode_media_material C material =
     and_then (ok_or InvalidBase64 (b64_decode C (mm_key_b64 material))) (\<lambda>key.
     and_then (ok_or InvalidBase64 (b64_decode C (mm_base_nonce_b64 material))) (\<lambda>nonce.
     and_then (ok_or InvalidKeyMaterial (try_into_array 32 key)) (\<lambda>key.
     and_then (ok_or InvalidNonceMaterial (try_into_array 24 nonce)) (\<lambda>nonce.
     Inr (key, nonce)))))"

definition derive_chunk_nonce :: "bytes \<Rightarrow> u32 \<Rightarrow> bytes" where
  "derive_chunk_nonce base_nonce index = take 20 base_nonce @ u32_to_be_bytes index"

definition build_chunk_aad :: "u32 \<Rightarrow> u32 \<Rightarrow> u64 \<Rightarrow> bytes" where
  "build_chunk_aad index total_chunks original_size_bytes =
     u32_to_be_bytes index @ u32_to_be_bytes total_chunks @ u64_to_be_bytes original_size_bytes"

definition sha256_b64 :: "crypto \<Rightarrow> bytes \<Rightarrow> string" where
  "sha256_b64 C bytes = b64_encode C (sha256 C bytes)"

text \<open>
  The loop over the chunks of the padded plaintext, from position \<open>i\<close> on.  It returns the bytes fed
  to the overall hasher and the encrypted chunks.
\<close>

fun encrypt_chunks :: "crypto \<Rightarrow> bytes \<Rightarrow> bytes \<Rightarrow> blob_padding_plan \<Rightarrow> nat \<Rightarrow> bytes list \<Rightarrow>
    core_error + (bytes \<times> encrypted_media_chunk list)" where
  "encrypt_chunks C key base_nonce plan i [] = Inr ([], [])"
| "encrypt_chunks C key base_nonce plan i (chunk # rest) =
     (let index = of_nat i;
          nonce_bytes = derive_chunk_nonce base_nonce index;
          aad = build_chunk_aad index (plan_chunk_count plan) (plan_original_size_bytes plan)
      in and_then (ok_or CryptoFailure (aead_encrypt C key nonce_bytes aad chunk)) (\<lambda>ciphertext.
         and_then (encrypt_chunks C key base_nonce plan (Suc i) rest) (\<lambda>(hashed, out).
         Inr (ciphertext @ hashed,
              \<lparr> mc_index = index,
                mc_ciphertext_b64 = b64_encode C ciphertext,
                mc_ciphertext_sha256_b64 = sha256_b64 C ciphertext \<rparr> # out))))"

definition encrypt_media_bytes ::
    "crypto \<Rightarrow> bytes \<Rightarrow> u32 \<Rightarrow> media_encryption_material \<Rightarrow> core_error + encrypted_media_blob" where
  "encrypt_media_bytes C plaintext chunk_size_bytes material =
     and_then (build_blob_padding_plan (of_nat (length plaintext)) chunk_size_bytes) (\<lambda>plan.
     and_then (decode_media_material C material) (\<lambda>(key, base_nonce).
     let padded_plaintext = resize plaintext (unat (plan_padded_size_bytes plan)) 0 in
     and_then (encrypt_chunks C key base_nonce plan 0
                 (chunks (unat chunk_size_bytes) padded_plaintext)) (\<lambda>(hashed, out).
     Inr \<lparr> mb_algorithm = mm_algorithm material,
           mb_original_size_bytes = plan_original_size_bytes plan,
           mb_padded_size_bytes = plan_padded_size_bytes plan,
           mb_chunk_size_bytes = chunk_size_bytes,
           mb_ciphertext_sha256_b64 = b64_encode C (sha256 C hashed),
           mb_chunks = out \<rparr>)))"

fun decrypt_chunks :: "crypto \<Rightarrow> bytes \<Rightarrow> bytes \<Rightarrow> blob_padding_plan \<Rightarrow> u64 \<Rightarrow> nat \<Rightarrow>
    encrypted_media_chunk list \<Rightarrow> core_error + (bytes \<times> bytes)" where
  "decrypt_chunks C key base_nonce plan original i [] = Inr ([], [])"
| "decrypt_chunks C key base_nonce plan original i (chunk # rest) =
     (let expected_index = of_nat i in
      if mc_index chunk \<noteq> expected_index then Inl InvalidChunkSequence
      else and_then (ok_or InvalidBase64 (b64_decode C (mc_ciphertext_b64 chunk))) (\<lambda>ciphertext.
        if sha256_b64 C ciphertext \<noteq> mc_ciphertext_sha256_b64 chunk then Inl IntegrityMismatch
        else
          let nonce_bytes = derive_chunk_nonce base_nonce (mc_index chunk);
              aad = build_chunk_aad (mc_index chunk) (plan_chunk_count plan) original
          in and_then (ok_or CryptoFailure (aead_decrypt C key nonce_bytes aad ciphertext)) (\<lambda>decrypted.
             and_then (decrypt_chunks C key base_nonce plan original (Suc i) rest) (\<lambda>(hashed, plain).
             Inr (ciphertext @ hashed, decrypted @ plain)))))"

definition decrypt_media_bytes ::
    "crypto \<Rightarrow> encrypted_media_blob \<Rightarrow> media_encryption_material \<Rightarrow> core_error + bytes" where
  "decrypt_media_bytes C blob material =
     and_then (build_blob_padding_plan (mb_original_size_bytes blob) (mb_chunk_size_bytes blob)) (\<lambda>plan.
     if plan_padded_size_bytes plan \<noteq> mb_padded_size_bytes blob
        \<or> unat (plan_chunk_count plan) \<noteq> length (mb_chunks blob)
     then Inl InvalidChunkSequence
     else and_then (decode_media_material C material) (\<lambda>(key, base_nonce).
       and_then (decrypt_chunks C key base_nonce plan (mb_original_size_bytes blob) 0 (mb_chunks blob))
         (\<lambda>(hashed, plaintext).
       if b64_encode C (sha256 C hashed) \<noteq> mb_ciphertext_sha256_b64 blob then Inl IntegrityMismatch
       else Inr (take (unat (mb_original_size_bytes blob)) plaintext))))"

section \<open>Blob pointers\<close>

record encrypted_blob_pointer =
  bp_object_key :: string
  bp_bucket :: string
  bp_media_type :: string
  bp_original_size_bytes :: u64
  bp_padded_size_bytes :: u64
  bp_chunk_size_bytes :: u32
  bp_encryption_key_b64 :: string
  bp_nonce_b64 :: string
  bp_sha256_b64 :: string
  bp_expires_at :: time

fun all_decode_nonempty :: "crypto \<Rightarrow> string list \<Rightarrow> core_error + unit" where
  "all_decode_nonempty C [] = Inr ()"
| "all_decode_nonempty C (value # rest) =
     and_then (ok_or InvalidBase64 (b64_decode C value)) (\<lambda>decoded.
     if decoded = [] then Inl InvalidBase64 else all_decode_nonempty C rest)"

definition blob_pointer_validate :: "crypto \<Rightarrow> encrypted_blob_pointer \<Rightarrow> core_error + unit" where
  "blob_pointer_validate C self =
     (if bp_object_key self = [] \<or> bp_bucket self = [] \<or> bp_media_type self = []
      then Inl InvalidMediaSize
      else and_then (build_blob_padding_plan (bp_original_size_bytes self) (bp_chunk_size_bytes self)) (\<lambda>plan.
        if plan_padded_size_bytes plan \<noteq> bp_padded_size_bytes self then Inl InvalidMediaSize
        else all_decode_nonempty C
               [bp_encryption_key_b64 self, bp_nonce_b64 self, bp_sha256_b64 self]))"

section \<open>Padding plans\<close>

lemma choose_padding_bucket_cases:
  "choose_padding_bucket n =
     (if n = 0 then Inl InvalidMediaSize
      else if n \<le> 1048576 then Inr 1048576
      else if n \<le> 5242880 then Inr 5242880
      else if n \<le> 10485760 then Inr 10485760
      else if n \<le> 26214400 then Inr 26214400
      else if n \<le> 52428800 then Inr 52428800
      else Inl MediaTooLarge)"
  by (simp add: choose_padding_bucket_def MEDIA_PADDING_BUCKETS_def)

lemma choose_padding_bucket_Inr:
  assumes "choose_padding_bucket n = Inr b"
  shows "0 < n" and "n \<le> b" and "b \<in> set MEDIA_PADDING_BUCKETS" and "b \<le> 52428800"
    and "b' \<in> set MEDIA_PADDING_BUCKETS \<Longrightarrow> n \<le> b' \<Longrightarrow> b \<le> b'"
  using assms
  by (auto simp: choose_padding_bucket_cases MEDIA_PADDING_BUCKETS_def word_gt_0 split: if_splits)

lemma choose_padding_bucket_ok_iff:
  "is_ok (choose_padding_bucket n) \<longleftrightarrow> 0 < n \<and> n \<le> 52428800"
  by (auto simp: choose_padding_bucket_cases word_gt_0 word_le_nat_alt)

lemma choose_padding_bucket_exists:
  "0 < n \<Longrightarrow> n \<le> 52428800 \<Longrightarrow> \<exists>b. choose_padding_bucket n = Inr b"
  using choose_padding_bucket_ok_iff [of n] by (simp add: is_ok_iff)

lemma unat_u64_div_ceil:
  assumes "b \<noteq> 0"
  shows "unat (u64_div_ceil a b) = ceil_div (unat a) (unat b)"
proof (cases "0 < a mod b")
  case True
  then have r: "0 < unat a mod unat b" by (simp add: word_less_nat_alt unat_mod)
  have "unat b \<noteq> 1" using r by auto
  moreover have "unat b \<noteq> 0" using assms by (simp add: unat_eq_zero)
  ultimately have "2 \<le> unat b" by linarith
  then have "unat a div unat b \<le> unat a div 2" by (rule div_le_mono2 [rotated]) simp
  also have "\<dots> < 2 ^ 63" using unsigned_less [of a, where ?'a = nat] by simp
  finally have "unat (a div b) + 1 < 2 ^ 64" by (simp add: unat_div)
  then have "unat (a div b + 1) = unat (a div b) + 1"
    by (simp add: unat_word_ariths)
  then show ?thesis using True r by (simp add: u64_div_ceil_def ceil_div_def unat_div)
next
  case False
  then have "unat a mod unat b = 0" by (simp add: word_less_nat_alt unat_mod)
  then show ?thesis using False by (simp add: u64_div_ceil_def ceil_div_def unat_div)
qed

lemma ceil_div_le: "ceil_div a b \<le> a"
proof (cases "b \<le> 1")
  case True
  then consider "b = 0" | "b = 1" by linarith
  then show ?thesis by cases (auto simp: ceil_div_def)
next
  case False
  then have "a div b \<le> a div 2" by (intro div_le_mono2) auto
  then show ?thesis by (cases "a = 0") (auto simp: ceil_div_def)
qed

lemma unat_ucast_u32: "unat (ucast (c :: u32) :: u64) = unat c"
proof -
  have "unat c < 2 ^ 64" using unsigned_less [of c, where ?'a = nat] by simp
  then show ?thesis by (simp add: unsigned_ucast_eq take_bit_eq_mod)
qed

lemma build_blob_padding_plan_Inr:
  assumes "build_blob_padding_plan n cs = Inr plan"
  shows "cs \<noteq> 0" and "choose_padding_bucket n = Inr (plan_padded_size_bytes plan)"
    and "plan_original_size_bytes plan = n" and "plan_chunk_size_bytes plan = cs"
    and "unat (plan_chunk_count plan) = ceil_div (unat (plan_padded_size_bytes plan)) (unat cs)"
proof -
  from assms have cs: "cs \<noteq> 0" and ch: "choose_padding_bucket n = Inr (plan_padded_size_bytes plan)"
    and fields: "plan_original_size_bytes plan = n" "plan_chunk_size_bytes plan = cs"
    and cnt: "plan_chunk_count plan = ucast (u64_div_ceil (plan_padded_size_bytes plan) (ucast cs))"
    by (auto simp: build_blob_padding_plan_def result_simps Let_def split: if_splits)
  let ?p = "plan_padded_size_bytes plan"
  have "(ucast cs :: u64) \<noteq> 0" using cs unat_ucast_u32 [of cs] by (metis unat_0 unat_eq_zero)
  then have eq: "unat (u64_div_ceil ?p (ucast cs)) = ceil_div (unat ?p) (unat cs)"
    by (simp add: unat_u64_div_ceil unat_ucast_u32)
  have "unat ?p \<le> 52428800"
    using choose_padding_bucket_Inr(4) [OF ch] by (simp add: word_le_nat_alt)
  then have "ceil_div (unat ?p) (unat cs) < 2 ^ 32"
    using ceil_div_le [of "unat ?p" "unat cs"] by simp
  then have "unat (plan_chunk_count plan) = ceil_div (unat ?p) (unat cs)"
    by (simp add: cnt unsigned_ucast_eq eq take_bit_eq_mod)
  with cs ch fields show "cs \<noteq> 0" and "choose_padding_bucket n = Inr ?p"
    and "plan_original_size_bytes plan = n" and "plan_chunk_size_bytes plan = cs"
    and "unat (plan_chunk_count plan) = ceil_div (unat ?p) (unat cs)" by simp_all
qed

lemma build_blob_padding_plan_exists:
  assumes "cs \<noteq> 0" and "choose_padding_bucket n = Inr b"
  shows "\<exists>plan. build_blob_padding_plan n cs = Inr plan \<and> plan_padded_size_bytes plan = b"
  using assms by (simp add: build_blob_padding_plan_def)

lemma ceil_div_bounds: "0 < b \<Longrightarrow> a \<le> ceil_div a b * b \<and> ceil_div a b * b < a + b"
proof -
  assume b: "0 < b"
  have a: "a = a div b * b + a mod b" by simp
  have m: "a mod b < b" using b by simp
  show ?thesis
  proof (cases "0 < a mod b")
    case True
    have "ceil_div a b * b = a div b * b + b" using True by (simp add: ceil_div_def)
    then show ?thesis using a m True by linarith
  next
    case False
    then have "ceil_div a b * b = a div b * b" by (simp add: ceil_div_def)
    then show ?thesis using a b False by linarith
  qed
qed

section \<open>Chunk nonces and associated data\<close>

lemma derive_chunk_nonce_inject:
  "derive_chunk_nonce b i = derive_chunk_nonce b j \<longleftrightarrow> i = j"
  by (simp add: derive_chunk_nonce_def)

lemma length_derive_chunk_nonce: "length b = 24 \<Longrightarrow> length (derive_chunk_nonce b i) = 24"
  by (simp add: derive_chunk_nonce_def)

lemma build_chunk_aad_inject:
  "build_chunk_aad i t n = build_chunk_aad i' t' n' \<longleftrightarrow> i = i' \<and> t = t' \<and> n = n'"
  by (simp add: build_chunk_aad_def)

section \<open>Encryption followed by decryption\<close>

lemma encrypt_chunks_total:
  assumes "aead_laws C" and "\<forall>c \<in> set cs. length c < 274877906880"
  shows "\<exists>h out. encrypt_chunks C k b plan i cs = Inr (h, out)"
  using assms(2)
proof (induction cs arbitrary: i)
  case (Cons c cs)
  obtain x where "aead_encrypt C k (derive_chunk_nonce b (of_nat i))
      (build_chunk_aad (of_nat i) (plan_chunk_count plan) (plan_original_size_bytes plan)) c = Some x"
    using aead_encrypt_total [OF assms(1)] Cons.prems by fastforce
  moreover obtain h out where "encrypt_chunks C k b plan (Suc i) cs = Inr (h, out)"
    using Cons by fastforce
  ultimately show ?case by (simp add: Let_def)
qed simp

lemma encrypt_chunks_length:
  "encrypt_chunks C k b plan i cs = Inr (h, out) \<Longrightarrow> length out = length cs"
  by (induction cs arbitrary: i h out) (auto simp: result_simps Let_def)

lemma decrypt_encrypt_chunks:
  assumes "aead_laws C" "b64_laws C"
  shows "encrypt_chunks C k b plan i cs = Inr (h, out) \<Longrightarrow>
     decrypt_chunks C k b plan (plan_original_size_bytes plan) i out = Inr (h, concat cs)"
proof (induction cs arbitrary: i h out)
  case (Cons c cs)
  then show ?case
    using assms
    by (auto simp: result_simps Let_def b64_decode_encode dest!: aead_decrypt_encrypt)
qed simp

lemma decode_media_material_Inr:
  "decode_media_material C m = Inr (k, n) \<longleftrightarrow>
     b64_decode C (mm_key_b64 m) = Some k \<and> b64_decode C (mm_base_nonce_b64 m) = Some n \<and>
     length k = 32 \<and> length n = 24"
  by (auto simp: decode_media_material_def result_simps)

lemma decode_generated_material:
  "b64_laws C \<Longrightarrow> length k = 32 \<Longrightarrow> length n = 24 \<Longrightarrow>
   decode_media_material C (generate_media_encryption_material C k n) = Inr (k, n)"
  by (simp add: decode_media_material_Inr generate_media_encryption_material_def b64_decode_encode)

lemma unat_of_nat_u64: "n < 2 ^ 64 \<Longrightarrow> unat (of_nat n :: u64) = n"
  by (simp add: unat_of_nat take_bit_eq_mod)

lemma encrypt_media_bytes_Inr:
  assumes "encrypt_media_bytes C pt cs m = Inr blob"
  obtains plan k n h where
    "build_blob_padding_plan (of_nat (length pt)) cs = Inr plan"
    "decode_media_material C m = Inr (k, n)"
    "encrypt_chunks C k n plan 0
       (chunks (unat cs) (resize pt (unat (plan_padded_size_bytes plan)) 0)) = Inr (h, mb_chunks blob)"
    "mb_algorithm blob = mm_algorithm m"
    "mb_original_size_bytes blob = plan_original_size_bytes plan"
    "mb_padded_size_bytes blob = plan_padded_size_bytes plan"
    "mb_chunk_size_bytes blob = cs"
    "mb_ciphertext_sha256_b64 blob = b64_encode C (sha256 C h)"
  using assms by (auto simp: encrypt_media_bytes_def result_simps Let_def)

lemma encrypt_media_bytes_total:
  assumes laws: "aead_laws C" and mat: "decode_media_material C m = Inr (k, n)"
    and cs: "cs \<noteq> 0" and pt: "pt \<noteq> []" "length pt \<le> 52428800"
  shows "\<exists>blob. encrypt_media_bytes C pt cs m = Inr blob"
proof -
  have "unat (of_nat (length pt) :: u64) = length pt" using pt by (intro unat_of_nat_u64) simp
  then have "0 < (of_nat (length pt) :: u64)" "of_nat (length pt) \<le> (52428800 :: u64)"
    using pt by (simp_all add: word_less_nat_alt word_le_nat_alt)
  then obtain p where "choose_padding_bucket (of_nat (length pt)) = Inr p"
    using choose_padding_bucket_exists by blast
  then obtain plan where plan: "build_blob_padding_plan (of_nat (length pt)) cs = Inr plan"
    using cs build_blob_padding_plan_exists by blast
  have "\<forall>c \<in> set (chunks (unat cs) xs). length c < 274877906880" for xs :: bytes
    using length_chunks_le [of _ "unat cs" xs] unsigned_less [of cs, where ?'a = nat] by fastforce
  then obtain h out where
    "encrypt_chunks C k n plan 0 (chunks (unat cs) (resize pt (unat (plan_padded_size_bytes plan)) 0)) = Inr (h, out)"
    using encrypt_chunks_total [OF laws] by blast
  with plan mat show ?thesis by (simp add: encrypt_media_bytes_def)
qed

lemma decrypt_encrypt_media:
  assumes laws: "aead_laws C" "b64_laws C" and len: "length pt < 2 ^ 64"
    and enc: "encrypt_media_bytes C pt cs m = Inr blob"
  shows "decrypt_media_bytes C blob m = Inr pt"
proof -
  from enc obtain plan k n h where e:
    "build_blob_padding_plan (of_nat (length pt)) cs = Inr plan"
    "decode_media_material C m = Inr (k, n)"
    "encrypt_chunks C k n plan 0
       (chunks (unat cs) (resize pt (unat (plan_padded_size_bytes plan)) 0)) = Inr (h, mb_chunks blob)"
    "mb_original_size_bytes blob = plan_original_size_bytes plan"
    "mb_padded_size_bytes blob = plan_padded_size_bytes plan"
    "mb_chunk_size_bytes blob = cs"
    "mb_ciphertext_sha256_b64 blob = b64_encode C (sha256 C h)"
    by (rule encrypt_media_bytes_Inr)
  note plan = build_blob_padding_plan_Inr [OF e(1)]
  have cs: "0 < unat cs" using plan(1) by (simp add: unat_gt_0)
  have cnt: "unat (plan_chunk_count plan) = length (mb_chunks blob)"
    using encrypt_chunks_length [OF e(3)] by (simp add: length_chunks cs plan(5))
  have orig: "unat (plan_original_size_bytes plan) = length pt"
    by (simp add: plan(3) unat_of_nat_u64 [OF len])
  have "length pt \<le> unat (plan_padded_size_bytes plan)"
    using choose_padding_bucket_Inr(2) [OF plan(2)] orig by (simp add: plan(3) word_le_nat_alt)
  moreover have "decrypt_chunks C k n plan (plan_original_size_bytes plan) 0 (mb_chunks blob) =
      Inr (h, resize pt (unat (plan_padded_size_bytes plan)) 0)"
    using decrypt_encrypt_chunks [OF laws e(3)] cs by simp
  ultimately show ?thesis
    using e(1,2) cnt orig
    by (simp add: decrypt_media_bytes_def e(4-7) plan(3) take_resize)
qed

section \<open>What a blob reveals and what decryption accepts\<close>

lemma map_length_chunks:
  "length xs = length ys \<Longrightarrow> map length (chunks n xs) = map length (chunks n ys)"
proof (induction n xs arbitrary: ys rule: chunks.induct)
  case (2 n x xs)
  then obtain y ys' where ys: "ys = y # ys'" "length xs = length ys'" by (cases ys) auto
  show ?case
  proof (cases "n = 0")
    case False
    then have "map length (chunks n (drop n (x # xs))) = map length (chunks n (drop n (y # ys')))"
      using ys by (intro "2.IH") auto
    then show ?thesis using False ys by simp
  qed (simp add: ys)
qed simp

definition ciphertext_lengths :: "crypto \<Rightarrow> encrypted_media_blob \<Rightarrow> nat option list" where
  "ciphertext_lengths C blob =
     map (\<lambda>c. map_option length (b64_decode C (mc_ciphertext_b64 c))) (mb_chunks blob)"

lemma encrypt_chunks_ciphertext_lengths:
  assumes "aead_laws C" "b64_laws C"
  shows "encrypt_chunks C k b plan i cs = Inr (h, out) \<Longrightarrow>
     map (\<lambda>c. map_option length (b64_decode C (mc_ciphertext_b64 c))) out =
     map (\<lambda>n. Some (n + 16)) (map length cs)"
proof (induction cs arbitrary: i h out)
  case (Cons c cs)
  then show ?case
    using assms
    by (auto simp: result_simps Let_def b64_decode_encode dest!: aead_encrypt_length)
qed simp

lemma encrypt_chunks_index:
  "encrypt_chunks C k b plan i cs = Inr (h, out) \<Longrightarrow>
   map mc_index out = map of_nat [i..<i + length cs]"
proof (induction cs arbitrary: i h out)
  case (Cons c cs)
  have u: "[i..<i + length (c # cs)] = i # [Suc i..<Suc i + length cs]"
    by (subst upt_conv_Cons) simp_all
  show ?case
    unfolding u using Cons by (auto simp: result_simps Let_def simp del: upt_Suc)
qed simp

lemma decrypt_chunks_sound:
  assumes "aead_laws C"
  shows "decrypt_chunks C k b plan orig i cs = Inr (h, pt) \<Longrightarrow>
     \<exists>parts. pt = concat parts \<and>
       list_all2 (\<lambda>(j, c) part. mc_index c = of_nat j \<and>
          (\<exists>sealed. b64_decode C (mc_ciphertext_b64 c) = Some sealed \<and>
             mc_ciphertext_sha256_b64 c = sha256_b64 C sealed \<and>
             aead_encrypt C k (derive_chunk_nonce b (of_nat j))
               (build_chunk_aad (of_nat j) (plan_chunk_count plan) orig) part = Some sealed))
         (enumerate i cs) parts"
proof (induction cs arbitrary: i h pt)
  case (Cons c cs)
  from Cons.prems obtain sealed part h' pt' where *:
    "mc_index c = of_nat i" "b64_decode C (mc_ciphertext_b64 c) = Some sealed"
    "sha256_b64 C sealed = mc_ciphertext_sha256_b64 c"
    "aead_decrypt C k (derive_chunk_nonce b (of_nat i))
       (build_chunk_aad (of_nat i) (plan_chunk_count plan) orig) sealed = Some part"
    "decrypt_chunks C k b plan orig (Suc i) cs = Inr (h', pt')" "pt = part @ pt'"
    by (auto simp: result_simps Let_def split: if_splits)
  from Cons.IH [OF *(5)] obtain parts where "pt' = concat parts" and
    parts: "list_all2 (\<lambda>(j, c) part. mc_index c = of_nat j \<and>
          (\<exists>sealed. b64_decode C (mc_ciphertext_b64 c) = Some sealed \<and>
             mc_ciphertext_sha256_b64 c = sha256_b64 C sealed \<and>
             aead_encrypt C k (derive_chunk_nonce b (of_nat j))
               (build_chunk_aad (of_nat j) (plan_chunk_count plan) orig) part = Some sealed))
         (enumerate (Suc i) cs) parts" by blast
  then show ?case
    using * aead_encrypt_decrypt [OF assms *(4)]
    by (intro exI [of _ "part # parts"]) auto
qed simp

section \<open>Properties\<close>

text \<open>C6: Media encryption round-trips.  With valid key material and a non-zero chunk size, every
  non-empty plaintext of at most 50 MiB is encrypted, and decrypting the blob with the same
  material returns exactly the plaintext, without its padding.\<close>

theorem media_round_trip:
  assumes "aead_laws C" and "b64_laws C"
    and "decode_media_material C m = Inr (k, n)"
    and "chunk_size \<noteq> 0" and "pt \<noteq> []" and "length pt \<le> 52428800"
  shows "\<exists>blob. encrypt_media_bytes C pt chunk_size m = Inr blob \<and>
                decrypt_media_bytes C blob m = Inr pt"
proof -
  obtain blob where enc: "encrypt_media_bytes C pt chunk_size m = Inr blob"
    using encrypt_media_bytes_total [OF assms(1,3-6)] by blast
  have "length pt < 2 ^ 64" using assms(6) by simp
  with enc show ?thesis using decrypt_encrypt_media [OF assms(1,2)] by blast
qed

theorem media_round_trip_witness:
  "\<exists>blob. encrypt_media_bytes ref_crypto [1, 2, 3] 262144
      (generate_media_encryption_material ref_crypto (replicate 32 7) (replicate 24 9)) = Inr blob \<and>
    decrypt_media_bytes ref_crypto blob
      (generate_media_encryption_material ref_crypto (replicate 32 7) (replicate 24 9)) = Inr [1, 2, 3]"
  by (rule media_round_trip [where k = "replicate 32 7" and n = "replicate 24 9"])
    (simp_all add: decode_generated_material)

text \<open>C28: Padding hides the length.  Two plaintexts that fall into the same padding bucket and are
  encrypted with the same chunk size give blobs whose chunks have the same ciphertext lengths,
  whatever their contents and key material.\<close>

theorem media_padding_hides_length:
  assumes "aead_laws C" and "b64_laws C"
    and "encrypt_media_bytes C pt1 chunk_size m1 = Inr blob1"
    and "encrypt_media_bytes C pt2 chunk_size m2 = Inr blob2"
    and "choose_padding_bucket (of_nat (length pt1)) = choose_padding_bucket (of_nat (length pt2))"
  shows "ciphertext_lengths C blob1 = ciphertext_lengths C blob2 \<and>
         mb_padded_size_bytes blob1 = mb_padded_size_bytes blob2"
proof -
  obtain p1 k1 n1 h1 where e1:
    "build_blob_padding_plan (of_nat (length pt1)) chunk_size = Inr p1"
    "encrypt_chunks C k1 n1 p1 0 (chunks (unat chunk_size) (resize pt1 (unat (plan_padded_size_bytes p1)) 0))
       = Inr (h1, mb_chunks blob1)"
    "mb_padded_size_bytes blob1 = plan_padded_size_bytes p1"
    using encrypt_media_bytes_Inr [OF assms(3)] by metis
  obtain p2 k2 n2 h2 where e2:
    "build_blob_padding_plan (of_nat (length pt2)) chunk_size = Inr p2"
    "encrypt_chunks C k2 n2 p2 0 (chunks (unat chunk_size) (resize pt2 (unat (plan_padded_size_bytes p2)) 0))
       = Inr (h2, mb_chunks blob2)"
    "mb_padded_size_bytes blob2 = plan_padded_size_bytes p2"
    using encrypt_media_bytes_Inr [OF assms(4)] by metis
  have same: "plan_padded_size_bytes p1 = plan_padded_size_bytes p2"
    using build_blob_padding_plan_Inr(2) [OF e1(1)] build_blob_padding_plan_Inr(2) [OF e2(1)] assms(5)
    by simp
  then have "map length (chunks (unat chunk_size) (resize pt1 (unat (plan_padded_size_bytes p1)) 0)) =
    map length (chunks (unat chunk_size) (resize pt2 (unat (plan_padded_size_bytes p2)) (0 :: byte)))"
    by (intro map_length_chunks) simp
  then show ?thesis
    using encrypt_chunks_ciphertext_lengths [OF assms(1,2) e1(2)]
      encrypt_chunks_ciphertext_lengths [OF assms(1,2) e2(2)] same e1(3) e2(3)
    by (simp add: ciphertext_lengths_def)
qed

theorem media_padding_hides_length_witness:
  "\<exists>blob1 blob2.
     encrypt_media_bytes ref_crypto [1] 262144
       (generate_media_encryption_material ref_crypto (replicate 32 7) (replicate 24 9)) = Inr blob1 \<and>
     encrypt_media_bytes ref_crypto [4, 5, 6] 262144
       (generate_media_encryption_material ref_crypto (replicate 32 7) (replicate 24 9)) = Inr blob2 \<and>
     ciphertext_lengths ref_crypto blob1 = ciphertext_lengths ref_crypto blob2"
proof -
  let ?m = "generate_media_encryption_material ref_crypto (replicate 32 7) (replicate 24 9)"
  have m: "decode_media_material ref_crypto ?m = Inr (replicate 32 7, replicate 24 9)"
    by (simp add: decode_generated_material)
  obtain b1 where b1: "encrypt_media_bytes ref_crypto [1] 262144 ?m = Inr b1"
    using encrypt_media_bytes_total [OF _ m, of 262144 "[1]"] by auto
  obtain b2 where b2: "encrypt_media_bytes ref_crypto [4, 5, 6] 262144 ?m = Inr b2"
    using encrypt_media_bytes_total [OF _ m, of 262144 "[4, 5, 6]"] by auto
  have "choose_padding_bucket (of_nat (length [1 :: byte])) =
        choose_padding_bucket (of_nat (length [4, 5, 6 :: byte]))"
    by (simp add: choose_padding_bucket_cases)
  with media_padding_hides_length [OF _ _ b1 b2] b1 b2 show ?thesis by auto
qed

text \<open>C7: Decryption accepts only what the key sealed, in order.  If a blob decrypts, then its chunk
  list is complete, chunk \<open>j\<close> carries index \<open>j\<close>, each chunk is the sealing of its part under the
  nonce and associated data of its own position, total count and original size, every recorded
  hash matches, and the result is the parts in order cut to the original size.\<close>

theorem media_decrypt_authentic:
  assumes "aead_laws C" and "decrypt_media_bytes C blob m = Inr pt"
  shows "\<exists>plan k n parts.
     build_blob_padding_plan (mb_original_size_bytes blob) (mb_chunk_size_bytes blob) = Inr plan \<and>
     length (mb_chunks blob) = unat (plan_chunk_count plan) \<and>
     decode_media_material C m = Inr (k, n) \<and>
     list_all2 (\<lambda>(j, c) part. mc_index c = of_nat j \<and>
          (\<exists>sealed. b64_decode C (mc_ciphertext_b64 c) = Some sealed \<and>
             mc_ciphertext_sha256_b64 c = sha256_b64 C sealed \<and>
             aead_encrypt C k (derive_chunk_nonce n (of_nat j))
               (build_chunk_aad (of_nat j) (plan_chunk_count plan) (mb_original_size_bytes blob)) part
               = Some sealed))
       (enumerate 0 (mb_chunks blob)) parts \<and>
     pt = take (unat (mb_original_size_bytes blob)) (concat parts)"
proof -
  from assms(2) obtain plan k n h plain where d:
    "build_blob_padding_plan (mb_original_size_bytes blob) (mb_chunk_size_bytes blob) = Inr plan"
    "length (mb_chunks blob) = unat (plan_chunk_count plan)"
    "decode_media_material C m = Inr (k, n)"
    "decrypt_chunks C k n plan (mb_original_size_bytes blob) 0 (mb_chunks blob) = Inr (h, plain)"
    "pt = take (unat (mb_original_size_bytes blob)) plain"
    by (auto simp: decrypt_media_bytes_def result_simps split: if_splits)
  from decrypt_chunks_sound [OF assms(1) d(4)] d(1-3,5) show ?thesis by blast
qed

theorem media_decrypt_authentic_witness:
  "\<exists>blob k n parts plan.
     decrypt_media_bytes ref_crypto blob
       (generate_media_encryption_material ref_crypto (replicate 32 7) (replicate 24 9)) = Inr [1, 2, 3] \<and>
     build_blob_padding_plan (mb_original_size_bytes blob) (mb_chunk_size_bytes blob) = Inr plan \<and>
     decode_media_material ref_crypto
       (generate_media_encryption_material ref_crypto (replicate 32 7) (replicate 24 9)) = Inr (k, n) \<and>
     [1, 2, 3 :: byte] = take (unat (mb_original_size_bytes blob)) (concat parts)"
proof -
  let ?m = "generate_media_encryption_material ref_crypto (replicate 32 7) (replicate 24 9)"
  have m: "decode_media_material ref_crypto ?m = Inr (replicate 32 7, replicate 24 9)"
    by (simp add: decode_generated_material)
  obtain b where b: "encrypt_media_bytes ref_crypto [1, 2, 3] 262144 ?m = Inr b"
    using encrypt_media_bytes_total [OF _ m, of 262144 "[1, 2, 3]"] by auto
  have d: "decrypt_media_bytes ref_crypto b ?m = Inr [1, 2, 3]"
    by (rule decrypt_encrypt_media [OF _ _ _ b]) simp_all
  show ?thesis using media_decrypt_authentic [OF ref_aead_laws d] d by blast
qed

text \<open>No nonce is used twice in a blob: the nonces of a blob's chunks, derived from the base
  nonce and the recorded indices, are pairwise distinct.\<close>

theorem media_chunk_nonces_distinct:
  assumes "encrypt_media_bytes C pt chunk_size m = Inr blob"
  shows "distinct (map (\<lambda>c. derive_chunk_nonce base_nonce (mc_index c)) (mb_chunks blob))"
proof -
  obtain plan k n h where e:
    "build_blob_padding_plan (of_nat (length pt)) chunk_size = Inr plan"
    "encrypt_chunks C k n plan 0
       (chunks (unat chunk_size) (resize pt (unat (plan_padded_size_bytes plan)) 0)) = Inr (h, mb_chunks blob)"
    using encrypt_media_bytes_Inr [OF assms] by metis
  let ?n = "length (mb_chunks blob)"
  have "?n = unat (plan_chunk_count plan)"
    using encrypt_chunks_length [OF e(2)] build_blob_padding_plan_Inr(1,5) [OF e(1)]
    by (simp add: length_chunks unat_gt_0)
  then have bound: "?n < 2 ^ 32" using unsigned_less [of "plan_chunk_count plan", where ?'a = nat] by simp
  have idx: "map mc_index (mb_chunks blob) = map of_nat [0..<?n]"
    using encrypt_chunks_index [OF e(2)] encrypt_chunks_length [OF e(2)] by simp
  have "inj_on (of_nat :: nat \<Rightarrow> u32) {0..<?n}"
    using bound by (intro inj_onI) (simp add: of_nat_inverse word_of_nat_eq_iff take_bit_eq_mod)
  then have "distinct (map mc_index (mb_chunks blob))"
    by (simp add: idx distinct_map)
  then have "distinct (map (derive_chunk_nonce base_nonce) (map mc_index (mb_chunks blob)))"
    by (simp only: distinct_map) (auto simp: derive_chunk_nonce_inject inj_on_def)
  then show ?thesis by (simp add: comp_def)
qed

theorem media_chunk_nonces_distinct_witness:
  "\<exists>blob. encrypt_media_bytes ref_crypto [1] 262144
       (generate_media_encryption_material ref_crypto (replicate 32 7) (replicate 24 9)) = Inr blob \<and>
     distinct (map (\<lambda>c. derive_chunk_nonce (replicate 24 9) (mc_index c)) (mb_chunks blob))"
proof -
  let ?m = "generate_media_encryption_material ref_crypto (replicate 32 7) (replicate 24 9)"
  obtain b where b: "encrypt_media_bytes ref_crypto [1] 262144 ?m = Inr b"
    using encrypt_media_bytes_total [of ref_crypto ?m "replicate 32 7" "replicate 24 9" 262144 "[1]"]
    by (auto simp: decode_generated_material)
  with media_chunk_nonces_distinct [OF b] show ?thesis by blast
qed

text \<open>The padding plan is the least supported bucket, split into exactly as many chunks as needed.
  A plan exists just for a non-zero chunk size and sizes from 1 byte to 50 MiB; its padded size is
  the least bucket that holds the original; and the \<^verbatim>\<open>u32\<close> chunk count is not truncated:
  all chunks but the last are full and together they cover the padded size.\<close>

theorem padding_plan_spec:
  "(is_ok (build_blob_padding_plan n cs) \<longleftrightarrow> cs \<noteq> 0 \<and> 0 < n \<and> n \<le> 52428800) \<and>
   (\<forall>plan. build_blob_padding_plan n cs = Inr plan \<longrightarrow>
      plan_original_size_bytes plan = n \<and> plan_chunk_size_bytes plan = cs \<and>
      plan_padded_size_bytes plan \<in> set MEDIA_PADDING_BUCKETS \<and> n \<le> plan_padded_size_bytes plan \<and>
      (\<forall>b \<in> set MEDIA_PADDING_BUCKETS. n \<le> b \<longrightarrow> plan_padded_size_bytes plan \<le> b) \<and>
      unat (plan_padded_size_bytes plan) \<le> unat (plan_chunk_count plan) * unat cs \<and>
      unat (plan_chunk_count plan) * unat cs < unat (plan_padded_size_bytes plan) + unat cs)"
proof (intro conjI allI impI)
  show "is_ok (build_blob_padding_plan n cs) \<longleftrightarrow> cs \<noteq> 0 \<and> 0 < n \<and> n \<le> 52428800"
    using choose_padding_bucket_ok_iff [of n]
    by (auto simp: build_blob_padding_plan_def is_ok_iff result_simps Let_def)
next
  fix plan assume plan: "build_blob_padding_plan n cs = Inr plan"
  note p = build_blob_padding_plan_Inr [OF plan]
  note b = choose_padding_bucket_Inr [OF p(2)]
  have "0 < unat cs" using p(1) by (simp add: unat_gt_0)
  note c = ceil_div_bounds [OF this, of "unat (plan_padded_size_bytes plan)"]
  show "plan_original_size_bytes plan = n" "plan_chunk_size_bytes plan = cs"
    "plan_padded_size_bytes plan \<in> set MEDIA_PADDING_BUCKETS" "n \<le> plan_padded_size_bytes plan"
    using p(3,4) b(2,3) by simp_all
  show "\<forall>b \<in> set MEDIA_PADDING_BUCKETS. n \<le> b \<longrightarrow> plan_padded_size_bytes plan \<le> b"
    using b(5) by blast
  show "unat (plan_padded_size_bytes plan) \<le> unat (plan_chunk_count plan) * unat cs"
    "unat (plan_chunk_count plan) * unat cs < unat (plan_padded_size_bytes plan) + unat cs"
    using c by (simp_all add: p(5))
qed

theorem padding_plan_spec_witness:
  "\<exists>plan. build_blob_padding_plan 1400000 262144 = Inr plan \<and> plan_chunk_count plan = 20 \<and>
      (1400000 :: u64) \<le> plan_padded_size_bytes plan"
proof -
  obtain plan where plan: "build_blob_padding_plan 1400000 262144 = Inr plan"
    "plan_chunk_count plan = 20"
    by (simp add: build_blob_padding_plan_def choose_padding_bucket_cases u64_div_ceil_def)
  then show ?thesis using padding_plan_spec [of 1400000 262144] by auto
qed

end
