(* ===== verification/X3dh.thy ===== *)
theory X3dh
  imports Core_Types
begin

text \<open>
  \<^verbatim>\<open>crates/comm-core/src/x3dh.rs\<close>: identity keys, signed and one-time prekeys, prekey bundles,
  the two sides of the X3DH key agreement, and the sealed initial message.  Keys are byte lists;
  \<^verbatim>\<open>StaticSecret\<close>, \<^verbatim>\<open>PublicKey\<close>, \<^verbatim>\<open>SigningKey\<close> and \<^verbatim>\<open>VerifyingKey\<close> have 32 bytes, a
  \<^verbatim>\<open>Signature\<close> has 64.  Freshly drawn secrets, nonces and the clock are arguments.
\<close>

section \<open>Keys and bundles\<close>

definition X3DH_INFO :: bytes where "X3DH_INFO = as_bytes ''simy-x3dh-v1''"
definition X3DH_F :: bytes where "X3DH_F = replicate 32 255"
definition INITIAL_MESSAGE_VERSION :: string where
  "INITIAL_MESSAGE_VERSION = ''simy-x3dh-initial-v1''"

record identity_key_pair =
  ik_signing_key :: bytes
  ik_verifying_key :: bytes
  ik_exchange_secret_key :: bytes
  ik_exchange_public_key :: bytes

record identity_public_keys =
  ip_signing_key :: bytes
  ip_exchange_key :: bytes

record signed_pre_key =
  spk_secret_key :: bytes
  spk_public_key :: bytes
  spk_signature :: bytes

record one_time_pre_key =
  opk_secret_key :: bytes
  opk_public_key :: bytes

record pre_key_bundle =
  pb_identity_pub :: identity_public_keys
  pb_signed_prekey_pub :: bytes
  pb_signed_prekey_sig :: bytes
  pb_one_time_prekey_pub :: "bytes option"

definition identity_generate :: "crypto \<Rightarrow> bytes \<Rightarrow> bytes \<Rightarrow> identity_key_pair" where
  "identity_generate C signing_key exchange_secret_key =
     \<lparr> ik_signing_key = signing_key,
       ik_verifying_key = ed25519_public C signing_key,
       ik_exchange_secret_key = exchange_secret_key,
       ik_exchange_public_key = x25519_public C exchange_secret_key \<rparr>"

definition public_bundle :: "identity_key_pair \<Rightarrow> identity_public_keys" where
  "public_bundle self =
     \<lparr> ip_signing_key = ik_verifying_key self, ip_exchange_key = ik_exchange_public_key self \<rparr>"

definition signed_prekey_generate :: "crypto \<Rightarrow> identity_key_pair \<Rightarrow> bytes \<Rightarrow> signed_pre_key" where
  "signed_prekey_generate C identity secret_key =
     (let public_key = x25519_public C secret_key in
      \<lparr> spk_secret_key = secret_key,
        spk_public_key = public_key,
        spk_signature = ed25519_sign C (ik_signing_key identity) public_key \<rparr>)"

definition signed_prekey_verify :: "crypto \<Rightarrow> signed_pre_key \<Rightarrow> bytes \<Rightarrow> core_error + unit" where
  "signed_prekey_verify C self identity_public_key =
     (if ed25519_verify C identity_public_key (spk_public_key self) (spk_signature self)
      then Inr () else Inl InvalidSignature)"

definition one_time_prekey_generate :: "crypto \<Rightarrow> bytes \<Rightarrow> one_time_pre_key" where
  "one_time_prekey_generate C secret_key =
     \<lparr> opk_secret_key = secret_key, opk_public_key = x25519_public C secret_key \<rparr>"

definition bundle_from_parts ::
    "identity_key_pair \<Rightarrow> signed_pre_key \<Rightarrow> one_time_pre_key option \<Rightarrow> pre_key_bundle" where
  "bundle_from_parts identity signed_prekey one_time_prekey =
     \<lparr> pb_identity_pub = public_bundle identity,
       pb_signed_prekey_pub = spk_public_key signed_prekey,
       pb_signed_prekey_sig = spk_signature signed_prekey,
       pb_one_time_prekey_pub = map_option opk_public_key one_time_prekey \<rparr>"

definition bundle_verify :: "crypto \<Rightarrow> pre_key_bundle \<Rightarrow> core_error + unit" where
  "bundle_verify C self =
     (if ed25519_verify C (ip_signing_key (pb_identity_pub self))
           (pb_signed_prekey_pub self) (pb_signed_prekey_sig self)
      then Inr () else Inl InvalidSignature)"

section \<open>Key agreement\<close>

record initial_message_keys =
  mk_sender_identity :: identity_public_keys
  mk_sender_ephemeral_key :: bytes
  mk_receiver_signed_prekey :: bytes
  mk_receiver_one_time_prekey :: "bytes option"

record initiator_handshake =
  hs_message_keys :: initial_message_keys
  hs_shared_secret :: bytes
  hs_sender_ephemeral_secret :: bytes

definition derive_shared_secret :: "crypto \<Rightarrow> bytes \<Rightarrow> core_error + bytes" where
  "derive_shared_secret C input_key_material =
     ok_or KeyDerivationFailure (hkdf_expand C None input_key_material X3DH_INFO 32)"

definition initiate_x3dh ::
    "crypto \<Rightarrow> bytes \<Rightarrow> identity_key_pair \<Rightarrow> pre_key_bundle \<Rightarrow> core_error + initiator_handshake" where
  "initiate_x3dh C sender_ephemeral_secret sender_identity receiver_bundle =
     and_then (bundle_verify C receiver_bundle) (\<lambda>_.
     let sender_ephemeral_key = x25519_public C sender_ephemeral_secret;
         dh1 = x25519_dh C (ik_exchange_secret_key sender_identity) (pb_signed_prekey_pub receiver_bundle);
         dh2 = x25519_dh C sender_ephemeral_secret (ip_exchange_key (pb_identity_pub receiver_bundle));
         dh3 = x25519_dh C sender_ephemeral_secret (pb_signed_prekey_pub receiver_bundle);
         ikm = X3DH_F @ dh1 @ dh2 @ dh3 @
           (case pb_one_time_prekey_pub receiver_bundle of
              None \<Rightarrow> []
            | Some one_time_prekey_pub \<Rightarrow> x25519_dh C sender_ephemeral_secret one_time_prekey_pub)
     in and_then (derive_shared_secret C ikm) (\<lambda>shared_secret.
        Inr \<lparr> hs_message_keys =
                \<lparr> mk_sender_identity = public_bundle sender_identity,
                  mk_sender_ephemeral_key = sender_ephemeral_key,
                  mk_receiver_signed_prekey = pb_signed_prekey_pub receiver_bundle,
                  mk_receiver_one_time_prekey = pb_one_time_prekey_pub receiver_bundle \<rparr>,
              hs_shared_secret = shared_secret,
              hs_sender_ephemeral_secret = sender_ephemeral_secret \<rparr>))"

definition respond_x3dh ::
    "crypto \<Rightarrow> identity_key_pair \<Rightarrow> signed_pre_key \<Rightarrow> one_time_pre_key option \<Rightarrow>
     initial_message_keys \<Rightarrow> core_error + bytes" where
  "respond_x3dh C receiver_identity receiver_signed_prekey receiver_one_time_prekey initial_message =
     (let dh1 = x25519_dh C (spk_secret_key receiver_signed_prekey)
                  (ip_exchange_key (mk_sender_identity initial_message));
          dh2 = x25519_dh C (ik_exchange_secret_key receiver_identity)
                  (mk_sender_ephemeral_key initial_message);
          dh3 = x25519_dh C (spk_secret_key receiver_signed_prekey)
                  (mk_sender_ephemeral_key initial_message);
          ikm = X3DH_F @ dh1 @ dh2 @ dh3
      in case (mk_receiver_one_time_prekey initial_message, receiver_one_time_prekey) of
           (Some expected_public_key, Some one_time_prekey) \<Rightarrow>
             if \<not> x25519_same C (opk_public_key one_time_prekey) expected_public_key then Inl InvalidPreKeyBundle
             else derive_shared_secret C
               (ikm @ x25519_dh C (opk_secret_key one_time_prekey) (mk_sender_ephemeral_key initial_message))
         | (Some _, None) \<Rightarrow> Inl MissingOneTimePreKey
         | (None, _) \<Rightarrow> derive_shared_secret C ikm)"

section \<open>The initial message\<close>

record x3dh_envelope =
  xe_version :: string
  xe_content_kind :: relay_content_kind
  xe_sender_identity_signing_key_b64 :: string
  xe_sender_identity_exchange_key_b64 :: string
  xe_sender_ephemeral_key_b64 :: string
  xe_receiver_signed_prekey_b64 :: string
  xe_receiver_one_time_prekey_b64 :: "string option"
  xe_nonce_b64 :: string
  xe_ciphertext_b64 :: string
  xe_created_at :: time

record opened_initial_message =
  om_content_kind :: relay_content_kind
  om_sender_identity :: identity_public_keys
  om_message_keys :: initial_message_keys
  om_plaintext :: bytes
  om_shared_secret :: bytes

fun relay_content_kind_tag :: "relay_content_kind \<Rightarrow> byte" where
  "relay_content_kind_tag DirectMessage = 1"
| "relay_content_kind_tag SessionBootstrap = 2"
| "relay_content_kind_tag MediaPointer = 3"
| "relay_content_kind_tag FeedPost = 4"

definition build_initial_message_aad :: "initial_message_keys \<Rightarrow> relay_content_kind \<Rightarrow> bytes" where
  "build_initial_message_aad message_keys content_kind =
     as_bytes INITIAL_MESSAGE_VERSION @ [relay_content_kind_tag content_kind] @
     ip_signing_key (mk_sender_identity message_keys) @
     ip_exchange_key (mk_sender_identity message_keys) @
     mk_sender_ephemeral_key message_keys @
     mk_receiver_signed_prekey message_keys @
     (case mk_receiver_one_time_prekey message_keys of
        Some value \<Rightarrow> [1] @ value
      | None \<Rightarrow> [0])"

definition x3dh_decode_fixed_base64 :: "crypto \<Rightarrow> nat \<Rightarrow> string \<Rightarrow> core_error + bytes" where
  "x3dh_decode_fixed_base64 = decode_array InvalidBase64 InvalidEnvelope"

definition x3dh_decode_ed25519_public_key :: "crypto \<Rightarrow> string \<Rightarrow> core_error + bytes" where
  "x3dh_decode_ed25519_public_key C value =
     and_then (x3dh_decode_fixed_base64 C 32 value) (\<lambda>bytes.
     if ed25519_valid_key C bytes then Inr bytes else Inl InvalidPublicKey)"

definition x3dh_decode_x25519_public_key :: "crypto \<Rightarrow> string \<Rightarrow> core_error + bytes" where
  "x3dh_decode_x25519_public_key C value = x3dh_decode_fixed_base64 C 32 value"

definition parse_initial_message_keys :: "crypto \<Rightarrow> x3dh_envelope \<Rightarrow> core_error + initial_message_keys" where
  "parse_initial_message_keys C envelope =
     and_then (x3dh_decode_ed25519_public_key C (xe_sender_identity_signing_key_b64 envelope)) (\<lambda>signing.
     and_then (x3dh_decode_x25519_public_key C (xe_sender_identity_exchange_key_b64 envelope)) (\<lambda>exchange.
     and_then (x3dh_decode_x25519_public_key C (xe_sender_ephemeral_key_b64 envelope)) (\<lambda>ephemeral.
     and_then (x3dh_decode_x25519_public_key C (xe_receiver_signed_prekey_b64 envelope)) (\<lambda>signed_prekey.
     and_then (transpose_map (x3dh_decode_x25519_public_key C)
                 (xe_receiver_one_time_prekey_b64 envelope)) (\<lambda>one_time_prekey.
     Inr \<lparr> mk_sender_identity = \<lparr> ip_signing_key = signing, ip_exchange_key = exchange \<rparr>,
           mk_sender_ephemeral_key = ephemeral,
           mk_receiver_signed_prekey = signed_prekey,
           mk_receiver_one_time_prekey = one_time_prekey \<rparr>)))))"

definition seal_initial_message ::
    "crypto \<Rightarrow> bytes \<Rightarrow> bytes \<Rightarrow> time \<Rightarrow> identity_key_pair \<Rightarrow> pre_key_bundle \<Rightarrow> bytes \<Rightarrow>
     relay_content_kind \<Rightarrow> core_error + (x3dh_envelope \<times> initiator_handshake)" where
  "seal_initial_message C ephemeral_secret nonce now sender_identity receiver_bundle plaintext content_kind =
     and_then (initiate_x3dh C ephemeral_secret sender_identity receiver_bundle) (\<lambda>handshake.
     let keys = hs_message_keys handshake;
         aad = build_initial_message_aad keys content_kind
     in and_then (ok_or CryptoFailure (aead_encrypt C (hs_shared_secret handshake) nonce aad plaintext))
        (\<lambda>ciphertext.
        Inr (\<lparr> xe_version = INITIAL_MESSAGE_VERSION,
               xe_content_kind = content_kind,
               xe_sender_identity_signing_key_b64 =
                 b64_encode C (ip_signing_key (mk_sender_identity keys)),
               xe_sender_identity_exchange_key_b64 =
                 b64_encode C (ip_exchange_key (mk_sender_identity keys)),
               xe_sender_ephemeral_key_b64 = b64_encode C (mk_sender_ephemeral_key keys),
               xe_receiver_signed_prekey_b64 = b64_encode C (mk_receiver_signed_prekey keys),
               xe_receiver_one_time_prekey_b64 =
                 map_option (b64_encode C) (mk_receiver_one_time_prekey keys),
               xe_nonce_b64 = b64_encode C nonce,
               xe_ciphertext_b64 = b64_encode C ciphertext,
               xe_created_at = now \<rparr>, handshake)))"

definition open_initial_message ::
    "crypto \<Rightarrow> identity_key_pair \<Rightarrow> signed_pre_key \<Rightarrow> one_time_pre_key option \<Rightarrow> x3dh_envelope \<Rightarrow>
     core_error + opened_initial_message" where
  "open_initial_message C receiver_identity receiver_signed_prekey receiver_one_time_prekey envelope =
     (if xe_version envelope \<noteq> INITIAL_MESSAGE_VERSION then Inl UnsupportedVersion
      else and_then (parse_initial_message_keys C envelope) (\<lambda>message_keys.
        if \<not> x25519_same C (mk_receiver_signed_prekey message_keys) (spk_public_key receiver_signed_prekey)
        then Inl InvalidPreKeyBundle
        else and_then (respond_x3dh C receiver_identity receiver_signed_prekey
                         receiver_one_time_prekey message_keys) (\<lambda>shared_secret.
          and_then (x3dh_decode_fixed_base64 C 24 (xe_nonce_b64 envelope)) (\<lambda>nonce.
          and_then (ok_or InvalidBase64 (b64_decode C (xe_ciphertext_b64 envelope))) (\<lambda>ciphertext.
          if ciphertext = [] then Inl InvalidEnvelope
          else
            let aad = build_initial_message_aad message_keys (xe_content_kind envelope) in
            and_then (ok_or CryptoFailure (aead_decrypt C shared_secret nonce aad ciphertext))
              (\<lambda>plaintext.
              Inr \<lparr> om_content_kind = xe_content_kind envelope,
                    om_sender_identity = mk_sender_identity message_keys,
                    om_message_keys = message_keys,
                    om_plaintext = plaintext,
                    om_shared_secret = shared_secret \<rparr>))))))"

section \<open>Well-formed keys\<close>

definition identity_wf :: "crypto \<Rightarrow> identity_key_pair \<Rightarrow> bool" where
  [wf_simps]: "identity_wf C ik \<longleftrightarrow>
     ik_verifying_key ik = ed25519_public C (ik_signing_key ik) \<and>
     ik_exchange_public_key ik = x25519_public C (ik_exchange_secret_key ik)"

definition signed_prekey_wf :: "crypto \<Rightarrow> signed_pre_key \<Rightarrow> bool" where
  [wf_simps]: "signed_prekey_wf C spk \<longleftrightarrow> spk_public_key spk = x25519_public C (spk_secret_key spk)"

definition one_time_prekey_wf :: "crypto \<Rightarrow> one_time_pre_key \<Rightarrow> bool" where
  [wf_simps]: "one_time_prekey_wf C opk \<longleftrightarrow> opk_public_key opk = x25519_public C (opk_secret_key opk)"

definition message_keys_wf :: "initial_message_keys \<Rightarrow> bool" where
  [wf_simps]: "message_keys_wf mk \<longleftrightarrow>
     length (ip_signing_key (mk_sender_identity mk)) = 32 \<and>
     length (ip_exchange_key (mk_sender_identity mk)) = 32 \<and>
     length (mk_sender_ephemeral_key mk) = 32 \<and>
     length (mk_receiver_signed_prekey mk) = 32 \<and>
     (\<forall>k. mk_receiver_one_time_prekey mk = Some k \<longrightarrow> length k = 32)"

lemma identity_generate_wf: "identity_wf C (identity_generate C s x)"
  and signed_prekey_generate_wf: "signed_prekey_wf C (signed_prekey_generate C ik s)"
  and one_time_prekey_generate_wf: "one_time_prekey_wf C (one_time_prekey_generate C s)"
  by (simp_all add: wf_simps identity_generate_def signed_prekey_generate_def
      one_time_prekey_generate_def Let_def)

lemma signed_prekey_generate_verifies:
  "sig_laws C \<Longrightarrow> identity_wf C ik \<Longrightarrow>
   bundle_verify C (bundle_from_parts ik (signed_prekey_generate C ik s) opk) = Inr ()"
  by (simp add: bundle_verify_def bundle_from_parts_def public_bundle_def wf_simps
      signed_prekey_generate_def Let_def ed25519_verify_sign)

lemma derive_shared_secret_total:
  "kdf_laws C \<Longrightarrow> \<exists>k. derive_shared_secret C ikm = Inr k \<and> length k = 32"
  using hkdf_total [of C 32 None ikm X3DH_INFO] by (auto simp: derive_shared_secret_def)

lemma relay_content_kind_tag_inject:
  "relay_content_kind_tag j = relay_content_kind_tag k \<longleftrightarrow> j = k"
  by (cases j; cases k) simp_all

text \<open>The associated data determines the content kind and every key of the handshake.\<close>

lemma build_initial_message_aad_inject:
  assumes "message_keys_wf a" and "message_keys_wf b"
  shows "build_initial_message_aad a j = build_initial_message_aad b k \<longleftrightarrow> a = b \<and> j = k"
  using assms
  by (auto simp: build_initial_message_aad_def relay_content_kind_tag_inject wf_simps
      split: option.splits intro!: initial_message_keys.equality identity_public_keys.equality)

lemmas x3dh_unfold =
  initiate_x3dh_def respond_x3dh_def bundle_from_parts_def public_bundle_def Let_def

text \<open>Both sides compute the same input key material, so the same result.\<close>

lemma respond_initiate:
  assumes "dh_laws C" and "identity_wf C a" "identity_wf C b" "signed_prekey_wf C spk"
    and "\<forall>k. opk = Some k \<longrightarrow> one_time_prekey_wf C k"
    and "initiate_x3dh C e a (bundle_from_parts b spk opk) = Inr hs"
  shows "respond_x3dh C b spk opk (hs_message_keys hs) = Inr (hs_shared_secret hs)"
  using assms
  by (cases opk)
    (auto simp: x3dh_unfold wf_simps result_simps x25519_dh_commute split: option.splits)

lemma derive_shared_secret_length:
  "kdf_laws C \<Longrightarrow> derive_shared_secret C ikm = Inr k \<Longrightarrow> length k = 32"
  using derive_shared_secret_total [of C ikm] by auto

lemma initiate_total:
  assumes "kdf_laws C" and "bundle_verify C bundle = Inr ()"
  shows "\<exists>hs. initiate_x3dh C e a bundle = Inr hs"
proof -
  have "\<exists>k. derive_shared_secret C ikm = Inr k" for ikm
    using derive_shared_secret_total [OF assms(1)] by blast
  then show ?thesis
    using assms(2) by (auto simp: initiate_x3dh_def Let_def and_then_def split: sum.splits)
      (metis sum.distinct(1))
qed

lemma initiate_message_keys:
  assumes "initiate_x3dh C e a bundle = Inr hs"
  shows "hs_message_keys hs =
     \<lparr> mk_sender_identity = public_bundle a,
       mk_sender_ephemeral_key = x25519_public C e,
       mk_receiver_signed_prekey = pb_signed_prekey_pub bundle,
       mk_receiver_one_time_prekey = pb_one_time_prekey_pub bundle \<rparr>"
    and "hs_sender_ephemeral_secret hs = e"
    and "bundle_verify C bundle = Inr ()"
  using assms by (auto simp: initiate_x3dh_def result_simps Let_def)

lemma initiate_secret_length:
  "kdf_laws C \<Longrightarrow> initiate_x3dh C e a bundle = Inr hs \<Longrightarrow> length (hs_shared_secret hs) = 32"
  by (auto simp: initiate_x3dh_def result_simps Let_def derive_shared_secret_length)

section \<open>The initial message round-trips\<close>

lemma seal_initial_message_Inr:
  assumes "seal_initial_message C e nonce now a bundle pt kind = Inr (env, hs)"
  shows "initiate_x3dh C e a bundle = Inr hs"
    and "\<exists>ct. aead_encrypt C (hs_shared_secret hs) nonce
           (build_initial_message_aad (hs_message_keys hs) kind) pt = Some ct \<and>
         xe_ciphertext_b64 env = b64_encode C ct"
    and "xe_version env = INITIAL_MESSAGE_VERSION" and "xe_content_kind env = kind"
    and "xe_nonce_b64 env = b64_encode C nonce"
    and "xe_sender_identity_signing_key_b64 env =
           b64_encode C (ip_signing_key (mk_sender_identity (hs_message_keys hs)))"
    and "xe_sender_identity_exchange_key_b64 env =
           b64_encode C (ip_exchange_key (mk_sender_identity (hs_message_keys hs)))"
    and "xe_sender_ephemeral_key_b64 env = b64_encode C (mk_sender_ephemeral_key (hs_message_keys hs))"
    and "xe_receiver_signed_prekey_b64 env = b64_encode C (mk_receiver_signed_prekey (hs_message_keys hs))"
    and "xe_receiver_one_time_prekey_b64 env =
           map_option (b64_encode C) (mk_receiver_one_time_prekey (hs_message_keys hs))"
  using assms by (auto simp: seal_initial_message_def result_simps Let_def)

lemma parse_sealed_keys:
  assumes "b64_laws C" and "seal_initial_message C e nonce now a bundle pt kind = Inr (env, hs)"
    and "message_keys_wf (hs_message_keys hs)"
    and "ed25519_valid_key C (ip_signing_key (mk_sender_identity (hs_message_keys hs)))"
  shows "parse_initial_message_keys C env = Inr (hs_message_keys hs)"
  using assms(1,3,4)
  by (cases "mk_receiver_one_time_prekey (hs_message_keys hs)")
    (simp_all add: parse_initial_message_keys_def seal_initial_message_Inr [OF assms(2)]
      x3dh_decode_ed25519_public_key_def x3dh_decode_x25519_public_key_def
      x3dh_decode_fixed_base64_def wf_simps)

lemma handshake_keys_wf:
  assumes "dh_laws C" "sig_laws C" "identity_wf C a" "signed_prekey_wf C spk"
    and "\<forall>k. opk = Some k \<longrightarrow> one_time_prekey_wf C k"
    and "initiate_x3dh C e a (bundle_from_parts b spk opk) = Inr hs"
  shows "message_keys_wf (hs_message_keys hs)"
    and "ed25519_valid_key C (ip_signing_key (mk_sender_identity (hs_message_keys hs)))"
  using assms(1-5) initiate_message_keys [OF assms(6)]
  by (auto simp: wf_simps bundle_from_parts_def public_bundle_def length_x25519_public
      length_ed25519 ed25519_valid_public)

lemma initial_message_opens:
  assumes "dh_laws C" "kdf_laws C" "sig_laws C" "b64_laws C" "aead_laws C"
    and "identity_wf C alice" "identity_wf C bob"
    and "\<forall>k. opk = Some k \<longrightarrow> one_time_prekey_wf C k"
    and "length nonce = 24" and "length pt < 64 * (2 ^ 32 - 1)"
  shows "\<exists>env hs om.
     seal_initial_message C ephemeral nonce now alice
       (bundle_from_parts bob (signed_prekey_generate C bob s) opk) pt kind = Inr (env, hs) \<and>
     open_initial_message C bob (signed_prekey_generate C bob s) opk env = Inr om \<and>
     om_plaintext om = pt \<and> om_content_kind om = kind \<and>
     om_sender_identity om = public_bundle alice \<and>
     om_message_keys om = hs_message_keys hs \<and> om_shared_secret om = hs_shared_secret hs"
proof -
  let ?spk = "signed_prekey_generate C bob s"
  let ?keys = "bundle_from_parts bob ?spk opk"
  obtain hs where hs: "initiate_x3dh C ephemeral alice ?keys = Inr hs"
    using initiate_total [OF assms(2) signed_prekey_generate_verifies [OF assms(3,7)]] by blast
  let ?aad = "build_initial_message_aad (hs_message_keys hs) kind"
  have "length pt < 274877906880" using assms(10) by simp
  then obtain ct where ct: "aead_encrypt C (hs_shared_secret hs) nonce ?aad pt = Some ct"
    using aead_encrypt_total [OF assms(5)] by blast
  obtain env where seal: "seal_initial_message C ephemeral nonce now alice ?keys pt kind = Inr (env, hs)"
    using hs ct by (simp add: seal_initial_message_def Let_def)
  note e = seal_initial_message_Inr [OF seal]
  note wf = handshake_keys_wf [OF assms(1,3,6) signed_prekey_generate_wf assms(8) hs]
  have ct': "xe_ciphertext_b64 env = b64_encode C ct" using e(2) ct by simp
  have "ct \<noteq> []" using aead_encrypt_length [OF assms(5) ct] by auto
  moreover have "mk_receiver_signed_prekey (hs_message_keys hs) = spk_public_key ?spk"
    using initiate_message_keys(1) [OF hs] by (simp add: bundle_from_parts_def)
  moreover have "respond_x3dh C bob ?spk opk (hs_message_keys hs) = Inr (hs_shared_secret hs)"
    by (rule respond_initiate [OF assms(1,6,7) signed_prekey_generate_wf assms(8) hs])
  moreover have "aead_decrypt C (hs_shared_secret hs) nonce ?aad ct = Some pt"
    by (rule aead_decrypt_encrypt [OF assms(5) ct])
  ultimately have "open_initial_message C bob ?spk opk env =
      Inr \<lparr> om_content_kind = kind, om_sender_identity = mk_sender_identity (hs_message_keys hs),
            om_message_keys = hs_message_keys hs, om_plaintext = pt,
            om_shared_secret = hs_shared_secret hs \<rparr>"
    using parse_sealed_keys [OF assms(4) seal wf] assms(1,4,9)
    by (simp add: open_initial_message_def e(3-5) ct' x3dh_decode_fixed_base64_def b64_decode_encode Let_def)
  with seal initiate_message_keys(1) [OF hs] show ?thesis by fastforce
qed

lemma parse_initial_message_keys_wf:
  "parse_initial_message_keys C env = Inr mk \<Longrightarrow> message_keys_wf mk"
  by (auto simp: parse_initial_message_keys_def result_simps x3dh_decode_ed25519_public_key_def
      x3dh_decode_x25519_public_key_def x3dh_decode_fixed_base64_def wf_simps transpose_map_def
      split: if_splits option.splits)

section \<open>Properties\<close>

text \<open>C3: X3DH agreement.  For key pairs whose public halves belong to their secrets and a
  bundle built from the receiver's parts whose signed prekey verifies, the initiator succeeds and the
  responder, given the handshake's public message keys, derives the same 32-byte secret, with and
  without a one-time prekey.\<close>

theorem x3dh_agreement:
  assumes "dh_laws C" "kdf_laws C" "sig_laws C"
    and "identity_wf C alice" "identity_wf C bob"
    and "\<forall>k. opk = Some k \<longrightarrow> one_time_prekey_wf C k"
  shows "\<exists>hs. initiate_x3dh C ephemeral alice
                (bundle_from_parts bob (signed_prekey_generate C bob s) opk) = Inr hs \<and>
     respond_x3dh C bob (signed_prekey_generate C bob s) opk (hs_message_keys hs)
       = Inr (hs_shared_secret hs) \<and>
     length (hs_shared_secret hs) = 32"
proof -
  let ?keys = "bundle_from_parts bob (signed_prekey_generate C bob s) opk"
  have "bundle_verify C ?keys = Inr ()"
    using assms(3,5) by (rule signed_prekey_generate_verifies)
  then obtain hs where hs: "initiate_x3dh C ephemeral alice ?keys = Inr hs"
    using initiate_total [OF assms(2)] by blast
  with respond_initiate [OF assms(1,4,5) signed_prekey_generate_wf assms(6)]
    initiate_secret_length [OF assms(2)]
  show ?thesis by blast
qed

theorem x3dh_agreement_witness:
  "\<exists>hs. initiate_x3dh ref_crypto (replicate 32 5) (identity_generate ref_crypto (replicate 32 1) (replicate 32 2))
        (bundle_from_parts (identity_generate ref_crypto (replicate 32 3) (replicate 32 4))
          (signed_prekey_generate ref_crypto (identity_generate ref_crypto (replicate 32 3) (replicate 32 4)) (replicate 32 6))
          (Some (one_time_prekey_generate ref_crypto (replicate 32 8)))) = Inr hs \<and>
     respond_x3dh ref_crypto (identity_generate ref_crypto (replicate 32 3) (replicate 32 4))
       (signed_prekey_generate ref_crypto (identity_generate ref_crypto (replicate 32 3) (replicate 32 4)) (replicate 32 6))
       (Some (one_time_prekey_generate ref_crypto (replicate 32 8))) (hs_message_keys hs)
       = Inr (hs_shared_secret hs) \<and>
     length (hs_shared_secret hs) = 32"
  by (rule x3dh_agreement) (simp_all add: identity_generate_wf one_time_prekey_generate_wf)

text \<open>The sealed first message opens.  A message sealed for a receiver's bundle opens at that receiver
  with the same plaintext, the content kind and identity of the sender and the sender's shared
  secret, whatever ephemeral key, nonce and clock the sender used.\<close>

theorem initial_message_round_trip:
  assumes "dh_laws C" "kdf_laws C" "sig_laws C" "b64_laws C" "aead_laws C"
    and "identity_wf C alice" "identity_wf C bob"
    and "\<forall>k. opk = Some k \<longrightarrow> one_time_prekey_wf C k"
    and "length nonce = 24" and "length pt < 64 * (2 ^ 32 - 1)"
  shows "\<exists>env hs om.
     seal_initial_message C ephemeral nonce now alice
       (bundle_from_parts bob (signed_prekey_generate C bob s) opk) pt kind = Inr (env, hs) \<and>
     open_initial_message C bob (signed_prekey_generate C bob s) opk env = Inr om \<and>
     om_plaintext om = pt \<and> om_content_kind om = kind \<and>
     om_sender_identity om = public_bundle alice \<and>
     om_message_keys om = hs_message_keys hs \<and> om_shared_secret om = hs_shared_secret hs"
  using assms by (rule initial_message_opens)

theorem initial_message_round_trip_witness:
  "\<exists>env hs om.
     seal_initial_message ref_crypto (replicate 32 5) (replicate 24 0) 17
       (identity_generate ref_crypto (replicate 32 1) (replicate 32 2))
       (bundle_from_parts (identity_generate ref_crypto (replicate 32 3) (replicate 32 4))
         (signed_prekey_generate ref_crypto (identity_generate ref_crypto (replicate 32 3) (replicate 32 4)) (replicate 32 6))
         None) [104, 105] SessionBootstrap = Inr (env, hs) \<and>
     open_initial_message ref_crypto (identity_generate ref_crypto (replicate 32 3) (replicate 32 4))
       (signed_prekey_generate ref_crypto (identity_generate ref_crypto (replicate 32 3) (replicate 32 4)) (replicate 32 6))
       None env = Inr om \<and>
     om_plaintext om = [104, 105] \<and> om_content_kind om = SessionBootstrap \<and>
     om_sender_identity om = public_bundle (identity_generate ref_crypto (replicate 32 1) (replicate 32 2)) \<and>
     om_message_keys om = hs_message_keys hs \<and> om_shared_secret om = hs_shared_secret hs"
  by (rule initial_message_round_trip) (simp_all add: identity_generate_wf)

text \<open>C5: An initial message that opens is authentic and bound to its header.  If it opens, it has the
  protocol version, names the receiver's own signed prekey, was sealed under the secret the
  responder computes from the keys in its header, and no other header keys or content kind share the
  associated data it was sealed with.\<close>

theorem initial_message_authentic:
  assumes "aead_laws C" and "open_initial_message C bob spk opk env = Inr om"
  shows "xe_version env = INITIAL_MESSAGE_VERSION \<and>
     parse_initial_message_keys C env = Inr (om_message_keys om) \<and>
     x25519_same C (mk_receiver_signed_prekey (om_message_keys om)) (spk_public_key spk) \<and>
     respond_x3dh C bob spk opk (om_message_keys om) = Inr (om_shared_secret om) \<and>
     (\<exists>nonce ct. b64_decode C (xe_nonce_b64 env) = Some nonce \<and> length nonce = 24 \<and>
        b64_decode C (xe_ciphertext_b64 env) = Some ct \<and>
        aead_encrypt C (om_shared_secret om) nonce
          (build_initial_message_aad (om_message_keys om) (xe_content_kind env)) (om_plaintext om) = Some ct) \<and>
     (\<forall>keys kind. message_keys_wf keys \<longrightarrow>
        build_initial_message_aad keys kind = build_initial_message_aad (om_message_keys om) (xe_content_kind env)
        \<longrightarrow> keys = om_message_keys om \<and> kind = xe_content_kind env)"
proof -
  from assms(2) obtain nonce ct where o:
    "xe_version env = INITIAL_MESSAGE_VERSION"
    "parse_initial_message_keys C env = Inr (om_message_keys om)"
    "x25519_same C (mk_receiver_signed_prekey (om_message_keys om)) (spk_public_key spk)"
    "respond_x3dh C bob spk opk (om_message_keys om) = Inr (om_shared_secret om)"
    "b64_decode C (xe_nonce_b64 env) = Some nonce" "length nonce = 24"
    "b64_decode C (xe_ciphertext_b64 env) = Some ct"
    "aead_decrypt C (om_shared_secret om) nonce
       (build_initial_message_aad (om_message_keys om) (xe_content_kind env)) ct = Some (om_plaintext om)"
    by (auto simp: open_initial_message_def result_simps Let_def x3dh_decode_fixed_base64_def split: if_splits)
  have "message_keys_wf (om_message_keys om)"
    using o(2) by (rule parse_initial_message_keys_wf)
  with o aead_encrypt_decrypt [OF assms(1) o(8)] show ?thesis
    by (auto simp: build_initial_message_aad_inject)
qed

theorem initial_message_authentic_witness:
  "\<exists>env om.
     open_initial_message ref_crypto (identity_generate ref_crypto (replicate 32 3) (replicate 32 4))
       (signed_prekey_generate ref_crypto (identity_generate ref_crypto (replicate 32 3) (replicate 32 4)) (replicate 32 6))
       None env = Inr om \<and> om_plaintext om = [9] \<and>
     parse_initial_message_keys ref_crypto env = Inr (om_message_keys om)"
proof -
  let ?bob = "identity_generate ref_crypto (replicate 32 3) (replicate 32 4)"
  let ?spk = "signed_prekey_generate ref_crypto ?bob (replicate 32 6)"
  obtain env om where o: "open_initial_message ref_crypto ?bob ?spk None env = Inr om" "om_plaintext om = [9]"
    using initial_message_opens [of ref_crypto "identity_generate ref_crypto (replicate 32 1) (replicate 32 2)"
        ?bob None "replicate 24 0" "[9]"]
    by (simp add: identity_generate_wf) blast
  with initial_message_authentic [OF ref_aead_laws o(1)] show ?thesis by blast
qed

text \<open>The responder's treatment of one-time prekeys, on every branch: a handshake that names a
  one-time prekey is refused when the responder has none or another one, and a one-time prekey the
  handshake does not name is ignored.\<close>

theorem respond_x3dh_one_time_prekey:
  "(mk_receiver_one_time_prekey mk = Some pub \<longrightarrow>
      respond_x3dh C bob spk None mk = Inl MissingOneTimePreKey) \<and>
   (mk_receiver_one_time_prekey mk = Some pub \<longrightarrow> \<not> x25519_same C (opk_public_key opk) pub \<longrightarrow>
      respond_x3dh C bob spk (Some opk) mk = Inl InvalidPreKeyBundle) \<and>
   (mk_receiver_one_time_prekey mk = None \<longrightarrow>
      respond_x3dh C bob spk (Some opk) mk = respond_x3dh C bob spk None mk)"
  by (auto simp: respond_x3dh_def Let_def)

theorem respond_x3dh_one_time_prekey_witness:
  "respond_x3dh ref_crypto (identity_generate ref_crypto [] []) \<lparr>spk_secret_key = [], spk_public_key = [], spk_signature = []\<rparr> None
     \<lparr>mk_sender_identity = \<lparr>ip_signing_key = [], ip_exchange_key = []\<rparr>, mk_sender_ephemeral_key = [],
      mk_receiver_signed_prekey = [], mk_receiver_one_time_prekey = Some [1]\<rparr> = Inl MissingOneTimePreKey"
  by (rule respond_x3dh_one_time_prekey [THEN conjunct1, rule_format, of _ "[1]"]) simp

end
