(* ===== verification/Device.thy ===== *)
theory Device
  imports X3dh
begin

text \<open>
  \<^verbatim>\<open>crates/comm-core/src/device.rs\<close>: device keys and signed device records.  A record binds a
  device id, a label, the two device keys, its creation time and its revocation time to the
  identity signing key.
\<close>

section \<open>Records and keys\<close>

record device_public_keys =
  dk_signing_key_b64 :: string
  dk_exchange_key_b64 :: string

record device_record =
  dr_version :: string
  dr_device_id :: string
  dr_device_label :: string
  dr_device_signing_key_b64 :: string
  dr_device_exchange_key_b64 :: string
  dr_created_at :: time
  dr_revoked_at :: "time option"
  dr_signature_b64 :: string

record device_key_pair =
  dp_signing_key :: bytes
  dp_verifying_key :: bytes
  dp_exchange_secret_key :: bytes
  dp_exchange_public_key :: bytes

definition DEVICE_RECORD_VERSION :: string where
  "DEVICE_RECORD_VERSION = ''simy-device-record-v1''"

definition device_key_pair_generate :: "crypto \<Rightarrow> bytes \<Rightarrow> bytes \<Rightarrow> device_key_pair" where
  "device_key_pair_generate C signing_key exchange_secret_key =
     (let identity = identity_generate C signing_key exchange_secret_key in
      \<lparr> dp_signing_key = ik_signing_key identity,
        dp_verifying_key = ik_verifying_key identity,
        dp_exchange_secret_key = ik_exchange_secret_key identity,
        dp_exchange_public_key = ik_exchange_public_key identity \<rparr>)"

definition device_public_keys_of :: "crypto \<Rightarrow> device_key_pair \<Rightarrow> device_public_keys" where
  "device_public_keys_of C self =
     \<lparr> dk_signing_key_b64 = b64_encode C (dp_verifying_key self),
       dk_exchange_key_b64 = b64_encode C (dp_exchange_public_key self) \<rparr>"

definition validate_device_id :: "string \<Rightarrow> core_error + unit" where
  "validate_device_id value =
     (if length value < 8 \<or> 128 < length value then Inl InvalidDeviceRecord
      else if \<not> list_all (\<lambda>c. is_ascii_alphanumeric c \<or> c = CHR ''-'' \<or> c = CHR ''_'') value
      then Inl InvalidDeviceRecord
      else Inr ())"

definition validate_device_label :: "string \<Rightarrow> core_error + unit" where
  "validate_device_label value =
     (if trim value = [] \<or> 128 < length value then Inl InvalidDeviceRecord else Inr ())"

definition device_record_signing_payload ::
    "crypto \<Rightarrow> string \<Rightarrow> string \<Rightarrow> bytes \<Rightarrow> bytes \<Rightarrow> time \<Rightarrow> time option \<Rightarrow> bytes" where
  "device_record_signing_payload C device_id device_label device_signing_key device_exchange_key
       created_at revoked_at =
     as_bytes ''simy-device-record-v1'' @ as_bytes device_id @ [0] @ as_bytes device_label @ [0] @
     device_signing_key @ device_exchange_key @ as_bytes (to_rfc3339 C created_at) @
     (case revoked_at of
        Some revoked_at \<Rightarrow> [1] @ as_bytes (to_rfc3339 C revoked_at)
      | None \<Rightarrow> [0])"

definition device_decode_ed25519_public_key :: "crypto \<Rightarrow> string \<Rightarrow> core_error + bytes" where
  "device_decode_ed25519_public_key C value =
     and_then (decode_array InvalidBase64 InvalidPublicKey C 32 value) (\<lambda>bytes.
     if ed25519_valid_key C bytes then Inr bytes else Inl InvalidPublicKey)"

definition device_decode_x25519_public_key :: "crypto \<Rightarrow> string \<Rightarrow> core_error + bytes" where
  "device_decode_x25519_public_key C value = decode_array InvalidBase64 InvalidPublicKey C 32 value"

definition decode_signature :: "crypto \<Rightarrow> string \<Rightarrow> core_error + bytes" where
  "decode_signature C value = decode_array InvalidBase64 InvalidSignature C 64 value"

definition device_record_sign ::
    "crypto \<Rightarrow> bytes \<Rightarrow> string \<Rightarrow> string \<Rightarrow> device_public_keys \<Rightarrow> time \<Rightarrow> time option \<Rightarrow>
     core_error + device_record" where
  "device_record_sign C identity_signing_key device_id device_label device_keys created_at revoked_at =
     and_then (validate_device_id device_id) (\<lambda>_.
     and_then (validate_device_label device_label) (\<lambda>_.
     and_then (device_decode_ed25519_public_key C (dk_signing_key_b64 device_keys)) (\<lambda>signing_key.
     and_then (device_decode_x25519_public_key C (dk_exchange_key_b64 device_keys)) (\<lambda>exchange_key.
     let payload = device_record_signing_payload C device_id device_label signing_key exchange_key
                     created_at revoked_at;
         signature = ed25519_sign C identity_signing_key payload
     in Inr \<lparr> dr_version = DEVICE_RECORD_VERSION,
              dr_device_id = device_id,
              dr_device_label = device_label,
              dr_device_signing_key_b64 = dk_signing_key_b64 device_keys,
              dr_device_exchange_key_b64 = dk_exchange_key_b64 device_keys,
              dr_created_at = created_at,
              dr_revoked_at = revoked_at,
              dr_signature_b64 = b64_encode C signature \<rparr>))))"

definition device_record_verify :: "crypto \<Rightarrow> device_record \<Rightarrow> bytes \<Rightarrow> core_error + unit" where
  "device_record_verify C self identity_signing_key =
     (if dr_version self \<noteq> DEVICE_RECORD_VERSION then Inl UnsupportedVersion
      else and_then (validate_device_id (dr_device_id self)) (\<lambda>_.
        and_then (validate_device_label (dr_device_label self)) (\<lambda>_.
        and_then (device_decode_ed25519_public_key C (dr_device_signing_key_b64 self)) (\<lambda>device_signing_key.
        and_then (device_decode_x25519_public_key C (dr_device_exchange_key_b64 self)) (\<lambda>device_exchange_key.
        and_then (decode_signature C (dr_signature_b64 self)) (\<lambda>signature.
        let payload = device_record_signing_payload C (dr_device_id self) (dr_device_label self)
                        device_signing_key device_exchange_key (dr_created_at self) (dr_revoked_at self)
        in if ed25519_verify C identity_signing_key payload signature then Inr ()
           else Inl InvalidSignature))))))"

definition is_revoked :: "device_record \<Rightarrow> bool" where
  "is_revoked self = (dr_revoked_at self \<noteq> None)"

section \<open>The signing payload determines the record\<close>

lemma validate_device_id_ok:
  "validate_device_id v = Inr () \<longleftrightarrow> 8 \<le> length v \<and> length v \<le> 128 \<and>
     list_all (\<lambda>c. is_ascii_alphanumeric c \<or> c = CHR ''-'' \<or> c = CHR ''_'') v"
  by (auto simp: validate_device_id_def)

lemma as_bytes_zero: "0 \<in> set (as_bytes s) \<longleftrightarrow> CHR 0x00 \<in> set s"
proof -
  have "word_of_nat (of_char c) = (0 :: byte) \<longleftrightarrow> c = CHR 0x00" for c
  proof
    assume "word_of_nat (of_char c) = (0 :: byte)"
    then have "as_bytes [c] = as_bytes [CHR 0x00]" by (simp add: as_bytes_def)
    then show "c = CHR 0x00" by (simp only: as_bytes_inject list.inject)
  qed simp
  then show ?thesis by (force simp: as_bytes_def)
qed

lemma valid_device_id_no_nul:
  assumes "validate_device_id v = Inr ()"
  shows "0 \<notin> set (as_bytes v)"
  using assms by (auto simp: validate_device_id_ok as_bytes_zero list_all_iff is_ascii_alphanumeric_def)

lemma append_sep_inject:
  assumes "z \<notin> set xs" "z \<notin> set ys"
  shows "xs @ z # us = ys @ z # vs \<longleftrightarrow> xs = ys \<and> us = vs"
  using assms
proof (induction xs arbitrary: ys)
  case Nil
  then show ?case by (cases ys) auto
next
  case (Cons x xs)
  then show ?case by (cases ys) auto
qed

lemma printable_split:
  assumes "\<forall>b \<in> set xs. 32 \<le> b" "\<forall>b \<in> set ys. 32 \<le> b" "s < 32" "t < (32 :: byte)"
  shows "xs @ s # us = ys @ t # vs \<longleftrightarrow> xs = ys \<and> s = t \<and> us = vs"
  using assms
proof (induction xs arbitrary: ys)
  case Nil
  then show ?case by (cases ys) auto
next
  case (Cons x xs)
  then show ?case by (cases ys) auto
qed

lemma device_payload_inject:
  assumes laws: "time_laws C"
    and id: "0 \<notin> set (as_bytes i)" "0 \<notin> set (as_bytes i')"
    and lab: "CHR 0x00 \<notin> set l" "CHR 0x00 \<notin> set l'"
    and len: "length sk = 32" "length sk' = 32" "length xk = 32" "length xk' = 32"
    and eq: "device_record_signing_payload C i l sk xk c r = device_record_signing_payload C i' l' sk' xk' c' r'"
  shows "i = i' \<and> l = l' \<and> sk = sk' \<and> xk = xk' \<and> c = c' \<and> r = r'"
proof -
  have lab': "0 \<notin> set (as_bytes l)" "0 \<notin> set (as_bytes l')" using lab by (simp_all add: as_bytes_zero)
  let ?rev = "\<lambda>r. case r of Some r \<Rightarrow> 1 # as_bytes (to_rfc3339 C r) | None \<Rightarrow> [0 :: byte]"
  from eq have "i = i'" and "as_bytes l @ 0 # sk @ xk @ as_bytes (to_rfc3339 C c) @ ?rev r =
      as_bytes l' @ 0 # sk' @ xk' @ as_bytes (to_rfc3339 C c') @ ?rev r'"
    by (auto simp: device_record_signing_payload_def append_sep_inject [OF id] split: option.splits)
  then have "l = l'" and "sk @ xk @ as_bytes (to_rfc3339 C c) @ ?rev r =
      sk' @ xk' @ as_bytes (to_rfc3339 C c') @ ?rev r'"
    by (simp_all add: append_sep_inject [OF lab'])
  then have "sk = sk'" "xk = xk'" and t: "as_bytes (to_rfc3339 C c) @ ?rev r = as_bytes (to_rfc3339 C c') @ ?rev r'"
    using len by simp_all
  have print: "\<forall>b \<in> set (as_bytes (to_rfc3339 C t)). 32 \<le> b" for t
    using laws by (auto simp: time_laws_def)
  have inj: "to_rfc3339 C s = to_rfc3339 C t \<longleftrightarrow> s = t" for s t
    using laws by (auto simp: time_laws_def inj_def)
  have "c = c' \<and> r = r'"
    using t by (cases r; cases r') (simp_all add: printable_split [OF print print] inj)
  with \<open>i = i'\<close> \<open>l = l'\<close> \<open>sk = sk'\<close> \<open>xk = xk'\<close> show ?thesis by simp
qed

lemma device_record_sign_Inr:
  assumes "device_record_sign C sk i l keys c r = Inr rec"
  obtains spk xpk where
    "validate_device_id i = Inr ()" "validate_device_label l = Inr ()"
    "device_decode_ed25519_public_key C (dk_signing_key_b64 keys) = Inr spk"
    "device_decode_x25519_public_key C (dk_exchange_key_b64 keys) = Inr xpk"
    "rec = \<lparr> dr_version = DEVICE_RECORD_VERSION, dr_device_id = i, dr_device_label = l,
        dr_device_signing_key_b64 = dk_signing_key_b64 keys,
        dr_device_exchange_key_b64 = dk_exchange_key_b64 keys, dr_created_at = c, dr_revoked_at = r,
        dr_signature_b64 = b64_encode C (ed25519_sign C sk
          (device_record_signing_payload C i l spk xpk c r)) \<rparr>"
  using assms by (auto simp: device_record_sign_def result_simps Let_def)

lemma device_decode_lengths:
  "device_decode_ed25519_public_key C s = Inr k \<Longrightarrow> length k = 32"
  "device_decode_x25519_public_key C s = Inr k \<Longrightarrow> length k = 32"
  by (auto simp: device_decode_ed25519_public_key_def device_decode_x25519_public_key_def
      result_simps split: if_splits)

lemma device_record_verify_ok:
  assumes "device_record_verify C rec pk = Inr ()"
  obtains spk xpk sg where
    "dr_version rec = DEVICE_RECORD_VERSION" "validate_device_id (dr_device_id rec) = Inr ()"
    "device_decode_ed25519_public_key C (dr_device_signing_key_b64 rec) = Inr spk"
    "device_decode_x25519_public_key C (dr_device_exchange_key_b64 rec) = Inr xpk"
    "b64_decode C (dr_signature_b64 rec) = Some sg"
    "ed25519_verify C pk (device_record_signing_payload C (dr_device_id rec) (dr_device_label rec)
        spk xpk (dr_created_at rec) (dr_revoked_at rec)) sg"
  using assms
  by (auto simp: device_record_verify_def decode_signature_def result_simps Let_def split: if_splits)

lemma device_verifies:
  assumes "b64_laws C" and "sig_laws C"
    and "device_record_sign C sk device_id label keys created revoked = Inr rec"
  shows "device_record_verify C rec (ed25519_public C sk) = Inr () \<and>
         (is_revoked rec \<longleftrightarrow> revoked \<noteq> None)"
proof -
  from assms(3) obtain spk xpk where r:
    "validate_device_id device_id = Inr ()" "validate_device_label label = Inr ()"
    "device_decode_ed25519_public_key C (dk_signing_key_b64 keys) = Inr spk"
    "device_decode_x25519_public_key C (dk_exchange_key_b64 keys) = Inr xpk"
    "rec = \<lparr> dr_version = DEVICE_RECORD_VERSION, dr_device_id = device_id, dr_device_label = label,
        dr_device_signing_key_b64 = dk_signing_key_b64 keys,
        dr_device_exchange_key_b64 = dk_exchange_key_b64 keys, dr_created_at = created,
        dr_revoked_at = revoked,
        dr_signature_b64 = b64_encode C (ed25519_sign C sk
          (device_record_signing_payload C device_id label spk xpk created revoked)) \<rparr>"
    by (rule device_record_sign_Inr)
  then show ?thesis
    using assms(1,2)
    by (simp add: device_record_verify_def decode_signature_def length_ed25519
        ed25519_verify_sign is_revoked_def)
qed

section \<open>Properties\<close>

text \<open>A signed device record verifies.  Whenever signing succeeds, the record verifies under the
  public half of the signing key and is revoked just when a revocation time was given.\<close>

theorem device_record_sign_verify:
  assumes "b64_laws C" and "sig_laws C"
    and "device_record_sign C sk device_id label keys created revoked = Inr rec"
  shows "device_record_verify C rec (ed25519_public C sk) = Inr () \<and>
         (is_revoked rec \<longleftrightarrow> revoked \<noteq> None)"
  using assms by (rule device_verifies)

theorem device_record_sign_verify_witness:
  "\<exists>rec. device_record_sign ref_crypto (replicate 32 1) ''desktop_primary'' ''Desktop''
       (device_public_keys_of ref_crypto (device_key_pair_generate ref_crypto (replicate 32 2) (replicate 32 3)))
       17 None = Inr rec \<and>
     device_record_verify ref_crypto rec (ed25519_public ref_crypto (replicate 32 1)) = Inr () \<and>
     \<not> is_revoked rec"
proof -
  let ?k = "device_public_keys_of ref_crypto (device_key_pair_generate ref_crypto (replicate 32 2) (replicate 32 3))"
  obtain rec where r: "device_record_sign ref_crypto (replicate 32 1) ''desktop_primary'' ''Desktop'' ?k 17 None = Inr rec"
    by (simp add: device_record_sign_def validate_device_id_def validate_device_label_def trim_def
        is_ascii_alphanumeric_def device_public_keys_of_def device_key_pair_generate_def
        identity_generate_def device_decode_ed25519_public_key_def device_decode_x25519_public_key_def
        length_ed25519 length_x25519_public ed25519_valid_public Let_def)
  with device_record_sign_verify [OF ref_b64_laws ref_sig_laws r] show ?thesis by auto
qed

text \<open>C29: A device signature covers every field, as long as labels contain no NUL character (which
  \<^verbatim>\<open>validate_device_label\<close> does not ask for).  For two records with valid ids and keys that decode, the
  signed bytes are the same just when ids, labels, decoded keys, creation times and revocation times are: no
  field can be changed while the signature stays valid for the same bytes.\<close>

theorem device_payload_binds_fields:
  assumes "time_laws C"
    and "validate_device_id (dr_device_id a) = Inr ()" "validate_device_id (dr_device_id b) = Inr ()"
    and "CHR 0x00 \<notin> set (dr_device_label a)" "CHR 0x00 \<notin> set (dr_device_label b)"
    and "device_decode_ed25519_public_key C (dr_device_signing_key_b64 a) = Inr ska"
    and "device_decode_x25519_public_key C (dr_device_exchange_key_b64 a) = Inr xka"
    and "device_decode_ed25519_public_key C (dr_device_signing_key_b64 b) = Inr skb"
    and "device_decode_x25519_public_key C (dr_device_exchange_key_b64 b) = Inr xkb"
  shows "device_record_signing_payload C (dr_device_id a) (dr_device_label a) ska xka
           (dr_created_at a) (dr_revoked_at a) =
         device_record_signing_payload C (dr_device_id b) (dr_device_label b) skb xkb
           (dr_created_at b) (dr_revoked_at b) \<longleftrightarrow>
         dr_device_id a = dr_device_id b \<and> dr_device_label a = dr_device_label b \<and> ska = skb \<and>
         xka = xkb \<and> dr_created_at a = dr_created_at b \<and> dr_revoked_at a = dr_revoked_at b"
proof
  assume "device_record_signing_payload C (dr_device_id a) (dr_device_label a) ska xka
           (dr_created_at a) (dr_revoked_at a) =
         device_record_signing_payload C (dr_device_id b) (dr_device_label b) skb xkb
           (dr_created_at b) (dr_revoked_at b)"
  then show "dr_device_id a = dr_device_id b \<and> dr_device_label a = dr_device_label b \<and> ska = skb \<and>
         xka = xkb \<and> dr_created_at a = dr_created_at b \<and> dr_revoked_at a = dr_revoked_at b"
    by (rule device_payload_inject [OF assms(1) valid_device_id_no_nul [OF assms(2)]
      valid_device_id_no_nul [OF assms(3)] assms(4,5) device_decode_lengths(1) [OF assms(6)]
      device_decode_lengths(1) [OF assms(8)] device_decode_lengths(2) [OF assms(7)]
      device_decode_lengths(2) [OF assms(9)]])
next
  assume "dr_device_id a = dr_device_id b \<and> dr_device_label a = dr_device_label b \<and> ska = skb \<and>
         xka = xkb \<and> dr_created_at a = dr_created_at b \<and> dr_revoked_at a = dr_revoked_at b"
  then show "device_record_signing_payload C (dr_device_id a) (dr_device_label a) ska xka
           (dr_created_at a) (dr_revoked_at a) =
         device_record_signing_payload C (dr_device_id b) (dr_device_label b) skb xkb
           (dr_created_at b) (dr_revoked_at b)" by simp
qed

text \<open>The witness: a record and its revocation have different signed bytes.\<close>

theorem device_payload_binds_fields_witness:
  "device_record_signing_payload ref_crypto ''desktop_primary'' ''Desktop'' (replicate 32 1) (replicate 32 2) 3 None \<noteq>
   device_record_signing_payload ref_crypto ''desktop_primary'' ''Desktop'' (replicate 32 1) (replicate 32 2) 3 (Some 4)"
proof -
  let ?r = "\<lambda>revoked. \<lparr> dr_version = DEVICE_RECORD_VERSION, dr_device_id = ''desktop_primary'', dr_device_label = ''Desktop'',
     dr_device_signing_key_b64 = b64_encode ref_crypto (replicate 32 1),
     dr_device_exchange_key_b64 = b64_encode ref_crypto (replicate 32 2),
     dr_created_at = 3, dr_revoked_at = revoked, dr_signature_b64 = [] \<rparr>"
  have k: "device_decode_ed25519_public_key ref_crypto (b64_encode ref_crypto (replicate 32 1)) = Inr (replicate 32 1)"
    "device_decode_x25519_public_key ref_crypto (b64_encode ref_crypto (replicate 32 2)) = Inr (replicate 32 2)"
    by (simp_all add: device_decode_ed25519_public_key_def device_decode_x25519_public_key_def)
      (simp add: ref_crypto_def)
  show ?thesis
    using device_payload_binds_fields [of ref_crypto "?r None" "?r (Some 4)" "replicate 32 1" "replicate 32 2"
        "replicate 32 1" "replicate 32 2"] k
    by (simp add: validate_device_id_def is_ascii_alphanumeric_def)
qed

text \<open>C30: A NUL in a label lets one signature cover two records.  When a record is signed whose label ends in
  NUL, the record without the NUL, with both keys moved by one byte and the creation time whose text has the
  last byte of the exchange key in front (\<^verbatim>\<open>chrono\<close> prints negative years with a sign), verifies under the same
  signature, if the moved bytes are a valid signing key.\<close>

theorem device_label_nul_forges:
  assumes "b64_laws C" "sig_laws C"
    and "device_record_sign C sk device_id (label @ [CHR 0x00]) keys created revoked = Inr rec"
    and "device_decode_ed25519_public_key C (dk_signing_key_b64 keys) = Inr spk"
    and "device_decode_x25519_public_key C (dk_exchange_key_b64 keys) = Inr xpk"
    and "as_bytes (to_rfc3339 C created') = last xpk # as_bytes (to_rfc3339 C created)"
    and "validate_device_label label = Inr ()" "ed25519_valid_key C (0 # butlast spk)"
  shows "device_record_verify C (rec\<lparr>dr_device_label := label,
       dr_device_signing_key_b64 := b64_encode C (0 # butlast spk),
       dr_device_exchange_key_b64 := b64_encode C (last spk # butlast xpk), dr_created_at := created'\<rparr>)
     (ed25519_public C sk) = Inr ()"
proof -
  have len: "length spk = 32" "length xpk = 32" using device_decode_lengths assms(4,5) by blast+
  have ends: "butlast spk @ [last spk] = spk" "butlast xpk @ [last xpk] = xpk"
    using len by (auto intro!: append_butlast_last_id)
  have decode: "device_decode_ed25519_public_key C (b64_encode C (0 # butlast spk)) = Inr (0 # butlast spk)"
    "device_decode_x25519_public_key C (b64_encode C (last spk # butlast xpk)) = Inr (last spk # butlast xpk)"
    using len assms(1,8) by (simp_all add: device_decode_ed25519_public_key_def device_decode_x25519_public_key_def
        b64_decode_encode)
  have "butlast spk @ last spk # butlast xpk @ last xpk # rest = spk @ xpk @ rest" for rest
    using ends by (metis append.assoc append_Cons append_Nil)
  then have payload: "device_record_signing_payload C device_id label (0 # butlast spk) (last spk # butlast xpk) created' revoked =
      device_record_signing_payload C device_id (label @ [CHR 0x00]) spk xpk created revoked"
    using assms(6) by (auto simp: device_record_signing_payload_def as_bytes_def split: option.splits)
  show ?thesis
    using assms(3)
  proof (rule device_record_sign_Inr)
    fix spk' xpk'
    assume "validate_device_id device_id = Inr ()"
      and "device_decode_ed25519_public_key C (dk_signing_key_b64 keys) = Inr spk'"
      and "device_decode_x25519_public_key C (dk_exchange_key_b64 keys) = Inr xpk'"
      and "rec = \<lparr> dr_version = DEVICE_RECORD_VERSION, dr_device_id = device_id, dr_device_label = label @ [CHR 0x00],
        dr_device_signing_key_b64 = dk_signing_key_b64 keys,
        dr_device_exchange_key_b64 = dk_exchange_key_b64 keys, dr_created_at = created, dr_revoked_at = revoked,
        dr_signature_b64 = b64_encode C (ed25519_sign C sk
          (device_record_signing_payload C device_id (label @ [CHR 0x00]) spk' xpk' created revoked)) \<rparr>"
    then show ?thesis
      using assms(1,2,4,5,7) decode payload
      by (simp add: device_record_verify_def decode_signature_def length_ed25519 ed25519_verify_sign b64_decode_encode)
  qed
qed

theorem device_label_nul_forges_witness:
  "\<exists>rec. device_record_sign ref_crypto (replicate 32 1) ''desktop_primary'' (''Desktop'' @ [CHR 0x00])
       \<lparr> dk_signing_key_b64 = b64_encode ref_crypto (replicate 32 2),
         dk_exchange_key_b64 = b64_encode ref_crypto (replicate 31 3 @ [49]) \<rparr> 5 None = Inr rec \<and>
     device_record_verify ref_crypto (rec\<lparr>dr_device_label := ''Desktop'',
       dr_device_signing_key_b64 := b64_encode ref_crypto (0 # replicate 31 2),
       dr_device_exchange_key_b64 := b64_encode ref_crypto (2 # replicate 31 3), dr_created_at := 6\<rparr>)
     (ed25519_public ref_crypto (replicate 32 1)) = Inr ()"
proof -
  let ?keys = "\<lparr> dk_signing_key_b64 = b64_encode ref_crypto (replicate 32 2),
         dk_exchange_key_b64 = b64_encode ref_crypto (replicate 31 3 @ [49]) \<rparr>"
  have k: "device_decode_ed25519_public_key ref_crypto (dk_signing_key_b64 ?keys) = Inr (replicate 32 2)"
    "device_decode_x25519_public_key ref_crypto (dk_exchange_key_b64 ?keys) = Inr (replicate 31 3 @ [49])"
    by (simp_all add: device_decode_ed25519_public_key_def device_decode_x25519_public_key_def b64_decode_encode)
      (simp add: ref_crypto_def)
  obtain rec where r: "device_record_sign ref_crypto (replicate 32 1) ''desktop_primary'' (''Desktop'' @ [CHR 0x00])
      ?keys 5 None = Inr rec"
    using k by (simp add: device_record_sign_def validate_device_id_def validate_device_label_def trim_def
        is_ascii_alphanumeric_def Let_def)
  have t: "as_bytes (to_rfc3339 ref_crypto 6) = last (replicate 31 3 @ [49]) # as_bytes (to_rfc3339 ref_crypto 5)"
    by (simp add: ref_crypto_def ref_decimal_def as_bytes_def eval_nat_numeral)
  have "butlast (replicate 32 (2 :: byte)) = replicate 31 2" "last (replicate 32 (2 :: byte)) = 2"
    by (simp_all add: eval_nat_numeral)
  with device_label_nul_forges [OF ref_b64_laws ref_sig_laws r k t] r show ?thesis
    by (simp add: ref_crypto_def validate_device_label_def trim_def)
qed

end
