(* ===== verification/BTree_Map.thy ===== *)
theory BTree_Map
  imports Rust_Std
begin

text \<open>
  Rust's \<^verbatim>\<open>BTreeMap\<close> (standard library): a list of key-value pairs in strictly increasing key
  order, which is also the order its iterators produce.  The locale \<open>ordered_map\<close> states the
  contract its clients (the skipped-key store of the double ratchet and the in-memory session
  store) rely on; the interpretation at the end discharges it for the list model.
\<close>

section \<open>The contract\<close>

locale ordered_map =
  fixes empty :: 'm
    and get :: "'k \<Rightarrow> 'm \<Rightarrow> 'v option"
    and insert :: "'k \<Rightarrow> 'v \<Rightarrow> 'm \<Rightarrow> 'm"
    and remove :: "'k \<Rightarrow> 'm \<Rightarrow> 'm"
    and len :: "'m \<Rightarrow> nat"
    and inv :: "'m \<Rightarrow> bool"
  assumes inv_empty: "inv empty"
    and inv_insert: "inv m \<Longrightarrow> inv (insert k v m)"
    and inv_remove: "inv m \<Longrightarrow> inv (remove k m)"
    and get_empty: "get k empty = None"
    and get_insert: "inv m \<Longrightarrow> get j (insert k v m) = (if j = k then Some v else get j m)"
    and get_remove: "inv m \<Longrightarrow> get j (remove k m) = (if j = k then None else get j m)"
    and len_empty: "len empty = 0"
    and len_insert: "inv m \<Longrightarrow>
          len (insert k v m) = (if get k m = None then Suc (len m) else len m)"
    and len_remove: "inv m \<Longrightarrow>
          len (remove k m) = (if get k m = None then len m else len m - 1)"
begin

text \<open>What clients use: lookups after a write, independence of other keys, and size bounds.\<close>

lemma get_insert_same: "inv m \<Longrightarrow> get k (insert k v m) = Some v"
  and get_insert_other: "inv m \<Longrightarrow> j \<noteq> k \<Longrightarrow> get j (insert k v m) = get j m"
  and get_remove_same: "inv m \<Longrightarrow> get k (remove k m) = None"
  and get_remove_other: "inv m \<Longrightarrow> j \<noteq> k \<Longrightarrow> get j (remove k m) = get j m"
  by (simp_all add: get_insert get_remove)

lemma len_insert_le: "inv m \<Longrightarrow> len (insert k v m) \<le> Suc (len m)"
  by (simp add: len_insert)

lemma len_remove_le: "inv m \<Longrightarrow> len (remove k m) \<le> len m"
  by (simp add: len_remove)

lemma insert_within_cap:
  "inv m \<Longrightarrow> len m < cap \<Longrightarrow> len (insert k v m) \<le> cap"
  using len_insert_le [of m k v] by simp

end

section \<open>The list model\<close>

definition bt_empty :: "('k \<times> 'v) list" where
  "bt_empty = []"

fun bt_insert :: "'k::linorder \<Rightarrow> 'v \<Rightarrow> ('k \<times> 'v) list \<Rightarrow> ('k \<times> 'v) list" where
  "bt_insert k v [] = [(k, v)]"
| "bt_insert k v ((j, w) # m) =
     (if k < j then (k, v) # (j, w) # m
      else if k = j then (k, v) # m
      else (j, w) # bt_insert k v m)"

fun bt_get :: "'k::linorder \<Rightarrow> ('k \<times> 'v) list \<Rightarrow> 'v option" where
  "bt_get k [] = None"
| "bt_get k ((j, w) # m) = (if k = j then Some w else bt_get k m)"

fun bt_remove :: "'k::linorder \<Rightarrow> ('k \<times> 'v) list \<Rightarrow> ('k \<times> 'v) list" where
  "bt_remove k [] = []"
| "bt_remove k ((j, w) # m) = (if k = j then m else (j, w) # bt_remove k m)"

definition bt_inv :: "('k::linorder \<times> 'v) list \<Rightarrow> bool" where
  [wf_simps]: "bt_inv m \<longleftrightarrow> sorted_wrt (<) (map fst m)"

lemma bt_inv_Nil [simp]: "bt_inv []"
  by (simp add: bt_inv_def)

lemma bt_inv_Cons [simp]:
  "bt_inv (x # m) \<longleftrightarrow> (\<forall>y \<in> set m. fst x < fst y) \<and> bt_inv m"
  by (auto simp: bt_inv_def)

lemma set_bt_insert_keys: "fst ` set (bt_insert k v m) = insert k (fst ` set m)"
  by (induction k v m rule: bt_insert.induct) auto

lemma set_bt_insert_subset: "set (bt_insert k v m) \<subseteq> insert (k, v) (set m)"
  by (induction k v m rule: bt_insert.induct) auto

lemma set_bt_remove_subset: "set (bt_remove k m) \<subseteq> set m"
  by (induction k m rule: bt_remove.induct) auto

lemma bt_inv_insert [simp]: "bt_inv m \<Longrightarrow> bt_inv (bt_insert k v m)"
proof (induction k v m rule: bt_insert.induct)
  case (2 k v j w m)
  have keys: "fst y = k \<or> fst y \<in> fst ` set m" if "y \<in> set (bt_insert k v m)" for y
    using that set_bt_insert_keys [of k v m] by blast
  consider "k < j" | "k = j" | "j < k" by fastforce
  then show ?case
  proof cases
    case 1
    then show ?thesis using "2.prems" by (auto intro: less_trans)
  next
    case 2
    then show ?thesis using "2.prems" by auto
  next
    case 3
    then have "\<forall>y \<in> set (bt_insert k v m). j < fst y"
      using keys "2.prems" by fastforce
    then show ?thesis using 3 2 by auto
  qed
qed simp

lemma bt_inv_remove [simp]: "bt_inv m \<Longrightarrow> bt_inv (bt_remove k m)"
  by (induction k m rule: bt_remove.induct) (use set_bt_remove_subset in fastforce)+

lemma bt_get_eq_None: "bt_get k m = None \<longleftrightarrow> k \<notin> fst ` set m"
  by (induction k m rule: bt_get.induct) auto

lemma bt_get_SomeD: "bt_get k m = Some v \<Longrightarrow> (k, v) \<in> set m"
  by (induction k m rule: bt_get.induct) (auto split: if_splits)

lemma bt_get_insert:
  "bt_get j (bt_insert k v m) = (if j = k then Some v else bt_get j m)"
  by (induction k v m rule: bt_insert.induct) auto

lemma bt_get_remove:
  "bt_inv m \<Longrightarrow> bt_get j (bt_remove k m) = (if j = k then None else bt_get j m)"
proof (induction k m rule: bt_remove.induct)
  case (2 k i w m)
  have "bt_get i m = None" using 2(2) by (auto simp: bt_get_eq_None)
  with 2 show ?case by auto
qed simp

lemma length_bt_insert:
  "bt_inv m \<Longrightarrow> length (bt_insert k v m) = (if bt_get k m = None then Suc (length m) else length m)"
proof (induction k v m rule: bt_insert.induct)
  case (2 k v j w m)
  have "bt_get k m = None" if "k < j"
    using 2(2) that by (force simp: bt_get_eq_None)
  with 2 show ?case by auto
qed simp

lemma length_bt_remove:
  "length (bt_remove k m) = (if bt_get k m = None then length m else length m - 1)"
proof (induction k m rule: bt_remove.induct)
  case (2 k j w m)
  have "bt_get k m \<noteq> None \<Longrightarrow> 0 < length m" by (cases m) auto
  with 2 show ?case by auto
qed simp

interpretation btree: ordered_map bt_empty bt_get bt_insert bt_remove length bt_inv
  by unfold_locales
    (auto simp: bt_empty_def bt_get_insert bt_get_remove length_bt_insert length_bt_remove)

text \<open>
  A map is determined by its list: inserting a sorted list's pairs in order rebuilds the list.
  This is what makes a persisted map load back as the same value.
\<close>

lemma bt_insert_last:
  "\<forall>y \<in> set m. fst y < k \<Longrightarrow> bt_insert k v m = m @ [(k, v)]"
  by (induction k v m rule: bt_insert.induct) (auto dest: less_asym)

lemma bt_inv_append:
  "bt_inv (m @ n) \<longleftrightarrow> bt_inv m \<and> bt_inv n \<and> (\<forall>x \<in> set m. \<forall>y \<in> set n. fst x < fst y)"
  by (induction m) auto

end
