(* ===== verification/Ratchet.thy ===== *)
theory Ratchet
  imports X3dh BTree_Map
begin

text \<open>
  \<^verbatim>\<open>crates/comm-core/src/double_ratchet.rs\<close>: the double ratchet session.  \<^verbatim>\<open>&mut self\<close> methods are
  \<open>action\<close>s on \<open>double_ratchet_session\<close>, so what a method changed before it returned an error is
  part of the model.  The secret that \<^verbatim>\<open>RatchetKeyPair::generate\<close> draws and the 24 nonce bytes are
  arguments.  Counters are \<open>u32\<close> and wrap, as in a release build.  The skipped-key map is the
  ordered map of \<open>BTree_Map\<close>.
\<close>

section \<open>State\<close>

definition DOUBLE_RATCHET_VERSION :: string where
  "DOUBLE_RATCHET_VERSION = ''simy-double-ratchet-v1''"
definition ROOT_INFO :: bytes where "ROOT_INFO = as_bytes ''simy-dr-root-v1''"
definition CHAIN_INFO :: bytes where "CHAIN_INFO = as_bytes ''simy-dr-chain-v1''"
definition MAX_SKIPPED_MESSAGE_KEYS :: nat where "MAX_SKIPPED_MESSAGE_KEYS = 128"

record ratchet_key_pair =
  rk_secret_key :: bytes
  rk_public_key :: bytes

definition ratchet_key_from_secret :: "crypto \<Rightarrow> bytes \<Rightarrow> ratchet_key_pair" where
  "ratchet_key_from_secret C secret_key =
     \<lparr> rk_secret_key = secret_key, rk_public_key = x25519_public C secret_key \<rparr>"

record ratchet_header =
  rh_ratchet_public_key_b64 :: string
  rh_previous_chain_length :: u32
  rh_message_number :: u32

record ratchet_message_envelope =
  rm_version :: string
  rm_header :: ratchet_header
  rm_nonce_b64 :: string
  rm_ciphertext_b64 :: string

record persisted_skipped_message_key =
  ps_ratchet_public_key_b64 :: string
  ps_message_number :: u32
  ps_message_key_b64 :: string

record persisted_session =
  pd_version :: string
  pd_root_key_b64 :: string
  pd_local_ratchet_secret_key_b64 :: string
  pd_local_ratchet_public_key_b64 :: string
  pd_remote_ratchet_public_key_b64 :: "string option"
  pd_sending_chain_key_b64 :: "string option"
  pd_receiving_chain_key_b64 :: "string option"
  pd_previous_chain_length :: u32
  pd_sent_messages :: u32
  pd_received_messages :: u32
  pd_skipped_keys :: "persisted_skipped_message_key list"

record parsed_ratchet_header =
  ph_ratchet_public_key :: bytes
  ph_previous_chain_length :: u32
  ph_message_number :: u32

text \<open>\<^verbatim>\<open>SkippedKeyId\<close> derives \<^verbatim>\<open>Ord\<close>: public key bytes first, then message number.\<close>

datatype skipped_key_id =
  SkippedKeyId (sk_ratchet_public_key: bytes) (sk_message_number: u32)

instantiation skipped_key_id :: linorder
begin

definition less_eq_skipped_key_id :: "skipped_key_id \<Rightarrow> skipped_key_id \<Rightarrow> bool" where
  "less_eq_skipped_key_id a b \<longleftrightarrow>
     sk_ratchet_public_key a < sk_ratchet_public_key b \<or>
     (sk_ratchet_public_key a = sk_ratchet_public_key b \<and> sk_message_number a \<le> sk_message_number b)"

definition less_skipped_key_id :: "skipped_key_id \<Rightarrow> skipped_key_id \<Rightarrow> bool" where
  "less_skipped_key_id a b \<longleftrightarrow>
     sk_ratchet_public_key a < sk_ratchet_public_key b \<or>
     (sk_ratchet_public_key a = sk_ratchet_public_key b \<and> sk_message_number a < sk_message_number b)"

instance
  by standard
    (auto simp: less_eq_skipped_key_id_def less_skipped_key_id_def intro: skipped_key_id.expand)

end

record double_ratchet_session =
  rs_root_key :: bytes
  rs_local_ratchet_key :: ratchet_key_pair
  rs_remote_ratchet_key :: "bytes option"
  rs_sending_chain_key :: "bytes option"
  rs_receiving_chain_key :: "bytes option"
  rs_previous_chain_length :: u32
  rs_sent_messages :: u32
  rs_received_messages :: u32
  rs_skipped_keys :: "(skipped_key_id \<times> bytes) list"

type_synonym 'a ratchet_action = "(double_ratchet_session, core_error, 'a) action"

section \<open>Key derivation, headers and message decryption\<close>

definition split_64 :: "bytes \<Rightarrow> core_error + (bytes \<times> bytes)" where
  "split_64 output =
     and_then (ok_or KeyDerivationFailure (try_into_array 32 (take 32 output))) (\<lambda>first.
     and_then (ok_or KeyDerivationFailure (try_into_array 32 (drop 32 output))) (\<lambda>second.
     Inr (first, second)))"

definition derive_root_and_chain_key :: "crypto \<Rightarrow> bytes \<Rightarrow> bytes \<Rightarrow> core_error + (bytes \<times> bytes)" where
  "derive_root_and_chain_key C root_key dh_output =
     and_then (ok_or KeyDerivationFailure (hkdf_expand C (Some root_key) dh_output ROOT_INFO 64)) split_64"

definition derive_chain_key_and_message_key :: "crypto \<Rightarrow> bytes \<Rightarrow> core_error + (bytes \<times> bytes)" where
  "derive_chain_key_and_message_key C chain_key =
     and_then (ok_or KeyDerivationFailure (hkdf_expand C (Some chain_key) chain_key CHAIN_INFO 64)) split_64"

definition dr_decode_fixed_base64 :: "crypto \<Rightarrow> nat \<Rightarrow> string \<Rightarrow> core_error + bytes" where
  "dr_decode_fixed_base64 = decode_array InvalidBase64 InvalidRatchetMessage"

definition parse_ratchet_header :: "crypto \<Rightarrow> ratchet_header \<Rightarrow> core_error + parsed_ratchet_header" where
  "parse_ratchet_header C header =
     and_then (dr_decode_fixed_base64 C 32 (rh_ratchet_public_key_b64 header)) (\<lambda>public_key.
     Inr \<lparr> ph_ratchet_public_key = public_key,
           ph_previous_chain_length = rh_previous_chain_length header,
           ph_message_number = rh_message_number header \<rparr>)"

definition build_ratchet_aad :: "ratchet_header \<Rightarrow> bytes \<Rightarrow> bytes" where
  "build_ratchet_aad header associated_data =
     as_bytes DOUBLE_RATCHET_VERSION @
     as_bytes (rh_ratchet_public_key_b64 header) @
     u32_to_be_bytes (rh_previous_chain_length header) @
     u32_to_be_bytes (rh_message_number header) @
     associated_data"

definition parsed_to_header :: "crypto \<Rightarrow> parsed_ratchet_header \<Rightarrow> ratchet_header" where
  "parsed_to_header C self =
     \<lparr> rh_ratchet_public_key_b64 = b64_encode C (ph_ratchet_public_key self),
       rh_previous_chain_length = ph_previous_chain_length self,
       rh_message_number = ph_message_number self \<rparr>"

definition decrypt_ratchet_message ::
    "crypto \<Rightarrow> bytes \<Rightarrow> parsed_ratchet_header \<Rightarrow> ratchet_message_envelope \<Rightarrow> bytes \<Rightarrow> core_error + bytes" where
  "decrypt_ratchet_message C message_key header envelope associated_data =
     and_then (dr_decode_fixed_base64 C 24 (rm_nonce_b64 envelope)) (\<lambda>nonce.
     and_then (ok_or InvalidBase64 (b64_decode C (rm_ciphertext_b64 envelope))) (\<lambda>ciphertext.
     if ciphertext = [] then Inl InvalidRatchetMessage
     else
       let aad = build_ratchet_aad (parsed_to_header C header) associated_data in
       ok_or CryptoFailure (aead_decrypt C message_key nonce aad ciphertext)))"

section \<open>Ratchet steps\<close>

definition take_sending_chain_key :: "bytes ratchet_action" where
  "take_sending_chain_key =
     act_then (act_get rs_sending_chain_key) (\<lambda>chain_key.
     act_then (act_mod (\<lambda>s. s\<lparr>rs_sending_chain_key := None\<rparr>)) (\<lambda>_.
     act_lift (ok_or MissingChainState chain_key)))"

definition take_receiving_chain_key :: "bytes ratchet_action" where
  "take_receiving_chain_key =
     act_then (act_get rs_receiving_chain_key) (\<lambda>chain_key.
     act_then (act_mod (\<lambda>s. s\<lparr>rs_receiving_chain_key := None\<rparr>)) (\<lambda>_.
     act_lift (ok_or MissingChainState chain_key)))"

definition ensure_sending_chain :: "crypto \<Rightarrow> bytes \<Rightarrow> unit ratchet_action" where
  "ensure_sending_chain C new_secret =
     act_then (act_get rs_sending_chain_key) (\<lambda>current.
     if current \<noteq> None then act_ok ()
     else
       act_then (act_get rs_remote_ratchet_key) (\<lambda>remote.
       act_then (act_lift (ok_or MissingChainState remote)) (\<lambda>remote_ratchet_key.
       act_then (act_mod (\<lambda>s. s\<lparr>rs_previous_chain_length := rs_sent_messages s,
                                rs_sent_messages := 0,
                                rs_local_ratchet_key := ratchet_key_from_secret C new_secret\<rparr>)) (\<lambda>_.
       act_then (act_get (\<lambda>s. derive_root_and_chain_key C (rs_root_key s)
                   (x25519_dh C (rk_secret_key (rs_local_ratchet_key s)) remote_ratchet_key))) (\<lambda>derived.
       act_then (act_lift derived) (\<lambda>(root_key, sending_chain_key).
       act_mod (\<lambda>s. s\<lparr>rs_root_key := root_key, rs_sending_chain_key := Some sending_chain_key\<rparr>)))))))"

definition apply_remote_ratchet :: "crypto \<Rightarrow> bytes \<Rightarrow> unit ratchet_action" where
  "apply_remote_ratchet C remote_ratchet_key =
     act_then (act_mod (\<lambda>s. s\<lparr>rs_previous_chain_length := rs_sent_messages s,
                              rs_sent_messages := 0,
                              rs_received_messages := 0\<rparr>)) (\<lambda>_.
     act_then (act_get (\<lambda>s. derive_root_and_chain_key C (rs_root_key s)
                 (x25519_dh C (rk_secret_key (rs_local_ratchet_key s)) remote_ratchet_key))) (\<lambda>derived.
     act_then (act_lift derived) (\<lambda>(root_key, receiving_chain_key).
     act_mod (\<lambda>s. s\<lparr>rs_root_key := root_key,
                    rs_remote_ratchet_key := Some remote_ratchet_key,
                    rs_receiving_chain_key := Some receiving_chain_key,
                    rs_sending_chain_key := None\<rparr>))))"

text \<open>
  The \<^verbatim>\<open>while\<close> loop of \<^verbatim>\<open>skip_message_keys\<close>.  It returns the final \<^verbatim>\<open>chain_key\<close>; each round
  stores one message key.  \<open>received + 1\<close> cannot wrap below \<open>until\<close>, so the loop ends.
\<close>

function skip_loop :: "crypto \<Rightarrow> bytes \<Rightarrow> u32 \<Rightarrow> bytes \<Rightarrow> bytes ratchet_action" where
  "skip_loop C remote_ratchet_key until_message_number chain_key s =
     (if rs_received_messages s < until_message_number then
        case derive_chain_key_and_message_key C chain_key of
          Inl e \<Rightarrow> (Inl e, s)
        | Inr (next_chain_key, message_key) \<Rightarrow>
            if MAX_SKIPPED_MESSAGE_KEYS \<le> length (rs_skipped_keys s)
            then (Inl TooManySkippedMessages, s)
            else skip_loop C remote_ratchet_key until_message_number next_chain_key
              (s\<lparr>rs_skipped_keys :=
                   bt_insert (SkippedKeyId remote_ratchet_key (rs_received_messages s)) message_key
                     (rs_skipped_keys s),
                 rs_received_messages := rs_received_messages s + 1\<rparr>)
      else (Inr chain_key, s))"
  by pat_completeness auto
termination
proof (relation "measure (\<lambda>(_, _, u, _, s). unat u - unat (rs_received_messages s))", goal_cases)
  case (2 C remote_ratchet_key until_message_number chain_key s)
  then show ?case by (simp add: unat_plus_one_below word_less_nat_alt)
qed simp

declare skip_loop.simps [simp del]

definition skip_message_keys :: "crypto \<Rightarrow> u32 \<Rightarrow> unit ratchet_action" where
  "skip_message_keys C until_message_number =
     act_then (act_get rs_received_messages) (\<lambda>received.
     if until_message_number < received then act_ok ()
     else if until_message_number = received then act_ok ()
     else if MAX_SKIPPED_MESSAGE_KEYS < unat (until_message_number - received)
     then act_err TooManySkippedMessages
     else
       act_then (act_get rs_remote_ratchet_key) (\<lambda>remote.
       act_then (act_lift (ok_or MissingChainState remote)) (\<lambda>remote_ratchet_key.
       act_then take_receiving_chain_key (\<lambda>chain_key.
       act_then (skip_loop C remote_ratchet_key until_message_number chain_key) (\<lambda>final_chain_key.
       act_mod (\<lambda>s. s\<lparr>rs_receiving_chain_key := Some final_chain_key\<rparr>))))))"

definition try_skipped_message_key ::
    "crypto \<Rightarrow> parsed_ratchet_header \<Rightarrow> ratchet_message_envelope \<Rightarrow> bytes \<Rightarrow> bytes option ratchet_action" where
  "try_skipped_message_key C header envelope associated_data =
     (let key = SkippedKeyId (ph_ratchet_public_key header) (ph_message_number header) in
      act_then (act_get (\<lambda>s. bt_get key (rs_skipped_keys s))) (\<lambda>found.
      act_then (act_mod (\<lambda>s. s\<lparr>rs_skipped_keys := bt_remove key (rs_skipped_keys s)\<rparr>)) (\<lambda>_.
      case found of
        Some message_key \<Rightarrow>
          act_lift (and_then (decrypt_ratchet_message C message_key header envelope associated_data)
            (\<lambda>plaintext. Inr (Some plaintext)))
      | None \<Rightarrow> act_ok None)))"

section \<open>The public operations\<close>

definition ratchet_encrypt ::
    "crypto \<Rightarrow> bytes \<Rightarrow> bytes \<Rightarrow> bytes \<Rightarrow> bytes \<Rightarrow> ratchet_message_envelope ratchet_action" where
  "ratchet_encrypt C new_secret nonce plaintext associated_data =
     (if plaintext = [] then act_err InvalidRatchetMessage
      else
        act_then (ensure_sending_chain C new_secret) (\<lambda>_.
        act_then take_sending_chain_key (\<lambda>chain_key.
        act_then (act_get (\<lambda>s.
          \<lparr> rh_ratchet_public_key_b64 = b64_encode C (rk_public_key (rs_local_ratchet_key s)),
            rh_previous_chain_length = rs_previous_chain_length s,
            rh_message_number = rs_sent_messages s \<rparr>)) (\<lambda>header.
        act_then (act_lift (derive_chain_key_and_message_key C chain_key)) (\<lambda>(next_chain_key, message_key).
        act_then (act_mod (\<lambda>s. s\<lparr>rs_sending_chain_key := Some next_chain_key,
                                 rs_sent_messages := rs_sent_messages s + 1\<rparr>)) (\<lambda>_.
        act_then (act_lift (ok_or CryptoFailure
          (aead_encrypt C message_key nonce (build_ratchet_aad header associated_data) plaintext))) (\<lambda>ciphertext.
        act_ok \<lparr> rm_version = DOUBLE_RATCHET_VERSION,
                 rm_header = header,
                 rm_nonce_b64 = b64_encode C nonce,
                 rm_ciphertext_b64 = b64_encode C ciphertext \<rparr>)))))))"

text \<open>\<^verbatim>\<open>self.remote_ratchet_key == Some(key)\<close>\<close>

definition remote_is :: "crypto \<Rightarrow> bytes option \<Rightarrow> bytes \<Rightarrow> bool" where
  "remote_is C remote key = (case remote of None \<Rightarrow> False | Some k \<Rightarrow> x25519_same C k key)"

definition ratchet_decrypt ::
    "crypto \<Rightarrow> ratchet_message_envelope \<Rightarrow> bytes \<Rightarrow> bytes ratchet_action" where
  "ratchet_decrypt C envelope associated_data =
     (if rm_version envelope \<noteq> DOUBLE_RATCHET_VERSION then act_err UnsupportedVersion
      else
        act_then (act_lift (parse_ratchet_header C (rm_header envelope))) (\<lambda>header.
        act_then (try_skipped_message_key C header envelope associated_data) (\<lambda>skipped.
        case skipped of
          Some plaintext \<Rightarrow> act_ok plaintext
        | None \<Rightarrow>
            act_then (act_get rs_remote_ratchet_key) (\<lambda>remote.
            act_then
              (if \<not> remote_is C remote (ph_ratchet_public_key header)
               then act_then (skip_message_keys C (ph_previous_chain_length header)) (\<lambda>_.
                    apply_remote_ratchet C (ph_ratchet_public_key header))
               else act_ok ()) (\<lambda>_.
            act_then (skip_message_keys C (ph_message_number header)) (\<lambda>_.
            act_then take_receiving_chain_key (\<lambda>chain_key.
            act_then (act_lift (derive_chain_key_and_message_key C chain_key)) (\<lambda>(next_chain_key, message_key).
            act_then (act_mod (\<lambda>s. s\<lparr>rs_receiving_chain_key := Some next_chain_key,
                                     rs_received_messages := rs_received_messages s + 1\<rparr>)) (\<lambda>_.
            act_lift (decrypt_ratchet_message C message_key header envelope associated_data)))))))))) "

definition persist_skipped :: "crypto \<Rightarrow> skipped_key_id \<times> bytes \<Rightarrow> persisted_skipped_message_key" where
  "persist_skipped C = (\<lambda>(id, message_key).
     \<lparr> ps_ratchet_public_key_b64 = b64_encode C (sk_ratchet_public_key id),
       ps_message_number = sk_message_number id,
       ps_message_key_b64 = b64_encode C message_key \<rparr>)"

definition persist :: "crypto \<Rightarrow> double_ratchet_session \<Rightarrow> persisted_session" where
  "persist C self =
     \<lparr> pd_version = DOUBLE_RATCHET_VERSION,
       pd_root_key_b64 = b64_encode C (rs_root_key self),
       pd_local_ratchet_secret_key_b64 = b64_encode C (rk_secret_key (rs_local_ratchet_key self)),
       pd_local_ratchet_public_key_b64 = b64_encode C (rk_public_key (rs_local_ratchet_key self)),
       pd_remote_ratchet_public_key_b64 = map_option (b64_encode C) (rs_remote_ratchet_key self),
       pd_sending_chain_key_b64 = map_option (b64_encode C) (rs_sending_chain_key self),
       pd_receiving_chain_key_b64 = map_option (b64_encode C) (rs_receiving_chain_key self),
       pd_previous_chain_length = rs_previous_chain_length self,
       pd_sent_messages = rs_sent_messages self,
       pd_received_messages = rs_received_messages self,
       pd_skipped_keys = map (persist_skipped C) (rs_skipped_keys self) \<rparr>"

fun load_skipped_keys ::
    "crypto \<Rightarrow> persisted_skipped_message_key list \<Rightarrow> (skipped_key_id \<times> bytes) list \<Rightarrow>
     core_error + (skipped_key_id \<times> bytes) list" where
  "load_skipped_keys C [] skipped_keys = Inr skipped_keys"
| "load_skipped_keys C (skipped # rest) skipped_keys =
     (if MAX_SKIPPED_MESSAGE_KEYS \<le> length skipped_keys then Inl TooManySkippedMessages
      else
        and_then (dr_decode_fixed_base64 C 32 (ps_ratchet_public_key_b64 skipped)) (\<lambda>public_key.
        and_then (dr_decode_fixed_base64 C 32 (ps_message_key_b64 skipped)) (\<lambda>message_key.
        load_skipped_keys C rest
          (bt_insert (SkippedKeyId public_key (ps_message_number skipped)) message_key skipped_keys))))"

definition from_persisted :: "crypto \<Rightarrow> persisted_session \<Rightarrow> core_error + double_ratchet_session" where
  "from_persisted C value =
     (if pd_version value \<noteq> DOUBLE_RATCHET_VERSION then Inl UnsupportedVersion
      else
        and_then (dr_decode_fixed_base64 C 32 (pd_local_ratchet_secret_key_b64 value)) (\<lambda>local_secret.
        and_then (dr_decode_fixed_base64 C 32 (pd_local_ratchet_public_key_b64 value)) (\<lambda>local_public.
        and_then (load_skipped_keys C (pd_skipped_keys value) bt_empty) (\<lambda>skipped_keys.
        and_then (dr_decode_fixed_base64 C 32 (pd_root_key_b64 value)) (\<lambda>root_key.
        and_then (transpose_map (dr_decode_fixed_base64 C 32) (pd_remote_ratchet_public_key_b64 value)) (\<lambda>remote.
        and_then (transpose_map (dr_decode_fixed_base64 C 32) (pd_sending_chain_key_b64 value)) (\<lambda>sending.
        and_then (transpose_map (dr_decode_fixed_base64 C 32) (pd_receiving_chain_key_b64 value)) (\<lambda>receiving.
        Inr \<lparr> rs_root_key = root_key,
              rs_local_ratchet_key = \<lparr> rk_secret_key = local_secret, rk_public_key = local_public \<rparr>,
              rs_remote_ratchet_key = remote,
              rs_sending_chain_key = sending,
              rs_receiving_chain_key = receiving,
              rs_previous_chain_length = pd_previous_chain_length value,
              rs_sent_messages = pd_sent_messages value,
              rs_received_messages = pd_received_messages value,
              rs_skipped_keys = skipped_keys \<rparr>))))))))"

definition bootstrap_initiator_session ::
    "crypto \<Rightarrow> initiator_handshake \<Rightarrow> core_error + double_ratchet_session" where
  "bootstrap_initiator_session C handshake =
     (let local_ratchet_key = ratchet_key_from_secret C (hs_sender_ephemeral_secret handshake);
          remote_ratchet_key = mk_receiver_signed_prekey (hs_message_keys handshake)
      in and_then (derive_root_and_chain_key C (hs_shared_secret handshake)
                     (x25519_dh C (rk_secret_key local_ratchet_key) remote_ratchet_key))
         (\<lambda>(root_key, sending_chain_key).
         Inr \<lparr> rs_root_key = root_key,
               rs_local_ratchet_key = local_ratchet_key,
               rs_remote_ratchet_key = Some remote_ratchet_key,
               rs_sending_chain_key = Some sending_chain_key,
               rs_receiving_chain_key = None,
               rs_previous_chain_length = 0,
               rs_sent_messages = 0,
               rs_received_messages = 0,
               rs_skipped_keys = bt_empty \<rparr>))"

definition bootstrap_responder_session ::
    "crypto \<Rightarrow> signed_pre_key \<Rightarrow> opened_initial_message \<Rightarrow> core_error + double_ratchet_session" where
  "bootstrap_responder_session C receiver_signed_prekey opened_initial_message =
     (if \<not> x25519_same C (mk_receiver_signed_prekey (om_message_keys opened_initial_message))
           (spk_public_key receiver_signed_prekey)
      then Inl InvalidPreKeyBundle
      else
        let local_ratchet_key = ratchet_key_from_secret C (spk_secret_key receiver_signed_prekey);
            remote_ratchet_key = mk_sender_ephemeral_key (om_message_keys opened_initial_message)
        in and_then (derive_root_and_chain_key C (om_shared_secret opened_initial_message)
                       (x25519_dh C (rk_secret_key local_ratchet_key) remote_ratchet_key))
           (\<lambda>(root_key, receiving_chain_key).
           Inr \<lparr> rs_root_key = root_key,
                 rs_local_ratchet_key = local_ratchet_key,
                 rs_remote_ratchet_key = Some remote_ratchet_key,
                 rs_sending_chain_key = None,
                 rs_receiving_chain_key = Some receiving_chain_key,
                 rs_previous_chain_length = 0,
                 rs_sent_messages = 0,
                 rs_received_messages = 0,
                 rs_skipped_keys = bt_empty \<rparr>))"

end
