(* ===== verification/Ratchet_Sessions.thy ===== *)
theory Ratchet_Sessions
  imports Ratchet
begin

text \<open>
  What holds of every double ratchet session: its keys have 32 bytes, its skipped-key map is a
  valid ordered map of at most 128 entries, it survives \<^verbatim>\<open>persist\<close> and \<^verbatim>\<open>from_persisted\<close>
  unchanged, and its \<^verbatim>\<open>previous_chain_length\<close> is 0 whenever a header is built from it.
\<close>

section \<open>Well-formed sessions\<close>

definition skipped_wf :: "(skipped_key_id \<times> bytes) list \<Rightarrow> bool" where
  [wf_simps]: "skipped_wf m \<longleftrightarrow> bt_inv m \<and> length m \<le> MAX_SKIPPED_MESSAGE_KEYS \<and>
     (\<forall>(id, key) \<in> set m. length (sk_ratchet_public_key id) = 32 \<and> length key = 32)"

definition session_wf :: "double_ratchet_session \<Rightarrow> bool" where
  [wf_simps]: "session_wf s \<longleftrightarrow>
     length (rs_root_key s) = 32 \<and>
     length (rk_secret_key (rs_local_ratchet_key s)) = 32 \<and>
     length (rk_public_key (rs_local_ratchet_key s)) = 32 \<and>
     (\<forall>k. rs_remote_ratchet_key s = Some k \<longrightarrow> length k = 32) \<and>
     (\<forall>k. rs_sending_chain_key s = Some k \<longrightarrow> length k = 32) \<and>
     (\<forall>k. rs_receiving_chain_key s = Some k \<longrightarrow> length k = 32) \<and>
     skipped_wf (rs_skipped_keys s)"

lemma skipped_wf_empty [simp]: "skipped_wf bt_empty"
  by (simp add: skipped_wf_def bt_empty_def)

lemma skipped_wf_insert:
  assumes "skipped_wf m" "length m < MAX_SKIPPED_MESSAGE_KEYS"
    and "length (sk_ratchet_public_key i) = 32" "length key = 32"
  shows "skipped_wf (bt_insert i key m)"
  using assms set_bt_insert_subset [of i key m] btree.insert_within_cap [of m MAX_SKIPPED_MESSAGE_KEYS i key]
  by (fastforce simp: skipped_wf_def)

lemma skipped_wf_remove: "skipped_wf m \<Longrightarrow> skipped_wf (bt_remove i m)"
  using set_bt_remove_subset [of i m] btree.len_remove_le [of m i]
  by (fastforce simp: skipped_wf_def)

lemma split_64_lengths [dest]:
  "split_64 out = Inr (a, b) \<Longrightarrow> length a = 32 \<and> length b = 32"
  by (auto simp: split_64_def result_simps)

lemma derive_lengths:
  "derive_root_and_chain_key C r d = Inr (a, b) \<Longrightarrow> length a = 32 \<and> length b = 32"
  "derive_chain_key_and_message_key C k = Inr (a, b) \<Longrightarrow> length a = 32 \<and> length b = 32"
  by (auto simp: derive_root_and_chain_key_def derive_chain_key_and_message_key_def result_simps)

lemma split_64_total: "length out = 64 \<Longrightarrow> split_64 out = Inr (take 32 out, drop 32 out)"
  by (simp add: split_64_def ok_or_def try_into_array_def)

lemma derive_total:
  assumes "kdf_laws C"
  shows "\<exists>a b. derive_root_and_chain_key C r d = Inr (a, b)"
    and "\<exists>a b. derive_chain_key_and_message_key C k = Inr (a, b)"
  using hkdf_total [OF assms, of 64 "Some r" d ROOT_INFO] hkdf_total [OF assms, of 64 "Some k" k CHAIN_INFO]
  by (auto simp: derive_root_and_chain_key_def derive_chain_key_and_message_key_def split_64_total)

section \<open>Every operation keeps a session well formed\<close>

text \<open>
  The steps only change a session through six updates; each keeps it well formed when the new
  value has the right length.
\<close>

lemma session_wf_update [simp]:
  "session_wf s \<Longrightarrow> session_wf (s\<lparr>rs_sending_chain_key := None\<rparr>)"
  "session_wf s \<Longrightarrow> session_wf (s\<lparr>rs_receiving_chain_key := None\<rparr>)"
  "session_wf s \<Longrightarrow> length k = 32 \<Longrightarrow> session_wf (s\<lparr>rs_sending_chain_key := Some k\<rparr>)"
  "session_wf s \<Longrightarrow> length k = 32 \<Longrightarrow> session_wf (s\<lparr>rs_receiving_chain_key := Some k\<rparr>)"
  "session_wf (s\<lparr>rs_previous_chain_length := n\<rparr>) \<longleftrightarrow> session_wf s"
  "session_wf (s\<lparr>rs_sent_messages := n\<rparr>) \<longleftrightarrow> session_wf s"
  "session_wf (s\<lparr>rs_received_messages := n\<rparr>) \<longleftrightarrow> session_wf s"
  by (simp_all add: session_wf_def)

lemma wf_take_sending [preserves_intros]: "preserves session_wf take_sending_chain_key"
  and wf_take_receiving [preserves_intros]: "preserves session_wf take_receiving_chain_key"
  by (simp_all add: preserves_def take_sending_chain_key_def take_receiving_chain_key_def
      act_then_run)

lemma take_receiving_run:
  "take_receiving_chain_key s =
     (ok_or MissingChainState (rs_receiving_chain_key s), s\<lparr>rs_receiving_chain_key := None\<rparr>)"
  by (simp add: take_receiving_chain_key_def act_then_run)

lemma take_sending_run:
  "take_sending_chain_key s =
     (ok_or MissingChainState (rs_sending_chain_key s), s\<lparr>rs_sending_chain_key := None\<rparr>)"
  by (simp add: take_sending_chain_key_def act_then_run)

lemma wf_ensure_sending_chain:
  assumes "dh_laws C" "length new_secret = 32"
  shows "preserves session_wf (ensure_sending_chain C new_secret)"
  using assms
  by (intro preservesI)
    (auto simp: ensure_sending_chain_def act_then_run session_wf_def ratchet_key_from_secret_def
      length_x25519_public ok_or_def dest!: derive_lengths split: option.splits sum.splits prod.splits)

lemma wf_apply_remote_ratchet:
  assumes "length remote = 32"
  shows "preserves session_wf (apply_remote_ratchet C remote)"
  using assms
  by (intro preservesI)
    (auto simp: apply_remote_ratchet_def act_then_run session_wf_def dest!: derive_lengths
      split: sum.splits prod.splits)

lemma wf_skip_loop:
  assumes "session_wf s" "length remote = 32"
  shows "session_wf (snd (skip_loop C remote u ck s)) \<and>
    (\<forall>k. length ck = 32 \<longrightarrow> fst (skip_loop C remote u ck s) = Inr k \<longrightarrow> length k = 32)"
  using assms
proof (induction C remote u ck s rule: skip_loop.induct)
  case (1 C remote u ck s)
  show ?case
  proof (cases "rs_received_messages s < u \<and> length (rs_skipped_keys s) < MAX_SKIPPED_MESSAGE_KEYS")
    case True
    show ?thesis
    proof (cases "derive_chain_key_and_message_key C ck")
      case (Inr p)
      then obtain next' mk where p: "derive_chain_key_and_message_key C ck = Inr (next', mk)"
        by (cases p) auto
      have "session_wf (s\<lparr>rs_skipped_keys := bt_insert (SkippedKeyId remote (rs_received_messages s)) mk (rs_skipped_keys s),
                 rs_received_messages := rs_received_messages s + 1\<rparr>)"
        using "1.prems" True derive_lengths(2) [OF p] by (auto simp: session_wf_def intro: skipped_wf_insert)
      with 1 True p derive_lengths(2) [OF p] show ?thesis
        by (subst (1 2) skip_loop.simps) simp
    qed (use "1.prems" in \<open>simp add: skip_loop.simps [of C remote u ck s]\<close>)
  qed (use "1.prems" in \<open>auto simp: skip_loop.simps [of C remote u ck s] split: sum.splits prod.splits\<close>)
qed

lemma wf_skip_message_keys [preserves_intros]: "preserves session_wf (skip_message_keys C u)"
proof (rule preservesI)
  fix s assume wf: "session_wf s"
  have "session_wf (snd (skip_message_keys C u s))"
    if k: "rs_remote_ratchet_key s = Some k" "rs_receiving_chain_key s = Some ck" for k ck
  proof -
    have len: "length k = 32" "length ck = 32" using wf k by (auto simp: session_wf_def)
    have "session_wf (snd (act_then (skip_loop C k u ck)
        (\<lambda>final. act_mod (\<lambda>s. s\<lparr>rs_receiving_chain_key := Some final\<rparr>)) (s\<lparr>rs_receiving_chain_key := None\<rparr>)))"
      using wf len wf_skip_loop [of "s\<lparr>rs_receiving_chain_key := None\<rparr>" k C u ck]
      by (auto simp: act_then_run split: prod.splits sum.splits)
    then show ?thesis
      using wf k by (simp add: skip_message_keys_def act_then_run [of "act_get _"]
          act_then_run [of "act_lift _"] act_then_run [of take_receiving_chain_key] take_receiving_run)
  qed
  then show "session_wf (snd (skip_message_keys C u s))"
    using wf by (cases "rs_remote_ratchet_key s"; cases "rs_receiving_chain_key s")
      (simp_all add: skip_message_keys_def act_then_run take_receiving_run)
qed

lemma wf_try_skipped [preserves_intros]: "preserves session_wf (try_skipped_message_key C h e ad)"
  by (intro preservesI)
    (auto simp: try_skipped_message_key_def act_then_run session_wf_def skipped_wf_remove Let_def
      split: option.splits)

text \<open>Advancing one of the two chains, then going on.\<close>

lemma wf_advance_sending [preserves_intros]:
  assumes "\<And>n mk. preserves session_wf (f n mk)"
  shows "preserves session_wf (act_then (act_lift (derive_chain_key_and_message_key C ck)) (\<lambda>(n, mk).
      act_then (act_mod (\<lambda>s. s\<lparr>rs_sending_chain_key := Some n,
                             rs_sent_messages := rs_sent_messages s + 1\<rparr>)) (\<lambda>_. f n mk)))"
  by (intro preservesI)
    (auto simp: act_then_run dest!: derive_lengths intro!: preservesD [OF assms]
      split: sum.splits prod.splits)

lemma wf_advance_receiving [preserves_intros]:
  assumes "\<And>n mk. preserves session_wf (f n mk)"
  shows "preserves session_wf (act_then (act_lift (derive_chain_key_and_message_key C ck)) (\<lambda>(n, mk).
      act_then (act_mod (\<lambda>s. s\<lparr>rs_receiving_chain_key := Some n,
                             rs_received_messages := rs_received_messages s + 1\<rparr>)) (\<lambda>_. f n mk)))"
  by (intro preservesI)
    (auto simp: act_then_run dest!: derive_lengths intro!: preservesD [OF assms]
      split: sum.splits prod.splits)

lemma wf_encrypt:
  assumes "dh_laws C" "length new_secret = 32"
  shows "preserves session_wf (ratchet_encrypt C new_secret nonce plaintext ad)"
  unfolding ratchet_encrypt_def by (intro preserves_intros wf_ensure_sending_chain assms)

lemma preserves_lift_then:
  assumes "\<And>a. r = Inr a \<Longrightarrow> preserves I (f a)"
  shows "preserves I (act_then (act_lift r) f)"
  by (cases r) (auto simp: preserves_def act_then_run dest: preservesD [OF assms])

lemma parse_ratchet_header_length:
  "parse_ratchet_header C h = Inr p \<Longrightarrow> length (ph_ratchet_public_key p) = 32"
  by (auto simp: parse_ratchet_header_def dr_decode_fixed_base64_def result_simps)

lemma wf_decrypt: "preserves session_wf (ratchet_decrypt C envelope ad)"
  unfolding ratchet_decrypt_def
  by (rule preserves_if, rule preserves_pure, rule preserves_lift_then)
    (intro preserves_intros wf_apply_remote_ratchet; erule parse_ratchet_header_length)

section \<open>Persistence\<close>

lemma dr_decode_encode [simp]:
  "b64_laws C \<Longrightarrow> length bs = n \<Longrightarrow> dr_decode_fixed_base64 C n (b64_encode C bs) = Inr bs"
  by (simp add: dr_decode_fixed_base64_def)

lemma load_persisted_skipped:
  assumes "b64_laws C" and "bt_inv (acc @ m)" and "length (acc @ m) \<le> MAX_SKIPPED_MESSAGE_KEYS"
    and "\<forall>(i, key) \<in> set m. length (sk_ratchet_public_key i) = 32 \<and> length key = 32"
  shows "load_skipped_keys C (map (persist_skipped C) m) acc = Inr (acc @ m)"
  using assms(2-)
proof (induction m arbitrary: acc)
  case (Cons x m)
  obtain i key where x: "x = (i, key)" by (cases x) auto
  have "\<forall>y \<in> set acc. fst y < i" using Cons.prems(1) x by (auto simp: bt_inv_append)
  then have "bt_insert i key acc = acc @ [x]" using x by (simp add: bt_insert_last)
  moreover have "load_skipped_keys C (map (persist_skipped C) m) (acc @ [x]) = Inr ((acc @ [x]) @ m)"
    using Cons.prems by (intro Cons.IH) auto
  moreover have "length acc < MAX_SKIPPED_MESSAGE_KEYS" using Cons.prems(2) by simp
  ultimately show ?case
    using Cons.prems x assms(1) by (simp add: persist_skipped_def)
qed simp

lemma transpose_decode_encode [simp]:
  assumes "b64_laws C" "\<forall>k. x = Some k \<longrightarrow> length k = 32"
  shows "transpose_map (dr_decode_fixed_base64 C 32) (map_option (b64_encode C) x) = Inr x"
  using assms by (cases x) simp_all

lemma persist_round_trip:
  assumes "b64_laws C" "session_wf s"
  shows "from_persisted C (persist C s) = Inr s"
  using assms load_persisted_skipped [of C bt_empty "rs_skipped_keys s"]
  by (simp add: persist_def from_persisted_def session_wf_def skipped_wf_def bt_empty_def)

text \<open>Whatever is loaded is well formed, also when the persisted record was not written by us.\<close>

lemma load_skipped_keys_wf:
  "load_skipped_keys C ps acc = Inr m \<Longrightarrow> skipped_wf acc \<Longrightarrow> skipped_wf m"
proof (induction C ps acc rule: load_skipped_keys.induct)
  case (2 C p ps acc)
  then show ?case
    by (fastforce simp: dr_decode_fixed_base64_def result_simps split: if_splits
        intro!: skipped_wf_insert)
qed simp

lemma transpose_decode_length:
  "transpose_map (dr_decode_fixed_base64 C n) x = Inr y \<Longrightarrow> y = Some k \<Longrightarrow> length k = n"
  by (cases x) (auto simp: dr_decode_fixed_base64_def result_simps)

lemma from_persisted_wf:
  assumes "from_persisted C p = Inr s"
  shows "session_wf s"
  using assms
  by (auto simp: from_persisted_def session_wf_def result_simps dr_decode_fixed_base64_def
      [THEN fun_cong, THEN fun_cong, THEN fun_cong, of C 32] split: if_splits
      intro: load_skipped_keys_wf dest: transpose_decode_length)

section \<open>Reachable sessions\<close>

text \<open>
  The sessions a program can hold: bootstrapped by either side, then changed by any sequence of
  encryptions and decryptions (of arbitrary envelopes, failed ones included), and reloaded.
\<close>

definition handshake_wf :: "initiator_handshake \<Rightarrow> bool" where
  [wf_simps]: "handshake_wf hs \<longleftrightarrow> length (hs_shared_secret hs) = 32 \<and>
     length (hs_sender_ephemeral_secret hs) = 32 \<and> length (mk_receiver_signed_prekey (hs_message_keys hs)) = 32"

definition opened_wf :: "opened_initial_message \<Rightarrow> bool" where
  [wf_simps]: "opened_wf om \<longleftrightarrow> length (om_shared_secret om) = 32 \<and>
     length (mk_sender_ephemeral_key (om_message_keys om)) = 32"

inductive session_reachable :: "crypto \<Rightarrow> double_ratchet_session \<Rightarrow> bool" for C where
  initiator: "handshake_wf hs \<Longrightarrow> bootstrap_initiator_session C hs = Inr s \<Longrightarrow> session_reachable C s"
| responder: "length (spk_secret_key spk) = 32 \<Longrightarrow> opened_wf om \<Longrightarrow>
    bootstrap_responder_session C spk om = Inr s \<Longrightarrow> session_reachable C s"
| encrypted: "session_reachable C s \<Longrightarrow> length new_secret = 32 \<Longrightarrow>
    session_reachable C (snd (ratchet_encrypt C new_secret nonce plaintext ad s))"
| decrypted: "session_reachable C s \<Longrightarrow> session_reachable C (snd (ratchet_decrypt C envelope ad s))"
| reloaded: "session_reachable C s \<Longrightarrow> from_persisted C (persist C s) = Inr t \<Longrightarrow> session_reachable C t"

lemma bootstrap_initiator_Inr:
  assumes "bootstrap_initiator_session C hs = Inr s"
  obtains root ck where
    "derive_root_and_chain_key C (hs_shared_secret hs)
       (x25519_dh C (hs_sender_ephemeral_secret hs) (mk_receiver_signed_prekey (hs_message_keys hs))) = Inr (root, ck)"
    "s = \<lparr> rs_root_key = root,
       rs_local_ratchet_key = ratchet_key_from_secret C (hs_sender_ephemeral_secret hs),
       rs_remote_ratchet_key = Some (mk_receiver_signed_prekey (hs_message_keys hs)),
       rs_sending_chain_key = Some ck, rs_receiving_chain_key = None,
       rs_previous_chain_length = 0, rs_sent_messages = 0, rs_received_messages = 0,
       rs_skipped_keys = bt_empty \<rparr>"
  using assms by (auto simp: bootstrap_initiator_session_def ratchet_key_from_secret_def result_simps Let_def)

lemma bootstrap_responder_Inr:
  assumes "bootstrap_responder_session C spk om = Inr s"
  obtains root ck where
    "x25519_same C (mk_receiver_signed_prekey (om_message_keys om)) (spk_public_key spk)"
    "derive_root_and_chain_key C (om_shared_secret om)
       (x25519_dh C (spk_secret_key spk) (mk_sender_ephemeral_key (om_message_keys om))) = Inr (root, ck)"
    "s = \<lparr> rs_root_key = root,
       rs_local_ratchet_key = ratchet_key_from_secret C (spk_secret_key spk),
       rs_remote_ratchet_key = Some (mk_sender_ephemeral_key (om_message_keys om)),
       rs_sending_chain_key = None, rs_receiving_chain_key = Some ck,
       rs_previous_chain_length = 0, rs_sent_messages = 0, rs_received_messages = 0,
       rs_skipped_keys = bt_empty \<rparr>"
  using assms
  by (auto simp: bootstrap_responder_session_def ratchet_key_from_secret_def result_simps Let_def
      split: if_splits)

lemma reachable_wf:
  assumes "dh_laws C" "session_reachable C s"
  shows "session_wf s"
  using assms(2)
proof (induction rule: session_reachable.induct)
  case (initiator hs s)
  from initiator(2) show ?case
    by (rule bootstrap_initiator_Inr)
      (use initiator(1) assms(1) in \<open>auto simp: session_wf_def handshake_wf_def ratchet_key_from_secret_def
        length_x25519_public dest!: derive_lengths\<close>)
next
  case (responder spk om s)
  from responder(3) show ?case
    by (rule bootstrap_responder_Inr)
      (use responder(1,2) assms(1) in \<open>auto simp: session_wf_def opened_wf_def ratchet_key_from_secret_def
        length_x25519_public dest!: derive_lengths\<close>)
next
  case (encrypted s new_secret nonce plaintext ad)
  then show ?case using preservesD [OF wf_encrypt [OF assms(1)]] by blast
next
  case (decrypted s envelope ad)
  then show ?case using preservesD [OF wf_decrypt] by blast
next
  case (reloaded s t)
  then show ?case using from_persisted_wf by blast
qed

section \<open>The previous chain length\<close>

text \<open>
  \<^verbatim>\<open>apply_remote_ratchet\<close> clears \<^verbatim>\<open>sent_messages\<close>, and \<^verbatim>\<open>ensure_sending_chain\<close> then reads it to
  set \<^verbatim>\<open>previous_chain_length\<close>: the counter is gone before it is recorded.
\<close>

definition header_zero :: "double_ratchet_session \<Rightarrow> bool" where
  "header_zero s \<longleftrightarrow> (rs_sending_chain_key s = None \<longrightarrow> rs_sent_messages s = 0) \<and>
     (rs_sending_chain_key s \<noteq> None \<longrightarrow> rs_previous_chain_length s = 0)"

lemma derive_never_fails:
  assumes "kdf_laws C"
  shows "derive_root_and_chain_key C r d \<noteq> Inl e" "derive_chain_key_and_message_key C k \<noteq> Inl e"
  using derive_total [OF assms] by (metis sum.distinct(1))+

lemma ensure_sending_chain_run:
  assumes "kdf_laws C" "header_zero s"
  shows "(\<exists>t ck. ensure_sending_chain C sec s = (Inr (), t) \<and> rs_sending_chain_key t = Some ck \<and>
            rs_previous_chain_length t = 0) \<or>
         ensure_sending_chain C sec s = (Inl MissingChainState, s)"
proof (cases "rs_sending_chain_key s")
  case None
  then show ?thesis
    using assms(2) derive_never_fails(1) [OF assms(1)]
    by (cases "rs_remote_ratchet_key s")
      (auto simp: ensure_sending_chain_def act_then_run header_zero_def split: sum.splits)
next
  case (Some ck)
  then show ?thesis
    using assms(2) by (auto simp: ensure_sending_chain_def act_then_run header_zero_def)
qed

lemma encrypt_header_zero:
  assumes "kdf_laws C" "header_zero s"
  shows "header_zero (snd (ratchet_encrypt C sec nonce pt ad s)) \<and>
    (\<forall>env. fst (ratchet_encrypt C sec nonce pt ad s) = Inr env \<longrightarrow>
       rh_previous_chain_length (rm_header env) = 0)"
  using ensure_sending_chain_run [OF assms, of sec] assms(2) derive_never_fails(2) [OF assms(1)]
  by (auto simp: ratchet_encrypt_def act_then_run take_sending_run header_zero_def
      ok_or_def split: sum.splits option.splits)

lemma header_zero_update [simp]:
  "header_zero (s\<lparr>rs_receiving_chain_key := k\<rparr>) = header_zero s"
  "header_zero (s\<lparr>rs_received_messages := n\<rparr>) = header_zero s"
  "header_zero (s\<lparr>rs_skipped_keys := m\<rparr>) = header_zero s"
  by (simp_all add: header_zero_def)

lemma skip_loop_header_zero:
  "header_zero s \<Longrightarrow> header_zero (snd (skip_loop C remote u ck s))"
proof (induction C remote u ck s rule: skip_loop.induct)
  case (1 C remote u ck s)
  then show ?case
    by (auto simp: skip_loop.simps [of C remote u ck s] split: sum.splits prod.splits)
qed

lemma hz_take_receiving [preserves_intros]: "preserves header_zero take_receiving_chain_key"
  by (simp add: preserves_def take_receiving_run)

lemma hz_skip [preserves_intros]:
  "preserves header_zero (skip_loop C r u ck)"
  "preserves header_zero (act_mod (\<lambda>s. s\<lparr>rs_receiving_chain_key := k\<rparr>))"
  by (simp_all add: preserves_def skip_loop_header_zero)

lemma hz_skip_message_keys [preserves_intros]: "preserves header_zero (skip_message_keys C u)"
  unfolding skip_message_keys_def by (intro preserves_intros)

lemma hz_try_skipped [preserves_intros]: "preserves header_zero (try_skipped_message_key C h e ad)"
  by (intro preservesI) (auto simp: try_skipped_message_key_def act_then_run Let_def split: option.splits)

lemma hz_apply_remote:
  assumes "kdf_laws C"
  shows "preserves header_zero (apply_remote_ratchet C remote)"
  by (intro preservesI)
    (auto simp: apply_remote_ratchet_def act_then_run header_zero_def derive_never_fails [OF assms]
      split: sum.splits)

lemma hz_advance_receiving [preserves_intros]:
  assumes "\<And>n mk. preserves header_zero (f n mk)"
  shows "preserves header_zero (act_then (act_lift (derive_chain_key_and_message_key C ck)) (\<lambda>(n, mk).
      act_then (act_mod (\<lambda>s. s\<lparr>rs_receiving_chain_key := Some n,
                             rs_received_messages := rs_received_messages s + 1\<rparr>)) (\<lambda>_. f n mk)))"
  by (intro preservesI)
    (auto simp: act_then_run intro!: preservesD [OF assms] split: sum.splits prod.splits)

lemma hz_decrypt:
  assumes "kdf_laws C"
  shows "preserves header_zero (ratchet_decrypt C envelope ad)"
  unfolding ratchet_decrypt_def
  by (intro preserves_intros hz_apply_remote assms)

lemma reachable_header_zero:
  assumes laws: "kdf_laws C" "b64_laws C" "dh_laws C" and "session_reachable C s"
  shows "header_zero s"
  using assms(4)
proof (induction rule: session_reachable.induct)
  case (initiator hs s)
  from initiator(2) show ?case by (rule bootstrap_initiator_Inr) (simp add: header_zero_def)
next
  case (responder spk om s)
  from responder(3) show ?case by (rule bootstrap_responder_Inr) (simp add: header_zero_def)
next
  case (encrypted s new_secret nonce plaintext ad)
  then show ?case using encrypt_header_zero [OF laws(1)] by blast
next
  case (decrypted s envelope ad)
  then show ?case using preservesD [OF hz_decrypt [OF laws(1)]] by blast
next
  case (reloaded s t)
  have "from_persisted C (persist C s) = Inr s"
    using persist_round_trip [OF laws(2) reachable_wf [OF laws(3) reloaded(1)]] .
  with reloaded show ?case by simp
qed

section \<open>When operations succeed\<close>

lemma bootstrap_initiator_total:
  assumes "kdf_laws C"
  shows "\<exists>s. bootstrap_initiator_session C hs = Inr s"
proof -
  let ?dh = "x25519_dh C (hs_sender_ephemeral_secret hs) (mk_receiver_signed_prekey (hs_message_keys hs))"
  obtain a b where "derive_root_and_chain_key C (hs_shared_secret hs) ?dh = Inr (a, b)"
    using derive_total(1) [OF assms] by blast
  then show ?thesis
    by (simp add: bootstrap_initiator_session_def Let_def ratchet_key_from_secret_def)
qed

text \<open>What \<^verbatim>\<open>encrypt\<close> does on an established sending chain.\<close>

definition next_header :: "crypto \<Rightarrow> double_ratchet_session \<Rightarrow> ratchet_header" where
  "next_header C s =
     \<lparr> rh_ratchet_public_key_b64 = b64_encode C (rk_public_key (rs_local_ratchet_key s)),
       rh_previous_chain_length = rs_previous_chain_length s,
       rh_message_number = rs_sent_messages s \<rparr>"

lemma encrypt_on_chain:
  assumes "plaintext \<noteq> []" "rs_sending_chain_key s = Some ck"
    and "derive_chain_key_and_message_key C ck = Inr (ck', mk)"
    and "aead_encrypt C mk nonce (build_ratchet_aad (next_header C s) ad) plaintext = Some c"
  shows "ratchet_encrypt C sec nonce plaintext ad s =
     (Inr \<lparr> rm_version = DOUBLE_RATCHET_VERSION, rm_header = next_header C s,
            rm_nonce_b64 = b64_encode C nonce, rm_ciphertext_b64 = b64_encode C c \<rparr>,
      s\<lparr>rs_sending_chain_key := Some ck', rs_sent_messages := rs_sent_messages s + 1\<rparr>)"
  using assms
  by (simp add: ratchet_encrypt_def ensure_sending_chain_def take_sending_chain_key_def act_then_run
      next_header_def)

lemma encrypt_total:
  assumes "kdf_laws C" "aead_laws C" "rs_sending_chain_key s = Some ck" "plaintext \<noteq> []"
    and "length plaintext < 274877906880"
  shows "\<exists>envelope t. ratchet_encrypt C sec nonce plaintext ad s = (Inr envelope, t)"
proof -
  obtain ck' mk where d: "derive_chain_key_and_message_key C ck = Inr (ck', mk)"
    using derive_total(2) [OF assms(1)] by blast
  obtain c where "aead_encrypt C mk nonce (build_ratchet_aad (next_header C s) ad) plaintext = Some c"
    using aead_encrypt_total [OF assms(2,5)] by blast
  from encrypt_on_chain [OF assms(4,3) d this] show ?thesis by blast
qed

section \<open>Properties\<close>

text \<open>C4: Every session a program can hold, after any sequence of encryptions, decryptions of arbitrary
  envelopes (failed ones included) and reloads, is well formed: keys have 32 bytes and the skipped-key
  map is sorted with at most 128 entries.\<close>

theorem ratchet_session_bounded:
  assumes "dh_laws C" and "session_reachable C s"
  shows "session_wf s \<and> length (rs_skipped_keys s) \<le> 128"
  using reachable_wf [OF assms] by (simp add: session_wf_def skipped_wf_def MAX_SKIPPED_MESSAGE_KEYS_def)

definition demo_handshake :: initiator_handshake where
  "demo_handshake =
     \<lparr> hs_message_keys =
         \<lparr> mk_sender_identity = \<lparr> ip_signing_key = replicate 32 1, ip_exchange_key = replicate 32 2 \<rparr>,
           mk_sender_ephemeral_key = x25519_public ref_crypto (replicate 32 3),
           mk_receiver_signed_prekey = x25519_public ref_crypto (replicate 32 4),
           mk_receiver_one_time_prekey = None \<rparr>,
       hs_shared_secret = replicate 32 5,
       hs_sender_ephemeral_secret = replicate 32 3 \<rparr>"

lemma demo_initiator: "\<exists>s. bootstrap_initiator_session ref_crypto demo_handshake = Inr s \<and>
   session_reachable ref_crypto s"
proof -
  obtain s where s: "bootstrap_initiator_session ref_crypto demo_handshake = Inr s"
    using bootstrap_initiator_total [OF ref_kdf_laws] by blast
  have "handshake_wf demo_handshake"
    by (simp add: handshake_wf_def demo_handshake_def length_x25519_public)
  then show ?thesis using s session_reachable.initiator by blast
qed

theorem ratchet_session_bounded_witness:
  "\<exists>s. session_reachable ref_crypto s \<and> length (rs_skipped_keys s) \<le> 128"
  using demo_initiator ratchet_session_bounded [OF ref_dh_laws] by blast

text \<open>C9: Saving and loading a session loses nothing: the persisted form of any reachable session loads
  back as that very session, skipped keys and counters included.\<close>

theorem ratchet_persist_round_trip:
  assumes "b64_laws C" and "dh_laws C" and "session_reachable C s"
  shows "from_persisted C (persist C s) = Inr s"
  using persist_round_trip [OF assms(1) reachable_wf [OF assms(2,3)]] .

theorem ratchet_persist_round_trip_witness:
  "\<exists>s. session_reachable ref_crypto s \<and> from_persisted ref_crypto (persist ref_crypto s) = Inr s"
  using demo_initiator ratchet_persist_round_trip [OF ref_b64_laws ref_dh_laws] by blast

text \<open>C11: Every message header a reachable session produces carries the previous chain length 0,
  however many messages the previous sending chain had.  (So a receiver never stores the keys of the
  messages of an old chain that are still in flight.)\<close>

theorem ratchet_previous_chain_length_zero:
  assumes "kdf_laws C" and "b64_laws C" and "dh_laws C" and "session_reachable C s"
    and "ratchet_encrypt C sec nonce plaintext ad s = (Inr envelope, t)"
  shows "rh_previous_chain_length (rm_header envelope) = 0"
  using encrypt_header_zero [OF assms(1) reachable_header_zero [OF assms(1-4)],
      of sec nonce plaintext ad] assms(5) by simp

theorem ratchet_previous_chain_length_zero_witness:
  "\<exists>s envelope t. session_reachable ref_crypto s \<and>
     ratchet_encrypt ref_crypto (replicate 32 6) (replicate 24 7) [1] [] s = (Inr envelope, t) \<and>
     rh_previous_chain_length (rm_header envelope) = 0"
proof -
  obtain s where s: "session_reachable ref_crypto s" "bootstrap_initiator_session ref_crypto demo_handshake = Inr s"
    using demo_initiator by blast
  from s(2) obtain ck where "rs_sending_chain_key s = Some ck" by (rule bootstrap_initiator_Inr) simp
  then obtain envelope t where e: "ratchet_encrypt ref_crypto (replicate 32 6) (replicate 24 7) [1] [] s = (Inr envelope, t)"
    using encrypt_total [OF ref_kdf_laws ref_aead_laws, of s ck "[1]" "replicate 32 6" "replicate 24 7" "[]"]
    by auto
  with s(1) ratchet_previous_chain_length_zero [OF ref_kdf_laws ref_b64_laws ref_dh_laws s(1) e]
  show ?thesis by blast
qed
end
