(* ===== verification/Ratchet_Delivery.thy ===== *)
theory Ratchet_Delivery
  imports Ratchet_Sessions
begin

text \<open>
  Two double ratchet sessions talking to each other.  \<open>receiving_on\<close> relates a receiver to the chain
  its peer sends on; \<open>deliver\<close> is the step lemma for one message, in or out of order; \<open>synced\<close>
  relates the two sessions between batches of messages, and \<open>converse\<close> runs a whole conversation.
\<close>

section \<open>The symmetric chain\<close>

definition next_chain :: "crypto \<Rightarrow> bytes \<Rightarrow> bytes" where
  "next_chain C ck = (case derive_chain_key_and_message_key C ck of Inr (n, _) \<Rightarrow> n | Inl _ \<Rightarrow> [])"

definition chain_message_key :: "crypto \<Rightarrow> bytes \<Rightarrow> bytes" where
  "chain_message_key C ck = (case derive_chain_key_and_message_key C ck of Inr (_, mk) \<Rightarrow> mk | Inl _ \<Rightarrow> [])"

fun chain_at :: "crypto \<Rightarrow> bytes \<Rightarrow> nat \<Rightarrow> bytes" where
  "chain_at C ck 0 = ck"
| "chain_at C ck (Suc n) = next_chain C (chain_at C ck n)"

definition message_key_at :: "crypto \<Rightarrow> bytes \<Rightarrow> nat \<Rightarrow> bytes" where
  "message_key_at C ck n = chain_message_key C (chain_at C ck n)"

lemma derive_chain_eq:
  assumes "kdf_laws C"
  shows "derive_chain_key_and_message_key C ck = Inr (next_chain C ck, chain_message_key C ck)"
  using derive_total(2) [OF assms, of ck] by (auto simp: next_chain_def chain_message_key_def)

lemma derive_chain_at:
  "kdf_laws C \<Longrightarrow> derive_chain_key_and_message_key C (chain_at C ck n) =
     Inr (chain_at C ck (Suc n), message_key_at C ck n)"
  by (simp add: derive_chain_eq message_key_at_def)

text \<open>The keys that a receiver of the chain \<open>ck\<close>, whose first message has number \<open>base\<close>, puts aside
  when it moves over the next \<open>n\<close> messages, starting with number \<open>lo\<close>.\<close>

fun put_aside :: "crypto \<Rightarrow> bytes \<Rightarrow> bytes \<Rightarrow> nat \<Rightarrow> nat \<Rightarrow> nat \<Rightarrow>
    (skipped_key_id \<times> bytes) list \<Rightarrow> (skipped_key_id \<times> bytes) list" where
  "put_aside C K ck base lo 0 m = m"
| "put_aside C K ck base lo (Suc n) m =
     put_aside C K ck base (Suc lo) n
       (bt_insert (SkippedKeyId K (of_nat lo)) (message_key_at C ck (lo - base)) m)"

lemma bt_inv_put_aside [simp]: "bt_inv m \<Longrightarrow> bt_inv (put_aside C K ck base lo n m)"
  by (induction n arbitrary: lo m) simp_all

lemma length_put_aside:
  "bt_inv m \<Longrightarrow> length (put_aside C K ck base lo n m) \<le> length m + n"
proof (induction n arbitrary: lo m)
  case (Suc n)
  show ?case
    using Suc.IH [of "bt_insert (SkippedKeyId K (of_nat lo)) (message_key_at C ck (lo - base)) m" "Suc lo"]
      btree.len_insert_le [OF Suc.prems, of "SkippedKeyId K (of_nat lo)" "message_key_at C ck (lo - base)"]
      Suc.prems by simp
qed simp

lemma get_put_aside:
  assumes "lo + n \<le> 2 ^ 32"
  shows "bt_get i (put_aside C K ck base lo n m) =
     (if sk_ratchet_public_key i = K \<and> lo \<le> unat (sk_message_number i) \<and>
         unat (sk_message_number i) < lo + n
      then Some (message_key_at C ck (unat (sk_message_number i) - base)) else bt_get i m)"
  using assms
proof (induction n arbitrary: lo m)
  case (Suc n)
  have lo: "unat (of_nat lo :: u32) = lo" using Suc.prems by (simp add: unat_of_nat take_bit_eq_mod)
  have "i = SkippedKeyId K (of_nat lo) \<longleftrightarrow>
        sk_ratchet_public_key i = K \<and> unat (sk_message_number i) = lo"
    using lo by (cases i) (auto simp: word_unat_eq_iff)
  then show ?case
    using Suc.IH [of "Suc lo"] Suc.prems by (auto simp: bt_get_insert)
qed auto

lemma skip_loop_run:
  assumes "kdf_laws C" "bt_inv (rs_skipped_keys s)"
    and "rs_received_messages s \<le> until_number"
    and "base \<le> unat (rs_received_messages s)"
    and "length (rs_skipped_keys s) + (unat until_number - unat (rs_received_messages s)) \<le> MAX_SKIPPED_MESSAGE_KEYS"
  shows "skip_loop C K until_number (chain_at C ck (unat (rs_received_messages s) - base)) s =
     (Inr (chain_at C ck (unat until_number - base)),
      s\<lparr>rs_skipped_keys := put_aside C K ck base (unat (rs_received_messages s))
           (unat until_number - unat (rs_received_messages s)) (rs_skipped_keys s),
        rs_received_messages := until_number\<rparr>)"
  using assms(2-)
proof (induction "unat until_number - unat (rs_received_messages s)" arbitrary: s)
  case 0
  then have "rs_received_messages s = until_number"
    by (simp add: word_le_nat_alt word_unat_eq_iff)
  then show ?case by (simp add: skip_loop.simps [of _ _ _ _ s])
next
  case (Suc n)
  let ?r = "rs_received_messages s"
  have lt: "?r < until_number" using Suc.hyps(2) by (simp add: word_less_nat_alt)
  have next': "unat (?r + 1) = Suc (unat ?r)" by (rule unat_plus_one_below [OF lt])
  let ?t = "s\<lparr>rs_skipped_keys := bt_insert (SkippedKeyId K ?r)
       (message_key_at C ck (unat ?r - base)) (rs_skipped_keys s), rs_received_messages := ?r + 1\<rparr>"
  have n: "n = unat until_number - unat (rs_received_messages ?t)" using Suc.hyps(2) next' by simp
  have len: "length (rs_skipped_keys ?t) \<le> Suc (length (rs_skipped_keys s))"
    using btree.len_insert_le [OF Suc.prems(1)] by simp
  have IH: "skip_loop C K until_number (chain_at C ck (unat (rs_received_messages ?t) - base)) ?t =
     (Inr (chain_at C ck (unat until_number - base)),
      ?t\<lparr>rs_skipped_keys := put_aside C K ck base (unat (rs_received_messages ?t)) n (rs_skipped_keys ?t),
        rs_received_messages := until_number\<rparr>)"
    unfolding n
  proof (rule Suc.hyps(1) [OF n])
    show "rs_received_messages ?t \<le> until_number" using lt next' by (simp add: word_le_nat_alt word_less_nat_alt)
    show "length (rs_skipped_keys ?t) + (unat until_number - unat (rs_received_messages ?t)) \<le> MAX_SKIPPED_MESSAGE_KEYS"
      using len Suc.prems(4) Suc.hyps(2) next' by simp
  qed (use Suc.prems next' in simp_all)
  have room: "\<not> MAX_SKIPPED_MESSAGE_KEYS \<le> length (rs_skipped_keys s)"
    using Suc.prems(4) Suc.hyps(2) by linarith
  have idx: "Suc (unat ?r) - base = Suc (unat ?r - base)" using Suc.prems(3) by simp
  show ?case
    using IH lt room next' Suc.hyps(2) [symmetric] idx
    by (subst skip_loop.simps) (simp add: derive_chain_at [OF assms(1)] del: chain_at.simps)
qed

lemma skip_message_keys_run:
  assumes "kdf_laws C" "bt_inv (rs_skipped_keys s)"
    and "rs_remote_ratchet_key s = Some K"
    and "rs_receiving_chain_key s = Some (chain_at C ck (unat (rs_received_messages s) - base))"
    and "rs_received_messages s \<le> until_number" "base \<le> unat (rs_received_messages s)"
    and "length (rs_skipped_keys s) + (unat until_number - unat (rs_received_messages s)) \<le> MAX_SKIPPED_MESSAGE_KEYS"
  shows "skip_message_keys C until_number s =
     (Inr (), s\<lparr>rs_receiving_chain_key := Some (chain_at C ck (unat until_number - base)),
        rs_received_messages := until_number,
        rs_skipped_keys := put_aside C K ck base (unat (rs_received_messages s))
           (unat until_number - unat (rs_received_messages s)) (rs_skipped_keys s)\<rparr>)"
proof (cases "rs_received_messages s = until_number")
  case True
  then show ?thesis
    using assms(4) by (simp add: skip_message_keys_def act_then_run flip: True)
next
  case False
  with assms(5) have lt: "rs_received_messages s < until_number" by simp
  then have "unat (until_number - rs_received_messages s) = unat until_number - unat (rs_received_messages s)"
    by (simp add: unat_sub word_less_nat_alt word_le_nat_alt)
  then have "\<not> MAX_SKIPPED_MESSAGE_KEYS < unat (until_number - rs_received_messages s)"
    using assms(7) by simp
  then show ?thesis
    using skip_loop_run [OF assms(1), of "s\<lparr>rs_receiving_chain_key := None\<rparr>" until_number base K ck] assms lt False
    by (simp add: skip_message_keys_def act_then_run take_receiving_run)
qed

section \<open>Delivering one message\<close>

definition receiving_on ::
    "crypto \<Rightarrow> bytes \<Rightarrow> bytes \<Rightarrow> nat \<Rightarrow> nat set \<Rightarrow> double_ratchet_session \<Rightarrow> bool" where
  "receiving_on C K ck base D s \<longleftrightarrow>
     rs_remote_ratchet_key s = Some K \<and> x25519_same C K K \<and>
     base \<le> unat (rs_received_messages s) \<and>
     rs_receiving_chain_key s = Some (chain_at C ck (unat (rs_received_messages s) - base)) \<and>
     bt_inv (rs_skipped_keys s) \<and>
     length (rs_skipped_keys s) \<le> unat (rs_received_messages s) - base \<and>
     D \<subseteq> {base..<unat (rs_received_messages s)} \<and>
     (\<forall>i. bt_get i (rs_skipped_keys s) =
        (if sk_ratchet_public_key i = K \<and> base \<le> unat (sk_message_number i) \<and>
            unat (sk_message_number i) < unat (rs_received_messages s) \<and> unat (sk_message_number i) \<notin> D
         then Some (message_key_at C ck (unat (sk_message_number i) - base)) else None))"

definition message_header :: "crypto \<Rightarrow> bytes \<Rightarrow> nat \<Rightarrow> ratchet_header" where
  "message_header C K i =
     \<lparr> rh_ratchet_public_key_b64 = b64_encode C K, rh_previous_chain_length = 0,
       rh_message_number = of_nat i \<rparr>"

text \<open>\<open>env\<close> is message number \<open>i\<close> of the chain \<open>ck\<close> with ratchet key \<open>K\<close>, carrying \<open>pt\<close>.\<close>

definition message_on ::
    "crypto \<Rightarrow> bytes \<Rightarrow> bytes \<Rightarrow> nat \<Rightarrow> nat \<Rightarrow> bytes \<Rightarrow> bytes \<Rightarrow> ratchet_message_envelope \<Rightarrow> bool" where
  "message_on C K ck base i ad pt env \<longleftrightarrow>
     length K = 32 \<and> base \<le> i \<and> i < 2 ^ 32 - 1 \<and>
     (\<exists>nonce c. length nonce = 24 \<and>
        aead_encrypt C (message_key_at C ck (i - base)) nonce
          (build_ratchet_aad (message_header C K i) ad) pt = Some c \<and>
        env = \<lparr> rm_version = DOUBLE_RATCHET_VERSION, rm_header = message_header C K i,
                rm_nonce_b64 = b64_encode C nonce, rm_ciphertext_b64 = b64_encode C c \<rparr>)"

lemma message_on_env:
  assumes "b64_laws C" "message_on C K ck base i ad pt env"
  shows "rm_version env = DOUBLE_RATCHET_VERSION"
    and "parse_ratchet_header C (rm_header env) =
      Inr \<lparr> ph_ratchet_public_key = K, ph_previous_chain_length = 0, ph_message_number = of_nat i \<rparr>"
    and "unat (of_nat i :: u32) = i" "unat (of_nat i + 1 :: u32) = Suc i"
proof -
  have "i < 2 ^ 32 - 1" using assms(2) by (simp add: message_on_def)
  then show "unat (of_nat i :: u32) = i" "unat (of_nat i + 1 :: u32) = Suc i"
    by (simp_all add: unat_of_nat take_bit_eq_mod unat_word_ariths)
qed (use assms in \<open>auto simp: message_on_def message_header_def parse_ratchet_header_def\<close>)

lemma decrypt_message_on:
  assumes "b64_laws C" "aead_laws C" "message_on C K ck base i ad pt env"
  shows "decrypt_ratchet_message C (message_key_at C ck (i - base))
     \<lparr> ph_ratchet_public_key = K, ph_previous_chain_length = 0, ph_message_number = of_nat i \<rparr> env ad = Inr pt"
proof -
  from assms(3) obtain nonce c where env: "length nonce = 24"
      "aead_encrypt C (message_key_at C ck (i - base)) nonce
          (build_ratchet_aad (message_header C K i) ad) pt = Some c"
      "env = \<lparr> rm_version = DOUBLE_RATCHET_VERSION, rm_header = message_header C K i,
                rm_nonce_b64 = b64_encode C nonce, rm_ciphertext_b64 = b64_encode C c \<rparr>"
    by (auto simp: message_on_def)
  have "c \<noteq> []" using aead_encrypt_length [OF assms(2) env(2)] by auto
  then show ?thesis
    using env aead_decrypt_encrypt [OF assms(2) env(2)]
    by (simp add: decrypt_ratchet_message_def assms(1) b64_decode_encode parsed_to_header_def
        message_header_def Let_def)
qed

lemma try_skipped_run:
  "try_skipped_message_key C h env ad s =
     ((case bt_get (SkippedKeyId (ph_ratchet_public_key h) (ph_message_number h)) (rs_skipped_keys s) of
         Some mk \<Rightarrow> and_then (decrypt_ratchet_message C mk h env ad) (\<lambda>p. Inr (Some p))
       | None \<Rightarrow> Inr None),
      s\<lparr>rs_skipped_keys := bt_remove (SkippedKeyId (ph_ratchet_public_key h) (ph_message_number h))
          (rs_skipped_keys s)\<rparr>)"
  by (simp add: try_skipped_message_key_def act_then_run Let_def split: option.splits)

lemma bt_remove_absent: "bt_get k m = None \<Longrightarrow> bt_remove k m = m"
  by (induction k m rule: bt_remove.induct) (auto split: if_splits)

lemma deliver_skipped:
  assumes laws: "b64_laws C" "aead_laws C" and r: "receiving_on C K ck base D s"
    and m: "message_on C K ck base i ad pt env"
    and i: "i \<notin> D" "i < unat (rs_received_messages s)"
  shows "\<exists>sk. ratchet_decrypt C env ad s = (Inr pt, s\<lparr>rs_skipped_keys := sk\<rparr>) \<and>
     receiving_on C K ck base (insert i D) (s\<lparr>rs_skipped_keys := sk\<rparr>)"
proof -
  note e = message_on_env [OF laws(1) m]
  let ?k = "SkippedKeyId K (of_nat i)" and ?m = "rs_skipped_keys s"
  have base: "base \<le> i" using m by (simp add: message_on_def)
  have found: "bt_get ?k ?m = Some (message_key_at C ck (i - base))"
    using r i base e(3) by (simp add: receiving_on_def)
  have key: "j = ?k \<longleftrightarrow> sk_ratchet_public_key j = K \<and> unat (sk_message_number j) = i" for j
    using e(3) by (cases j) (auto simp: word_unat_eq_iff)
  have inv: "bt_inv ?m" using r by (simp add: receiving_on_def)
  have "receiving_on C K ck base (insert i D) (s\<lparr>rs_skipped_keys := bt_remove ?k ?m\<rparr>)"
    using r i base btree.len_remove_le [OF inv, of ?k]
    by (auto simp: receiving_on_def bt_get_remove key)
  moreover have "ratchet_decrypt C env ad s = (Inr pt, s\<lparr>rs_skipped_keys := bt_remove ?k ?m\<rparr>)"
    using e found decrypt_message_on [OF laws m]
    by (simp add: ratchet_decrypt_def act_then_run try_skipped_run)
  ultimately show ?thesis by blast
qed

lemma deliver_ahead:
  assumes laws: "b64_laws C" "aead_laws C" "kdf_laws C" and r: "receiving_on C K ck base D s"
    and m: "message_on C K ck base i ad pt env"
    and i: "unat (rs_received_messages s) \<le> i" "i - base \<le> MAX_SKIPPED_MESSAGE_KEYS"
  shows "\<exists>sk. ratchet_decrypt C env ad s =
       (Inr pt, s\<lparr>rs_receiving_chain_key := Some (chain_at C ck (Suc i - base)),
          rs_received_messages := of_nat i + 1, rs_skipped_keys := sk\<rparr>) \<and>
     receiving_on C K ck base (insert i D) (s\<lparr>rs_receiving_chain_key := Some (chain_at C ck (Suc i - base)),
          rs_received_messages := of_nat i + 1, rs_skipped_keys := sk\<rparr>)"
proof -
  note e = message_on_env [OF laws(1) m]
  let ?k = "SkippedKeyId K (of_nat i)" and ?m = "rs_skipped_keys s" and ?r = "unat (rs_received_messages s)"
  let ?sk = "put_aside C K ck base ?r (i - ?r) ?m"
  have rel: "base \<le> ?r" "bt_inv ?m" "rs_remote_ratchet_key s = Some K" "length ?m \<le> ?r - base"
    "rs_receiving_chain_key s = Some (chain_at C ck (?r - base))"
    using r by (simp_all add: receiving_on_def)
  have bounds: "i < 2 ^ 32 - 1" using m by (simp add: message_on_def)
  have absent: "bt_get ?k ?m = None" using r i(1) e(3) by (simp add: receiving_on_def)
  have skip: "skip_message_keys C (of_nat i) s =
     (Inr (), s\<lparr>rs_receiving_chain_key := Some (chain_at C ck (i - base)),
        rs_received_messages := of_nat i, rs_skipped_keys := ?sk\<rparr>)"
    using skip_message_keys_run [OF laws(3) rel(2,3,5), of "of_nat i"] rel i e(3)
    by (simp add: word_le_nat_alt)
  have idx: "Suc i - base = Suc (i - base)" using rel(1) i(1) by simp
  have "ratchet_decrypt C env ad s = (Inr pt, s\<lparr>rs_receiving_chain_key := Some (chain_at C ck (Suc i - base)),
          rs_received_messages := of_nat i + 1, rs_skipped_keys := ?sk\<rparr>)"
    using e(1,2) absent rel(3) skip decrypt_message_on [OF laws(1,2) m] r derive_chain_at [OF laws(3), of ck "i - base"]
    by (simp add: ratchet_decrypt_def act_then_run try_skipped_run bt_remove_absent take_receiving_run
        receiving_on_def remote_is_def idx del: chain_at.simps)
  moreover have "receiving_on C K ck base (insert i D)
     (s\<lparr>rs_receiving_chain_key := Some (chain_at C ck (Suc i - base)),
          rs_received_messages := of_nat i + 1, rs_skipped_keys := ?sk\<rparr>)"
    using r i bounds rel length_put_aside [OF rel(2), of C K ck base ?r "i - ?r"]
    by (auto simp: receiving_on_def e(4) get_put_aside)
  ultimately show ?thesis by blast
qed
text \<open>Receiving leaves the sending half of a session alone.\<close>

definition same_sending :: "double_ratchet_session \<Rightarrow> double_ratchet_session \<Rightarrow> bool" where
  "same_sending s t \<longleftrightarrow> rs_root_key t = rs_root_key s \<and> rs_local_ratchet_key t = rs_local_ratchet_key s \<and>
     rs_sending_chain_key t = rs_sending_chain_key s \<and> rs_sent_messages t = rs_sent_messages s \<and>
     rs_previous_chain_length t = rs_previous_chain_length s"

lemma deliver:
  assumes laws: "b64_laws C" "aead_laws C" "kdf_laws C" and r: "receiving_on C K ck base D s"
    and m: "message_on C K ck base i ad pt env"
    and i: "i \<notin> D" "i - base \<le> MAX_SKIPPED_MESSAGE_KEYS"
  shows "\<exists>t. ratchet_decrypt C env ad s = (Inr pt, t) \<and> receiving_on C K ck base (insert i D) t \<and>
     same_sending s t \<and> unat (rs_received_messages t) = max (unat (rs_received_messages s)) (Suc i)"
proof (cases "i < unat (rs_received_messages s)")
  case True
  from deliver_skipped [OF laws(1,2) r m i(1) True] show ?thesis
    using True by (force simp: same_sending_def)
next
  case False
  then have "unat (rs_received_messages s) \<le> i" by simp
  from deliver_ahead [OF laws r m this i(2)] show ?thesis
    using False message_on_env(4) [OF laws(1) m] by (force simp: same_sending_def)
qed

section \<open>Batches of messages\<close>

fun encrypt_all :: "crypto \<Rightarrow> bytes \<Rightarrow> bytes \<Rightarrow> (bytes \<times> bytes) list \<Rightarrow>
    ratchet_message_envelope list ratchet_action" where
  "encrypt_all C sec ad [] = act_ok []"
| "encrypt_all C sec ad ((nonce, pt) # msgs) =
     act_then (ratchet_encrypt C sec nonce pt ad) (\<lambda>env.
     act_then (encrypt_all C sec ad msgs) (\<lambda>envs. act_ok (env # envs)))"

fun decrypt_all :: "crypto \<Rightarrow> bytes \<Rightarrow> ratchet_message_envelope list \<Rightarrow> bytes list ratchet_action" where
  "decrypt_all C ad [] = act_ok []"
| "decrypt_all C ad (env # envs) =
     act_then (ratchet_decrypt C env ad) (\<lambda>pt.
     act_then (decrypt_all C ad envs) (\<lambda>pts. act_ok (pt # pts)))"

definition sendable :: "bytes \<times> bytes \<Rightarrow> bool" where
  "sendable m \<longleftrightarrow> length (fst m) = 24 \<and> snd m \<noteq> [] \<and> length (snd m) < 274877906880"

lemma encrypt_all_on_chain:
  assumes laws: "kdf_laws C" "aead_laws C"
    and "rs_sending_chain_key s = Some (chain_at C ck (n - base))" "rs_sent_messages s = of_nat n"
    and "rs_previous_chain_length s = 0" "rk_public_key (rs_local_ratchet_key s) = K" "length K = 32"
    and "base \<le> n" "n + length msgs \<le> 2 ^ 32 - 1" "\<forall>m \<in> set msgs. sendable m"
  shows "\<exists>envs. encrypt_all C sec ad msgs s = (Inr envs,
       s\<lparr>rs_sending_chain_key := Some (chain_at C ck (n + length msgs - base)),
         rs_sent_messages := of_nat (n + length msgs)\<rparr>) \<and>
     length envs = length msgs \<and>
     (\<forall>i < length msgs. message_on C K ck base (n + i) ad (snd (msgs ! i)) (envs ! i))"
  using assms(3-)
proof (induction msgs arbitrary: s n)
  case Nil
  then show ?case by simp
next
  case (Cons m msgs)
  obtain nonce pt where m: "m = (nonce, pt)" by (cases m)
  have ok: "length nonce = 24" "pt \<noteq> []" "length pt < 274877906880"
    using Cons.prems(8) m by (simp_all add: sendable_def)
  let ?mk = "message_key_at C ck (n - base)"
  have hdr: "next_header C s = message_header C K n"
    using Cons.prems by (simp add: next_header_def message_header_def)
  obtain c where c: "aead_encrypt C ?mk nonce (build_ratchet_aad (message_header C K n) ad) pt = Some c"
    using aead_encrypt_total [OF laws(2) ok(3)] by blast
  have idx: "Suc n - base = Suc (n - base)" using Cons.prems(6) by simp
  let ?env = "\<lparr> rm_version = DOUBLE_RATCHET_VERSION, rm_header = message_header C K n,
            rm_nonce_b64 = b64_encode C nonce, rm_ciphertext_b64 = b64_encode C c \<rparr>"
  let ?s = "s\<lparr>rs_sending_chain_key := Some (chain_at C ck (Suc n - base)), rs_sent_messages := of_nat (Suc n)\<rparr>"
  have enc: "ratchet_encrypt C sec nonce pt ad s = (Inr ?env, ?s)"
    using encrypt_on_chain [OF ok(2) Cons.prems(1) derive_chain_at [OF laws(1)], of nonce ad c sec] c hdr Cons.prems(2)
    by (simp add: idx add.commute del: chain_at.simps)
  have msg: "message_on C K ck base n ad pt ?env"
    unfolding message_on_def using Cons.prems c ok(1) by auto
  have "\<exists>envs. encrypt_all C sec ad msgs ?s = (Inr envs,
       ?s\<lparr>rs_sending_chain_key := Some (chain_at C ck (Suc n + length msgs - base)),
         rs_sent_messages := of_nat (Suc n + length msgs)\<rparr>) \<and>
     length envs = length msgs \<and>
     (\<forall>i < length msgs. message_on C K ck base (Suc n + i) ad (snd (msgs ! i)) (envs ! i))"
    by (rule Cons.IH) (use Cons.prems in simp_all)
  then obtain envs where envs: "encrypt_all C sec ad msgs ?s = (Inr envs,
       ?s\<lparr>rs_sending_chain_key := Some (chain_at C ck (Suc n + length msgs - base)),
         rs_sent_messages := of_nat (Suc n + length msgs)\<rparr>)" "length envs = length msgs"
     "\<forall>i < length msgs. message_on C K ck base (Suc n + i) ad (snd (msgs ! i)) (envs ! i)"
    by blast
  have "message_on C K ck base (n + i) ad (snd ((m # msgs) ! i)) ((?env # envs) ! i)"
    if "i < length (m # msgs)" for i
    using that envs(3) msg m by (cases i) auto
  then show ?case
    using envs(1,2) enc m by (intro exI [of _ "?env # envs"]) (simp add: act_then_run)
qed

lemma decrypt_all_on_chain:
  assumes laws: "b64_laws C" "aead_laws C" "kdf_laws C"
    and "receiving_on C K ck base D s" "distinct order"
    and "\<forall>i \<in> set order. base + i \<notin> D \<and> i \<le> MAX_SKIPPED_MESSAGE_KEYS \<and> i < len \<and>
           message_on C K ck base (base + i) ad (pts i) (envs i)"
  shows "\<exists>t. decrypt_all C ad (map envs order) s = (Inr (map pts order), t) \<and>
     receiving_on C K ck base (D \<union> (+) base ` set order) t \<and> same_sending s t \<and>
     unat (rs_received_messages t) \<le> max (unat (rs_received_messages s)) (base + len)"
  using assms(4-)
proof (induction order arbitrary: D s)
  case Nil
  then show ?case by (auto simp: same_sending_def)
next
  case (Cons i order)
  from Cons.prems obtain t where t: "ratchet_decrypt C (envs i) ad s = (Inr (pts i), t)"
    "receiving_on C K ck base (insert (base + i) D) t" "same_sending s t"
    "unat (rs_received_messages t) = max (unat (rs_received_messages s)) (Suc (base + i))"
    using deliver [OF laws Cons.prems(1), of "base + i" ad "pts i" "envs i"] by auto
  obtain u where u: "decrypt_all C ad (map envs order) t = (Inr (map pts order), u)"
     "receiving_on C K ck base (insert (base + i) D \<union> (+) base ` set order) u" "same_sending t u"
     "unat (rs_received_messages u) \<le> max (unat (rs_received_messages t)) (base + len)"
    using Cons.IH [OF t(2)] Cons.prems(2,3) by auto
  have "i < len" using Cons.prems(3) by simp
  with t u show ?case by (auto simp: act_then_run same_sending_def)
qed
section \<open>Two sessions in step\<close>

abbreviation session_public :: "double_ratchet_session \<Rightarrow> bytes" where
  "session_public s \<equiv> rk_public_key (rs_local_ratchet_key s)"

text \<open>\<open>x\<close> may send on its chain, \<open>y\<close> has received everything sent on it, and \<open>y\<close> starts a new chain when it
  sends next.\<close>

definition synced :: "crypto \<Rightarrow> double_ratchet_session \<Rightarrow> double_ratchet_session \<Rightarrow> bool" where
  "synced C x y \<longleftrightarrow>
     rs_root_key x = rs_root_key y \<and>
     session_public x = x25519_public C (rk_secret_key (rs_local_ratchet_key x)) \<and>
     session_public y = x25519_public C (rk_secret_key (rs_local_ratchet_key y)) \<and>
     rs_remote_ratchet_key x = Some (session_public y) \<and> rs_remote_ratchet_key y = Some (session_public x) \<and>
     rs_sending_chain_key x \<noteq> None \<and> rs_receiving_chain_key y = rs_sending_chain_key x \<and>
     rs_sent_messages x = rs_received_messages y \<and> rs_previous_chain_length x = 0 \<and>
     rs_sending_chain_key y = None \<and> rs_sent_messages y = 0 \<and>
     rs_skipped_keys x = [] \<and> rs_skipped_keys y = []"

lemma synced_receiving:
  "dh_laws C \<Longrightarrow> synced C x y \<Longrightarrow> rs_sending_chain_key x = Some ck \<Longrightarrow>
   receiving_on C (session_public x) ck (unat (rs_received_messages y)) {} y"
  by (auto simp: synced_def receiving_on_def)

lemma drained_skipped:
  assumes "receiving_on C K ck base D s" "{base..<unat (rs_received_messages s)} \<subseteq> D"
  shows "rs_skipped_keys s = []"
proof (rule ccontr)
  assume "rs_skipped_keys s \<noteq> []"
  then obtain i where "i \<in> fst ` set (rs_skipped_keys s)" by (cases "rs_skipped_keys s") auto
  then have "bt_get i (rs_skipped_keys s) \<noteq> None" by (simp add: bt_get_eq_None)
  then show False using assms by (force simp: receiving_on_def split: if_splits)
qed

lemma batch_by_holder:
  assumes laws: "b64_laws C" "aead_laws C" "kdf_laws C" "dh_laws C"
    and sync: "synced C x y" and msgs: "\<forall>m \<in> set msgs. sendable m" "length msgs \<le> 129"
    and room: "unat (rs_sent_messages x) + length msgs \<le> 2 ^ 32 - 1"
    and order: "distinct order" "set order \<subseteq> {..<length msgs}"
  shows "\<exists>envs x' y'. encrypt_all C sec ad msgs x = (Inr envs, x') \<and>
     decrypt_all C ad (map ((!) envs) order) y = (Inr (map (\<lambda>i. snd (msgs ! i)) order), y') \<and>
     (\<forall>i < length msgs. \<exists>ck. message_on C (session_public x) ck (unat (rs_sent_messages x))
        (unat (rs_sent_messages x) + i) ad (snd (msgs ! i)) (envs ! i)) \<and> length envs = length msgs \<and>
     (set order = {..<length msgs} \<longrightarrow> synced C x' y' \<and>
        unat (rs_sent_messages x') = unat (rs_sent_messages x) + length msgs \<and>
        session_public x' = session_public x \<and> session_public y' = session_public y)"
proof -
  obtain ck where ck: "rs_sending_chain_key x = Some ck" using sync by (auto simp: synced_def)
  let ?K = "session_public x" and ?b = "unat (rs_sent_messages x)" and ?n = "length msgs"
  have b: "unat (rs_received_messages y) = ?b" using sync by (simp add: synced_def)
  have K: "length ?K = 32" using sync laws(4) by (simp add: synced_def length_x25519_public)
  let ?x = "x\<lparr>rs_sending_chain_key := Some (chain_at C ck (?b + ?n - ?b)), rs_sent_messages := of_nat (?b + ?n)\<rparr>"
  have "\<exists>envs. encrypt_all C sec ad msgs x = (Inr envs, ?x) \<and> length envs = ?n \<and>
     (\<forall>i < ?n. message_on C ?K ck ?b (?b + i) ad (snd (msgs ! i)) (envs ! i))"
    by (rule encrypt_all_on_chain [OF laws(3,2)]) (use sync ck K room msgs in \<open>simp_all add: synced_def\<close>)
  then obtain envs where envs: "encrypt_all C sec ad msgs x = (Inr envs, ?x)" "length envs = ?n"
     "\<forall>i < ?n. message_on C ?K ck ?b (?b + i) ad (snd (msgs ! i)) (envs ! i)"
    by blast
  have rec: "receiving_on C ?K ck ?b {} y" using synced_receiving [OF laws(4) sync ck] b by simp
  have "\<forall>i \<in> set order. ?b + i \<notin> {} \<and> i \<le> MAX_SKIPPED_MESSAGE_KEYS \<and> i < ?n \<and>
           message_on C ?K ck ?b (?b + i) ad (snd (msgs ! i)) (envs ! i)"
    using order(2) envs(3) msgs(2) by (auto simp: MAX_SKIPPED_MESSAGE_KEYS_def)
  from decrypt_all_on_chain [OF laws(1-3) rec order(1) this]
  obtain y' where y': "decrypt_all C ad (map ((!) envs) order) y = (Inr (map (\<lambda>i. snd (msgs ! i)) order), y')"
     "receiving_on C ?K ck ?b ((+) ?b ` set order) y'" "same_sending y y'"
     "unat (rs_received_messages y') \<le> max ?b (?b + ?n)"
    using b by auto
  have "synced C ?x y' \<and> unat (rs_sent_messages ?x) = ?b + ?n" if all: "set order = {..<?n}"
  proof -
    have img: "(+) ?b ` set order = {?b..<?b + ?n}" by (simp add: all lessThan_atLeast0 add.commute)
    have rn: "unat (rs_received_messages y') = ?b + ?n"
    proof (cases "?n = 0")
      case True
      then show ?thesis using y'(2,4) by (simp add: receiving_on_def)
    next
      case False
      then have "?b + ?n - 1 \<in> (+) ?b ` set order" unfolding img atLeastLessThan_iff by linarith
      then have "?b + ?n - 1 \<in> {?b..<unat (rs_received_messages y')}"
        using y'(2) unfolding receiving_on_def by blast
      then show ?thesis using y'(4) False unfolding atLeastLessThan_iff by linarith
    qed
    have sent: "unat (of_nat (?b + ?n) :: u32) = ?b + ?n"
      using room by (simp add: unat_of_nat take_bit_eq_mod del: of_nat_add)
    have eq: "(of_nat (?b + ?n) :: u32) = rs_received_messages y'"
      using sent rn by (simp add: word_unat_eq_iff del: of_nat_add)
    have "rs_skipped_keys y' = []" using drained_skipped [OF y'(2)] img rn by simp
    then show ?thesis
      using sync y'(2,3) eq sent rn
      by (simp add: synced_def same_sending_def receiving_on_def del: of_nat_add)
  qed
  moreover have "session_public ?x = ?K" "session_public y' = session_public y"
    using y'(3) by (simp_all add: same_sending_def)
  ultimately show ?thesis using envs y'(1) by blast
qed

section \<open>Turning the conversation around\<close>

lemma encrypt_after_ensure:
  assumes "ensure_sending_chain C sec s = (Inr (), t)" "rs_sending_chain_key t \<noteq> None" "pt \<noteq> []"
  shows "ratchet_encrypt C sec nonce pt ad s = ratchet_encrypt C sec nonce pt ad t"
proof -
  have "ensure_sending_chain C sec t = (Inr (), t)"
    using assms(2) by (simp add: ensure_sending_chain_def act_then_run)
  then show ?thesis using assms(1,3) by (simp add: ratchet_encrypt_def act_then_run [of "ensure_sending_chain C sec"])
qed

lemma decrypt_after_ratchet:
  assumes "b64_laws C" "message_on C K ck base i ad pt env"
    and "rs_skipped_keys s = []" "\<not> remote_is C (rs_remote_ratchet_key s) K"
    and "apply_remote_ratchet C K s = (Inr (), t)" "rs_skipped_keys t = []" "remote_is C (rs_remote_ratchet_key t) K"
  shows "ratchet_decrypt C env ad s = ratchet_decrypt C env ad t"
proof -
  note e = message_on_env [OF assms(1,2)]
  have "skip_message_keys C 0 s = (Inr (), s)"
    by (auto simp: skip_message_keys_def act_then_run word_gt_0)
  moreover have noop: "s\<lparr>rs_skipped_keys := []\<rparr> = s" "t\<lparr>rs_skipped_keys := []\<rparr> = t"
    using assms(3,6) by simp_all
  ultimately show ?thesis
    using e(1,2) assms(3-)
    by (simp add: noop ratchet_decrypt_def act_then_run [of "act_lift _"] act_then_run [of "act_get _"]
        act_then_run [of "try_skipped_message_key _ _ _ _"] try_skipped_run
        act_then_run [of "act_then _ _"] act_then_run [of "skip_message_keys C 0"]
        act_then_run [of "act_ok _"])
qed

text \<open>
  When \<open>y\<close> answers, it starts a chain under a new key; \<open>x\<close> follows on the first message it sees.  Up to
  these two steps, which both sides perform with the same Diffie-Hellman value, they are in step
  again with the roles exchanged.
\<close>

lemma turn:
  assumes laws: "b64_laws C" "kdf_laws C" "dh_laws C" and sync: "synced C x y"
    and fresh: "x25519_public C sec \<noteq> session_public y"
  obtains x' y' where "synced C y' x'" "rs_sent_messages y' = 0"
    "session_public y' = x25519_public C sec" "session_public x' = session_public x"
    "\<And>nonce pt ad. pt \<noteq> [] \<Longrightarrow> ratchet_encrypt C sec nonce pt ad y = ratchet_encrypt C sec nonce pt ad y'"
    "\<And>env ck base i ad pt. message_on C (session_public y') ck base i ad pt env \<Longrightarrow>
       ratchet_decrypt C env ad x = ratchet_decrypt C env ad x'"
proof -
  let ?sx = "rk_secret_key (rs_local_ratchet_key x)" and ?K = "x25519_public C sec"
  obtain root ck where d: "derive_root_and_chain_key C (rs_root_key y) (x25519_dh C sec (session_public x)) = Inr (root, ck)"
    using derive_total(1) [OF laws(2)] by blast
  have dh: "x25519_dh C ?sx ?K = x25519_dh C sec (session_public x)"
    using sync x25519_dh_commute [OF laws(3)] by (simp add: synced_def)
  let ?y = "y\<lparr>rs_previous_chain_length := 0, rs_sent_messages := 0,
     rs_local_ratchet_key := ratchet_key_from_secret C sec, rs_root_key := root, rs_sending_chain_key := Some ck\<rparr>"
  let ?x = "x\<lparr>rs_previous_chain_length := rs_sent_messages x, rs_sent_messages := 0, rs_received_messages := 0,
     rs_root_key := root, rs_remote_ratchet_key := Some ?K, rs_receiving_chain_key := Some ck,
     rs_sending_chain_key := None\<rparr>"
  have ens: "ensure_sending_chain C sec y = (Inr (), ?y)"
    using sync d by (simp add: ensure_sending_chain_def act_then_run synced_def ratchet_key_from_secret_def)
  have app: "apply_remote_ratchet C ?K x = (Inr (), ?x)"
    using sync d dh by (simp add: apply_remote_ratchet_def act_then_run synced_def)
  have other: "\<not> x25519_same C (session_public y) ?K"
    using sync fresh x25519_same_public [OF laws(3), of "rk_secret_key (rs_local_ratchet_key y)" sec]
    unfolding synced_def by metis
  show thesis
  proof (rule that)
    show "synced C ?y ?x" using sync by (simp add: synced_def ratchet_key_from_secret_def)
    show "rs_sent_messages ?y = 0" "session_public ?y = ?K" "session_public ?x = session_public x"
      by (simp_all add: ratchet_key_from_secret_def)
    show "ratchet_encrypt C sec nonce pt ad y = ratchet_encrypt C sec nonce pt ad ?y" if "pt \<noteq> []" for nonce pt ad
      by (rule encrypt_after_ensure [OF ens _ that]) simp
    show "ratchet_decrypt C env ad x = ratchet_decrypt C env ad ?x"
      if "message_on C (session_public ?y) ck' base i ad pt env" for env ck' base i ad pt
    proof (rule decrypt_after_ratchet [OF laws(1) _ _ _ app])
      show "message_on C ?K ck' base i ad pt env" using that by (simp add: ratchet_key_from_secret_def)
    qed (use sync laws(3) other in \<open>simp_all add: synced_def remote_is_def\<close>)
  qed
qed
section \<open>A conversation\<close>

text \<open>
  One batch: who sends, the secret for a new ratchet key, the associated data, the messages (nonce
  and plaintext each), and the order in which the envelopes reach the other side.
\<close>

record batch =
  bt_from_first :: bool
  bt_secret :: bytes
  bt_ad :: bytes
  bt_msgs :: "(bytes \<times> bytes) list"
  bt_order :: "nat list"

definition run_batch ::
    "crypto \<Rightarrow> batch \<Rightarrow> double_ratchet_session \<times> double_ratchet_session \<Rightarrow>
     core_error + (bytes list \<times> double_ratchet_session \<times> double_ratchet_session)" where
  "run_batch C b = (\<lambda>(first, second).
     let (sender, receiver) = (if bt_from_first b then (first, second) else (second, first));
         (sent, sender') = encrypt_all C (bt_secret b) (bt_ad b) (bt_msgs b) sender
     in and_then sent (\<lambda>envs.
        let (got, receiver') = decrypt_all C (bt_ad b) (map ((!) envs) (bt_order b)) receiver
        in and_then got (\<lambda>pts.
           Inr (pts, if bt_from_first b then (sender', receiver') else (receiver', sender')))))"

fun converse ::
    "crypto \<Rightarrow> batch list \<Rightarrow> double_ratchet_session \<times> double_ratchet_session \<Rightarrow>
     core_error + bytes list list" where
  "converse C [] p = Inr []"
| "converse C (b # bs) p =
     and_then (run_batch C b p) (\<lambda>(pts, q). and_then (converse C bs q) (\<lambda>rest. Inr (pts # rest)))"

definition batch_ok :: "batch \<Rightarrow> bool" where
  "batch_ok b \<longleftrightarrow> bt_msgs b \<noteq> [] \<and> length (bt_msgs b) \<le> 129 \<and> (\<forall>m \<in> set (bt_msgs b). sendable m) \<and>
     distinct (bt_order b) \<and> set (bt_order b) = {..<length (bt_msgs b)}"

lemma encrypt_all_cong:
  assumes "\<And>nonce pt ad. pt \<noteq> [] \<Longrightarrow> ratchet_encrypt C sec nonce pt ad y = ratchet_encrypt C sec nonce pt ad y'"
    and "msgs \<noteq> []" "\<forall>m \<in> set msgs. sendable m"
  shows "encrypt_all C sec ad msgs y = encrypt_all C sec ad msgs y'"
  using assms by (cases msgs) (auto simp: act_then_run sendable_def)

text \<open>Whoever sends, one complete batch arrives and leaves the two sides in step.\<close>

lemma batch_delivered:
  assumes laws: "b64_laws C" "aead_laws C" "kdf_laws C" "dh_laws C"
    and b: "batch_ok b" and sync: "synced C x y" and by_x: "x_sends \<or> x25519_public C (bt_secret b) \<noteq> session_public y"
    and room: "unat (rs_sent_messages x) + length (bt_msgs b) \<le> 2 ^ 32 - 1"
  shows "\<exists>envs s r. encrypt_all C (bt_secret b) (bt_ad b) (bt_msgs b) (if x_sends then x else y) = (Inr envs, s) \<and>
     decrypt_all C (bt_ad b) (map ((!) envs) (bt_order b)) (if x_sends then y else x) =
       (Inr (map (\<lambda>i. snd (bt_msgs b ! i)) (bt_order b)), r) \<and> synced C s r \<and>
     unat (rs_sent_messages s) \<le> unat (rs_sent_messages x) + length (bt_msgs b) \<and>
     session_public s \<in> {session_public x, x25519_public C (bt_secret b)} \<and>
     session_public r \<in> {session_public x, session_public y}"
proof -
  have ok: "\<forall>m \<in> set (bt_msgs b). sendable m" "length (bt_msgs b) \<le> 129" "distinct (bt_order b)"
    "set (bt_order b) \<subseteq> {..<length (bt_msgs b)}" "bt_msgs b \<noteq> []" "bt_order b \<noteq> []"
    "set (bt_order b) = {..<length (bt_msgs b)}"
    using b by (auto simp: batch_ok_def)
  show ?thesis
  proof (cases x_sends)
    case True
    from batch_by_holder [OF laws sync ok(1,2) room ok(3,4), of "bt_secret b" "bt_ad b"]
    obtain envs s r where "encrypt_all C (bt_secret b) (bt_ad b) (bt_msgs b) x = (Inr envs, s)"
      "decrypt_all C (bt_ad b) (map ((!) envs) (bt_order b)) y = (Inr (map (\<lambda>i. snd (bt_msgs b ! i)) (bt_order b)), r)"
      "synced C s r" "unat (rs_sent_messages s) = unat (rs_sent_messages x) + length (bt_msgs b)"
      "session_public s = session_public x" "session_public r = session_public y"
      using ok(7) by blast
    then show ?thesis using True by auto
  next
    case False
    with by_x have fresh: "x25519_public C (bt_secret b) \<noteq> session_public y" by simp
    obtain x' y' where t: "synced C y' x'" "rs_sent_messages y' = 0"
      "session_public y' = x25519_public C (bt_secret b)" "session_public x' = session_public x"
      "\<And>nonce pt ad. pt \<noteq> [] \<Longrightarrow> ratchet_encrypt C (bt_secret b) nonce pt ad y = ratchet_encrypt C (bt_secret b) nonce pt ad y'"
      "\<And>env ck base i ad pt. message_on C (session_public y') ck base i ad pt env \<Longrightarrow>
         ratchet_decrypt C env ad x = ratchet_decrypt C env ad x'"
      using turn [OF laws(1,3,4) sync fresh] by metis
    have room': "unat (rs_sent_messages y') + length (bt_msgs b) \<le> 2 ^ 32 - 1" using t(2) ok(2) by simp
    from batch_by_holder [OF laws t(1) ok(1,2) room' ok(3,4), of "bt_secret b" "bt_ad b"]
    obtain envs s r where e: "encrypt_all C (bt_secret b) (bt_ad b) (bt_msgs b) y' = (Inr envs, s)"
      "decrypt_all C (bt_ad b) (map ((!) envs) (bt_order b)) x' = (Inr (map (\<lambda>i. snd (bt_msgs b ! i)) (bt_order b)), r)"
      "\<forall>i < length (bt_msgs b). \<exists>ck. message_on C (session_public y') ck (unat (rs_sent_messages y'))
        (unat (rs_sent_messages y') + i) (bt_ad b) (snd (bt_msgs b ! i)) (envs ! i)"
      "synced C s r" "unat (rs_sent_messages s) = unat (rs_sent_messages y') + length (bt_msgs b)"
      "session_public s = session_public y'" "session_public r = session_public x'"
      using ok(7) by blast
    obtain i order where i: "bt_order b = i # order" using ok(6) by (cases "bt_order b") auto
    with ok(4) have "i < length (bt_msgs b)" by auto
    with e(3) t(6) have "ratchet_decrypt C (envs ! i) (bt_ad b) x = ratchet_decrypt C (envs ! i) (bt_ad b) x'" by blast
    then have "decrypt_all C (bt_ad b) (map ((!) envs) (bt_order b)) x =
        decrypt_all C (bt_ad b) (map ((!) envs) (bt_order b)) x'"
      by (simp add: i act_then_run)
    moreover have "encrypt_all C (bt_secret b) (bt_ad b) (bt_msgs b) y = encrypt_all C (bt_secret b) (bt_ad b) (bt_msgs b) y'"
      by (rule encrypt_all_cong [OF t(5) ok(5,1)])
    ultimately show ?thesis using False e t(2,3,4) by auto
  qed
qed

lemma run_batch_delivered:
  assumes laws: "b64_laws C" "aead_laws C" "kdf_laws C" "dh_laws C"
    and b: "batch_ok b" and sync: "synced C first second \<or> synced C second first"
    and fresh: "x25519_public C (bt_secret b) \<notin> {session_public first, session_public second}"
    and room: "max (unat (rs_sent_messages first)) (unat (rs_sent_messages second)) + length (bt_msgs b) \<le> 2 ^ 32 - 1"
  shows "\<exists>f g. run_batch C b (first, second) = Inr (map (\<lambda>i. snd (bt_msgs b ! i)) (bt_order b), f, g) \<and>
     (synced C f g \<or> synced C g f) \<and>
     max (unat (rs_sent_messages f)) (unat (rs_sent_messages g)) \<le>
       max (unat (rs_sent_messages first)) (unat (rs_sent_messages second)) + length (bt_msgs b) \<and>
     {session_public f, session_public g} \<subseteq>
       {session_public first, session_public second, x25519_public C (bt_secret b)}"
proof -
  have sent0: "unat (rs_sent_messages r) = 0" if "synced C s r" for s r
    using that by (simp add: synced_def)
  have r: "unat (rs_sent_messages first) + length (bt_msgs b) \<le> 2 ^ 32 - 1"
    "unat (rs_sent_messages second) + length (bt_msgs b) \<le> 2 ^ 32 - 1"
    using room by linarith+
  from sync show ?thesis
  proof
    assume "synced C first second"
    from batch_delivered [OF laws b this _ r(1), of "bt_from_first b"] fresh
    obtain envs s r where
      "encrypt_all C (bt_secret b) (bt_ad b) (bt_msgs b) (if bt_from_first b then first else second) = (Inr envs, s)"
      "decrypt_all C (bt_ad b) (map ((!) envs) (bt_order b)) (if bt_from_first b then second else first) =
         (Inr (map (\<lambda>i. snd (bt_msgs b ! i)) (bt_order b)), r)"
      "synced C s r" "unat (rs_sent_messages s) \<le> unat (rs_sent_messages first) + length (bt_msgs b)"
      "session_public s \<in> {session_public first, x25519_public C (bt_secret b)}"
      "session_public r \<in> {session_public first, session_public second}"
      by auto
    then show ?thesis
      using sent0 [of s r]
      by (intro exI [of _ "if bt_from_first b then s else r"] exI [of _ "if bt_from_first b then r else s"])
        (auto simp: run_batch_def Let_def)
  next
    assume "synced C second first"
    from batch_delivered [OF laws b this _ r(2), of "\<not> bt_from_first b"] fresh
    obtain envs s r where
      "encrypt_all C (bt_secret b) (bt_ad b) (bt_msgs b) (if bt_from_first b then first else second) = (Inr envs, s)"
      "decrypt_all C (bt_ad b) (map ((!) envs) (bt_order b)) (if bt_from_first b then second else first) =
         (Inr (map (\<lambda>i. snd (bt_msgs b ! i)) (bt_order b)), r)"
      "synced C s r" "unat (rs_sent_messages s) \<le> unat (rs_sent_messages second) + length (bt_msgs b)"
      "session_public s \<in> {session_public second, x25519_public C (bt_secret b)}"
      "session_public r \<in> {session_public second, session_public first}"
      by (auto split: if_splits)
    then show ?thesis
      using sent0 [of s r]
      by (intro exI [of _ "if bt_from_first b then s else r"] exI [of _ "if bt_from_first b then r else s"])
        (auto simp: run_batch_def Let_def)
  qed
qed

lemma converse_delivers:
  assumes laws: "b64_laws C" "aead_laws C" "kdf_laws C" "dh_laws C"
    and "\<forall>b \<in> set bs. batch_ok b"
    and "synced C first second \<or> synced C second first"
    and "distinct (map (\<lambda>b. x25519_public C (bt_secret b)) bs)"
    and "\<forall>b \<in> set bs. x25519_public C (bt_secret b) \<notin> {session_public first, session_public second}"
    and "max (unat (rs_sent_messages first)) (unat (rs_sent_messages second)) +
           sum_list (map (length \<circ> bt_msgs) bs) \<le> 2 ^ 32 - 1"
  shows "converse C bs (first, second) = Inr (map (\<lambda>b. map (\<lambda>i. snd (bt_msgs b ! i)) (bt_order b)) bs)"
  using assms(5-)
proof (induction bs arbitrary: first second)
  case (Cons b bs)
  have b: "batch_ok b" and fresh: "x25519_public C (bt_secret b) \<notin> {session_public first, session_public second}"
    and room: "max (unat (rs_sent_messages first)) (unat (rs_sent_messages second)) + length (bt_msgs b) \<le> 2 ^ 32 - 1"
    using Cons.prems by auto
  from run_batch_delivered [OF laws b Cons.prems(2) fresh room] obtain f g where
    run: "run_batch C b (first, second) = Inr (map (\<lambda>i. snd (bt_msgs b ! i)) (bt_order b), f, g)"
    and sync: "synced C f g \<or> synced C g f"
    and sent: "max (unat (rs_sent_messages f)) (unat (rs_sent_messages g)) \<le>
       max (unat (rs_sent_messages first)) (unat (rs_sent_messages second)) + length (bt_msgs b)"
    and pub: "{session_public f, session_public g} \<subseteq>
       {session_public first, session_public second, x25519_public C (bt_secret b)}"
    by blast
  have "converse C bs (f, g) = Inr (map (\<lambda>b. map (\<lambda>i. snd (bt_msgs b ! i)) (bt_order b)) bs)"
  proof (rule Cons.IH)
    show "\<forall>b' \<in> set bs. x25519_public C (bt_secret b') \<notin> {session_public f, session_public g}"
      using Cons.prems(3,4) pub by (force simp: image_iff)
  qed (use Cons.prems sync sent in auto)
  then show ?case using run by simp
qed simp

section \<open>Bootstrapped sessions are in step\<close>

definition handshake_pair :: "crypto \<Rightarrow> initiator_handshake \<Rightarrow> signed_pre_key \<Rightarrow> opened_initial_message \<Rightarrow> bool" where
  "handshake_pair C hs spk om \<longleftrightarrow> signed_prekey_wf C spk \<and>
     mk_receiver_signed_prekey (hs_message_keys hs) = spk_public_key spk \<and>
     om_message_keys om = hs_message_keys hs \<and> om_shared_secret om = hs_shared_secret hs \<and>
     mk_sender_ephemeral_key (hs_message_keys hs) = x25519_public C (hs_sender_ephemeral_secret hs)"

lemma bootstrap_synced:
  assumes "dh_laws C" "handshake_pair C hs spk om"
    and "bootstrap_initiator_session C hs = Inr a" "bootstrap_responder_session C spk om = Inr b"
  shows "synced C a b \<and> rs_sent_messages a = 0 \<and>
     session_public a = x25519_public C (hs_sender_ephemeral_secret hs) \<and> session_public b = spk_public_key spk"
proof -
  obtain root ck where a: "derive_root_and_chain_key C (hs_shared_secret hs)
       (x25519_dh C (hs_sender_ephemeral_secret hs) (mk_receiver_signed_prekey (hs_message_keys hs))) = Inr (root, ck)"
    "a = \<lparr> rs_root_key = root,
       rs_local_ratchet_key = ratchet_key_from_secret C (hs_sender_ephemeral_secret hs),
       rs_remote_ratchet_key = Some (mk_receiver_signed_prekey (hs_message_keys hs)),
       rs_sending_chain_key = Some ck, rs_receiving_chain_key = None,
       rs_previous_chain_length = 0, rs_sent_messages = 0, rs_received_messages = 0,
       rs_skipped_keys = bt_empty \<rparr>"
    by (rule bootstrap_initiator_Inr [OF assms(3)])
  obtain root' ck' where b: "x25519_same C (mk_receiver_signed_prekey (om_message_keys om)) (spk_public_key spk)"
    "derive_root_and_chain_key C (om_shared_secret om)
       (x25519_dh C (spk_secret_key spk) (mk_sender_ephemeral_key (om_message_keys om))) = Inr (root', ck')"
    "b = \<lparr> rs_root_key = root',
       rs_local_ratchet_key = ratchet_key_from_secret C (spk_secret_key spk),
       rs_remote_ratchet_key = Some (mk_sender_ephemeral_key (om_message_keys om)),
       rs_sending_chain_key = None, rs_receiving_chain_key = Some ck',
       rs_previous_chain_length = 0, rs_sent_messages = 0, rs_received_messages = 0,
       rs_skipped_keys = bt_empty \<rparr>"
    by (rule bootstrap_responder_Inr [OF assms(4)])
  have "x25519_dh C (hs_sender_ephemeral_secret hs) (spk_public_key spk) =
        x25519_dh C (spk_secret_key spk) (x25519_public C (hs_sender_ephemeral_secret hs))"
    using assms(2) x25519_dh_commute [OF assms(1)] by (simp add: handshake_pair_def signed_prekey_wf_def)
  with a(1) b(1,2) assms(2) have "root' = root" "ck' = ck" by (simp_all add: handshake_pair_def)
  then show ?thesis
    using a(2) b(1,3) assms(2)
    by (simp add: synced_def ratchet_key_from_secret_def handshake_pair_def signed_prekey_wf_def bt_empty_def)
qed

definition demo_spk :: signed_pre_key where
  "demo_spk = \<lparr> spk_secret_key = replicate 32 4, spk_public_key = x25519_public ref_crypto (replicate 32 4),
                spk_signature = [] \<rparr>"

definition demo_opened :: opened_initial_message where
  "demo_opened =
     \<lparr> om_content_kind = DirectMessage,
       om_sender_identity = mk_sender_identity (hs_message_keys demo_handshake),
       om_message_keys = hs_message_keys demo_handshake, om_plaintext = [],
       om_shared_secret = hs_shared_secret demo_handshake \<rparr>"

lemma demo_pair: "handshake_pair ref_crypto demo_handshake demo_spk demo_opened"
  by (simp add: handshake_pair_def signed_prekey_wf_def demo_handshake_def demo_spk_def demo_opened_def)

lemma demo_sessions:
  "\<exists>a b. bootstrap_initiator_session ref_crypto demo_handshake = Inr a \<and>
     bootstrap_responder_session ref_crypto demo_spk demo_opened = Inr b"
proof -
  obtain r ck where "derive_root_and_chain_key ref_crypto (om_shared_secret demo_opened)
     (x25519_dh ref_crypto (spk_secret_key demo_spk) (mk_sender_ephemeral_key (om_message_keys demo_opened))) = Inr (r, ck)"
    using derive_total(1) [OF ref_kdf_laws] by blast
  moreover have "mk_receiver_signed_prekey (om_message_keys demo_opened) = spk_public_key demo_spk"
    by (simp add: demo_opened_def demo_spk_def demo_handshake_def)
  ultimately have "\<exists>b. bootstrap_responder_session ref_crypto demo_spk demo_opened = Inr b"
    by (simp add: bootstrap_responder_session_def ratchet_key_from_secret_def Let_def)
  then show ?thesis using bootstrap_initiator_total [OF ref_kdf_laws] by blast
qed

section \<open>Properties\<close>

text \<open>Messages of one chain may arrive in any order, and some not at all.  After a handshake the
  initiator encrypts up to 129 messages; whichever of them reach the responder, in whatever order, each
  decrypts to its plaintext.\<close>

theorem ratchet_out_of_order_delivery:
  assumes "b64_laws C" "aead_laws C" "kdf_laws C" "dh_laws C"
    and "handshake_pair C hs spk om"
    and "bootstrap_initiator_session C hs = Inr a" "bootstrap_responder_session C spk om = Inr b"
    and "\<forall>m \<in> set msgs. sendable m" "length msgs \<le> 129"
    and "distinct order" "set order \<subseteq> {..<length msgs}"
  shows "\<exists>envs a' b'. encrypt_all C sec ad msgs a = (Inr envs, a') \<and>
     decrypt_all C ad (map ((!) envs) order) b = (Inr (map (\<lambda>i. snd (msgs ! i)) order), b')"
proof -
  have sync: "synced C a b" "rs_sent_messages a = 0" using bootstrap_synced [OF assms(4-7)] by simp_all
  have "unat (rs_sent_messages a) + length msgs \<le> 2 ^ 32 - 1" using sync(2) assms(9) by simp
  from batch_by_holder [OF assms(1-4) sync(1) assms(8,9) this assms(10,11)] show ?thesis by blast
qed

theorem ratchet_out_of_order_delivery_witness:
  "\<exists>a b envs a' b'. bootstrap_initiator_session ref_crypto demo_handshake = Inr a \<and>
     bootstrap_responder_session ref_crypto demo_spk demo_opened = Inr b \<and>
     encrypt_all ref_crypto [] [9] [(replicate 24 0, [1]), (replicate 24 1, [2, 3]), (replicate 24 2, [4])] a = (Inr envs, a') \<and>
     decrypt_all ref_crypto [9] (map ((!) envs) [2, 0]) b = (Inr [[4], [1]], b')"
proof -
  let ?m = "[(replicate 24 0, [1]), (replicate 24 1, [2, 3]), (replicate 24 2, [4])] :: (bytes \<times> bytes) list"
  obtain a b where s: "bootstrap_initiator_session ref_crypto demo_handshake = Inr a"
    "bootstrap_responder_session ref_crypto demo_spk demo_opened = Inr b" using demo_sessions by blast
  have "\<forall>m \<in> set ?m. sendable m" "length ?m \<le> 129" "distinct [2, 0 :: nat]" "set [2, 0] \<subseteq> {..<length ?m}"
    by (auto simp: sendable_def)
  from ratchet_out_of_order_delivery [OF ref_b64_laws ref_aead_laws ref_kdf_laws ref_dh_laws demo_pair s this, of "[]" "[9]"] s
  show ?thesis by simp
qed

text \<open>C2: A whole conversation is delivered.  After a handshake the two sides exchange any number of batches,
  either side sending next, each batch of up to 129 messages arriving in any order.  As long as fresh
  ratchet keys are distinct and no side sends more than 2^32 - 1 messages, every plaintext arrives.\<close>

theorem ratchet_conversation:
  assumes "b64_laws C" "aead_laws C" "kdf_laws C" "dh_laws C"
    and "handshake_pair C hs spk om"
    and "bootstrap_initiator_session C hs = Inr a" "bootstrap_responder_session C spk om = Inr b"
    and "\<forall>x \<in> set bs. batch_ok x"
    and "distinct (map (\<lambda>x. x25519_public C (bt_secret x)) bs)"
    and "\<forall>x \<in> set bs. x25519_public C (bt_secret x) \<notin>
           {x25519_public C (hs_sender_ephemeral_secret hs), spk_public_key spk}"
    and "sum_list (map (length \<circ> bt_msgs) bs) \<le> 2 ^ 32 - 1"
  shows "converse C bs (a, b) = Inr (map (\<lambda>x. map (\<lambda>i. snd (bt_msgs x ! i)) (bt_order x)) bs)"
proof -
  have sync: "synced C a b" "rs_sent_messages a = 0"
    "session_public a = x25519_public C (hs_sender_ephemeral_secret hs)" "session_public b = spk_public_key spk"
    using bootstrap_synced [OF assms(4-7)] by simp_all
  show ?thesis
    by (rule converse_delivers [OF assms(1-4,8) disjI1 [OF sync(1)] assms(9)])
      (use assms(10,11) sync in \<open>simp_all add: synced_def\<close>)
qed

theorem ratchet_conversation_witness:
  "\<exists>a b. bootstrap_initiator_session ref_crypto demo_handshake = Inr a \<and>
     bootstrap_responder_session ref_crypto demo_spk demo_opened = Inr b \<and>
     converse ref_crypto
       [\<lparr> bt_from_first = True, bt_secret = replicate 32 7, bt_ad = [1], bt_msgs = [(replicate 24 0, [1]), (replicate 24 1, [2])], bt_order = [1, 0] \<rparr>,
        \<lparr> bt_from_first = False, bt_secret = replicate 32 8, bt_ad = [2], bt_msgs = [(replicate 24 2, [3])], bt_order = [0] \<rparr>,
        \<lparr> bt_from_first = True, bt_secret = replicate 32 9, bt_ad = [3], bt_msgs = [(replicate 24 3, [4])], bt_order = [0] \<rparr>]
       (a, b) = Inr [[[2], [1]], [[3]], [[4]]]"
proof -
  obtain a b where s: "bootstrap_initiator_session ref_crypto demo_handshake = Inr a"
    "bootstrap_responder_session ref_crypto demo_spk demo_opened = Inr b" using demo_sessions by blast
  let ?bs = "[\<lparr> bt_from_first = True, bt_secret = replicate 32 7, bt_ad = [1], bt_msgs = [(replicate 24 0, [1]), (replicate 24 1, [2])], bt_order = [1, 0] \<rparr>,
        \<lparr> bt_from_first = False, bt_secret = replicate 32 8, bt_ad = [2], bt_msgs = [(replicate 24 2, [3])], bt_order = [0] \<rparr>,
        \<lparr> bt_from_first = True, bt_secret = replicate 32 9, bt_ad = [3], bt_msgs = [(replicate 24 3, [4])], bt_order = [0] \<rparr>]"
  have pub: "x25519_public ref_crypto (replicate 32 n) = replicate 32 n" for n
    by (simp add: ref_crypto_def ref_pad_def resize_def)
  have "\<forall>x \<in> set ?bs. batch_ok x" by (auto simp: batch_ok_def sendable_def)
  moreover have "distinct (map (\<lambda>x. x25519_public ref_crypto (bt_secret x)) ?bs)"
    by (simp add: pub)
  moreover have "\<forall>x \<in> set ?bs. x25519_public ref_crypto (bt_secret x) \<notin>
           {x25519_public ref_crypto (hs_sender_ephemeral_secret demo_handshake), spk_public_key demo_spk}"
    by (simp add: pub demo_handshake_def demo_spk_def)
  moreover have "sum_list (map (length \<circ> bt_msgs) ?bs) \<le> 2 ^ 32 - 1" by simp
  ultimately have "converse ref_crypto ?bs (a, b) = Inr (map (\<lambda>x. map (\<lambda>i. snd (bt_msgs x ! i)) (bt_order x)) ?bs)"
    by (rule ratchet_conversation [OF ref_b64_laws ref_aead_laws ref_kdf_laws ref_dh_laws demo_pair s])
  with s show ?thesis by simp
qed
end
