(* ===== verification/Ratchet_Auth.thy ===== *)
theory Ratchet_Auth
  imports Ratchet_Delivery
begin

text \<open>
  What a successful \<^verbatim>\<open>decrypt\<close> proves about an envelope, and what a failed one costs: the state
  that \<^verbatim>\<open>decrypt\<close> leaves behind on its error branches.
\<close>

section \<open>Authenticated data\<close>

lemma build_ratchet_aad_inject:
  assumes "b64_laws C" "length (ph_ratchet_public_key h) = 32" "length (ph_ratchet_public_key h') = 32"
  shows "build_ratchet_aad (parsed_to_header C h) ad = build_ratchet_aad (parsed_to_header C h') ad' \<longleftrightarrow>
     h = h' \<and> ad = ad'"
proof -
  let ?K = "as_bytes (b64_encode C (ph_ratchet_public_key h))"
    and ?K' = "as_bytes (b64_encode C (ph_ratchet_public_key h'))"
  have len: "length ?K = length ?K'"
    using length_b64_encode [OF assms(1), of "ph_ratchet_public_key h" "ph_ratchet_public_key h'"] assms(2,3)
    by simp
  show ?thesis
  proof
    assume "build_ratchet_aad (parsed_to_header C h) ad = build_ratchet_aad (parsed_to_header C h') ad'"
    then have "?K @ u32_to_be_bytes (ph_previous_chain_length h) @ u32_to_be_bytes (ph_message_number h) @ ad =
      ?K' @ u32_to_be_bytes (ph_previous_chain_length h') @ u32_to_be_bytes (ph_message_number h') @ ad'"
      by (simp only: build_ratchet_aad_def parsed_to_header_def ratchet_header.simps same_append_eq)
    then have "?K = ?K'" and "u32_to_be_bytes (ph_previous_chain_length h) @ u32_to_be_bytes (ph_message_number h) @ ad =
      u32_to_be_bytes (ph_previous_chain_length h') @ u32_to_be_bytes (ph_message_number h') @ ad'"
      by (simp_all only: append_eq_append_conv [OF disjI1, OF len])
    then show "h = h' \<and> ad = ad'"
      using b64_encode_inject [OF assms(1)] by (simp add: parsed_ratchet_header.equality)
  qed simp
qed

lemma decrypt_ratchet_message_Inr:
  assumes "aead_laws C" "decrypt_ratchet_message C mk h env ad = Inr pt"
  shows "\<exists>nonce c. b64_decode C (rm_nonce_b64 env) = Some nonce \<and> length nonce = 24 \<and>
     b64_decode C (rm_ciphertext_b64 env) = Some c \<and>
     aead_encrypt C mk nonce (build_ratchet_aad (parsed_to_header C h) ad) pt = Some c"
  using assms(2) aead_encrypt_decrypt [OF assms(1)]
  by (auto simp: decrypt_ratchet_message_def dr_decode_fixed_base64_def result_simps Let_def split: if_splits)

text \<open>The message key \<^verbatim>\<open>decrypt\<close> ends up using: a stored one, or the next one of the receiving chain.\<close>

lemma ratchet_decrypt_Inr:
  assumes "ratchet_decrypt C env ad s = (Inr pt, t)"
  shows "rm_version env = DOUBLE_RATCHET_VERSION \<and>
    (\<exists>h mk. parse_ratchet_header C (rm_header env) = Inr h \<and>
       decrypt_ratchet_message C mk h env ad = Inr pt \<and>
       (bt_get (SkippedKeyId (ph_ratchet_public_key h) (ph_message_number h)) (rs_skipped_keys s) = Some mk \<or>
        (\<exists>ck ck'. derive_chain_key_and_message_key C ck = Inr (ck', mk) \<and> rs_receiving_chain_key t = Some ck')))"
proof -
  have v: "rm_version env = DOUBLE_RATCHET_VERSION"
    using assms by (simp add: ratchet_decrypt_def split: if_splits)
  then obtain h where h: "parse_ratchet_header C (rm_header env) = Inr h"
    using assms by (auto simp: ratchet_decrypt_def act_then_eq_Inr)
  let ?found = "bt_get (SkippedKeyId (ph_ratchet_public_key h) (ph_message_number h)) (rs_skipped_keys s)"
  show ?thesis
  proof (cases ?found)
    case None
    with assms v h obtain ck ck' mk where "decrypt_ratchet_message C mk h env ad = Inr pt"
      "derive_chain_key_and_message_key C ck = Inr (ck', mk)" "rs_receiving_chain_key t = Some ck'"
      by (auto simp: ratchet_decrypt_def act_then_eq_Inr try_skipped_run)
    then show ?thesis using v h by blast
  next
    case (Some mk)
    then show ?thesis using assms v h
      by (auto simp: ratchet_decrypt_def act_then_eq_Inr try_skipped_run result_simps)
  qed
qed

section \<open>The cost of a failed decryption\<close>

lemma decrypt_behind:
  assumes "rm_version env = DOUBLE_RATCHET_VERSION" "parse_ratchet_header C (rm_header env) = Inr h"
    and "remote_is C (rs_remote_ratchet_key s) (ph_ratchet_public_key h)"
    and "ph_message_number h < rs_received_messages s"
    and "bt_get (SkippedKeyId (ph_ratchet_public_key h) (ph_message_number h)) (rs_skipped_keys s) = None"
    and "rs_receiving_chain_key s = Some ck" "derive_chain_key_and_message_key C ck = Inr (ck', mk)"
  shows "ratchet_decrypt C env ad s = (decrypt_ratchet_message C mk h env ad,
     s\<lparr>rs_receiving_chain_key := Some ck', rs_received_messages := rs_received_messages s + 1\<rparr>)"
  using assms
  by (simp add: ratchet_decrypt_def act_then_run try_skipped_run bt_remove_absent skip_message_keys_def
      take_receiving_run)

lemma skip_loop_overflow:
  assumes "kdf_laws C" "bt_inv (rs_skipped_keys s)"
    and "\<forall>j. rs_received_messages s \<le> j \<longrightarrow> bt_get (SkippedKeyId K j) (rs_skipped_keys s) = None"
    and "length (rs_skipped_keys s) \<le> MAX_SKIPPED_MESSAGE_KEYS" "rs_received_messages s \<le> u"
    and "MAX_SKIPPED_MESSAGE_KEYS < length (rs_skipped_keys s) + (unat u - unat (rs_received_messages s))"
  shows "fst (skip_loop C K u ck s) = Inl TooManySkippedMessages \<and>
     rs_receiving_chain_key (snd (skip_loop C K u ck s)) = rs_receiving_chain_key s"
  using assms(2-)
proof (induction "unat u - unat (rs_received_messages s)" arbitrary: s ck)
  case 0
  then show ?case by simp
next
  case (Suc n)
  let ?r = "rs_received_messages s"
  have lt: "?r < u" using Suc.hyps(2) by (simp add: word_less_nat_alt)
  have next': "unat (?r + 1) = Suc (unat ?r)" by (rule unat_plus_one_below [OF lt])
  show ?case
  proof (cases "length (rs_skipped_keys s) = MAX_SKIPPED_MESSAGE_KEYS")
    case True
    then show ?thesis using lt
      by (subst (1 2) skip_loop.simps) (simp add: derive_chain_eq [OF assms(1)])
  next
    case False
    let ?t = "s\<lparr>rs_skipped_keys := bt_insert (SkippedKeyId K ?r) (chain_message_key C ck) (rs_skipped_keys s),
       rs_received_messages := ?r + 1\<rparr>"
    have len: "length (rs_skipped_keys ?t) = Suc (length (rs_skipped_keys s))"
      using btree.len_insert [OF Suc.prems(1), of "SkippedKeyId K ?r"] Suc.prems(2) by simp
    have above: "?r \<le> j \<and> j \<noteq> ?r" if "?r + 1 \<le> j" for j
      using that next' by (auto simp: word_le_nat_alt)
    have "fst (skip_loop C K u (next_chain C ck) ?t) = Inl TooManySkippedMessages \<and>
      rs_receiving_chain_key (snd (skip_loop C K u (next_chain C ck) ?t)) = rs_receiving_chain_key ?t"
    proof (rule Suc.hyps(1))
      show "n = unat u - unat (rs_received_messages ?t)" using Suc.hyps(2) next' by simp
      show "\<forall>j. rs_received_messages ?t \<le> j \<longrightarrow> bt_get (SkippedKeyId K j) (rs_skipped_keys ?t) = None"
        using Suc.prems(2) above by (auto simp: bt_get_insert)
      show "length (rs_skipped_keys ?t) \<le> MAX_SKIPPED_MESSAGE_KEYS" using len Suc.prems(3) False by simp
      show "rs_received_messages ?t \<le> u" using lt next' by (simp add: word_le_nat_alt word_less_nat_alt)
      show "MAX_SKIPPED_MESSAGE_KEYS < length (rs_skipped_keys ?t) + (unat u - unat (rs_received_messages ?t))"
        using len Suc.prems(5) next' Suc.hyps(2) by simp
    qed (use Suc.prems(1) in simp)
    moreover have "length (rs_skipped_keys s) < MAX_SKIPPED_MESSAGE_KEYS" using Suc.prems(3) False by simp
    ultimately show ?thesis using lt
      by (subst (1 2) skip_loop.simps) (simp add: derive_chain_eq [OF assms(1)])
  qed
qed

section \<open>Properties\<close>

text \<open>The associated data of a ratchet message determines its header and the caller's data: two parsed
  headers and two pieces of caller data give the same authenticated bytes only when they are equal.\<close>

theorem ratchet_aad_binds_header:
  assumes "b64_laws C" "length (ph_ratchet_public_key h) = 32" "length (ph_ratchet_public_key h') = 32"
    and "build_ratchet_aad (parsed_to_header C h) ad = build_ratchet_aad (parsed_to_header C h') ad'"
  shows "h = h' \<and> ad = ad'"
  using build_ratchet_aad_inject [OF assms(1-3)] assms(4) by simp

theorem ratchet_aad_binds_header_witness:
  "build_ratchet_aad (parsed_to_header ref_crypto
       \<lparr> ph_ratchet_public_key = replicate 32 1, ph_previous_chain_length = 0, ph_message_number = 4 \<rparr>) [1] \<noteq>
     build_ratchet_aad (parsed_to_header ref_crypto
       \<lparr> ph_ratchet_public_key = replicate 32 1, ph_previous_chain_length = 0, ph_message_number = 5 \<rparr>) [1]"
  using ratchet_aad_binds_header [OF ref_b64_laws,
      of "\<lparr> ph_ratchet_public_key = replicate 32 1, ph_previous_chain_length = 0, ph_message_number = 4 \<rparr>"
         "\<lparr> ph_ratchet_public_key = replicate 32 1, ph_previous_chain_length = 0, ph_message_number = 5 \<rparr>"
         "[1]" "[1]"]
  by auto

text \<open>C8: What \<open>decrypt\<close> returns was sealed for this very header: a returned plaintext is the message whose
  encryption, under a message key of this session and with the canonical header and the caller's data as
  associated data, is the envelope's ciphertext.\<close>

theorem ratchet_decrypt_authentic:
  assumes "aead_laws C" and "ratchet_decrypt C env ad s = (Inr pt, t)"
  shows "\<exists>h mk nonce c. parse_ratchet_header C (rm_header env) = Inr h \<and>
     b64_decode C (rm_nonce_b64 env) = Some nonce \<and> b64_decode C (rm_ciphertext_b64 env) = Some c \<and>
     aead_encrypt C mk nonce (build_ratchet_aad (parsed_to_header C h) ad) pt = Some c \<and>
     (bt_get (SkippedKeyId (ph_ratchet_public_key h) (ph_message_number h)) (rs_skipped_keys s) = Some mk \<or>
      (\<exists>ck ck'. derive_chain_key_and_message_key C ck = Inr (ck', mk) \<and> rs_receiving_chain_key t = Some ck'))"
  using ratchet_decrypt_Inr [OF assms(2)] decrypt_ratchet_message_Inr [OF assms(1)] by blast

theorem ratchet_decrypt_authentic_witness:
  "\<exists>env s t mk nonce c. ratchet_decrypt ref_crypto env [9] s = (Inr [1], t) \<and>
     b64_decode ref_crypto (rm_ciphertext_b64 env) = Some c \<and>
     aead_encrypt ref_crypto mk nonce (build_ratchet_aad (rm_header env) [9]) [1] = Some c"
proof -
  obtain a b where s: "bootstrap_initiator_session ref_crypto demo_handshake = Inr a"
    "bootstrap_responder_session ref_crypto demo_spk demo_opened = Inr b" using demo_sessions by blast
  let ?m = "[(replicate 24 0, [1])] :: (bytes \<times> bytes) list"
  have m: "\<forall>m \<in> set ?m. sendable m" "length ?m \<le> 129" "distinct [0 :: nat]" "set [0 :: nat] \<subseteq> {..<length ?m}"
    by (auto simp: sendable_def)
  have "unat (rs_sent_messages a) + length ?m \<le> 2 ^ 32 - 1"
    using bootstrap_synced [OF ref_dh_laws demo_pair s] by simp
  from batch_by_holder [OF ref_b64_laws ref_aead_laws ref_kdf_laws ref_dh_laws _ m(1,2) this m(3,4), of b "[]" "[9]"]
  obtain envs b' ck where d: "decrypt_all ref_crypto [9] (map ((!) envs) [0]) b = (Inr [[1]], b')"
    and msg: "message_on ref_crypto (session_public a) ck (unat (rs_sent_messages a))
        (unat (rs_sent_messages a) + 0) [9] [1] (envs ! 0)"
    using bootstrap_synced [OF ref_dh_laws demo_pair s] by auto
  from d obtain t where t: "ratchet_decrypt ref_crypto (envs ! 0) [9] b = (Inr [1], t)"
    by (auto simp: act_then_eq_Inr)
  have "\<forall>h. parse_ratchet_header ref_crypto (rm_header (envs ! 0)) = Inr h \<longrightarrow>
      parsed_to_header ref_crypto h = rm_header (envs ! 0)"
    using message_on_env(2) [OF ref_b64_laws msg] msg
    by (auto simp: parsed_to_header_def message_on_def message_header_def)
  with ratchet_decrypt_authentic [OF ref_aead_laws t] t show ?thesis by metis
qed

text \<open>C31: A stale envelope costs a message key.  An envelope of the current chain whose number lies below the
  receive counter and whose key is not stored (a replayed message, or a forgery) is tried with the next
  chain key, and advances the receiving chain and the counter whether or not it authenticates.\<close>

theorem ratchet_stale_envelope_advances_chain:
  assumes "kdf_laws C"
    and "rm_version env = DOUBLE_RATCHET_VERSION" "parse_ratchet_header C (rm_header env) = Inr h"
    and "remote_is C (rs_remote_ratchet_key s) (ph_ratchet_public_key h)"
    and "ph_message_number h < rs_received_messages s"
    and "bt_get (SkippedKeyId (ph_ratchet_public_key h) (ph_message_number h)) (rs_skipped_keys s) = None"
    and "rs_receiving_chain_key s = Some ck"
  shows "ratchet_decrypt C env ad s =
     (decrypt_ratchet_message C (chain_message_key C ck) h env ad,
      s\<lparr>rs_receiving_chain_key := Some (next_chain C ck), rs_received_messages := rs_received_messages s + 1\<rparr>)"
  using decrypt_behind [OF assms(2-7) derive_chain_eq [OF assms(1)]] .

definition demo_receiver :: double_ratchet_session where
  "demo_receiver =
     \<lparr> rs_root_key = replicate 32 0, rs_local_ratchet_key = ratchet_key_from_secret ref_crypto (replicate 32 1),
       rs_remote_ratchet_key = Some (replicate 32 2), rs_sending_chain_key = None,
       rs_receiving_chain_key = Some (replicate 32 3), rs_previous_chain_length = 0,
       rs_sent_messages = 0, rs_received_messages = 1, rs_skipped_keys = [] \<rparr>"

definition demo_envelope :: "u32 \<Rightarrow> ratchet_message_envelope" where
  "demo_envelope n =
     \<lparr> rm_version = DOUBLE_RATCHET_VERSION,
       rm_header = \<lparr> rh_ratchet_public_key_b64 = b64_encode ref_crypto (replicate 32 2),
                     rh_previous_chain_length = 0, rh_message_number = n \<rparr>,
       rm_nonce_b64 = [], rm_ciphertext_b64 = [] \<rparr>"

lemma demo_parse: "parse_ratchet_header ref_crypto (rm_header (demo_envelope n)) =
   Inr \<lparr> ph_ratchet_public_key = replicate 32 2, ph_previous_chain_length = 0, ph_message_number = n \<rparr>"
  by (simp add: demo_envelope_def parse_ratchet_header_def)

theorem ratchet_stale_envelope_advances_chain_witness:
  "rs_received_messages (snd (ratchet_decrypt ref_crypto (demo_envelope 0) [] demo_receiver)) = 2"
proof -
  have "ratchet_decrypt ref_crypto (demo_envelope 0) [] demo_receiver =
     (decrypt_ratchet_message ref_crypto (chain_message_key ref_crypto (replicate 32 3))
        \<lparr> ph_ratchet_public_key = replicate 32 2, ph_previous_chain_length = 0, ph_message_number = 0 \<rparr>
        (demo_envelope 0) [],
      demo_receiver\<lparr>rs_receiving_chain_key := Some (next_chain ref_crypto (replicate 32 3)),
        rs_received_messages := rs_received_messages demo_receiver + 1\<rparr>)"
    by (rule ratchet_stale_envelope_advances_chain [OF ref_kdf_laws _ demo_parse])
      (simp_all add: demo_receiver_def demo_envelope_def remote_is_def)
  then show ?thesis by (simp add: demo_receiver_def)
qed

text \<open>C34: Overflowing the skipped-key store ends the receiving chain.  When the gap to an envelope's number is
  within the limit but the keys already stored leave too little room, \<open>skip_message_keys\<close> reports
  \<open>TooManySkippedMessages\<close> and leaves the session without a receiving chain key, so that no later
  message of the chain can be decrypted.\<close>

theorem ratchet_skip_overflow_loses_chain:
  assumes "kdf_laws C" and "skipped_wf (rs_skipped_keys s)"
    and "rs_remote_ratchet_key s = Some K" "rs_receiving_chain_key s = Some ck"
    and "\<forall>j. rs_received_messages s \<le> j \<longrightarrow> bt_get (SkippedKeyId K j) (rs_skipped_keys s) = None"
    and "rs_received_messages s < u" "unat u - unat (rs_received_messages s) \<le> 128"
    and "128 < length (rs_skipped_keys s) + (unat u - unat (rs_received_messages s))"
  shows "\<exists>t. skip_message_keys C u s = (Inl TooManySkippedMessages, t) \<and> rs_receiving_chain_key t = None"
proof -
  have "unat (u - rs_received_messages s) = unat u - unat (rs_received_messages s)"
    using assms(6) by (simp add: unat_sub word_less_nat_alt word_le_nat_alt)
  moreover let ?s = "s\<lparr>rs_receiving_chain_key := None\<rparr>"
  have "fst (skip_loop C K u ck ?s) = Inl TooManySkippedMessages \<and>
     rs_receiving_chain_key (snd (skip_loop C K u ck ?s)) = rs_receiving_chain_key ?s"
    by (rule skip_loop_overflow [OF assms(1)])
      (use assms(2,5,6,8) in \<open>simp_all add: skipped_wf_def MAX_SKIPPED_MESSAGE_KEYS_def\<close>)
  ultimately show ?thesis
    using assms(3,4,6,7)
    by (cases "skip_loop C K u ck (s\<lparr>rs_receiving_chain_key := None\<rparr>)")
      (auto simp: skip_message_keys_def act_then_run take_receiving_run MAX_SKIPPED_MESSAGE_KEYS_def)
qed

theorem ratchet_skip_overflow_loses_chain_witness:
  "\<exists>t. skip_message_keys ref_crypto 129
      (demo_receiver\<lparr>rs_skipped_keys := [(SkippedKeyId (replicate 32 7) 0, replicate 32 8)]\<rparr>) =
        (Inl TooManySkippedMessages, t) \<and> rs_receiving_chain_key t = None"
  by (rule ratchet_skip_overflow_loses_chain [OF ref_kdf_laws, of _ "replicate 32 2" "replicate 32 3"])
    (simp_all add: demo_receiver_def skipped_wf_def MAX_SKIPPED_MESSAGE_KEYS_def)

end
