(* ===== verification/Ratchet_Rounds.thy ===== *)
theory Ratchet_Rounds
  imports Ratchet
begin

text \<open>
  The work a message header can cause: the loop of \<^verbatim>\<open>skip_message_keys\<close> with an explicit budget of
  rounds, and the budget that is always enough.
\<close>

fun skip_rounds ::
    "nat \<Rightarrow> crypto \<Rightarrow> bytes \<Rightarrow> u32 \<Rightarrow> bytes \<Rightarrow> double_ratchet_session \<Rightarrow> ((core_error + bytes) \<times> double_ratchet_session) option" where
  "skip_rounds 0 C remote_ratchet_key until_message_number chain_key s = None"
| "skip_rounds (Suc n) C remote_ratchet_key until_message_number chain_key s =
     (if rs_received_messages s < until_message_number then
        case derive_chain_key_and_message_key C chain_key of
          Inl e \<Rightarrow> Some (Inl e, s)
        | Inr (next_chain_key, message_key) \<Rightarrow>
            if MAX_SKIPPED_MESSAGE_KEYS \<le> length (rs_skipped_keys s)
            then Some (Inl TooManySkippedMessages, s)
            else skip_rounds n C remote_ratchet_key until_message_number next_chain_key
              (s\<lparr>rs_skipped_keys :=
                   bt_insert (SkippedKeyId remote_ratchet_key (rs_received_messages s)) message_key
                     (rs_skipped_keys s),
                 rs_received_messages := rs_received_messages s + 1\<rparr>)
      else Some (Inr chain_key, s))"

definition bounded_skip ::
    "nat \<Rightarrow> crypto \<Rightarrow> u32 \<Rightarrow> double_ratchet_session \<Rightarrow> ((core_error + unit) \<times> double_ratchet_session) option" where
  "bounded_skip n C until_message_number s =
     (if until_message_number < rs_received_messages s then Some (Inr (), s)
      else if until_message_number = rs_received_messages s then Some (Inr (), s)
      else if MAX_SKIPPED_MESSAGE_KEYS < unat (until_message_number - rs_received_messages s)
      then Some (Inl TooManySkippedMessages, s)
      else case rs_remote_ratchet_key s of
        None \<Rightarrow> Some (Inl MissingChainState, s)
      | Some remote_ratchet_key \<Rightarrow>
          (case take_receiving_chain_key s of
             (Inl e, t) \<Rightarrow> Some (Inl e, t)
           | (Inr chain_key, t) \<Rightarrow>
               map_option (\<lambda>(r, u). case r of
                   Inl e \<Rightarrow> (Inl e, u)
                 | Inr k \<Rightarrow> (Inr (), u\<lparr>rs_receiving_chain_key := Some k\<rparr>))
                 (skip_rounds n C remote_ratchet_key until_message_number chain_key t)))"

lemma skip_rounds_enough:
  "unat u - unat (rs_received_messages s) < n \<Longrightarrow> skip_rounds n C K u ck s = Some (skip_loop C K u ck s)"
proof (induction n arbitrary: ck s)
  case (Suc n)
  show ?case
  proof (cases "rs_received_messages s < u")
    case True
    then have "unat (rs_received_messages s + 1) = Suc (unat (rs_received_messages s))"
      by (rule unat_plus_one_below)
    with True Suc.prems have "unat u - unat (rs_received_messages s + 1) < n"
      by (simp add: word_less_nat_alt)
    then show ?thesis
      using True by (auto simp: Suc.IH skip_loop.simps [of C K u ck s] split: sum.split)
  qed (simp add: skip_loop.simps [of C K u ck s])
qed simp

text \<open>C25: \<^verbatim>\<open>skip_message_keys\<close> always ends, after at most 128 rounds (129 evaluations of the loop condition),
  whatever the session and whatever message number up to 2^32 - 1 a header announces.\<close>

theorem ratchet_skip_rounds_bounded:
  "bounded_skip 129 C until_message_number s = Some (skip_message_keys C until_message_number s)"
proof -
  have enough: "skip_rounds 129 C K until_message_number ck (s\<lparr>rs_receiving_chain_key := None\<rparr>) =
      Some (skip_loop C K until_message_number ck (s\<lparr>rs_receiving_chain_key := None\<rparr>))"
    if "\<not> until_message_number < rs_received_messages s"
      "\<not> MAX_SKIPPED_MESSAGE_KEYS < unat (until_message_number - rs_received_messages s)" for K ck
  proof (rule skip_rounds_enough)
    have "unat (until_message_number - rs_received_messages s) =
        unat until_message_number - unat (rs_received_messages s)"
      using that(1) by (simp add: unat_sub linorder_not_less)
    with that(2) show "unat until_message_number - unat (rs_received_messages (s\<lparr>rs_receiving_chain_key := None\<rparr>)) < 129"
      by (simp add: MAX_SKIPPED_MESSAGE_KEYS_def)
  qed
  show ?thesis
    by (cases "rs_remote_ratchet_key s"; cases "rs_receiving_chain_key s")
      (auto simp: bounded_skip_def skip_message_keys_def take_receiving_chain_key_def act_then_run enough
        split: sum.split prod.split)
qed

end
