(* ===== verification/Session_Store.thy ===== *)
theory Session_Store
  imports Ratchet_Sessions
begin

text \<open>
  The trait \<^verbatim>\<open>DoubleRatchetSessionStore\<close> of \<^verbatim>\<open>crates/comm-core/src/double_ratchet.rs\<close> as the locale
  \<open>session_store\<close>, its in-memory implementor, and the three generic functions
  (\<^verbatim>\<open>load_from_store\<close>, \<^verbatim>\<open>save_to_store\<close>, \<^verbatim>\<open>delete_from_store\<close>) that use it.  The encrypted file
  store, the second implementor, is in \<open>Session_Store_Fs\<close>.
\<close>

section \<open>Clients of a store\<close>

definition validate_session_id :: "string \<Rightarrow> core_error + unit" where
  "validate_session_id session_id =
     (if trim session_id = [] then Inl InvalidRatchetSessionId else Inr ())"

definition load_from_store ::
    "crypto \<Rightarrow> (string \<Rightarrow> ('s, core_error, persisted_session option) action) \<Rightarrow> string \<Rightarrow>
     ('s, core_error, double_ratchet_session option) action" where
  "load_from_store C load_session session_id =
     act_then (load_session session_id) (\<lambda>persisted.
     act_lift (transpose_map (from_persisted C) persisted))"

definition save_to_store ::
    "crypto \<Rightarrow> (string \<Rightarrow> persisted_session \<Rightarrow> ('s, core_error, unit) action) \<Rightarrow>
     double_ratchet_session \<Rightarrow> string \<Rightarrow> ('s, core_error, unit) action" where
  "save_to_store C save_session self session_id = save_session session_id (persist C self)"

definition delete_from_store ::
    "(string \<Rightarrow> ('s, core_error, unit) action) \<Rightarrow> string \<Rightarrow> ('s, core_error, unit) action" where
  "delete_from_store delete_session session_id = delete_session session_id"

section \<open>The contract\<close>

text \<open>
  \<open>view s\<close> is what the store holds.  The laws speak of the session ids in \<open>ids\<close>; an implementor
  that derives file names from ids keeps apart only ids whose names differ.  An operation may fail;
  a failed one leaves the invariant and all other ids alone.  \<open>sees s\<close> says that the next look-up in \<open>s\<close>
  tells the truth about whether an id is stored: a store that asks the operating system may be told that
  nothing is there.
\<close>

locale session_store =
  fixes ids :: "string set"
    and inv :: "'s \<Rightarrow> bool"
    and view :: "'s \<Rightarrow> string \<Rightarrow> persisted_session option"
    and sees :: "'s \<Rightarrow> bool"
    and load :: "string \<Rightarrow> ('s, core_error, persisted_session option) action"
    and save :: "string \<Rightarrow> persisted_session \<Rightarrow> ('s, core_error, unit) action"
    and delete :: "string \<Rightarrow> ('s, core_error, unit) action"
  assumes blank_load: "trim i = [] \<Longrightarrow> load i s = (Inl InvalidRatchetSessionId, s)"
    and blank_save: "trim i = [] \<Longrightarrow> save i p s = (Inl InvalidRatchetSessionId, s)"
    and blank_delete: "trim i = [] \<Longrightarrow> delete i s = (Inl InvalidRatchetSessionId, s)"
    and load_inv: "inv s \<Longrightarrow> i \<in> ids \<Longrightarrow> inv (snd (load i s)) \<and> view (snd (load i s)) = view s"
    and load_ok: "inv s \<Longrightarrow> i \<in> ids \<Longrightarrow> fst (load i s) = Inr x \<Longrightarrow> x = view s i \<or> x = None \<and> \<not> sees s"
    and save_inv: "inv s \<Longrightarrow> i \<in> ids \<Longrightarrow> inv (snd (save i p s))"
    and save_other: "inv s \<Longrightarrow> i \<in> ids \<Longrightarrow> j \<in> ids \<Longrightarrow> j \<noteq> i \<Longrightarrow> view (snd (save i p s)) j = view s j"
    and save_ok: "inv s \<Longrightarrow> i \<in> ids \<Longrightarrow> fst (save i p s) = Inr () \<Longrightarrow> view (snd (save i p s)) i = Some p"
    and delete_inv: "inv s \<Longrightarrow> i \<in> ids \<Longrightarrow> inv (snd (delete i s))"
    and delete_other: "inv s \<Longrightarrow> i \<in> ids \<Longrightarrow> j \<in> ids \<Longrightarrow> j \<noteq> i \<Longrightarrow> view (snd (delete i s)) j = view s j"
    and delete_ok: "inv s \<Longrightarrow> i \<in> ids \<Longrightarrow> fst (delete i s) = Inr () \<Longrightarrow> sees s \<Longrightarrow> view (snd (delete i s)) i = None"
begin

lemma load_from_store_ok:
  assumes "inv s" "i \<in> ids" "fst (load_from_store C load i s) = Inr r"
  shows "transpose_map (from_persisted C) (view s i) = Inr r \<or> r = None \<and> \<not> sees s"
proof (cases "load i s")
  case (Pair x t)
  then show ?thesis
    using assms load_ok [OF assms(1,2)]
    by (cases x) (auto simp: load_from_store_def act_then_run)
qed

text \<open>A session saved under an id loads back as the same session, unless the look-up of the load is blind.\<close>

lemma save_load:
  assumes "b64_laws C" "session_wf d" "inv s" "i \<in> ids"
    and "save_to_store C save d i s = (Inr (), t)" "fst (load_from_store C load i t) = Inr r"
  shows "r = Some d \<or> r = None \<and> \<not> sees t"
proof -
  have t: "fst (save i (persist C d) s) = Inr ()" "snd (save i (persist C d) s) = t"
    using assms(5) by (simp_all add: save_to_store_def)
  have "inv t" "view t i = Some (persist C d)"
    using save_inv [OF assms(3,4), of "persist C d"] save_ok [OF assms(3,4) t(1)] t(2) by simp_all
  then show ?thesis
    using load_from_store_ok [OF _ assms(4,6)] persist_round_trip [OF assms(1,2)] by auto
qed

text \<open>Saving or deleting another id does not change what an id loads to.\<close>

lemma save_other_load:
  assumes "inv s" "i \<in> ids" "j \<in> ids" "j \<noteq> i"
    and "fst (load_from_store C load j (snd (save_to_store C save d i s))) = Inr r"
  shows "transpose_map (from_persisted C) (view s j) = Inr r \<or>
     r = None \<and> \<not> sees (snd (save_to_store C save d i s))"
  using load_from_store_ok [OF save_inv [OF assms(1,2)] assms(3)] assms save_other [OF assms(1-4)]
  by (simp add: save_to_store_def)

lemma delete_load:
  assumes "inv s" "i \<in> ids" "sees s" "delete_from_store delete i s = (Inr (), t)"
    and "fst (load_from_store C load i t) = Inr r"
  shows "r = None"
proof -
  have t: "fst (delete i s) = Inr ()" "snd (delete i s) = t"
    using assms(4) by (simp_all add: delete_from_store_def)
  show ?thesis
    using load_from_store_ok [OF _ assms(2,5)] delete_inv [OF assms(1,2)] delete_ok [OF assms(1,2) t(1) assms(3)] t(2)
    by auto
qed

lemma blank_rejected:
  assumes "trim i = []"
  shows "load_from_store C load i s = (Inl InvalidRatchetSessionId, s)"
    and "save_to_store C save d i s = (Inl InvalidRatchetSessionId, s)"
    and "delete_from_store delete i s = (Inl InvalidRatchetSessionId, s)"
  by (simp_all add: load_from_store_def save_to_store_def delete_from_store_def act_then_run
      blank_load blank_save blank_delete assms)

end

section \<open>The in-memory store\<close>

text \<open>
  \<^verbatim>\<open>Arc<RwLock<BTreeMap<..>>>\<close>: the map, and whether the lock is poisoned (a thread panicked while
  holding it), in which case \<^verbatim>\<open>read()\<close> and \<^verbatim>\<open>write()\<close> fail.
\<close>

record in_memory_store =
  im_poisoned :: bool
  im_sessions :: "(string \<times> persisted_session) list"

definition in_memory_new :: in_memory_store where
  "in_memory_new = \<lparr> im_poisoned = False, im_sessions = bt_empty \<rparr>"

definition lock_sessions :: "(in_memory_store, core_error, (string \<times> persisted_session) list) action" where
  "lock_sessions = (\<lambda>s. (if im_poisoned s then Inl StorageFailure else Inr (im_sessions s), s))"

definition in_memory_load_session ::
    "string \<Rightarrow> (in_memory_store, core_error, persisted_session option) action" where
  "in_memory_load_session session_id =
     act_then (act_lift (validate_session_id session_id)) (\<lambda>_.
     act_then lock_sessions (\<lambda>sessions.
     act_ok (bt_get session_id sessions)))"

definition in_memory_save_session ::
    "string \<Rightarrow> persisted_session \<Rightarrow> (in_memory_store, core_error, unit) action" where
  "in_memory_save_session session_id session =
     act_then (act_lift (validate_session_id session_id)) (\<lambda>_.
     act_then lock_sessions (\<lambda>sessions.
     act_mod (\<lambda>s. s\<lparr>im_sessions := bt_insert session_id session sessions\<rparr>)))"

definition in_memory_delete_session :: "string \<Rightarrow> (in_memory_store, core_error, unit) action" where
  "in_memory_delete_session session_id =
     act_then (act_lift (validate_session_id session_id)) (\<lambda>_.
     act_then lock_sessions (\<lambda>sessions.
     act_mod (\<lambda>s. s\<lparr>im_sessions := bt_remove session_id sessions\<rparr>)))"

lemmas in_memory_unfold =
  in_memory_load_session_def in_memory_save_session_def in_memory_delete_session_def
  lock_sessions_def validate_session_id_def act_then_run

interpretation mem: session_store UNIV "\<lambda>s. bt_inv (im_sessions s)"
  "\<lambda>s i. bt_get i (im_sessions s)" "\<lambda>_. True"
  in_memory_load_session in_memory_save_session in_memory_delete_session
  by unfold_locales
    (auto simp: in_memory_unfold bt_get_insert bt_get_remove split: if_splits)

section \<open>Properties\<close>

text \<open>The in-memory store gives back the session that was saved under an id, unless its lock is
  poisoned; other ids are not affected; a deleted id loads as nothing; a blank id is rejected by all three
  operations, which leave the store as it was.\<close>

theorem in_memory_store_correct:
  assumes "b64_laws C" "session_wf d" "bt_inv (im_sessions s)" "\<not> im_poisoned s" "trim i \<noteq> []"
  shows "\<exists>t. save_to_store C in_memory_save_session d i s = (Inr (), t) \<and>
     load_from_store C in_memory_load_session i t = (Inr (Some d), t) \<and>
     (\<forall>j. j \<noteq> i \<longrightarrow> load_from_store C in_memory_load_session j t =
        (fst (load_from_store C in_memory_load_session j s), t)) \<and>
     fst (load_from_store C in_memory_load_session i (snd (delete_from_store in_memory_delete_session i t))) = Inr None \<and>
     (\<forall>b. trim b = [] \<longrightarrow> save_to_store C in_memory_save_session d b t = (Inl InvalidRatchetSessionId, t))"
proof -
  let ?t = "s\<lparr>im_sessions := bt_insert i (persist C d) (im_sessions s)\<rparr>"
  let ?u = "?t\<lparr>im_sessions := bt_remove i (im_sessions ?t)\<rparr>"
  have save: "save_to_store C in_memory_save_session d i s = (Inr (), ?t)"
    using assms(4,5) by (simp add: save_to_store_def in_memory_unfold)
  have run: "load_from_store C in_memory_load_session i ?t = (fst (load_from_store C in_memory_load_session i ?t), ?t)"
    and ok: "\<exists>r. fst (load_from_store C in_memory_load_session i ?t) = Inr r"
    using assms by (auto simp: load_from_store_def in_memory_unfold bt_get_insert persist_round_trip)
  then have load: "load_from_store C in_memory_load_session i ?t = (Inr (Some d), ?t)"
    using mem.save_load [OF assms(1,2) _ _ save] assms(3) by fastforce
  have del: "delete_from_store in_memory_delete_session i ?t = (Inr (), ?u)"
    using assms(4,5) by (simp add: delete_from_store_def in_memory_unfold)
  have "fst (load_from_store C in_memory_load_session i ?u) = Inr None"
    using assms(3-5) by (simp add: load_from_store_def in_memory_unfold bt_get_remove)
  moreover have "load_from_store C in_memory_load_session j ?t =
        (fst (load_from_store C in_memory_load_session j s), ?t)" if "j \<noteq> i" for j
    using that assms(4) by (simp add: load_from_store_def in_memory_unfold bt_get_insert)
  ultimately show ?thesis
    using save load del mem.blank_rejected(2) by (intro exI [of _ ?t]) simp
qed

definition demo_session :: double_ratchet_session where
  "demo_session =
     \<lparr> rs_root_key = replicate 32 0, rs_local_ratchet_key = ratchet_key_from_secret ref_crypto (replicate 32 1),
       rs_remote_ratchet_key = Some (replicate 32 2), rs_sending_chain_key = None,
       rs_receiving_chain_key = Some (replicate 32 3), rs_previous_chain_length = 0,
       rs_sent_messages = 0, rs_received_messages = 1,
       rs_skipped_keys = [(SkippedKeyId (replicate 32 2) 0, replicate 32 4)] \<rparr>"

lemma demo_session_wf: "session_wf demo_session"
  by (simp add: demo_session_def session_wf_def skipped_wf_def ratchet_key_from_secret_def
      length_x25519_public MAX_SKIPPED_MESSAGE_KEYS_def)

theorem in_memory_store_correct_witness:
  "\<exists>t. save_to_store ref_crypto in_memory_save_session demo_session ''a'' in_memory_new = (Inr (), t) \<and>
     load_from_store ref_crypto in_memory_load_session ''a'' t = (Inr (Some demo_session), t)"
  using in_memory_store_correct [OF ref_b64_laws demo_session_wf, of in_memory_new "''a''"]
  by (auto simp: in_memory_new_def bt_empty_def trim_def)

end
