(* ===== verification/Session_Store_Fs.thy ===== *)
theory Session_Store_Fs
  imports Session_Store
begin

text \<open>
  \<^verbatim>\<open>crates/comm-core/src/ratchet_store_fs.rs\<close>: the encrypted file store.  The directory
  \<^verbatim>\<open>root_dir\<close> is a map from file names to contents.  Every operating-system call consumes one
  outcome of the oracle \<open>os\<close>: whether it fails, what a failed write leaves in the file, and the
  random bytes drawn.  \<^verbatim>\<open>serde_json\<close> is the parameter record \<open>serde\<close>.
\<close>

section \<open>Files\<close>

record os_outcome =
  oo_fails :: bool
  oo_partial :: "bytes option"
  oo_random :: bytes

record file_system =
  fs_files :: "string \<Rightarrow> bytes option"
  fs_tick :: nat

type_synonym os = "nat \<Rightarrow> os_outcome"
type_synonym 'a fs_action = "(file_system, core_error, 'a) action"

definition fs_next :: "os \<Rightarrow> os_outcome fs_action" where
  "fs_next os =
     act_then (act_get (\<lambda>s. os (fs_tick s))) (\<lambda>outcome.
     act_then (act_mod (\<lambda>s. s\<lparr>fs_tick := Suc (fs_tick s)\<rparr>)) (\<lambda>_. act_ok outcome))"

definition fs_create_dir_all :: "os \<Rightarrow> unit fs_action" where
  "fs_create_dir_all os =
     act_then (fs_next os) (\<lambda>outcome. if oo_fails outcome then act_err StorageFailure else act_ok ())"

definition fs_present :: "string \<Rightarrow> bool fs_action" where
  "fs_present path = act_get (\<lambda>s. fs_files s path \<noteq> None)"

text \<open>\<^verbatim>\<open>Path::exists\<close> answers \<^verbatim>\<open>false\<close> when the file is missing and when it cannot be looked up.\<close>

definition fs_exists :: "os \<Rightarrow> string \<Rightarrow> bool fs_action" where
  "fs_exists os path =
     act_then (fs_next os) (\<lambda>outcome. if oo_fails outcome then act_ok False else fs_present path)"

definition fs_read :: "os \<Rightarrow> string \<Rightarrow> bytes fs_action" where
  "fs_read os path =
     act_then (fs_next os) (\<lambda>outcome.
     if oo_fails outcome then act_err StorageFailure
     else act_then (act_get (\<lambda>s. fs_files s path)) (\<lambda>content. act_lift (ok_or StorageFailure content)))"

definition fs_write :: "os \<Rightarrow> string \<Rightarrow> bytes \<Rightarrow> unit fs_action" where
  "fs_write os path content =
     act_then (fs_next os) (\<lambda>outcome.
     if oo_fails outcome
     then act_then (case oo_partial outcome of
              None \<Rightarrow> act_ok ()
            | Some part \<Rightarrow> act_mod (\<lambda>s. s\<lparr>fs_files := (fs_files s)(path \<mapsto> part)\<rparr>))
          (\<lambda>_. act_err StorageFailure)
     else act_mod (\<lambda>s. s\<lparr>fs_files := (fs_files s)(path \<mapsto> content)\<rparr>))"

definition fs_remove_file :: "os \<Rightarrow> string \<Rightarrow> unit fs_action" where
  "fs_remove_file os path =
     act_then (fs_next os) (\<lambda>outcome.
     act_then (fs_present path) (\<lambda>present.
     if oo_fails outcome \<or> \<not> present then act_err StorageFailure
     else act_mod (\<lambda>s. s\<lparr>fs_files := (fs_files s)(path := None)\<rparr>)))"

definition fs_rename :: "os \<Rightarrow> string \<Rightarrow> string \<Rightarrow> unit fs_action" where
  "fs_rename os source target =
     act_then (fs_next os) (\<lambda>outcome.
     act_then (fs_present source) (\<lambda>present.
     if oo_fails outcome \<or> \<not> present then act_err StorageFailure
     else act_mod (\<lambda>s. s\<lparr>fs_files := (fs_files s)(target := fs_files s source, source := None)\<rparr>)))"

section \<open>The store\<close>

record encrypted_session_record =
  er_nonce_b64 :: string
  er_ciphertext_b64 :: string

record serde =
  sj_session_to_vec :: "persisted_session \<Rightarrow> bytes option"
  sj_session_from_slice :: "bytes \<Rightarrow> persisted_session option"
  sj_record_to_vec :: "encrypted_session_record \<Rightarrow> bytes option"
  sj_record_from_slice :: "bytes \<Rightarrow> encrypted_session_record option"

text \<open>\<^verbatim>\<open>Path::with_extension\<close>: replace what follows the last dot of a file name.\<close>

definition file_stem :: "string \<Rightarrow> string" where
  "file_stem name =
     (let before = dropWhile (\<lambda>c. c \<noteq> CHR ''.'') (rev name) in
      if before = [] \<or> tl before = [] then name else rev (tl before))"

definition with_extension :: "string \<Rightarrow> string \<Rightarrow> string" where
  "with_extension name extension = file_stem name @ ''.'' @ extension"

definition session_path :: "crypto \<Rightarrow> string \<Rightarrow> string" where
  "session_path C session_id = hex_encode C (sha256 C (as_bytes session_id)) @ ''.json''"

definition store_encrypt ::
    "crypto \<Rightarrow> serde \<Rightarrow> os \<Rightarrow> bytes \<Rightarrow> string \<Rightarrow> persisted_session \<Rightarrow> encrypted_session_record fs_action" where
  "store_encrypt C S os encryption_key session_id session =
     act_then (act_lift (ok_or StorageFailure (sj_session_to_vec S session))) (\<lambda>plaintext.
     act_then (fs_next os) (\<lambda>outcome.
     let nonce = oo_random outcome in
     act_then (act_lift (ok_or StorageFailure
        (aead_encrypt C encryption_key nonce (as_bytes session_id) plaintext))) (\<lambda>ciphertext.
     act_ok \<lparr> er_nonce_b64 = b64_encode C nonce, er_ciphertext_b64 = b64_encode C ciphertext \<rparr>)))"

definition store_decrypt ::
    "crypto \<Rightarrow> serde \<Rightarrow> bytes \<Rightarrow> string \<Rightarrow> encrypted_session_record \<Rightarrow> core_error + persisted_session" where
  "store_decrypt C S encryption_key session_id record =
     and_then (ok_or StorageFailure (b64_decode C (er_nonce_b64 record))) (\<lambda>nonce_bytes.
     and_then (ok_or StorageFailure (try_into_array 24 nonce_bytes)) (\<lambda>nonce.
     and_then (ok_or StorageFailure (b64_decode C (er_ciphertext_b64 record))) (\<lambda>ciphertext.
     and_then (ok_or StorageFailure
        (aead_decrypt C encryption_key nonce (as_bytes session_id) ciphertext)) (\<lambda>plaintext.
     ok_or StorageFailure (sj_session_from_slice S plaintext)))))"

definition fs_load_session ::
    "crypto \<Rightarrow> serde \<Rightarrow> os \<Rightarrow> bytes \<Rightarrow> string \<Rightarrow> persisted_session option fs_action" where
  "fs_load_session C S os encryption_key session_id =
     act_then (act_lift (validate_session_id session_id)) (\<lambda>_.
     let path = session_path C session_id in
     act_then (fs_exists os path) (\<lambda>present.
     if \<not> present then act_ok None
     else
       act_then (fs_read os path) (\<lambda>bytes.
       act_then (act_lift (ok_or StorageFailure (sj_record_from_slice S bytes))) (\<lambda>record.
       act_then (act_lift (store_decrypt C S encryption_key session_id record)) (\<lambda>session.
       act_ok (Some session))))))"

definition fs_save_session ::
    "crypto \<Rightarrow> serde \<Rightarrow> os \<Rightarrow> bytes \<Rightarrow> string \<Rightarrow> persisted_session \<Rightarrow> unit fs_action" where
  "fs_save_session C S os encryption_key session_id session =
     act_then (act_lift (validate_session_id session_id)) (\<lambda>_.
     act_then (fs_create_dir_all os) (\<lambda>_.
     act_then (store_encrypt C S os encryption_key session_id session) (\<lambda>record.
     let path = session_path C session_id; temp_path = with_extension path ''json.tmp'' in
     act_then (act_lift (ok_or StorageFailure (sj_record_to_vec S record))) (\<lambda>bytes.
     act_then (fs_write os temp_path bytes) (\<lambda>_.
     act_then (fs_exists os path) (\<lambda>present.
     act_then (if present then fs_remove_file os path else act_ok ()) (\<lambda>_.
     fs_rename os temp_path path)))))))"

definition fs_delete_session :: "crypto \<Rightarrow> os \<Rightarrow> string \<Rightarrow> unit fs_action" where
  "fs_delete_session C os session_id =
     act_then (act_lift (validate_session_id session_id)) (\<lambda>_.
     let path = session_path C session_id in
     act_then (fs_exists os path) (\<lambda>present.
     if present then fs_remove_file os path else act_ok ()))"

section \<open>What the directory holds\<close>

definition decode_file :: "crypto \<Rightarrow> serde \<Rightarrow> bytes \<Rightarrow> string \<Rightarrow> bytes \<Rightarrow> core_error + persisted_session" where
  "decode_file C S K session_id content =
     and_then (ok_or StorageFailure (sj_record_from_slice S content)) (store_decrypt C S K session_id)"

definition fs_view :: "crypto \<Rightarrow> serde \<Rightarrow> bytes \<Rightarrow> file_system \<Rightarrow> string \<Rightarrow> persisted_session option" where
  "fs_view C S K s session_id =
     (case fs_files s (session_path C session_id) of
        None \<Rightarrow> None
      | Some content \<Rightarrow> (case decode_file C S K session_id content of Inr p \<Rightarrow> Some p | Inl _ \<Rightarrow> None))"

text \<open>JSON text that \<^verbatim>\<open>serde_json\<close> wrote reads back as the value.\<close>

definition serde_laws :: "serde \<Rightarrow> bool" where
  "serde_laws S \<longleftrightarrow>
     (\<forall>p b. sj_session_to_vec S p = Some b \<longrightarrow> sj_session_from_slice S b = Some p) \<and>
     (\<forall>r b. sj_record_to_vec S r = Some b \<longrightarrow> sj_record_from_slice S b = Some r)"

definition fs_laws :: "crypto \<Rightarrow> serde \<Rightarrow> os \<Rightarrow> string set \<Rightarrow> bool" where
  "fs_laws C S os ids \<longleftrightarrow> b64_laws C \<and> aead_laws C \<and> kdf_laws C \<and> hex_laws C \<and> serde_laws S \<and>
     (\<forall>n. length (oo_random (os n)) = 24) \<and> inj_on (\<lambda>i. sha256 C (as_bytes i)) ids"

definition fs_inv :: "crypto \<Rightarrow> serde \<Rightarrow> os \<Rightarrow> bytes \<Rightarrow> string set \<Rightarrow> file_system \<Rightarrow> bool" where
  "fs_inv C S os K ids s \<longleftrightarrow> fs_laws C S os ids \<and>
     (\<forall>i \<in> ids. \<forall>content. fs_files s (session_path C i) = Some content \<longrightarrow>
        is_ok (decode_file C S K i content))"

lemma fs_next_run: "fs_next os s = (Inr (os (fs_tick s)), s\<lparr>fs_tick := Suc (fs_tick s)\<rparr>)"
  by (simp add: fs_next_def act_then_run)

lemmas fs_unfold =
  fs_create_dir_all_def fs_present_def fs_exists_def fs_read_def fs_write_def fs_remove_file_def fs_rename_def
  fs_next_run act_then_run

lemma hex_no_dot:
  assumes "hex_laws C" "kdf_laws C"
  shows "CHR ''.'' \<notin> set (hex_encode C b)" "hex_encode C (sha256 C b) \<noteq> []"
proof -
  have "is_ascii_hexdigit c" if "c \<in> set (hex_encode C b)" for c
    using assms(1) that by (auto simp: hex_laws_def list_all_iff)
  moreover have "\<not> is_ascii_hexdigit CHR ''.''" by (simp add: is_ascii_hexdigit_def Let_def)
  ultimately show "CHR ''.'' \<notin> set (hex_encode C b)" by blast
  have "length (hex_encode C (sha256 C b)) = 64"
    using assms by (simp add: hex_laws_def length_sha256)
  then show "hex_encode C (sha256 C b) \<noteq> []" by auto
qed

lemma temp_path_eq:
  assumes "hex_laws C" "kdf_laws C"
  shows "with_extension (session_path C i) ''json.tmp'' =
     hex_encode C (sha256 C (as_bytes i)) @ ''.json.tmp''"
proof -
  let ?h = "hex_encode C (sha256 C (as_bytes i))"
  have "dropWhile (\<lambda>c. c \<noteq> CHR ''.'') (rev (?h @ ''.json'')) = CHR ''.'' # rev ?h"
    by simp
  then show ?thesis
    using hex_no_dot(2) [OF assms, of "as_bytes i"]
    by (simp add: with_extension_def session_path_def file_stem_def)
qed

lemma temp_path_distinct:
  assumes "hex_laws C" "kdf_laws C"
  shows "with_extension (session_path C i) ''json.tmp'' \<noteq> session_path C j"
proof
  assume eq: "with_extension (session_path C i) ''json.tmp'' = session_path C j"
  have p: "last (with_extension (session_path C i) ''json.tmp'') = CHR ''p''"
    unfolding temp_path_eq [OF assms] by simp
  have "last (session_path C j) = CHR ''n''" by (simp add: session_path_def)
  then show False using p unfolding eq by simp
qed

lemma session_path_inject:
  assumes "fs_laws C S os ids" "i \<in> ids" "j \<in> ids"
  shows "session_path C i = session_path C j \<longleftrightarrow> i = j"
  using assms by (auto simp: fs_laws_def session_path_def hex_encode_inject dest: inj_onD)

lemma decode_encrypted:
  assumes "fs_laws C S os ids" "store_encrypt C S os K i p s = (Inr r, t)" "sj_record_to_vec S r = Some b"
  shows "decode_file C S K i b = Inr p \<and> t = s\<lparr>fs_tick := Suc (fs_tick s)\<rparr>"
  using assms
  by (auto simp: store_encrypt_def decode_file_def store_decrypt_def fs_laws_def serde_laws_def
      act_then_eq_Inr fs_next_run Let_def result_simps b64_decode_encode aead_decrypt_encrypt)

section \<open>The file store meets the contract\<close>

lemma fs_inv_cong:
  "fs_files t = fs_files s \<Longrightarrow> fs_inv C S os K ids t = fs_inv C S os K ids s"
  "fs_files t = fs_files s \<Longrightarrow> fs_view C S K t = fs_view C S K s"
  by (simp_all add: fs_inv_def fs_view_def fun_eq_iff)

lemma fs_load_run:
  "fs_files (snd (fs_load_session C S os K i s)) = fs_files s"
  by (auto simp: fs_load_session_def fs_unfold Let_def split: sum.splits prod.splits option.splits)

lemma fs_load_value:
  assumes "fst (fs_load_session C S os K i s) = Inr x"
  shows "x = fs_view C S K s i \<or> x = None \<and> oo_fails (os (fs_tick s))"
  using assms
  by (auto simp: fs_load_session_def fs_unfold fs_view_def decode_file_def Let_def ok_or_def and_then_def
      split: sum.splits prod.splits option.splits if_splits)

text \<open>
  The only files a save touches are the temporary file and the id's own file; the latter ends up
  unchanged, removed, or holding the new session.
\<close>

lemma fs_commit_files:
  assumes "tmp \<noteq> path"
    and "act_then (fs_write os tmp b) (\<lambda>_.
         act_then (fs_exists os path) (\<lambda>present.
         act_then (if present then fs_remove_file os path else act_ok ()) (\<lambda>_.
         fs_rename os tmp path))) s = (r, t)"
  shows "(\<forall>x. x \<noteq> tmp \<longrightarrow> x \<noteq> path \<longrightarrow> fs_files t x = fs_files s x) \<and>
     (case r of Inr _ \<Rightarrow> fs_files t path = Some b | Inl _ \<Rightarrow> fs_files t path \<in> {fs_files s path, None})"
  using assms
  by (auto simp: fs_unfold split: if_splits option.splits)

lemma fs_save_files:
  assumes "fs_laws C S os ids" "fs_save_session C S os K i p s = (r, t)"
  shows "(\<forall>x. x \<noteq> with_extension (session_path C i) ''json.tmp'' \<longrightarrow> x \<noteq> session_path C i \<longrightarrow>
            fs_files t x = fs_files s x) \<and>
     (case r of
        Inr _ \<Rightarrow> \<exists>b. fs_files t (session_path C i) = Some b \<and> decode_file C S K i b = Inr p
      | Inl _ \<Rightarrow> fs_files t (session_path C i) \<in> {fs_files s (session_path C i), None})"
proof -
  let ?s1 = "s\<lparr>fs_tick := Suc (fs_tick s)\<rparr>"
  have ne: "with_extension (session_path C i) ''json.tmp'' \<noteq> session_path C i"
    using temp_path_distinct assms(1) by (simp add: fs_laws_def)
  obtain q u where e: "store_encrypt C S os K i p ?s1 = (q, u)" by fastforce
  have keep: "fs_files u = fs_files s"
    using e by (auto simp: store_encrypt_def fs_unfold Let_def split: sum.splits prod.splits)
  show ?thesis
  proof (cases "trim i = [] \<or> oo_fails (os (fs_tick s)) \<or> (\<exists>x. q = Inl x) \<or>
      (\<exists>rec. q = Inr rec \<and> sj_record_to_vec S rec = None)")
    case True
    then have "(\<exists>x. r = Inl x) \<and> fs_files t = fs_files s"
      using e keep assms(2)
      by (auto simp: fs_save_session_def fs_unfold Let_def validate_session_id_def split: if_splits)
    then show ?thesis by auto
  next
    case False
    then obtain rec b where q: "q = Inr rec" "sj_record_to_vec S rec = Some b"
      and go: "trim i \<noteq> []" "\<not> oo_fails (os (fs_tick s))"
      by (cases q) auto
    have dec: "decode_file C S K i b = Inr p"
      using decode_encrypted [OF assms(1) e [unfolded q(1)] q(2)] by simp
    have commit: "act_then (fs_write os (with_extension (session_path C i) ''json.tmp'') b) (\<lambda>_.
         act_then (fs_exists os (session_path C i)) (\<lambda>present.
         act_then (if present then fs_remove_file os (session_path C i) else act_ok ()) (\<lambda>_.
         fs_rename os (with_extension (session_path C i) ''json.tmp'') (session_path C i)))) u = (r, t)"
      using assms(2) e q go
      by (simp add: fs_save_session_def fs_create_dir_all_def fs_next_run validate_session_id_def Let_def
          act_then_run [of "act_lift _"] act_then_run [of "fs_next _"] act_then_run [of "act_then _ _"]
          act_then_run [of "store_encrypt _ _ _ _ _ _"])
    show ?thesis using fs_commit_files [OF ne commit] dec unfolding keep by (cases r) auto
  qed
qed

lemma fs_delete_files:
  assumes "fs_delete_session C os i s = (r, t)"
  shows "(\<forall>x. x \<noteq> session_path C i \<longrightarrow> fs_files t x = fs_files s x) \<and>
     (case r of Inr _ \<Rightarrow> fs_files t (session_path C i) = (if oo_fails (os (fs_tick s)) then fs_files s (session_path C i) else None)
      | Inl _ \<Rightarrow> fs_files t (session_path C i) = fs_files s (session_path C i))"
  using assms
  by (auto simp: fs_delete_session_def fs_unfold Let_def split: if_splits sum.splits)

lemma fs_inv_update:
  assumes "fs_inv C S os K ids s" "i \<in> ids"
    and "\<forall>j \<in> ids. j \<noteq> i \<longrightarrow> fs_files t (session_path C j) = fs_files s (session_path C j)"
    and "fs_files t (session_path C i) \<in> {fs_files s (session_path C i), None} \<or>
         (\<exists>b p. fs_files t (session_path C i) = Some b \<and> decode_file C S K i b = Inr p)"
  shows "fs_inv C S os K ids t"
  unfolding fs_inv_def
proof (intro conjI ballI allI impI)
  show "fs_laws C S os ids" using assms(1) by (simp add: fs_inv_def)
  fix j content assume j: "j \<in> ids" "fs_files t (session_path C j) = Some content"
  show "is_ok (decode_file C S K j content)"
    using assms j by (cases "j = i") (auto simp: fs_inv_def)
qed

lemma fs_save_step:
  assumes "fs_inv C S os K ids s" "i \<in> ids"
  shows "fs_inv C S os K ids (snd (fs_save_session C S os K i p s)) \<and>
     (\<forall>j \<in> ids. j \<noteq> i \<longrightarrow> fs_view C S K (snd (fs_save_session C S os K i p s)) j = fs_view C S K s j) \<and>
     (fst (fs_save_session C S os K i p s) = Inr () \<longrightarrow> fs_view C S K (snd (fs_save_session C S os K i p s)) i = Some p) \<and>
     (\<forall>e. fst (fs_save_session C S os K i p s) = Inl e \<longrightarrow>
        fs_view C S K (snd (fs_save_session C S os K i p s)) i \<in> {fs_view C S K s i, None})"
proof -
  obtain r t where run: "fs_save_session C S os K i p s = (r, t)" by fastforce
  have laws: "fs_laws C S os ids" using assms(1) by (simp add: fs_inv_def)
  note f = fs_save_files [OF laws run]
  have other: "fs_files t (session_path C j) = fs_files s (session_path C j)" if "j \<in> ids" "j \<noteq> i" for j
  proof -
    have "session_path C j \<noteq> session_path C i" using session_path_inject [OF laws] that assms(2) by blast
    moreover have "session_path C j \<noteq> with_extension (session_path C i) ''json.tmp''"
      using temp_path_distinct laws by (metis fs_laws_def)
    ultimately show ?thesis using f by blast
  qed
  have own: "fs_files t (session_path C i) \<in> {fs_files s (session_path C i), None} \<or>
         (\<exists>b p. fs_files t (session_path C i) = Some b \<and> decode_file C S K i b = Inr p)"
    using f by (cases r) auto
  have "fs_inv C S os K ids t" by (rule fs_inv_update [OF assms]) (use other own in auto)
  then show ?thesis
    using f other run by (cases r) (auto simp: fs_view_def split: option.splits)
qed

lemma fs_delete_step:
  assumes "fs_inv C S os K ids s" "i \<in> ids"
  shows "fs_inv C S os K ids (snd (fs_delete_session C os i s)) \<and>
     (\<forall>j \<in> ids. j \<noteq> i \<longrightarrow> fs_view C S K (snd (fs_delete_session C os i s)) j = fs_view C S K s j) \<and>
     (fst (fs_delete_session C os i s) = Inr () \<longrightarrow> \<not> oo_fails (os (fs_tick s)) \<longrightarrow> fs_view C S K (snd (fs_delete_session C os i s)) i = None)"
proof -
  obtain r t where run: "fs_delete_session C os i s = (r, t)" by fastforce
  have laws: "fs_laws C S os ids" using assms(1) by (simp add: fs_inv_def)
  note f = fs_delete_files [OF run]
  have other: "fs_files t (session_path C j) = fs_files s (session_path C j)" if "j \<in> ids" "j \<noteq> i" for j
    using f session_path_inject [OF laws] that assms(2) by blast
  have own: "fs_files t (session_path C i) \<in> {fs_files s (session_path C i), None}"
    using f by (cases r) (auto split: if_splits)
  have "fs_inv C S os K ids t"
    by (rule fs_inv_update [OF assms]) (use other own in auto)
  then show ?thesis using f other run by (cases r) (auto simp: fs_view_def)
qed

interpretation fs: session_store ids "fs_inv C S os K ids" "fs_view C S K" "\<lambda>s. \<not> oo_fails (os (fs_tick s))"
    "fs_load_session C S os K" "fs_save_session C S os K" "fs_delete_session C os"
  for C S os K ids
proof unfold_locales
  fix i s assume "trim i = []"
  then show "fs_load_session C S os K i s = (Inl InvalidRatchetSessionId, s)"
    and "fs_delete_session C os i s = (Inl InvalidRatchetSessionId, s)"
    and "fs_save_session C S os K i p s = (Inl InvalidRatchetSessionId, s)" for p
    by (simp_all add: fs_load_session_def fs_delete_session_def fs_save_session_def
        validate_session_id_def act_then_run)
next
  fix i s assume "fs_inv C S os K ids s" "i \<in> ids"
  then show "fs_inv C S os K ids (snd (fs_load_session C S os K i s)) \<and>
      fs_view C S K (snd (fs_load_session C S os K i s)) = fs_view C S K s"
    using fs_inv_cong [OF fs_load_run] by simp
qed (use fs_load_value in blast, use fs_save_step in blast, use fs_save_step in blast,
    use fs_save_step in blast, use fs_delete_step in blast, use fs_delete_step in blast,
    use fs_delete_step in blast)

section \<open>Runs of a save\<close>

text \<open>\<open>encrypted_file os s b\<close>: the bytes a save starting in \<open>s\<close> writes to the temporary file.\<close>

definition encrypted_file ::
    "crypto \<Rightarrow> serde \<Rightarrow> os \<Rightarrow> bytes \<Rightarrow> string \<Rightarrow> persisted_session \<Rightarrow> nat \<Rightarrow> bytes option" where
  "encrypted_file C S os K i p tick =
     (case sj_session_to_vec S p of
        None \<Rightarrow> None
      | Some plaintext \<Rightarrow>
          (case aead_encrypt C K (oo_random (os tick)) (as_bytes i) plaintext of
             None \<Rightarrow> None
           | Some c \<Rightarrow> sj_record_to_vec S
               \<lparr> er_nonce_b64 = b64_encode C (oo_random (os tick)), er_ciphertext_b64 = b64_encode C c \<rparr>))"

lemma fs_save_run:
  assumes "encrypted_file C S os K i p (Suc (fs_tick s)) = Some b" "trim i \<noteq> []" "\<not> oo_fails (os (fs_tick s))"
  shows "fs_save_session C S os K i p s =
     act_then (fs_write os (with_extension (session_path C i) ''json.tmp'') b) (\<lambda>_.
     act_then (fs_exists os (session_path C i)) (\<lambda>present.
     act_then (if present then fs_remove_file os (session_path C i) else act_ok ()) (\<lambda>_.
     fs_rename os (with_extension (session_path C i) ''json.tmp'') (session_path C i))))
     (s\<lparr>fs_tick := fs_tick s + 2\<rparr>)"
  using assms
  by (simp add: encrypted_file_def fs_save_session_def store_encrypt_def fs_create_dir_all_def fs_next_run
      validate_session_id_def Let_def act_then_run [of "act_lift _"] act_then_run [of "fs_next _"]
      act_then_run [of "act_then _ _"] act_then_run [of "act_ok _"] split: option.splits)

lemma fs_save_fresh:
  assumes "encrypted_file C S os K i p (Suc (fs_tick s)) = Some b" "trim i \<noteq> []"
    and "\<forall>n \<in> {0, 2, 3, 4}. \<not> oo_fails (os (fs_tick s + n))" "fs_files s (session_path C i) = None"
    and "with_extension (session_path C i) ''json.tmp'' \<noteq> session_path C i"
  shows "fs_save_session C S os K i p s =
     (Inr (), \<lparr> fs_files = (fs_files s)(session_path C i \<mapsto> b, with_extension (session_path C i) ''json.tmp'' := None),
                fs_tick = fs_tick s + 5 \<rparr>)"
  using fs_save_run [OF assms(1,2)] assms(3-)
  by (auto simp: fs_unfold eval_nat_numeral fun_eq_iff)

lemma fs_save_rename_fails:
  assumes "encrypted_file C S os K i p (Suc (fs_tick s)) = Some b" "trim i \<noteq> []"
    and "\<forall>n \<in> {0, 2, 3, 4}. \<not> oo_fails (os (fs_tick s + n))" "oo_fails (os (fs_tick s + 5))"
    and "fs_files s (session_path C i) \<noteq> None"
    and "with_extension (session_path C i) ''json.tmp'' \<noteq> session_path C i"
  shows "\<exists>t. fs_save_session C S os K i p s = (Inl StorageFailure, t) \<and> fs_files t (session_path C i) = None"
  using fs_save_run [OF assms(1,2)] assms(3-)
  by (auto simp: fs_unfold eval_nat_numeral)

lemma fs_load_healthy:
  assumes "fs_inv C S os K ids s" "i \<in> ids" "trim i \<noteq> []"
    and "\<not> oo_fails (os (fs_tick s))" "\<not> oo_fails (os (Suc (fs_tick s)))"
  shows "\<exists>t. fs_load_session C S os K i s = (Inr (fs_view C S K s i), t)"
proof (cases "fs_files s (session_path C i)")
  case (Some content)
  then have "is_ok (decode_file C S K i content)" using assms(1,2) by (simp add: fs_inv_def)
  then obtain p where "decode_file C S K i content = Inr p" by (auto simp: is_ok_iff)
  then show ?thesis
    using Some assms(3-)
    by (auto simp: decode_file_def fs_load_session_def fs_view_def fs_unfold validate_session_id_def
        Let_def result_simps)
qed (use assms(3,4) in \<open>simp add: fs_load_session_def fs_view_def fs_unfold validate_session_id_def Let_def\<close>)

text \<open>A concrete \<^verbatim>\<open>serde_json\<close> that knows one session, and a disk whose call number \<open>k\<close> fails.\<close>

definition ref_serde :: "persisted_session \<Rightarrow> serde" where
  "ref_serde p =
     \<lparr> sj_session_to_vec = (\<lambda>q. if q = p then Some [1] else None),
       sj_session_from_slice = (\<lambda>b. if b = [1] then Some p else None),
       sj_record_to_vec = (\<lambda>r. if length (er_nonce_b64 r) = 24
          then Some (as_bytes (er_nonce_b64 r @ er_ciphertext_b64 r)) else None),
       sj_record_from_slice = (\<lambda>b. Some \<lparr> er_nonce_b64 = from_bytes (take 24 b),
          er_ciphertext_b64 = from_bytes (drop 24 b) \<rparr>) \<rparr>"

definition ref_os :: "nat \<Rightarrow> os" where
  "ref_os k = (\<lambda>n. \<lparr> oo_fails = (n = k), oo_partial = None, oo_random = replicate 24 7 \<rparr>)"

definition ref_dir :: file_system where
  "ref_dir = \<lparr> fs_files = (\<lambda>_. None), fs_tick = 0 \<rparr>"

lemma ref_serde_laws: "serde_laws (ref_serde p)"
proof -
  have "from_bytes (take 24 (as_bytes (x @ y))) = x \<and> from_bytes (drop 24 (as_bytes (x @ y))) = y"
    if "length x = 24" for x y
    using that by (simp add: as_bytes_def [of "x @ y"] flip: as_bytes_def)
  then show ?thesis by (auto simp: serde_laws_def ref_serde_def)
qed

lemma ref_dir_inv: "fs_inv ref_crypto (ref_serde p) (ref_os k) K {''a''} ref_dir"
  by (simp add: fs_inv_def fs_laws_def ref_serde_laws ref_dir_def ref_os_def)

lemma ref_encrypted_file: "\<exists>b. encrypted_file ref_crypto (ref_serde p) (ref_os k) K i p n = Some b"
proof -
  obtain c where "aead_encrypt ref_crypto K (replicate 24 7) (as_bytes i) [1] = Some c"
    using aead_encrypt_total [OF ref_aead_laws, of "[1]" K "replicate 24 7" "as_bytes i"] by auto
  then show ?thesis
    by (simp add: encrypted_file_def ref_serde_def ref_os_def) (simp add: ref_crypto_def)
qed

lemma ref_paths: "with_extension (session_path ref_crypto i) ''json.tmp'' \<noteq> session_path ref_crypto i"
  by (rule temp_path_distinct) simp_all

section \<open>Properties\<close>

text \<open>C10: The encrypted file store gives back what was saved.  In any directory whose session files were
  written by the store, a session saved under an id is the session a later load returns, whatever
  operating-system calls fail in between, unless the load reports an error or the operating system fails to
  look the file up, which \<^verbatim>\<open>path.exists()\<close> turns into "no such session".\<close>

theorem file_store_round_trip:
  assumes "fs_inv C S os K ids s" "i \<in> ids" "session_wf d"
    and "save_to_store C (fs_save_session C S os K) d i s = (Inr (), t)"
    and "load_from_store C (fs_load_session C S os K) i t = (Inr r, u)"
  shows "r = Some d \<or> r = None \<and> oo_fails (os (fs_tick t))"
proof -
  have "b64_laws C" using assms(1) by (simp add: fs_inv_def fs_laws_def)
  from fs.save_load [OF this assms(3,1,2,4), of r] assms(5) show ?thesis by simp
qed

theorem file_store_round_trip_witness:
  "\<exists>t u. save_to_store ref_crypto (fs_save_session ref_crypto (ref_serde (persist ref_crypto demo_session)) (ref_os 99) [5])
         demo_session ''a'' ref_dir = (Inr (), t) \<and>
     load_from_store ref_crypto
        (fs_load_session ref_crypto (ref_serde (persist ref_crypto demo_session)) (ref_os 99) [5]) ''a'' t =
        (Inr (Some demo_session), u)"
proof -
  let ?p = "persist ref_crypto demo_session"
  let ?S = "ref_serde ?p"
  obtain b where b: "encrypted_file ref_crypto ?S (ref_os 99) [5] ''a'' ?p (Suc (fs_tick ref_dir)) = Some b"
    using ref_encrypted_file by blast
  obtain t where t: "fs_save_session ref_crypto ?S (ref_os 99) [5] ''a'' ?p ref_dir = (Inr (), t)" "fs_tick t = 5"
    using fs_save_fresh [OF b] ref_paths by (auto simp: trim_def ref_os_def ref_dir_def)
  then have s: "save_to_store ref_crypto (fs_save_session ref_crypto ?S (ref_os 99) [5]) demo_session ''a'' ref_dir = (Inr (), t)"
    by (simp add: save_to_store_def)
  have inv: "fs_inv ref_crypto ?S (ref_os 99) [5] {''a''} t" and view: "fs_view ref_crypto ?S [5] t ''a'' = Some ?p"
    using fs_save_step [OF ref_dir_inv, of "''a''" ?p 99 "[5]" ?p] t(1) by simp_all
  obtain u where "fs_load_session ref_crypto ?S (ref_os 99) [5] ''a'' t = (Inr (Some ?p), u)"
    using fs_load_healthy [OF inv, of "''a''"] view t(2) by (auto simp: trim_def ref_os_def)
  then obtain r where l: "load_from_store ref_crypto (fs_load_session ref_crypto ?S (ref_os 99) [5]) ''a'' t = (Inr r, u)"
    using persist_round_trip [OF ref_b64_laws demo_session_wf] by (simp add: load_from_store_def act_then_run)
  have "r = Some demo_session"
    using file_store_round_trip [OF ref_dir_inv _ demo_session_wf s l] t(2) by (simp add: ref_os_def)
  with s l show ?thesis by blast
qed

text \<open>C32: A look-up that fails hides a stored session.  When the operating system cannot look the file up,
  \<^verbatim>\<open>path.exists()\<close> is false: a load answers that there is no such session, and a deletion reports success
  and leaves the session in place.\<close>

theorem file_store_failed_look_up:
  assumes "fs_view C S K s i = Some p" "trim i \<noteq> []" "oo_fails (os (fs_tick s))"
  shows "\<exists>t. fs_load_session C S os K i s = (Inr None, t) \<and> fs_delete_session C os i s = (Inr (), t) \<and>
     fs_view C S K t i = Some p"
  using assms
  by (auto simp: fs_load_session_def fs_delete_session_def validate_session_id_def fs_unfold fs_view_def Let_def)

theorem file_store_failed_look_up_witness:
  "\<exists>p s t. fs_load_session ref_crypto (ref_serde p) (ref_os 5) [5] ''a'' s = (Inr None, t) \<and>
     fs_view ref_crypto (ref_serde p) [5] t ''a'' = Some p"
proof -
  let ?p = "persist ref_crypto demo_session"
  let ?S = "ref_serde ?p"
  obtain b where b: "encrypted_file ref_crypto ?S (ref_os 5) [5] ''a'' ?p (Suc (fs_tick ref_dir)) = Some b"
    using ref_encrypted_file by blast
  obtain s where s: "fs_save_session ref_crypto ?S (ref_os 5) [5] ''a'' ?p ref_dir = (Inr (), s)" "fs_tick s = 5"
    using fs_save_fresh [OF b] ref_paths by (auto simp: trim_def ref_os_def ref_dir_def)
  have "fs_view ref_crypto ?S [5] s ''a'' = Some ?p"
    using fs_save_step [OF ref_dir_inv, of "''a''" ?p 5 "[5]" ?p] s(1) by simp
  from file_store_failed_look_up [OF this, of "ref_os 5"] s(2) show ?thesis
    by (auto simp: trim_def ref_os_def)
qed

text \<open>A failed save never corrupts a session and never touches another one: afterwards the id loads to
  the session it had before or to nothing, and every other id to what it had.\<close>

theorem file_store_failed_save:
  assumes "fs_inv C S os K ids s" "i \<in> ids" "fs_save_session C S os K i p s = (Inl e, t)"
  shows "fs_inv C S os K ids t \<and> fs_view C S K t i \<in> {fs_view C S K s i, None} \<and>
     (\<forall>j \<in> ids. j \<noteq> i \<longrightarrow> fs_view C S K t j = fs_view C S K s j)"
  using fs_save_step [OF assms(1,2), of p] assms(3) by simp

theorem file_store_failed_save_witness:
  "\<exists>e t. fs_save_session ref_crypto (ref_serde (persist ref_crypto demo_session)) (ref_os 0) [5] ''a''
       (persist ref_crypto demo_session) ref_dir = (Inl e, t) \<and>
     fs_view ref_crypto (ref_serde (persist ref_crypto demo_session)) [5] t ''a'' = None"
proof -
  let ?p = "persist ref_crypto demo_session"
  have "fs_save_session ref_crypto (ref_serde ?p) (ref_os 0) [5] ''a'' ?p ref_dir =
      (Inl StorageFailure, \<lparr> fs_files = \<lambda>_. None, fs_tick = 1 \<rparr>)"
    by (simp add: fs_save_session_def fs_unfold validate_session_id_def trim_def ref_os_def ref_dir_def)
  with file_store_failed_save [OF ref_dir_inv _ this] show ?thesis
    by (simp add: fs_view_def ref_dir_def)
qed

text \<open>C33: Replacing a session is not atomic.  \<open>save_session\<close> removes the old file before it renames the new
  one into place; when the rename fails, the call reports \<open>StorageFailure\<close> and the session that was stored
  before is gone.\<close>

theorem file_store_rename_failure_loses_session:
  assumes "fs_inv C S os K ids s" "trim i \<noteq> []"
    and "fs_view C S K s i = Some old"
    and "encrypted_file C S os K i p (Suc (fs_tick s)) = Some b"
    and "\<forall>n \<in> {0, 2, 3, 4}. \<not> oo_fails (os (fs_tick s + n))" "oo_fails (os (fs_tick s + 5))"
  shows "\<exists>t. fs_save_session C S os K i p s = (Inl StorageFailure, t) \<and> fs_view C S K t i = None"
proof -
  have "with_extension (session_path C i) ''json.tmp'' \<noteq> session_path C i"
    using assms(1) temp_path_distinct by (simp add: fs_inv_def fs_laws_def)
  moreover have "fs_files s (session_path C i) \<noteq> None"
    using assms(3) by (auto simp: fs_view_def split: option.splits)
  ultimately show ?thesis
    using fs_save_rename_fails [OF assms(4,2,5,6)] by (auto simp: fs_view_def)
qed

theorem file_store_rename_failure_loses_session_witness:
  "\<exists>p s t. fs_view ref_crypto (ref_serde p) [5] s ''a'' = Some p \<and>
     fs_save_session ref_crypto (ref_serde p) (ref_os 10) [5] ''a'' p s = (Inl StorageFailure, t) \<and>
     fs_view ref_crypto (ref_serde p) [5] t ''a'' = None"
proof -
  let ?p = "persist ref_crypto demo_session"
  let ?S = "ref_serde ?p"
  obtain b where b: "encrypted_file ref_crypto ?S (ref_os 10) [5] ''a'' ?p (Suc (fs_tick ref_dir)) = Some b"
    using ref_encrypted_file by blast
  obtain s where s: "fs_save_session ref_crypto ?S (ref_os 10) [5] ''a'' ?p ref_dir = (Inr (), s)" "fs_tick s = 5"
    using fs_save_fresh [OF b] ref_paths by (auto simp: trim_def ref_os_def ref_dir_def)
  have inv: "fs_inv ref_crypto ?S (ref_os 10) [5] {''a''} s"
    and view: "fs_view ref_crypto ?S [5] s ''a'' = Some ?p"
    using fs_save_step [OF ref_dir_inv, of "''a''" ?p 10 "[5]" ?p] s(1) by simp_all
  obtain c where c: "encrypted_file ref_crypto ?S (ref_os 10) [5] ''a'' ?p (Suc (fs_tick s)) = Some c"
    using ref_encrypted_file by blast
  from file_store_rename_failure_loses_session [OF inv _ view c] view s(2) show ?thesis
    by (auto simp: trim_def ref_os_def)
qed

end
