(* ===== verification/Relay_Db.thy ===== *)
theory Relay_Db
  imports Core_Types
begin

text \<open>
  The relay's Postgres schema, \<^verbatim>\<open>services/relay/migrations/*.sql\<close>: one row record per table, the
  database as a record of row lists, the constraints the schema declares, and the cascades of its
  foreign keys.  A writing statement is the update it describes followed by the constraint checks:
  a violated \<^verbatim>\<open>CHECK\<close>, unique or foreign key constraint makes the statement fail and leaves the
  tables as they were.
\<close>

type_synonym uuid = "128 word"

section \<open>Rows\<close>

record mailbox_row =
  mb_mailbox_id :: string
  mb_access_token_hash :: bytes
  mb_created_at :: time

record account_row =
  ac_mailbox_id :: string
  ac_codename :: string
  ac_role :: string
  ac_status :: string
  ac_owner_mailbox_id :: "string option"
  ac_created_at :: time
  ac_activated_at :: "time option"

record message_row =
  ms_message_id :: uuid
  ms_mailbox_id :: string
  ms_sender_device_hint :: "string option"
  ms_ciphertext :: bytes
  ms_received_at :: time
  ms_expires_at :: time
  ms_deleted_at :: "time option"

record intent_row =
  it_intent_id :: uuid
  it_mailbox_id :: string
  it_bucket :: string
  it_object_key :: string
  it_media_type :: string
  it_original_size_bytes :: int
  it_padded_size_bytes :: int
  it_chunk_size_bytes :: int
  it_content_sha256_b64 :: "string option"
  it_created_at :: time
  it_expires_at :: time

record object_row =
  ob_object_id :: uuid
  ob_mailbox_id :: string
  ob_intent_id :: "uuid option"
  ob_bucket :: string
  ob_object_key :: string
  ob_media_type :: string
  ob_original_size_bytes :: int
  ob_padded_size_bytes :: int
  ob_chunk_size_bytes :: int
  ob_content_sha256_b64 :: "string option"
  ob_created_at :: time
  ob_upload_completed_at :: time

record grant_row =
  gr_grant_id :: uuid
  gr_object_id :: uuid
  gr_mailbox_id :: string
  gr_grant_token_hash :: bytes
  gr_operation :: string
  gr_created_at :: time
  gr_expires_at :: time
  gr_redeemed_at :: "time option"

record bundle_row =
  bu_mailbox_id :: string
  bu_identity_signing_key :: bytes
  bu_identity_exchange_key :: bytes
  bu_signed_prekey :: bytes
  bu_signed_prekey_signature :: bytes
  bu_signed_prekey_created_at :: time
  bu_signed_prekey_expires_at :: time
  bu_updated_at :: time

record otk_row =
  ok_prekey_id :: uuid
  ok_mailbox_id :: string
  ok_public_key :: bytes
  ok_created_at :: time
  ok_consumed_at :: "time option"

record device_row =
  dv_mailbox_id :: string
  dv_device_id :: string
  dv_device_label :: string
  dv_device_signing_key :: bytes
  dv_device_exchange_key :: bytes
  dv_created_at :: time
  dv_revoked_at :: "time option"
  dv_signature :: bytes
  dv_updated_at :: time

record contact_row =
  ct_owner_mailbox_id :: string
  ct_contact_mailbox_id :: string
  ct_codename :: string
  ct_created_at :: time
  ct_updated_at :: time

record post_row =
  po_post_id :: uuid
  po_author_mailbox_id :: string
  po_author_codename :: string
  po_audience :: string
  po_reply_policy :: string
  po_author_ciphertext_b64 :: string
  po_created_at :: time
  po_expires_at :: time

record delivery_row =
  de_delivery_id :: uuid
  de_post_id :: uuid
  de_recipient_mailbox_id :: string
  de_ciphertext_b64 :: string
  de_created_at :: time

record reply_row =
  re_reply_id :: uuid
  re_post_id :: uuid
  re_author_mailbox_id :: string
  re_author_codename :: string
  re_recipient_mailbox_id :: string
  re_author_ciphertext_b64 :: string
  re_recipient_ciphertext_b64 :: string
  re_created_at :: time
  re_expires_at :: time

record db =
  db_mailboxes :: "mailbox_row list"
  db_accounts :: "account_row list"
  db_messages :: "message_row list"
  db_intents :: "intent_row list"
  db_objects :: "object_row list"
  db_grants :: "grant_row list"
  db_bundles :: "bundle_row list"
  db_otks :: "otk_row list"
  db_devices :: "device_row list"
  db_contacts :: "contact_row list"
  db_posts :: "post_row list"
  db_deliveries :: "delivery_row list"
  db_replies :: "reply_row list"

definition empty_db :: db where
  "empty_db = \<lparr> db_mailboxes = [], db_accounts = [], db_messages = [], db_intents = [], db_objects = [],
     db_grants = [], db_bundles = [], db_otks = [], db_devices = [], db_contacts = [], db_posts = [],
     db_deliveries = [], db_replies = [] \<rparr>"

section \<open>Constraints\<close>

text \<open>\<^verbatim>\<open>CHECK\<close> clauses.\<close>

definition db_checks :: "db \<Rightarrow> bool" where
  "db_checks d \<longleftrightarrow>
     (\<forall>a \<in> set (db_accounts d). ac_role a \<in> {''admin'', ''user''} \<and>
        ac_status a \<in> {''provisioned'', ''active'', ''disabled''}) \<and>
     (\<forall>c \<in> set (db_contacts d). ct_owner_mailbox_id c \<noteq> ct_contact_mailbox_id c) \<and>
     (\<forall>p \<in> set (db_posts d). po_audience p = ''contacts'' \<and>
        po_reply_policy p \<in> {''no_replies'', ''contacts_only''}) \<and>
     (\<forall>r \<in> set (db_replies d). re_author_mailbox_id r \<noteq> re_recipient_mailbox_id r)"

text \<open>\<^verbatim>\<open>PRIMARY KEY\<close> and \<^verbatim>\<open>UNIQUE\<close> clauses; NULLs are never equal to each other.\<close>

definition db_keys :: "db \<Rightarrow> bool" where
  "db_keys d \<longleftrightarrow>
     distinct (map mb_mailbox_id (db_mailboxes d)) \<and>
     distinct (map ac_mailbox_id (db_accounts d)) \<and>
     distinct (map ms_message_id (db_messages d)) \<and>
     distinct (map it_intent_id (db_intents d)) \<and> distinct (map it_object_key (db_intents d)) \<and>
     distinct (map ob_object_id (db_objects d)) \<and> distinct (List.map_filter ob_intent_id (db_objects d)) \<and>
     distinct (map ob_object_key (db_objects d)) \<and>
     distinct (map gr_grant_id (db_grants d)) \<and> distinct (map gr_grant_token_hash (db_grants d)) \<and>
     distinct (map bu_mailbox_id (db_bundles d)) \<and>
     distinct (map ok_prekey_id (db_otks d)) \<and> distinct (map ok_public_key (db_otks d)) \<and>
     distinct (map (\<lambda>v. (dv_mailbox_id v, dv_device_id v)) (db_devices d)) \<and>
     distinct (map (\<lambda>c. (ct_owner_mailbox_id c, ct_contact_mailbox_id c)) (db_contacts d)) \<and>
     distinct (map po_post_id (db_posts d)) \<and>
     distinct (map de_delivery_id (db_deliveries d)) \<and>
     distinct (map (\<lambda>e. (de_post_id e, de_recipient_mailbox_id e)) (db_deliveries d)) \<and>
     distinct (map re_reply_id (db_replies d))"

definition has_mailbox :: "db \<Rightarrow> string \<Rightarrow> bool" where
  "has_mailbox d m \<longleftrightarrow> m \<in> mb_mailbox_id ` set (db_mailboxes d)"

text \<open>\<^verbatim>\<open>REFERENCES\<close> clauses.\<close>

definition db_refs :: "db \<Rightarrow> bool" where
  "db_refs d \<longleftrightarrow>
     (\<forall>a \<in> set (db_accounts d). has_mailbox d (ac_mailbox_id a) \<and>
        (case ac_owner_mailbox_id a of None \<Rightarrow> True | Some m \<Rightarrow> m \<in> ac_mailbox_id ` set (db_accounts d))) \<and>
     (\<forall>m \<in> set (db_messages d). has_mailbox d (ms_mailbox_id m)) \<and>
     (\<forall>i \<in> set (db_intents d). has_mailbox d (it_mailbox_id i)) \<and>
     (\<forall>b \<in> set (db_objects d). has_mailbox d (ob_mailbox_id b) \<and>
        (case ob_intent_id b of None \<Rightarrow> True | Some i \<Rightarrow> i \<in> it_intent_id ` set (db_intents d))) \<and>
     (\<forall>g \<in> set (db_grants d). has_mailbox d (gr_mailbox_id g) \<and>
        gr_object_id g \<in> ob_object_id ` set (db_objects d)) \<and>
     (\<forall>b \<in> set (db_bundles d). has_mailbox d (bu_mailbox_id b)) \<and>
     (\<forall>k \<in> set (db_otks d). has_mailbox d (ok_mailbox_id k)) \<and>
     (\<forall>v \<in> set (db_devices d). has_mailbox d (dv_mailbox_id v)) \<and>
     (\<forall>c \<in> set (db_contacts d). has_mailbox d (ct_owner_mailbox_id c) \<and> has_mailbox d (ct_contact_mailbox_id c)) \<and>
     (\<forall>p \<in> set (db_posts d). has_mailbox d (po_author_mailbox_id p)) \<and>
     (\<forall>e \<in> set (db_deliveries d). has_mailbox d (de_recipient_mailbox_id e) \<and>
        de_post_id e \<in> po_post_id ` set (db_posts d)) \<and>
     (\<forall>r \<in> set (db_replies d). has_mailbox d (re_author_mailbox_id r) \<and>
        has_mailbox d (re_recipient_mailbox_id r) \<and> re_post_id r \<in> po_post_id ` set (db_posts d))"

definition db_ok :: "db \<Rightarrow> bool" where
  "db_ok d \<longleftrightarrow> db_checks d \<and> db_keys d \<and> db_refs d"

section \<open>Statements\<close>

datatype violation = UniqueViolation | OtherViolation

text \<open>A statement sees \<^verbatim>\<open>NOW()\<close> and the tables, and returns rows and the tables afterwards.\<close>

type_synonym 'a sql = "time \<Rightarrow> db \<Rightarrow> violation + ('a \<times> db)"

definition sql_read :: "(time \<Rightarrow> db \<Rightarrow> 'a) \<Rightarrow> 'a sql" where
  "sql_read f = (\<lambda>now d. Inr (f now d, d))"

definition sql_write :: "(time \<Rightarrow> db \<Rightarrow> 'a \<times> db) \<Rightarrow> 'a sql" where
  "sql_write f = (\<lambda>now d. let (a, d') = f now d in
     if \<not> db_checks d' then Inl OtherViolation
     else if \<not> db_keys d' then Inl UniqueViolation
     else if \<not> db_refs d' then Inl OtherViolation
     else Inr (a, d'))"

text \<open>\<^verbatim>\<open>JOIN\<close> and \<^verbatim>\<open>LEFT JOIN\<close>, row by row; \<^verbatim>\<open>ORDER BY .. DESC\<close> with ties in table order.\<close>

definition inner_join :: "('a \<Rightarrow> 'b \<Rightarrow> bool) \<Rightarrow> 'a list \<Rightarrow> 'b list \<Rightarrow> ('a \<times> 'b) list" where
  "inner_join on xs ys = concat (map (\<lambda>x. map (Pair x) (filter (on x) ys)) xs)"

definition left_join :: "('a \<Rightarrow> 'b \<Rightarrow> bool) \<Rightarrow> 'a list \<Rightarrow> 'b list \<Rightarrow> ('a \<times> 'b option) list" where
  "left_join on xs ys = concat (map (\<lambda>x.
     let matches = filter (on x) ys in
     if matches = [] then [(x, None)] else map (\<lambda>y. (x, Some y)) matches) xs)"

definition sort_desc :: "('a \<Rightarrow> int) \<Rightarrow> 'a list \<Rightarrow> 'a list" where
  "sort_desc key xs = sort_key (\<lambda>x. - key x) xs"

text \<open>\<^verbatim>\<open>UPDATE .. WHERE\<close> and \<^verbatim>\<open>INSERT .. ON CONFLICT DO UPDATE\<close> on one table.\<close>

definition update_where :: "('a \<Rightarrow> bool) \<Rightarrow> ('a \<Rightarrow> 'a) \<Rightarrow> 'a list \<Rightarrow> 'a list" where
  "update_where P f rows = map (\<lambda>x. if P x then f x else x) rows"

definition upsert :: "('a \<Rightarrow> bool) \<Rightarrow> 'a \<Rightarrow> ('a \<Rightarrow> 'a) \<Rightarrow> 'a list \<Rightarrow> 'a list" where
  "upsert P row f rows = (if list_ex P rows then update_where P f rows else rows @ [row])"

lemma in_update_where: "x \<in> set (update_where P f rows) \<longleftrightarrow> (\<exists>y \<in> set rows. x = (if P y then f y else y))"
  by (auto simp: update_where_def)

lemma set_upsert: "x \<in> set (upsert P row f rows) \<longleftrightarrow>
    (if list_ex P rows then \<exists>y \<in> set rows. x = (if P y then f y else y) else x \<in> set rows \<or> x = row)"
  by (auto simp: upsert_def in_update_where)

lemma upsert_old: "x \<in> set rows \<Longrightarrow> (if P x then f x else x) \<in> set (upsert P row f rows)"
  by (auto simp: set_upsert list_ex_iff)

lemma upsert_new: "y \<in> set (upsert P row f rows) \<Longrightarrow> y = row \<or> (\<exists>x \<in> set rows. y = (if P x then f x else x))"
  by (auto simp: set_upsert list_ex_iff split: if_splits)

lemma update_where_old: "x \<in> set rows \<Longrightarrow> (if P x then f x else x) \<in> set (update_where P f rows)"
  by (auto simp: in_update_where)

lemma find_update_where:
  "(\<And>x. P x \<Longrightarrow> P (f x)) \<Longrightarrow> find P (update_where P f rows) = map_option f (find P rows)"
  by (induction rows) (auto simp: update_where_def)

lemma find_upsert:
  assumes "\<And>x. P x \<Longrightarrow> P (f x)" "P row"
  shows "find P (upsert P row f rows) = Some (case find P rows of None \<Rightarrow> row | Some x \<Rightarrow> f x)"
proof (cases "list_ex P rows")
  case True
  then obtain x where "find P rows = Some x"
    by (cases "find P rows") (auto simp: find_None_iff list_ex_iff)
  with True show ?thesis by (simp add: upsert_def find_update_where [where P = P and f = f] assms(1))
next
  case False
  then have "find P rows = None" by (simp add: find_None_iff list_ex_iff)
  moreover have "find P (rows @ [row]) = Some row" if "find P rows = None" for rows
    using that assms(2) by (induction rows) (auto split: if_splits)
  ultimately show ?thesis using False by (simp add: upsert_def)
qed

text \<open>A unique column determines the row.\<close>

lemma find_unique:
  "distinct (map key rows) \<Longrightarrow> x \<in> set rows \<Longrightarrow> key x = k \<Longrightarrow> find (\<lambda>r. key r = k) rows = Some x"
  by (induction rows) (auto simp: image_iff)

lemma find_in: "find P rows = Some x \<Longrightarrow> x \<in> set rows \<and> P x"
  by (auto simp: find_Some_iff)

lemma set_inner_join: "set (inner_join on xs ys) = {(x, y). x \<in> set xs \<and> y \<in> set ys \<and> on x y}"
  by (auto simp: inner_join_def)

lemma set_left_join:
  "(x, r) \<in> set (left_join on xs ys) \<longleftrightarrow> x \<in> set xs \<and>
     (case r of Some y \<Rightarrow> y \<in> set ys \<and> on x y | None \<Rightarrow> \<forall>y \<in> set ys. \<not> on x y)"
  by (auto simp: left_join_def Let_def filter_empty_conv split: option.splits)

lemma set_sort_desc [simp]: "set (sort_desc key xs) = set xs"
  by (simp add: sort_desc_def)

text \<open>Primary-key lookups.\<close>

definition mailbox_of :: "db \<Rightarrow> string \<Rightarrow> mailbox_row option" where
  "mailbox_of d m = find (\<lambda>b. mb_mailbox_id b = m) (db_mailboxes d)"

definition account_of :: "db \<Rightarrow> string \<Rightarrow> account_row option" where
  "account_of d m = find (\<lambda>a. ac_mailbox_id a = m) (db_accounts d)"

lemma mailbox_of_Some: "mailbox_of d m = Some b \<Longrightarrow> b \<in> set (db_mailboxes d) \<and> mb_mailbox_id b = m"
  by (auto simp: mailbox_of_def dest: find_in)

lemma account_of_Some: "account_of d m = Some a \<Longrightarrow> a \<in> set (db_accounts d) \<and> ac_mailbox_id a = m"
  by (auto simp: account_of_def dest: find_in)

lemma mailbox_of_iff:
  "db_keys d \<Longrightarrow> mailbox_of d m = Some b \<longleftrightarrow> b \<in> set (db_mailboxes d) \<and> mb_mailbox_id b = m"
  unfolding mailbox_of_def by (auto simp: db_keys_def dest: find_in intro: find_unique)

lemma account_of_iff:
  "db_keys d \<Longrightarrow> account_of d m = Some a \<longleftrightarrow> a \<in> set (db_accounts d) \<and> ac_mailbox_id a = m"
  unfolding account_of_def by (auto simp: db_keys_def dest: find_in intro: find_unique)

lemma account_of_None: "account_of d m = None \<longleftrightarrow> (\<forall>a \<in> set (db_accounts d). ac_mailbox_id a \<noteq> m)"
  by (auto simp: account_of_def find_None_iff)

lemma mailbox_of_None: "mailbox_of d m = None \<longleftrightarrow> \<not> has_mailbox d m"
  by (auto simp: mailbox_of_def find_None_iff has_mailbox_def)

section \<open>Cascading deletes\<close>

definition delete_posts :: "(post_row \<Rightarrow> bool) \<Rightarrow> db \<Rightarrow> db" where
  "delete_posts P d =
     (let posts = filter (\<lambda>p. \<not> P p) (db_posts d);
          alive = po_post_id ` set posts
      in d\<lparr>db_posts := posts,
           db_deliveries := filter (\<lambda>e. de_post_id e \<in> alive) (db_deliveries d),
           db_replies := filter (\<lambda>r. re_post_id r \<in> alive) (db_replies d)\<rparr>)"

definition delete_intents :: "(intent_row \<Rightarrow> bool) \<Rightarrow> db \<Rightarrow> db" where
  "delete_intents P d =
     (let intents = filter (\<lambda>i. \<not> P i) (db_intents d);
          alive = it_intent_id ` set intents
      in d\<lparr>db_intents := intents,
           db_objects := map (\<lambda>b. b\<lparr>ob_intent_id :=
             (case ob_intent_id b of Some i \<Rightarrow> if i \<in> alive then Some i else None | None \<Rightarrow> None)\<rparr>)
             (db_objects d)\<rparr>)"

definition delete_objects :: "(object_row \<Rightarrow> bool) \<Rightarrow> db \<Rightarrow> db" where
  "delete_objects P d =
     (let objects = filter (\<lambda>b. \<not> P b) (db_objects d);
          alive = ob_object_id ` set objects
      in d\<lparr>db_objects := objects,
           db_grants := filter (\<lambda>g. gr_object_id g \<in> alive) (db_grants d)\<rparr>)"

text \<open>\<^verbatim>\<open>DELETE FROM relay_mailboxes\<close>: every table references the mailbox.\<close>

definition delete_mailbox :: "string \<Rightarrow> db \<Rightarrow> db" where
  "delete_mailbox m d =
     (let d1 = delete_posts (\<lambda>p. po_author_mailbox_id p = m) d;
          d2 = delete_objects (\<lambda>b. ob_mailbox_id b = m) d1;
          d3 = delete_intents (\<lambda>i. it_mailbox_id i = m) d2
      in d3\<lparr>db_mailboxes := filter (\<lambda>b. mb_mailbox_id b \<noteq> m) (db_mailboxes d3),
            db_accounts := map (\<lambda>a. if ac_owner_mailbox_id a = Some m then a\<lparr>ac_owner_mailbox_id := None\<rparr> else a)
              (filter (\<lambda>a. ac_mailbox_id a \<noteq> m) (db_accounts d3)),
            db_messages := filter (\<lambda>x. ms_mailbox_id x \<noteq> m) (db_messages d3),
            db_grants := filter (\<lambda>g. gr_mailbox_id g \<noteq> m) (db_grants d3),
            db_bundles := filter (\<lambda>b. bu_mailbox_id b \<noteq> m) (db_bundles d3),
            db_otks := filter (\<lambda>k. ok_mailbox_id k \<noteq> m) (db_otks d3),
            db_devices := filter (\<lambda>v. dv_mailbox_id v \<noteq> m) (db_devices d3),
            db_contacts := filter (\<lambda>c. ct_owner_mailbox_id c \<noteq> m \<and> ct_contact_mailbox_id c \<noteq> m) (db_contacts d3),
            db_deliveries := filter (\<lambda>e. de_recipient_mailbox_id e \<noteq> m) (db_deliveries d3),
            db_replies := filter (\<lambda>r. re_author_mailbox_id r \<noteq> m \<and> re_recipient_mailbox_id r \<noteq> m)
              (db_replies d3)\<rparr>)"

section \<open>Statements keep the constraints\<close>

lemma empty_db_ok: "db_ok empty_db"
  by (simp add: db_ok_def db_checks_def db_keys_def db_refs_def empty_db_def List.map_filter_def)

lemma sql_write_ok: "sql_write f now d = Inr (a, d') \<Longrightarrow> db_ok d' \<and> f now d = (a, d')"
  by (auto simp: sql_write_def db_ok_def Let_def split: prod.splits if_splits)

lemma sql_write_Inr:
  "sql_write f now d = Inr (a, d') \<longleftrightarrow> f now d = (a, d') \<and> db_ok d'"
  by (auto simp: sql_write_def db_ok_def Let_def split: prod.splits if_splits)

lemma sql_read_Inr [simp]: "sql_read f now d = Inr (a, d') \<longleftrightarrow> a = f now d \<and> d' = d"
  by (auto simp: sql_read_def)

end
