(* ===== verification/Relay_World.thy ===== *)
theory Relay_World
  imports Relay_Db BTree_Map Media X3dh Device
begin

text \<open>
  The relay's surroundings: its errors and configuration, and the world its handlers act in.
  Every interaction with something outside the process (a SQL statement, a Redis command, a clock
  reading, a random draw, an object store call) consumes one \<open>outcome\<close> of the oracle
  \<open>en_world\<close>.  An outcome says whether the call fails, whether a failed call took effect anyway, the
  server's time, and the random material.  Redis, the object store and the third-party functions the
  handlers call are parameters.
\<close>

section \<open>Errors\<close>

text \<open>\<open>Panicked\<close> is not a variant of \<^verbatim>\<open>ApiError\<close>: it stands for a panic of the handler's task
  (\<^verbatim>\<open>chrono\<close>'s date arithmetic out of range), after which the client sees a dropped connection.\<close>

datatype api_error =
    BadRequest string | Unauthorized string | NotFound string | Conflict string
  | TooManyRequests string | Config string | Dependency string | Internal | Panicked

definition api_error_of_core :: "core_error \<Rightarrow> api_error" where
  "api_error_of_core value = BadRequest (core_error_to_string value)"

text \<open>The HTTP status of \<^verbatim>\<open>IntoResponse for ApiError\<close>; a panic produces no response.\<close>

fun api_error_status :: "api_error \<Rightarrow> nat option" where
  "api_error_status (BadRequest _) = Some 400"
| "api_error_status (Unauthorized _) = Some 401"
| "api_error_status (NotFound _) = Some 404"
| "api_error_status (Conflict _) = Some 409"
| "api_error_status (TooManyRequests _) = Some 429"
| "api_error_status (Config _) = Some 500"
| "api_error_status (Dependency _) = Some 500"
| "api_error_status Internal = Some 500"
| "api_error_status Panicked = None"

section \<open>Configuration\<close>

record relay_config =
  cf_bind_addr :: string
  cf_admin_token :: string
  cf_postgres_dsn :: string
  cf_redis_url :: string
  cf_media_object_store_endpoint :: string
  cf_media_object_store_bucket :: string
  cf_media_object_store_region :: string
  cf_media_object_store_access_key_id :: string
  cf_media_object_store_secret_access_key :: string
  cf_min_ttl_seconds :: int
  cf_default_ttl_seconds :: int
  cf_max_ttl_seconds :: int
  cf_max_ciphertext_bytes :: nat
  cf_replay_ttl_margin_seconds :: int
  cf_media_upload_intent_ttl_seconds :: int
  cf_media_access_grant_ttl_seconds :: int
  cf_media_default_chunk_size_bytes :: u32
  cf_media_max_original_size_bytes :: u64
  cf_submit_rate_limit_per_minute :: u32
  cf_retrieve_rate_limit_per_minute :: u32
  cf_cleanup_interval_seconds :: u64

text \<open>\<^verbatim>\<open>str::parse\<close> for integer types: an optional sign (\<open>-\<close> for signed types only), then one or more digits, in range.\<close>

fun parse_digits :: "string \<Rightarrow> nat \<Rightarrow> nat option" where
  "parse_digits [] acc = Some acc"
| "parse_digits (c # cs) acc =
     (if 48 \<le> (of_char c :: nat) \<and> (of_char c :: nat) \<le> 57
      then parse_digits cs (10 * acc + (of_char c - 48)) else None)"

definition parse_unsigned :: "nat \<Rightarrow> string \<Rightarrow> nat option" where
  "parse_unsigned bits s =
     (let digits = (case s of c # cs \<Rightarrow> if c = CHR ''+'' then cs else s | [] \<Rightarrow> [])
      in if digits = [] then None
         else case parse_digits digits 0 of
                None \<Rightarrow> None
              | Some n \<Rightarrow> if n < 2 ^ bits then Some n else None)"

definition parse_i64 :: "string \<Rightarrow> int option" where
  "parse_i64 s =
     (let negative = (case s of c # cs \<Rightarrow> c = CHR ''-'' | [] \<Rightarrow> False);
          digits = (case s of c # cs \<Rightarrow> if c = CHR ''+'' \<or> c = CHR ''-'' then cs else s | [] \<Rightarrow> [])
      in if digits = [] then None
         else case parse_digits digits 0 of
                None \<Rightarrow> None
              | Some n \<Rightarrow>
                  if negative then (if n \<le> 2 ^ 63 then Some (- int n) else None)
                  else (if n < 2 ^ 63 then Some (int n) else None))"

text \<open>\<open>vars\<close> is \<^verbatim>\<open>env::var(..).ok()\<close>: the value of a variable that is set to valid Unicode.\<close>

type_synonym env_vars = "string \<Rightarrow> string option"

definition parse_env :: "(string \<Rightarrow> 'a option) \<Rightarrow> env_vars \<Rightarrow> string \<Rightarrow> 'a \<Rightarrow> api_error + 'a" where
  "parse_env parse vars key fallback =
     (case vars key of
        None \<Rightarrow> Inr fallback
      | Some value \<Rightarrow> ok_or (Config (''invalid '' @ key)) (parse value))"

definition parse_i64_env :: "env_vars \<Rightarrow> string \<Rightarrow> int \<Rightarrow> api_error + int" where
  "parse_i64_env = parse_env parse_i64"

definition parse_u32_env :: "env_vars \<Rightarrow> string \<Rightarrow> u32 \<Rightarrow> api_error + u32" where
  "parse_u32_env = parse_env (\<lambda>s. map_option of_nat (parse_unsigned 32 s))"

definition parse_u64_env :: "env_vars \<Rightarrow> string \<Rightarrow> u64 \<Rightarrow> api_error + u64" where
  "parse_u64_env = parse_env (\<lambda>s. map_option of_nat (parse_unsigned 64 s))"

definition parse_usize_env :: "env_vars \<Rightarrow> string \<Rightarrow> nat \<Rightarrow> api_error + nat" where
  "parse_usize_env = parse_env (parse_unsigned 64)"

definition required_env :: "env_vars \<Rightarrow> string \<Rightarrow> api_error + string" where
  "required_env vars key = ok_or (Config (key @ '' is required'')) (vars key)"

definition or_var :: "'a option \<Rightarrow> 'a option \<Rightarrow> 'a option" where
  "or_var x y = (case x of Some a \<Rightarrow> Some a | None \<Rightarrow> y)"

definition var_or :: "env_vars \<Rightarrow> string \<Rightarrow> string \<Rightarrow> string" where
  "var_or vars key fallback = (case vars key of Some value \<Rightarrow> value | None \<Rightarrow> fallback)"

text \<open>\<open>valid_addr\<close> is \<^verbatim>\<open>str::parse::<SocketAddr>\<close> succeeding.\<close>

definition config_from_env :: "(string \<Rightarrow> bool) \<Rightarrow> env_vars \<Rightarrow> api_error + relay_config" where
  "config_from_env valid_addr vars =
     (let bind_addr = var_or vars ''RELAY_BIND_ADDR'' ''127.0.0.1:8080'' in
     if \<not> valid_addr bind_addr then Inl (Config ''invalid RELAY_BIND_ADDR'') else
     and_then (required_env vars ''POSTGRES_DSN'') (\<lambda>postgres_dsn.
     and_then (required_env vars ''RELAY_ADMIN_TOKEN'') (\<lambda>admin_token.
     and_then (required_env vars ''REDIS_URL'') (\<lambda>redis_url.
     and_then (required_env vars ''MEDIA_OBJECT_STORE_ENDPOINT'') (\<lambda>endpoint.
     and_then (required_env vars ''MEDIA_OBJECT_STORE_BUCKET'') (\<lambda>bucket.
     let region = var_or vars ''MEDIA_OBJECT_STORE_REGION'' ''us-east-1'' in
     and_then (ok_or (Config ''MEDIA_OBJECT_STORE_ACCESS_KEY_ID is required'')
       (or_var (vars ''MEDIA_OBJECT_STORE_ACCESS_KEY_ID'') (vars ''MINIO_ROOT_USER''))) (\<lambda>access_key_id.
     and_then (ok_or (Config ''MEDIA_OBJECT_STORE_SECRET_ACCESS_KEY is required'')
       (or_var (vars ''MEDIA_OBJECT_STORE_SECRET_ACCESS_KEY'') (vars ''MINIO_ROOT_PASSWORD''))) (\<lambda>secret_access_key.
     and_then (parse_i64_env vars ''RELAY_MIN_TTL_SECONDS'' 300) (\<lambda>min_ttl_seconds.
     and_then (parse_i64_env vars ''RELAY_DEFAULT_TTL_SECONDS'' (60 * 60 * 24 * 7)) (\<lambda>default_ttl_seconds.
     and_then (parse_i64_env vars ''RELAY_MAX_TTL_SECONDS'' (60 * 60 * 24 * 30)) (\<lambda>max_ttl_seconds.
     and_then (parse_usize_env vars ''RELAY_MAX_CIPHERTEXT_BYTES'' 262144) (\<lambda>max_ciphertext_bytes.
     and_then (parse_i64_env vars ''RELAY_REPLAY_TTL_MARGIN_SECONDS'' 300) (\<lambda>replay_ttl_margin_seconds.
     and_then (parse_i64_env vars ''MEDIA_UPLOAD_INTENT_TTL_SECONDS'' 900) (\<lambda>upload_intent_ttl_seconds.
     and_then (parse_i64_env vars ''MEDIA_ACCESS_GRANT_TTL_SECONDS'' 900) (\<lambda>access_grant_ttl_seconds.
     and_then (parse_u32_env vars ''MEDIA_DEFAULT_CHUNK_SIZE_BYTES'' 262144) (\<lambda>default_chunk_size_bytes.
     and_then (parse_u64_env vars ''MEDIA_MAX_ORIGINAL_SIZE_BYTES'' 52428800) (\<lambda>max_original_size_bytes.
     and_then (parse_u32_env vars ''RELAY_SUBMIT_RATE_LIMIT_PER_MINUTE'' 120) (\<lambda>submit_rate_limit.
     and_then (parse_u32_env vars ''RELAY_RETRIEVE_RATE_LIMIT_PER_MINUTE'' 240) (\<lambda>retrieve_rate_limit.
     and_then (parse_u64_env vars ''RELAY_CLEANUP_INTERVAL_SECONDS'' 60) (\<lambda>cleanup_interval_seconds.
     if min_ttl_seconds \<le> 0 \<or> default_ttl_seconds < min_ttl_seconds \<or> max_ttl_seconds < default_ttl_seconds
     then Inl (Config ''relay TTL configuration is inconsistent'')
     else if max_ciphertext_bytes = 0
     then Inl (Config ''RELAY_MAX_CIPHERTEXT_BYTES must be greater than zero'')
     else if upload_intent_ttl_seconds \<le> 0 \<or> access_grant_ttl_seconds \<le> 0 \<or>
       default_chunk_size_bytes = 0 \<or> max_original_size_bytes = 0
     then Inl (Config ''media upload configuration is inconsistent'')
     else Inr
       \<lparr> cf_bind_addr = bind_addr,
         cf_admin_token = admin_token,
         cf_postgres_dsn = postgres_dsn,
         cf_redis_url = redis_url,
         cf_media_object_store_endpoint = endpoint,
         cf_media_object_store_bucket = bucket,
         cf_media_object_store_region = region,
         cf_media_object_store_access_key_id = access_key_id,
         cf_media_object_store_secret_access_key = secret_access_key,
         cf_min_ttl_seconds = min_ttl_seconds,
         cf_default_ttl_seconds = default_ttl_seconds,
         cf_max_ttl_seconds = max_ttl_seconds,
         cf_max_ciphertext_bytes = max_ciphertext_bytes,
         cf_replay_ttl_margin_seconds = replay_ttl_margin_seconds,
         cf_media_upload_intent_ttl_seconds = upload_intent_ttl_seconds,
         cf_media_access_grant_ttl_seconds = access_grant_ttl_seconds,
         cf_media_default_chunk_size_bytes = default_chunk_size_bytes,
         cf_media_max_original_size_bytes = max_original_size_bytes,
         cf_submit_rate_limit_per_minute = submit_rate_limit,
         cf_retrieve_rate_limit_per_minute = retrieve_rate_limit,
         cf_cleanup_interval_seconds = cleanup_interval_seconds \<rparr>))))))))))))))))))))"

section \<open>The world\<close>

record outcome =
  wo_fails :: bool
  wo_applied :: bool
  wo_error :: string
  wo_now :: time
  wo_uuid :: uuid
  wo_random :: bytes

record presigned_request =
  pr_method :: string
  pr_url :: string
  pr_headers :: "(string \<times> string) list"

text \<open>
  Third-party functions: \<^verbatim>\<open>uuid\<close>'s printer, \<^verbatim>\<open>chrono\<close>'s formatter and date arithmetic (None: it
  panics), \<^verbatim>\<open>(a - b).num_seconds()\<close>, the conversion of a timestamp to Postgres's microseconds,
  Postgres's \<^verbatim>\<open>encode(.., 'base64')\<close>, and the object store client: the range check on a presigned
  URL's lifetime (the error text, if it fails), the presigned requests for a bucket, key and content
  type at a signing time, and the stored object at the time of a download.
\<close>

record relay_lib =
  lb_crypto :: crypto
  lb_uuid_to_string :: "uuid \<Rightarrow> string"
  lb_year_month :: "time \<Rightarrow> string"
  lb_add_seconds :: "time \<Rightarrow> int \<Rightarrow> time option"
  lb_pg_time :: "time \<Rightarrow> time"
  lb_pg_base64 :: "bytes \<Rightarrow> string"
  lb_num_seconds :: "time \<Rightarrow> time \<Rightarrow> int"
  lb_presign_ttl_error :: "int \<Rightarrow> string option"
  lb_presign_put :: "time \<Rightarrow> string \<Rightarrow> string \<Rightarrow> string \<Rightarrow> int \<Rightarrow> presigned_request"
  lb_presign_get :: "time \<Rightarrow> string \<Rightarrow> string \<Rightarrow> string \<Rightarrow> int \<Rightarrow> presigned_request"
  lb_get_object :: "time \<Rightarrow> string \<Rightarrow> string \<Rightarrow> bytes"

text \<open>Redis commands on a server state \<open>'r\<close>, at a server time; None is an error reply.\<close>

record 'r redis_api =
  rd_incr :: "time \<Rightarrow> string \<Rightarrow> 'r \<Rightarrow> int option \<times> 'r"
  rd_expire :: "time \<Rightarrow> string \<Rightarrow> int \<Rightarrow> 'r \<Rightarrow> unit option \<times> 'r"
  rd_set_nx_ex :: "time \<Rightarrow> string \<Rightarrow> string \<Rightarrow> int \<Rightarrow> 'r \<Rightarrow> bool option \<times> 'r"
  rd_ping :: "time \<Rightarrow> 'r \<Rightarrow> string option \<times> 'r"

record 'r relay_env =
  en_config :: relay_config
  en_lib :: relay_lib
  en_world :: "nat \<Rightarrow> outcome"
  en_redis :: "'r redis_api"

record 'r relay_state =
  rl_db :: db
  rl_redis :: 'r
  rl_tick :: nat

type_synonym ('r, 'a) relay_action = "('r relay_state, api_error, 'a) action"

definition world :: "'r relay_env \<Rightarrow> ('r, outcome) relay_action" where
  "world E = (\<lambda>s. (Inr (en_world E (rl_tick s)), s\<lparr>rl_tick := Suc (rl_tick s)\<rparr>))"

definition utc_now :: "'r relay_env \<Rightarrow> ('r, time) relay_action" where
  "utc_now E = act_then (world E) (\<lambda>out. act_ok (wo_now out))"

definition new_uuid :: "'r relay_env \<Rightarrow> ('r, uuid) relay_action" where
  "new_uuid E = act_then (world E) (\<lambda>out. act_ok (wo_uuid out))"

definition random_token_bytes :: "'r relay_env \<Rightarrow> nat \<Rightarrow> ('r, bytes) relay_action" where
  "random_token_bytes E byte_len = act_then (world E) (\<lambda>out. act_ok (resize (wo_random out) byte_len 0))"

definition random_hex_token :: "'r relay_env \<Rightarrow> nat \<Rightarrow> ('r, string) relay_action" where
  "random_hex_token E byte_len =
     act_then (random_token_bytes E byte_len) (\<lambda>bytes. act_ok (hex_encode (lb_crypto (en_lib E)) bytes))"

definition unwrap_or :: "'a option \<Rightarrow> 'a \<Rightarrow> 'a" where
  "unwrap_or x fallback = (case x of Some a \<Rightarrow> a | None \<Rightarrow> fallback)"

text \<open>\<^verbatim>\<open>id.unwrap_or_else(Uuid::new_v4)\<close>\<close>

definition uuid_or_new :: "'r relay_env \<Rightarrow> uuid option \<Rightarrow> ('r, uuid) relay_action" where
  "uuid_or_new E given = (case given of Some i \<Rightarrow> act_ok i | None \<Rightarrow> new_uuid E)"

section \<open>SQL\<close>

datatype sql_error = SqlUnique string | SqlOther string

fun sql_error_text :: "sql_error \<Rightarrow> string" where
  "sql_error_text (SqlUnique t) = t"
| "sql_error_text (SqlOther t) = t"

text \<open>\<^verbatim>\<open>is_unique_violation\<close>: SQLSTATE 23505.\<close>

definition is_unique_violation :: "sql_error \<Rightarrow> bool" where
  "is_unique_violation e = (case e of SqlUnique _ \<Rightarrow> True | SqlOther _ \<Rightarrow> False)"

text \<open>
  One statement against the pool.  If the call fails, the statement may have taken effect (the
  connection can be lost after the server committed).  The \<^verbatim>\<open>Result\<close> is returned as a value, because
  some handlers inspect it.
\<close>

definition run_sql :: "'r relay_env \<Rightarrow> 'a sql \<Rightarrow> ('r, sql_error + 'a) relay_action" where
  "run_sql E q = act_then (world E) (\<lambda>out s.
     case q (wo_now out) (rl_db s) of
       Inl v \<Rightarrow> (Inr (Inl (if v = UniqueViolation \<and> \<not> wo_fails out then SqlUnique (wo_error out) else SqlOther (wo_error out))), s)
     | Inr (a, d) \<Rightarrow>
         if wo_fails out then (Inr (Inl (SqlOther (wo_error out))), if wo_applied out then s\<lparr>rl_db := d\<rparr> else s)
         else (Inr (Inr a), s\<lparr>rl_db := d\<rparr>))"

text \<open>\<^verbatim>\<open>.map_err(|error| ApiError::Dependency(format!("<what>: {error}")))?\<close>\<close>

definition dependency :: "string \<Rightarrow> sql_error \<Rightarrow> api_error" where
  "dependency what e = Dependency (what @ '': '' @ sql_error_text e)"

definition sql :: "'r relay_env \<Rightarrow> string \<Rightarrow> 'a sql \<Rightarrow> ('r, 'a) relay_action" where
  "sql E what q = act_then (run_sql E q) (\<lambda>r. act_lift (map_err (dependency what) r))"

text \<open>
  A transaction: \<^verbatim>\<open>begin\<close>, the body, \<^verbatim>\<open>commit\<close>.  \<^verbatim>\<open>NOW()\<close> is the time of \<^verbatim>\<open>begin\<close> throughout.  An error
  in the body drops the transaction, which rolls it back; a failing commit may have committed.
\<close>

definition tx_sql :: "'r relay_env \<Rightarrow> time \<Rightarrow> (sql_error \<Rightarrow> api_error) \<Rightarrow> 'a sql \<Rightarrow> ('r, 'a) relay_action" where
  "tx_sql E now on_error q = act_then (world E) (\<lambda>out s.
     case q now (rl_db s) of
       Inl v \<Rightarrow> (Inl (on_error (if v = UniqueViolation \<and> \<not> wo_fails out then SqlUnique (wo_error out) else SqlOther (wo_error out))), s)
     | Inr (a, d) \<Rightarrow>
         if wo_fails out then (Inl (on_error (SqlOther (wo_error out))), s)
         else (Inr a, s\<lparr>rl_db := d\<rparr>))"

definition transaction ::
    "'r relay_env \<Rightarrow> string \<Rightarrow> string \<Rightarrow> (time \<Rightarrow> ('r, 'a) relay_action) \<Rightarrow> ('r, 'a) relay_action" where
  "transaction E begin_what commit_what body =
     act_then (world E) (\<lambda>b.
     if wo_fails b then act_err (Dependency (begin_what @ '': '' @ wo_error b))
     else (\<lambda>s.
       case body (wo_now b) s of
         (Inl e, t) \<Rightarrow> (Inl e, t\<lparr>rl_db := rl_db s\<rparr>)
       | (Inr a, t) \<Rightarrow>
           (let c = en_world E (rl_tick t); u = t\<lparr>rl_tick := Suc (rl_tick t)\<rparr> in
            if wo_fails c
            then (Inl (Dependency (commit_what @ '': '' @ wo_error c)),
                  if wo_applied c then u else u\<lparr>rl_db := rl_db s\<rparr>)
            else (Inr a, u))))"

section \<open>Redis\<close>

definition redis_connection :: "'r relay_env \<Rightarrow> ('r, unit) relay_action" where
  "redis_connection E = act_then (world E) (\<lambda>out.
     if wo_fails out then act_err (Dependency (''redis connection failed: '' @ wo_error out)) else act_ok ())"

definition redis_cmd ::
    "'r relay_env \<Rightarrow> string \<Rightarrow> (time \<Rightarrow> 'r \<Rightarrow> 'a option \<times> 'r) \<Rightarrow> ('r, 'a) relay_action" where
  "redis_cmd E what f = act_then (world E) (\<lambda>out s.
     let (reply, r) = f (wo_now out) (rl_redis s);
         err = Inl (Dependency (what @ '': '' @ wo_error out))
     in if wo_fails out then (err, if wo_applied out then s\<lparr>rl_redis := r\<rparr> else s)
        else (case reply of None \<Rightarrow> err | Some a \<Rightarrow> Inr a, s\<lparr>rl_redis := r\<rparr>))"

definition ping_redis :: "'r relay_env \<Rightarrow> ('r, unit) relay_action" where
  "ping_redis E =
     act_then (redis_connection E) (\<lambda>_.
     act_then (redis_cmd E ''redis ping failed'' (rd_ping (en_redis E))) (\<lambda>response.
     if response = ''PONG'' then act_ok ()
     else act_err (Dependency ''redis ping returned unexpected response'')))"

definition enforce_rate_limit :: "'r relay_env \<Rightarrow> string \<Rightarrow> u32 \<Rightarrow> int \<Rightarrow> ('r, unit) relay_action" where
  "enforce_rate_limit E namespace limit window_seconds =
     (let key = ''relay:limit:'' @ namespace in
      act_then (redis_connection E) (\<lambda>_.
      act_then (redis_cmd E ''redis rate-limit increment failed'' (\<lambda>now. rd_incr (en_redis E) now key)) (\<lambda>count.
      act_then
        (if count = 1
         then act_then (redis_cmd E ''redis rate-limit expiry failed''
                (\<lambda>now. rd_expire (en_redis E) now key window_seconds)) (\<lambda>_. act_ok ())
         else act_ok ()) (\<lambda>_.
      if int (unat limit) < count then act_err (TooManyRequests ''rate limit exceeded'') else act_ok ()))))"

definition reserve_replay_token :: "'r relay_env \<Rightarrow> string \<Rightarrow> string \<Rightarrow> int \<Rightarrow> ('r, bool) relay_action" where
  "reserve_replay_token E mailbox_id replay_token ttl_seconds =
     (let key = ''relay:replay:'' @ mailbox_id @ '':'' @ replay_token in
      act_then (redis_connection E) (\<lambda>_.
      redis_cmd E ''redis replay reservation failed''
        (\<lambda>now. rd_set_nx_ex (en_redis E) now key ''1'' ttl_seconds)))"

text \<open>\<^verbatim>\<open>i64\<close> addition of a release build.\<close>

definition i64_add :: "int \<Rightarrow> int \<Rightarrow> int" where
  "i64_add a b = (a + b + 2 ^ 63) mod 2 ^ 64 - 2 ^ 63"

lemma i64_add_exact: "- (2 ^ 63) \<le> a + b \<Longrightarrow> a + b < 2 ^ 63 \<Longrightarrow> i64_add a b = a + b"
  by (simp add: i64_add_def)

definition add_seconds :: "'r relay_env \<Rightarrow> time \<Rightarrow> int \<Rightarrow> ('r, time) relay_action" where
  "add_seconds E t seconds = act_lift (ok_or Panicked (lb_add_seconds (en_lib E) t seconds))"

section \<open>Invariants of the tables\<close>

definition on_db :: "(db \<Rightarrow> bool) \<Rightarrow> 'r relay_state \<Rightarrow> bool" where
  "on_db J s \<longleftrightarrow> J (rl_db s)"

lemma on_db_update [simp]:
  "on_db J (s\<lparr>rl_tick := n\<rparr>) = on_db J s" "on_db J (s\<lparr>rl_redis := r\<rparr>) = on_db J s"
  "on_db J (s\<lparr>rl_db := d\<rparr>) = J d"
  by (simp_all add: on_db_def)

lemma db_world [preserves_intros]: "preserves (on_db J) (world E)"
  by (simp add: preserves_def world_def)

lemma world_then_run: "act_then (world E) f s = f (en_world E (rl_tick s)) (s\<lparr>rl_tick := Suc (rl_tick s)\<rparr>)"
  by (simp add: act_then_run world_def)

lemma preserves_act_lift_then:
  assumes "\<And>a. r = Inr a \<Longrightarrow> preserves I (f a)"
  shows "preserves I (act_then (act_lift r) f)"
  by (cases r) (auto simp: preserves_def act_then_run dest: preservesD [OF assms])

lemma db_redis_cmd [preserves_intros]: "preserves (on_db J) (redis_cmd E what f)"
  by (intro preservesI)
    (auto simp: redis_cmd_def world_then_run Let_def split: prod.splits option.splits)

lemma db_clock [preserves_intros]:
  "preserves (on_db J) (utc_now E)" "preserves (on_db J) (new_uuid E)"
  "preserves (on_db J) (random_token_bytes E n)" "preserves (on_db J) (redis_connection E)"
  "preserves (on_db J) (add_seconds E t k)"
  unfolding utc_now_def new_uuid_def random_token_bytes_def redis_connection_def add_seconds_def
  by (intro preserves_intros)+

lemma db_uuid_or_new [preserves_intros]: "preserves (on_db J) (uuid_or_new E x)"
  unfolding uuid_or_new_def by (intro preserves_intros)

lemma db_redis [preserves_intros]:
  "preserves (on_db J) (random_hex_token E n)"
  "preserves (on_db J) (ping_redis E)"
  "preserves (on_db J) (enforce_rate_limit E namespace limit window)"
  "preserves (on_db J) (reserve_replay_token E m t ttl)"
  unfolding random_hex_token_def ping_redis_def enforce_rate_limit_def reserve_replay_token_def
  by (intro preserves_intros)+

text \<open>A statement keeps what its update keeps; a read keeps everything.\<close>

definition sql_keeps :: "(db \<Rightarrow> bool) \<Rightarrow> 'a sql \<Rightarrow> bool" where
  "sql_keeps J q \<longleftrightarrow> (\<forall>now d a d'. J d \<longrightarrow> q now d = Inr (a, d') \<longrightarrow> J d')"

lemma sql_keeps_read [preserves_intros]: "sql_keeps J (sql_read f)"
  by (simp add: sql_keeps_def)

lemma sql_keeps_write:
  "(\<And>now d a d'. J d \<Longrightarrow> db_ok d' \<Longrightarrow> f now d = (a, d') \<Longrightarrow> J d') \<Longrightarrow> sql_keeps J (sql_write f)"
  by (auto simp: sql_keeps_def sql_write_Inr)

lemma db_run_sql [preserves_intros]:
  "sql_keeps J q \<Longrightarrow> preserves (on_db J) (run_sql E q)"
  by (intro preservesI)
    (auto simp: run_sql_def world_then_run sql_keeps_def on_db_def split: sum.splits)

lemma db_sql [preserves_intros]: "sql_keeps J q \<Longrightarrow> preserves (on_db J) (sql E what q)"
  unfolding sql_def by (intro preserves_intros)

lemma db_tx_sql [preserves_intros]:
  "sql_keeps J q \<Longrightarrow> preserves (on_db J) (tx_sql E now on_error q)"
  by (intro preservesI)
    (auto simp: tx_sql_def world_then_run sql_keeps_def on_db_def split: sum.splits)

lemma db_transaction [preserves_intros]:
  assumes "\<And>now. preserves (on_db J) (body now)"
  shows "preserves (on_db J) (transaction E b c body)"
proof (rule preservesI)
  fix s :: "'a relay_state" assume J: "on_db J s"
  let ?o = "en_world E (rl_tick s)" and ?s = "s\<lparr>rl_tick := Suc (rl_tick s)\<rparr>"
  show "on_db J (snd (transaction E b c body s))"
  proof (cases "body (wo_now ?o) ?s")
    case (Pair r t)
    have "on_db J t" using preservesD [OF assms, of ?s "wo_now ?o"] J Pair by simp
    with J Pair show ?thesis
      by (cases r) (auto simp: transaction_def world_then_run Let_def on_db_def)
  qed
qed

text \<open>An action leaves the tables alone when it keeps every property of them.\<close>

lemma keeps_db: "(\<And>J. preserves (on_db J) m) \<Longrightarrow> rl_db (snd (m s)) = rl_db s"
  using preservesD [of "on_db (\<lambda>d. d = rl_db s)" m s] by (simp add: on_db_def)

lemma sql_read_Inr_run:
  assumes "sql E what (sql_read f) s = (Inr a, t)"
  shows "\<exists>now. a = f now (rl_db s) \<and> rl_db t = rl_db s"
  using assms
  by (auto simp: sql_def act_then_eq_Inr run_sql_def world_then_run sql_read_def result_simps split: if_splits)

lemma sql_write_Inr_run:
  assumes "sql E what (sql_write f) s = (Inr a, t)"
  shows "\<exists>now. f now (rl_db s) = (a, rl_db t) \<and> db_ok (rl_db t)"
  using assms
  by (auto simp: sql_def act_then_eq_Inr run_sql_def world_then_run result_simps sql_write_Inr
      split: if_splits sum.splits prod.splits)

lemma same_db: "(\<And>J. preserves (on_db J) m) \<Longrightarrow> m s = (r, t) \<Longrightarrow> rl_db t = rl_db s"
  using keeps_db [of m s] by simp

lemma same_db_then:
  assumes "\<And>J. preserves (on_db J) m" and "act_then m f s = (Inr b, u)"
  obtains a t where "m s = (Inr a, t)" "rl_db t = rl_db s" "f a t = (Inr b, u)"
  using assms(2) same_db [OF assms(1)] by (auto simp: act_then_eq_Inr)

text \<open>A statement of a transaction that succeeded, and a transaction that committed.\<close>

lemma tx_sql_Inr_run:
  assumes "tx_sql E now on_error q s = (Inr a, t)"
  shows "q now (rl_db s) = Inr (a, rl_db t)"
  using assms
  by (auto simp: tx_sql_def world_then_run split: sum.splits if_splits)

lemma transaction_Inr_run:
  assumes "transaction E b c body s = (Inr a, u)"
  obtains now s1 t where "rl_db s1 = rl_db s" "body now s1 = (Inr a, t)" "rl_db t = rl_db u"
proof -
  let ?b = "en_world E (rl_tick s)" and ?s = "s\<lparr>rl_tick := Suc (rl_tick s)\<rparr>"
  have "\<exists>t. body (wo_now ?b) ?s = (Inr a, t) \<and> rl_db t = rl_db u"
    using assms
    by (auto simp: transaction_def world_then_run Let_def split: if_splits prod.splits sum.splits)
  with that [of ?s "wo_now ?b"] show ?thesis by auto
qed

end
