(* ===== verification/Relay_Validate.thy ===== *)
theory Relay_Validate
  imports Relay_World
begin

text \<open>
  The relay's pure request checks (\<^verbatim>\<open>validate_*\<close>, \<^verbatim>\<open>decode_*\<close>, \<^verbatim>\<open>normalize_codename\<close>,
  \<^verbatim>\<open>suggested_codename\<close>, \<^verbatim>\<open>hash_mailbox_token\<close>), its header readers, and \<^verbatim>\<open>parse_prekey_bundle_upload\<close>.
\<close>

section \<open>Field checks\<close>

definition is_id_char :: "char \<Rightarrow> bool" where
  "is_id_char c \<longleftrightarrow> is_ascii_alphanumeric c \<or> c = CHR ''-'' \<or> c = CHR ''_''"

definition validate_mailbox_id :: "string \<Rightarrow> api_error + unit" where
  "validate_mailbox_id value =
     (if length value < 16 \<or> 128 < length value then Inl (BadRequest ''mailbox_id length is invalid'')
      else if \<not> list_all is_id_char value
      then Inl (BadRequest ''mailbox_id contains unsupported characters'')
      else Inr ())"

definition normalize_codename :: "string option \<Rightarrow> string \<Rightarrow> api_error + string" where
  "normalize_codename value fallback =
     (let normalized = trim (case value of Some v \<Rightarrow> v | None \<Rightarrow> '''');
          codename = (if normalized = [] then fallback else normalized)
      in if length codename < 2 \<or> 64 < length codename
         then Inl (BadRequest ''codename length is invalid'') else Inr codename)"

definition decode_mailbox_token :: "crypto \<Rightarrow> string \<Rightarrow> api_error + bytes" where
  "decode_mailbox_token C value =
     and_then (ok_or (BadRequest ''mailbox token must be valid base64'') (b64_decode C value)) (\<lambda>decoded.
     if length decoded < 32 then Inl (BadRequest ''mailbox token must be at least 32 bytes'')
     else Inr decoded)"

definition int_to_string :: "int \<Rightarrow> string" where
  "int_to_string i = (if i < 0 then CHR ''-'' # nat_to_string (nat (- i)) else nat_to_string (nat i))"

definition validate_ciphertext :: "crypto \<Rightarrow> string \<Rightarrow> nat \<Rightarrow> api_error + bytes" where
  "validate_ciphertext C value max_ciphertext_bytes =
     and_then (ok_or (BadRequest ''ciphertext_b64 must be valid base64'') (b64_decode C value)) (\<lambda>decoded.
     if decoded = [] then Inl (BadRequest ''ciphertext_b64 must not be empty'')
     else if max_ciphertext_bytes < length decoded
     then Inl (BadRequest (''ciphertext exceeds maximum size of '' @ nat_to_string max_ciphertext_bytes @ '' bytes''))
     else Inr decoded)"

definition validate_sender_device_hint :: "string option \<Rightarrow> api_error + unit" where
  "validate_sender_device_hint value =
     (case value of
        Some v \<Rightarrow> if 128 < length v then Inl (BadRequest ''sender_device_hint exceeds 128 characters'') else Inr ()
      | None \<Rightarrow> Inr ())"

definition validate_replay_token :: "string \<Rightarrow> api_error + unit" where
  "validate_replay_token value =
     (if length value < 16 \<or> 128 < length value then Inl (BadRequest ''replay_token length is invalid'')
      else if \<not> list_all is_id_char value
      then Inl (BadRequest ''replay_token contains unsupported characters'')
      else Inr ())"

definition validate_media_type :: "string \<Rightarrow> api_error + unit" where
  "validate_media_type value =
     (if length value < 3 \<or> 128 < length value \<or> CHR ''/'' \<notin> set value \<or> CHR '' '' \<in> set value
      then Inl (BadRequest ''media_type must look like a MIME type'') else Inr ())"

definition validate_sha256_b64 :: "crypto \<Rightarrow> string \<Rightarrow> api_error + unit" where
  "validate_sha256_b64 C value =
     and_then (ok_or (BadRequest ''content_sha256_b64 must be valid base64'') (b64_decode C value)) (\<lambda>decoded.
     if length decoded \<noteq> 32 then Inl (BadRequest ''content_sha256_b64 must decode to 32 bytes'') else Inr ())"

definition validate_grant_operation :: "string \<Rightarrow> api_error + unit" where
  "validate_grant_operation value =
     (if value = ''download'' \<or> value = ''upload'' then Inr ()
      else Inl (BadRequest (''operation must be 'download' or 'upload'' @ [CHR 0x27])))"

definition validate_grant_token :: "string \<Rightarrow> api_error + unit" where
  "validate_grant_token value =
     (if length value \<noteq> 64 \<or> \<not> list_all is_ascii_hexdigit value
      then Inl (BadRequest ''grant token must be a 64-character hex value'') else Inr ())"

text \<open>The range check several handlers make on a requested lifetime.\<close>

definition validate_ttl :: "int \<Rightarrow> int \<Rightarrow> int \<Rightarrow> api_error + unit" where
  "validate_ttl low high ttl_seconds =
     (if ttl_seconds < low \<or> high < ttl_seconds
      then Inl (BadRequest (''ttl_seconds must be between '' @ int_to_string low @ '' and '' @ int_to_string high))
      else Inr ())"

section \<open>Tokens and codenames\<close>

definition sha256_bytes :: "crypto \<Rightarrow> bytes \<Rightarrow> bytes" where
  "sha256_bytes C value = sha256 C value"

definition hash_mailbox_token :: "crypto \<Rightarrow> string \<Rightarrow> bytes \<Rightarrow> bytes" where
  "hash_mailbox_token C mailbox_id token = sha256 C (as_bytes mailbox_id @ as_bytes '':'' @ token)"

definition codename_prefixes :: "string list" where
  "codename_prefixes =
     [''Ghost'', ''Vector'', ''Cipher'', ''Nova'', ''Rook'', ''Echo'', ''Onyx'', ''Kite'',
      ''Delta'', ''Signal'', ''Atlas'', ''Shade'']"

definition suggested_codename :: "crypto \<Rightarrow> string \<Rightarrow> string" where
  "suggested_codename C mailbox_id =
     (let digest = sha256 C (as_bytes mailbox_id);
          prefix = codename_prefixes ! (unat (digest ! 0) mod length codename_prefixes);
          suffix = unat (digest ! 1) * 10 + unat (digest ! 2 mod 10)
      in prefix @ ''-'' @ nat_to_string suffix)"

section \<open>Headers\<close>

text \<open>
  A header is absent (None), present but not text (\<open>Some None\<close>: \<^verbatim>\<open>to_str\<close> fails), or text.
\<close>

type_synonym headers = "string \<Rightarrow> string option option"

definition read_required_header :: "headers \<Rightarrow> string \<Rightarrow> api_error + string" where
  "read_required_header headers name =
     and_then (ok_or (Unauthorized (''missing '' @ name @ '' header'')) (headers name)) (\<lambda>value.
     ok_or (Unauthorized (''invalid '' @ name @ '' header'')) value)"

definition read_optional_header :: "headers \<Rightarrow> string \<Rightarrow> api_error + string option" where
  "read_optional_header headers name =
     (case headers name of
        Some value \<Rightarrow> and_then (ok_or (Unauthorized (''invalid '' @ name @ '' header'')) value) (\<lambda>v. Inr (Some v))
      | None \<Rightarrow> Inr None)"

definition read_mailbox_token_header :: "headers \<Rightarrow> api_error + string" where
  "read_mailbox_token_header headers = read_required_header headers ''x-mailbox-token''"

definition read_admin_mailbox_id_header :: "headers \<Rightarrow> api_error + string" where
  "read_admin_mailbox_id_header headers =
     and_then (read_required_header headers ''x-admin-mailbox-id'') (\<lambda>mailbox_id.
     and_then (validate_mailbox_id mailbox_id) (\<lambda>_. Inr mailbox_id))"

definition ensure_admin_token :: "relay_config \<Rightarrow> headers \<Rightarrow> api_error + unit" where
  "ensure_admin_token config headers =
     and_then (read_required_header headers ''x-admin-token'') (\<lambda>token.
     if token = cf_admin_token config then Inr () else Inl (Unauthorized ''invalid admin token''))"

section \<open>Prekey uploads\<close>

record publish_prekey_bundle_request =
  pq_identity_signing_key_b64 :: string
  pq_identity_exchange_key_b64 :: string
  pq_signed_prekey_b64 :: string
  pq_signed_prekey_signature_b64 :: string
  pq_signed_prekey_expires_at :: "time option"
  pq_one_time_prekeys_b64 :: "string list"

record parsed_prekey_bundle_upload =
  pp_identity_signing_key :: bytes
  pp_identity_exchange_key :: bytes
  pp_signed_prekey :: bytes
  pp_signed_prekey_signature :: bytes
  pp_one_time_prekeys :: "bytes list"
  pp_signed_prekey_expires_at :: time

definition relay_decode_fixed_base64 :: "crypto \<Rightarrow> nat \<Rightarrow> string \<Rightarrow> string \<Rightarrow> api_error + bytes" where
  "relay_decode_fixed_base64 C n value field_name =
     decode_array (BadRequest (field_name @ '' must be valid base64''))
       (BadRequest (field_name @ '' must decode to exactly '' @ nat_to_string n @ '' bytes'')) C n value"

definition default_signed_prekey_expiry :: "'r relay_env \<Rightarrow> ('r, time) relay_action" where
  "default_signed_prekey_expiry E =
     act_then (utc_now E) (\<lambda>now. add_seconds E now (7 * 24 * 60 * 60))"

definition validate_signed_prekey_expiry :: "'r relay_env \<Rightarrow> time \<Rightarrow> ('r, unit) relay_action" where
  "validate_signed_prekey_expiry E value =
     act_then (utc_now E) (\<lambda>now.
     if value \<le> now then act_err (BadRequest ''signed_prekey_expires_at must be in the future'')
     else act_ok ())"

fun decode_one_time_prekeys :: "crypto \<Rightarrow> string list \<Rightarrow> bytes list \<Rightarrow> api_error + bytes list" where
  "decode_one_time_prekeys C [] keys = Inr keys"
| "decode_one_time_prekeys C (encoded # rest) keys =
     and_then (relay_decode_fixed_base64 C 32 encoded ''one_time_prekeys_b64 entry'') (\<lambda>public_key.
     if public_key \<in> set keys then Inl (BadRequest ''one_time_prekeys_b64 contains duplicates'')
     else decode_one_time_prekeys C rest (keys @ [public_key]))"

definition parse_prekey_bundle_upload ::
    "'r relay_env \<Rightarrow> publish_prekey_bundle_request \<Rightarrow> ('r, parsed_prekey_bundle_upload) relay_action" where
  "parse_prekey_bundle_upload E request =
     (let C = lb_crypto (en_lib E) in
      if 256 < length (pq_one_time_prekeys_b64 request)
      then act_err (BadRequest ''one_time_prekeys_b64 must not contain more than 256 entries'')
      else
        act_then (act_lift (relay_decode_fixed_base64 C 32 (pq_identity_signing_key_b64 request)
          ''identity_signing_key_b64'')) (\<lambda>identity_signing_key.
        act_then (act_lift (relay_decode_fixed_base64 C 32 (pq_identity_exchange_key_b64 request)
          ''identity_exchange_key_b64'')) (\<lambda>identity_exchange_key.
        act_then (act_lift (relay_decode_fixed_base64 C 32 (pq_signed_prekey_b64 request)
          ''signed_prekey_b64'')) (\<lambda>signed_prekey.
        act_then (act_lift (relay_decode_fixed_base64 C 64 (pq_signed_prekey_signature_b64 request)
          ''signed_prekey_signature_b64'')) (\<lambda>signed_prekey_signature.
        if \<not> ed25519_valid_key C identity_signing_key
        then act_err (BadRequest ''identity_signing_key_b64 contains invalid Ed25519 bytes'')
        else
          act_then (case pq_signed_prekey_expires_at request of
              Some t \<Rightarrow> act_ok t
            | None \<Rightarrow> default_signed_prekey_expiry E) (\<lambda>signed_prekey_expires_at.
          act_then (validate_signed_prekey_expiry E signed_prekey_expires_at) (\<lambda>_.
          let keys = \<lparr> pb_identity_pub =
                        \<lparr> ip_signing_key = identity_signing_key, ip_exchange_key = identity_exchange_key \<rparr>,
                      pb_signed_prekey_pub = signed_prekey,
                      pb_signed_prekey_sig = signed_prekey_signature,
                      pb_one_time_prekey_pub = None \<rparr>
          in act_then (act_lift (map_err (\<lambda>_. BadRequest
               ''signed_prekey_signature_b64 does not verify against the identity key'')
               (bundle_verify C keys))) (\<lambda>_.
             act_then (act_lift (decode_one_time_prekeys C (pq_one_time_prekeys_b64 request) [])) (\<lambda>one_time_prekeys.
             act_ok \<lparr> pp_identity_signing_key = identity_signing_key,
                      pp_identity_exchange_key = identity_exchange_key,
                      pp_signed_prekey = signed_prekey,
                      pp_signed_prekey_signature = signed_prekey_signature,
                      pp_one_time_prekeys = one_time_prekeys,
                      pp_signed_prekey_expires_at = signed_prekey_expires_at \<rparr>)))))))))"

section \<open>What the checks establish\<close>

lemma validate_mailbox_id_ok:
  "validate_mailbox_id v = Inr u \<longleftrightarrow> 16 \<le> length v \<and> length v \<le> 128 \<and> list_all is_id_char v"
  by (auto simp: validate_mailbox_id_def)

lemma normalize_codename_length:
  "normalize_codename v f = Inr c \<Longrightarrow> 2 \<le> length c \<and> length c \<le> 64"
  by (auto simp: normalize_codename_def Let_def split: if_splits)

lemma decode_mailbox_token_ok:
  "decode_mailbox_token C v = Inr t \<longleftrightarrow> b64_decode C v = Some t \<and> 32 \<le> length t"
  by (cases "b64_decode C v") (auto simp: decode_mailbox_token_def)

lemma validate_ciphertext_ok:
  "validate_ciphertext C v n = Inr c \<longleftrightarrow> b64_decode C v = Some c \<and> c \<noteq> [] \<and> length c \<le> n"
  by (cases "b64_decode C v") (auto simp: validate_ciphertext_def)

lemma validate_ttl_ok: "validate_ttl low high t = Inr u \<longleftrightarrow> low \<le> t \<and> t \<le> high"
  by (auto simp: validate_ttl_def)

lemma colon_not_id: "list_all is_id_char m \<Longrightarrow> CHR '':'' \<notin> set m"
  by (auto simp: list_all_iff is_id_char_def is_ascii_alphanumeric_def Let_def)

text \<open>Under a collision-free hash, the stored hash determines the mailbox id and the token.\<close>

lemma hash_mailbox_token_inject:
  assumes "inj (sha256 C)" "list_all is_id_char m" "list_all is_id_char m'"
  shows "hash_mailbox_token C m t = hash_mailbox_token C m' t' \<longleftrightarrow> m = m' \<and> t = t'"
proof -
  have sep: "as_bytes '':'' = [58]" by (simp add: as_bytes_def)
  have no: "58 \<notin> set (as_bytes m)" if "list_all is_id_char m" for m
  proof -
    have "c = CHR '':''" if "word_of_nat (of_char c) = (58 :: byte)" for c
    proof -
      have "as_bytes [c] = as_bytes '':''" using that by (simp add: as_bytes_def)
      then show ?thesis by (simp only: as_bytes_inject list.inject)
    qed
    with colon_not_id [OF that] show ?thesis by (force simp: as_bytes_def)
  qed
  show ?thesis
    using assms(1) by (simp add: hash_mailbox_token_def sep inj_eq append_sep_inject [OF no no] assms(2,3))
qed

lemma decode_one_time_prekeys_ok:
  "decode_one_time_prekeys C es keys = Inr ks \<Longrightarrow> distinct keys \<Longrightarrow> \<forall>k \<in> set keys. length k = 32 \<Longrightarrow>
     distinct ks \<and> (\<forall>k \<in> set ks. length k = 32) \<and> length ks = length keys + length es"
proof (induction C es keys rule: decode_one_time_prekeys.induct)
  case (2 C e es keys)
  then obtain k where k: "relay_decode_fixed_base64 C 32 e ''one_time_prekeys_b64 entry'' = Inr k"
    "k \<notin> set keys" "decode_one_time_prekeys C es (keys @ [k]) = Inr ks"
    by (auto simp: result_simps split: if_splits)
  have "length k = 32" using k(1) by (simp add: relay_decode_fixed_base64_def decode_array_eq_Inr)
  with "2.IH" [OF k(2,3)] "2.prems"(2,3) k(2) show ?case by auto
qed simp

end
