(* ===== verification/Relay_Auth.thy ===== *)
theory Relay_Auth
  imports Relay_Validate
begin

text \<open>
  Who may do what: \<^verbatim>\<open>authenticate_mailbox\<close>, \<^verbatim>\<open>authenticate_admin\<close>, \<^verbatim>\<open>authenticate_admin_bootstrap\<close> and
  \<^verbatim>\<open>authorize_mailbox_creation\<close>, against an access relation that is read off the tables.  The locale
  \<open>gate\<close> is the contract every handler relies on: a gate writes no table, and it lets through
  just the credentials the access relation grants.
\<close>

section \<open>The checks\<close>

abbreviation crypto_of :: "'r relay_env \<Rightarrow> crypto" where
  "crypto_of E \<equiv> lb_crypto (en_lib E)"

definition ensure_mailbox_exists :: "'r relay_env \<Rightarrow> string \<Rightarrow> ('r, unit) relay_action" where
  "ensure_mailbox_exists E mailbox_id =
     act_then (sql E ''mailbox lookup failed'' (sql_read (\<lambda>now d.
       list_ex (\<lambda>b. mb_mailbox_id b = mailbox_id) (db_mailboxes d)))) (\<lambda>found.
     if found then act_ok () else act_err (NotFound ''mailbox_id not found''))"

definition authenticate_mailbox :: "'r relay_env \<Rightarrow> string \<Rightarrow> string \<Rightarrow> ('r, unit) relay_action" where
  "authenticate_mailbox E mailbox_id token_b64 =
     act_then (act_lift (decode_mailbox_token (crypto_of E) token_b64)) (\<lambda>token.
     let expected_hash = hash_mailbox_token (crypto_of E) mailbox_id token in
     act_then (sql E ''mailbox authentication failed'' (sql_read (\<lambda>now d.
       list_ex (\<lambda>(m, a). mb_mailbox_id m = mailbox_id \<and> mb_access_token_hash m = expected_hash \<and>
           (case a of Some a \<Rightarrow> ac_status a | None \<Rightarrow> ''active'') \<noteq> ''disabled'')
         (left_join (\<lambda>m a. ac_mailbox_id a = mb_mailbox_id m) (db_mailboxes d) (db_accounts d))))) (\<lambda>found.
     if found then act_ok () else act_err (Unauthorized ''invalid mailbox token'')))"

definition authenticate_admin :: "'r relay_env \<Rightarrow> headers \<Rightarrow> ('r, string) relay_action" where
  "authenticate_admin E headers =
     act_then (act_lift (ensure_admin_token (en_config E) headers)) (\<lambda>_.
     act_then (act_lift (read_admin_mailbox_id_header headers)) (\<lambda>admin_mailbox_id.
     act_then (act_lift (read_mailbox_token_header headers)) (\<lambda>mailbox_token.
     act_then (authenticate_mailbox E admin_mailbox_id mailbox_token) (\<lambda>_.
     act_then (sql E ''admin role lookup failed'' (sql_read (\<lambda>now d.
       list_ex (\<lambda>a. ac_mailbox_id a = admin_mailbox_id \<and> ac_role a = ''admin'' \<and> ac_status a = ''active'')
         (db_accounts d)))) (\<lambda>is_admin.
     if is_admin then act_ok admin_mailbox_id
     else act_err (Unauthorized ''mailbox is not an active admin account''))))))"

definition authenticate_admin_bootstrap ::
    "'r relay_env \<Rightarrow> headers \<Rightarrow> string \<Rightarrow> ('r, unit) relay_action" where
  "authenticate_admin_bootstrap E headers mailbox_id =
     act_then (act_lift (ensure_admin_token (en_config E) headers)) (\<lambda>_.
     act_then (act_lift (read_mailbox_token_header headers)) (\<lambda>mailbox_token.
     authenticate_mailbox E mailbox_id mailbox_token))"

definition authorize_mailbox_creation :: "'r relay_env \<Rightarrow> headers \<Rightarrow> ('r, unit) relay_action" where
  "authorize_mailbox_creation E headers =
     (if headers ''x-admin-token'' \<noteq> None
      then act_then (act_lift (ensure_admin_token (en_config E) headers)) (\<lambda>_. act_ok ())
      else
        act_then (act_lift (read_optional_header headers ''x-origin-mailbox-id'')) (\<lambda>origin_mailbox_id.
        act_then (act_lift (read_optional_header headers ''x-origin-mailbox-token'')) (\<lambda>origin_mailbox_token.
        case (origin_mailbox_id, origin_mailbox_token) of
          (Some mailbox_id, Some token) \<Rightarrow>
            act_then (act_lift (validate_mailbox_id mailbox_id)) (\<lambda>_.
            authenticate_mailbox E mailbox_id token)
        | (None, None) \<Rightarrow> act_err (Unauthorized
            ''new mailbox creation requires protected admin access or an authenticated origin mailbox'')
        | _ \<Rightarrow> act_err (Unauthorized
            ''origin mailbox headers must include both x-origin-mailbox-id and x-origin-mailbox-token''))))"

text \<open>The three steps every mailbox route starts with.\<close>

definition mailbox_guard :: "'r relay_env \<Rightarrow> string \<Rightarrow> headers \<Rightarrow> ('r, unit) relay_action" where
  "mailbox_guard E mailbox_id headers =
     act_then (act_lift (read_mailbox_token_header headers)) (\<lambda>token.
     authenticate_mailbox E mailbox_id token)"

section \<open>The access relation\<close>

definition mailbox_access :: "crypto \<Rightarrow> db \<Rightarrow> string \<Rightarrow> string \<Rightarrow> bool" where
  "mailbox_access C d mailbox_id token_b64 =
     (case decode_mailbox_token C token_b64 of
        Inl e \<Rightarrow> False
      | Inr token \<Rightarrow>
          (case mailbox_of d mailbox_id of
             None \<Rightarrow> False
           | Some b \<Rightarrow> mb_access_token_hash b = hash_mailbox_token C mailbox_id token \<and>
               (case account_of d mailbox_id of None \<Rightarrow> True | Some a \<Rightarrow> ac_status a \<noteq> ''disabled'')))"

definition header_access :: "crypto \<Rightarrow> db \<Rightarrow> string \<Rightarrow> headers \<Rightarrow> bool" where
  "header_access C d mailbox_id headers =
     (case headers ''x-mailbox-token'' of
        Some (Some token) \<Rightarrow> mailbox_access C d mailbox_id token
      | _ \<Rightarrow> False)"

definition admin_access :: "'r relay_env \<Rightarrow> db \<Rightarrow> headers \<Rightarrow> string \<Rightarrow> bool" where
  "admin_access E d headers admin \<longleftrightarrow>
     headers ''x-admin-token'' = Some (Some (cf_admin_token (en_config E))) \<and>
     headers ''x-admin-mailbox-id'' = Some (Some admin) \<and> header_access (crypto_of E) d admin headers \<and>
     (case account_of d admin of None \<Rightarrow> False
      | Some a \<Rightarrow> ac_role a = ''admin'' \<and> ac_status a = ''active'')"

definition creation_access :: "'r relay_env \<Rightarrow> db \<Rightarrow> headers \<Rightarrow> bool" where
  "creation_access E d headers \<longleftrightarrow>
     headers ''x-admin-token'' = Some (Some (cf_admin_token (en_config E))) \<or>
     (case (headers ''x-origin-mailbox-id'', headers ''x-origin-mailbox-token'') of
        (Some (Some m), Some (Some token)) \<Rightarrow> mailbox_access (crypto_of E) d m token
      | _ \<Rightarrow> False)"

lemma access_free:
  "db_mailboxes d' = db_mailboxes d \<Longrightarrow> db_accounts d' = db_accounts d \<Longrightarrow>
     header_access C d' m h = header_access C d m h"
  unfolding header_access_def mailbox_access_def mailbox_of_def account_of_def
  by (simp split: option.split sum.split)

lemma read_required_header_ok: "read_required_header h n = Inr v \<longleftrightarrow> h n = Some (Some v)"
  by (cases "h n") (auto simp: read_required_header_def result_simps)

lemma ensure_admin_token_ok:
  "ensure_admin_token c h = Inr u \<longleftrightarrow> h ''x-admin-token'' = Some (Some (cf_admin_token c))"
  by (auto simp: ensure_admin_token_def result_simps read_required_header_ok)

lemma read_admin_mailbox_id_header_ok:
  "read_admin_mailbox_id_header h = Inr m \<longleftrightarrow>
     h ''x-admin-mailbox-id'' = Some (Some m) \<and> validate_mailbox_id m = Inr ()"
  by (auto simp: read_admin_mailbox_id_header_def result_simps read_required_header_ok)

text \<open>The joined rows of a mailbox: on tables with unique keys, the mailbox with its account.\<close>

lemma authentication_query:
  assumes "db_keys d"
  shows "list_ex (\<lambda>(m, a). mb_mailbox_id m = i \<and> mb_access_token_hash m = h \<and>
            (case a of Some a \<Rightarrow> ac_status a | None \<Rightarrow> ''active'') \<noteq> ''disabled'')
         (left_join (\<lambda>m a. ac_mailbox_id a = mb_mailbox_id m) (db_mailboxes d) (db_accounts d))
       \<longleftrightarrow> (case mailbox_of d i of None \<Rightarrow> False
            | Some b \<Rightarrow> mb_access_token_hash b = h \<and>
                (case account_of d i of None \<Rightarrow> True | Some a \<Rightarrow> ac_status a \<noteq> ''disabled''))"
    (is "list_ex ?P ?rows = ?R")
proof -
  have row: "(m, a) \<in> set ?rows \<and> mb_mailbox_id m = i \<longleftrightarrow> mailbox_of d i = Some m \<and> account_of d i = a" for m a
    by (cases a) (auto simp: set_left_join mailbox_of_iff [OF assms] account_of_iff [OF assms] account_of_None)
  have "list_ex ?P ?rows \<longleftrightarrow> (\<exists>m a. ((m, a) \<in> set ?rows \<and> mb_mailbox_id m = i) \<and> mb_access_token_hash m = h \<and>
            (case a of Some a \<Rightarrow> ac_status a | None \<Rightarrow> ''active'') \<noteq> ''disabled'')"
    by (auto simp: list_ex_iff)
  also have "\<dots> \<longleftrightarrow> ?R"
    unfolding row by (auto split: option.splits)
  finally show ?thesis .
qed

section \<open>Gates\<close>

text \<open>Whatever follows, a refusing action returns an error and leaves the tables as they were.\<close>

definition refuses :: "db \<Rightarrow> ('r, 'a) relay_action \<Rightarrow> bool" where
  "refuses d m \<longleftrightarrow> (\<forall>s. rl_db s = d \<longrightarrow> (\<exists>e. fst (m s) = Inl e) \<and> rl_db (snd (m s)) = d)"

named_theorems refuses_intros \<open>rules for showing that a handler refuses a request\<close>

lemma refusesD: "refuses (rl_db s) m \<Longrightarrow> (\<exists>e. fst (m s) = Inl e) \<and> rl_db (snd (m s)) = rl_db s"
  by (simp add: refuses_def)

lemma refuses_err [refuses_intros]: "refuses d (act_err e)"
  by (simp add: refuses_def)

lemma refuses_first: "refuses d m \<Longrightarrow> refuses d (act_then m f)"
  by (fastforce simp: refuses_def act_then_def split: prod.splits sum.splits)

lemma refuses_later [refuses_intros]:
  assumes "\<And>J. preserves (on_db J) m" and "\<And>a. refuses d (f a)"
  shows "refuses d (act_then m f)"
  unfolding refuses_def
proof (intro allI impI)
  fix s :: "'a relay_state" assume s: "rl_db s = d"
  have "rl_db (snd (m s)) = d" using keeps_db [OF assms(1), of s] s by simp
  then show "(\<exists>e. fst (act_then m f s) = Inl e) \<and> rl_db (snd (act_then m f s)) = d"
    using assms(2) by (cases "m s"; cases "fst (m s)") (auto simp: refuses_def act_then_def)
qed

lemma refuses_lift [refuses_intros]:
  "(\<And>a. r = Inr a \<Longrightarrow> refuses d (f a)) \<Longrightarrow> refuses d (act_then (act_lift r) f)"
  by (cases r) (auto simp: refuses_def act_then_def)

lemma refuses_if [refuses_intros]:
  "(b \<Longrightarrow> refuses d m) \<Longrightarrow> (\<not> b \<Longrightarrow> refuses d n) \<Longrightarrow> refuses d (if b then m else n)"
  by simp

lemma refuses_let [refuses_intros]: "refuses d (f x) \<Longrightarrow> refuses d (let y = x in f y)"
  by simp

locale gate =
  fixes check :: "'k \<Rightarrow> ('r, 'a) relay_action"
    and granted :: "'k \<Rightarrow> db \<Rightarrow> 'a \<Rightarrow> bool"
  assumes check_keeps: "preserves (on_db J) (check k)"
    and check_sound: "check k s = (Inr a, t) \<Longrightarrow> db_keys (rl_db s) \<Longrightarrow> granted k (rl_db s) a"
begin

lemma check_db: "rl_db (snd (check k s)) = rl_db s"
  by (rule keeps_db) (rule check_keeps)

lemma check_ok: "check k s = (Inr a, t) \<Longrightarrow> db_keys (rl_db s) \<Longrightarrow> granted k (rl_db s) a \<and> rl_db t = rl_db s"
  using check_sound check_db [of k s] by auto

lemma check_refuses: "db_keys d \<Longrightarrow> (\<And>a. \<not> granted k d a) \<Longrightarrow> refuses d (check k)"
  unfolding refuses_def
  by (metis check_db check_sound prod.collapse sum.exhaust)

lemma guarded_refuses_if:
  assumes "db_keys d" and "\<And>a. granted k d a \<Longrightarrow> refuses d (f a)"
  shows "refuses d (act_then (check k) f)"
  unfolding refuses_def
proof (intro allI impI)
  fix s :: "'r relay_state" assume s: "rl_db s = d"
  show "(\<exists>e. fst (act_then (check k) f s) = Inl e) \<and> rl_db (snd (act_then (check k) f s)) = d"
    using s check_db [of k s] check_sound [of k s] assms
    by (cases "check k s"; cases "fst (check k s)") (auto simp: refuses_def act_then_def)
qed

lemma guarded_refuses: "db_keys d \<Longrightarrow> (\<And>a. \<not> granted k d a) \<Longrightarrow> refuses d (act_then (check k) f)"
  by (intro refuses_first check_refuses)

lemma guarded_ok:
  assumes "act_then (check k) f s = (Inr b, u)" "db_keys (rl_db s)"
  obtains a t where "granted k (rl_db s) a" "rl_db t = rl_db s" "f a t = (Inr b, u)"
proof -
  obtain a t where "check k s = (Inr a, t)" "f a t = (Inr b, u)"
    using assms(1) by (auto simp: act_then_eq_Inr)
  with check_ok assms(2) that show thesis by blast
qed

lemma guarded_preserves:
  assumes keys: "\<And>d. J d \<Longrightarrow> db_keys d"
    and K: "\<And>a d. J d \<Longrightarrow> granted k d a \<Longrightarrow> K a d"
    and f: "\<And>a. preserves (on_db (\<lambda>d. J d \<and> K a d)) (f a)"
  shows "preserves (on_db J) (act_then (check k) f)"
proof (rule preservesI)
  fix s :: "'r relay_state" assume s: "on_db J s"
  show "on_db J (snd (act_then (check k) f s))"
  proof (cases "check k s")
    case (Pair r t)
    have t: "on_db J t" using preservesD [OF check_keeps [of J k] s] Pair by simp
    show ?thesis
    proof (cases r)
      case (Inl e)
      with t Pair show ?thesis by simp
    next
      case (Inr a)
      have "granted k (rl_db s) a \<and> rl_db t = rl_db s"
        using check_ok [of k s a t] Pair Inr keys s by (simp add: on_db_def)
      then have "on_db (\<lambda>d. J d \<and> K a d) t" using s K by (simp add: on_db_def)
      from preservesD [OF f this] show ?thesis using Pair Inr by (simp add: on_db_def)
    qed
  qed
qed

end

text \<open>A statement that changes nothing, followed by a refusal.\<close>

lemma refuses_noop:
  fixes E :: "'r relay_env"
  assumes "\<And>now a d'. q now d = Inr (a, d') \<Longrightarrow> d' = d \<and> refuses d (g a)"
  shows "refuses d (act_then (sql E what q) g)"
  unfolding refuses_def
proof (intro allI impI)
  fix s :: "'r relay_state" assume s: "rl_db s = d"
  have "rl_db (snd (sql E what q s)) = d" "\<And>a. fst (sql E what q s) = Inr a \<Longrightarrow> refuses d (g a)"
    using s assms
    by (auto simp: sql_def act_then_run run_sql_def world_def split: sum.splits prod.splits if_splits)
  then show "(\<exists>e. fst (act_then (sql E what q) g s) = Inl e) \<and> rl_db (snd (act_then (sql E what q) g s)) = d"
    by (cases "sql E what q s"; cases "fst (sql E what q s)") (auto simp: refuses_def act_then_def)
qed

lemma refuses_read:
  "(\<And>now. refuses d (g (f now d))) \<Longrightarrow> refuses d (act_then (sql E what (sql_read f)) g)"
  by (rule refuses_noop) auto

text \<open>What a read found stays known while the following steps keep it.\<close>

lemma preserves_read_then:
  fixes E :: "'r relay_env"
  assumes K: "\<And>now d. J d \<Longrightarrow> K (f now d) d"
    and g: "\<And>a. preserves (on_db (\<lambda>d. J d \<and> K a d)) (g a)"
  shows "preserves (on_db J) (act_then (sql E what (sql_read f)) g)"
proof (rule preservesI)
  fix s :: "'r relay_state" assume s: "on_db J s"
  show "on_db J (snd (act_then (sql E what (sql_read f)) g s))"
  proof (cases "sql E what (sql_read f) s")
    case (Pair r t)
    have t: "on_db J t"
      using preservesD [OF db_sql [OF sql_keeps_read, of J E what f] s] Pair by simp
    show ?thesis
    proof (cases r)
      case (Inl e)
      with t Pair show ?thesis by simp
    next
      case (Inr a)
      have "on_db (\<lambda>d. J d \<and> K a d) t"
        using sql_read_Inr_run [of E what f s a t] Pair Inr s K by (auto simp: on_db_def)
      from preservesD [OF g this] show ?thesis using Pair Inr by (simp add: on_db_def)
    qed
  qed
qed

text \<open>What is known of every result of an action.\<close>

lemma preserves_then_result:
  assumes "\<And>s a t. m s = (Inr a, t) \<Longrightarrow> Q a" and "preserves I m" and "\<And>a. Q a \<Longrightarrow> preserves I (f a)"
  shows "preserves I (act_then m f)"
proof (rule preservesI)
  fix s assume "I s"
  then show "I (snd (act_then m f s))"
    using preservesD [OF assms(2), of s] preservesD [OF assms(3)] assms(1) [of s]
    by (cases "m s"; cases "fst (m s)") (auto simp: act_then_def)
qed

text \<open>The statements of a handler keep a conjunction when they keep its parts.\<close>

lemma sql_keeps_conj: "sql_keeps J q \<Longrightarrow> sql_keeps K q \<Longrightarrow> sql_keeps (\<lambda>d. J d \<and> K d) q"
  by (auto simp: sql_keeps_def)

lemma db_authenticate_mailbox [preserves_intros]:
  "preserves (on_db J) (authenticate_mailbox E m t)"
  unfolding authenticate_mailbox_def Let_def by (intro preserves_intros)

lemma db_authenticate_admin [preserves_intros]: "preserves (on_db J) (authenticate_admin E h)"
  unfolding authenticate_admin_def by (intro preserves_intros)

lemma db_authenticate [preserves_intros]:
  "preserves (on_db J) (mailbox_guard E m h)"
  "preserves (on_db J) (authenticate_admin_bootstrap E h m)"
  "preserves (on_db J) (ensure_mailbox_exists E m)"
  unfolding mailbox_guard_def authenticate_admin_bootstrap_def ensure_mailbox_exists_def
  by (intro preserves_intros)+

lemma db_authorize_mailbox_creation [preserves_intros]:
  "preserves (on_db J) (authorize_mailbox_creation E h)"
  unfolding authorize_mailbox_creation_def
  by (auto intro!: preserves_intros split: option.splits)

lemma authenticate_mailbox_ok:
  assumes "authenticate_mailbox E m token s = (Inr u, t)" "db_keys (rl_db s)"
  shows "mailbox_access (crypto_of E) (rl_db s) m token"
  using assms
  by (auto simp: authenticate_mailbox_def mailbox_access_def result_simps Let_def
      authentication_query [OF assms(2)] dest!: sql_read_Inr_run split: if_splits)

lemma mailbox_guard_ok:
  assumes "mailbox_guard E m h s = (Inr u, t)" "db_keys (rl_db s)"
  shows "header_access (crypto_of E) (rl_db s) m h"
  using assms
  by (auto simp: mailbox_guard_def header_access_def result_simps read_mailbox_token_header_def
      read_required_header_ok dest!: authenticate_mailbox_ok)

interpretation mailbox_gate: gate "\<lambda>(m, h). mailbox_guard E m h"
    "\<lambda>(m, h) d u. header_access (crypto_of E) d m h" for E
  by unfold_locales (auto intro!: preserves_intros dest: mailbox_guard_ok split: prod.splits)

lemma mailbox_refuses [refuses_intros]:
  "db_keys d \<Longrightarrow> \<not> header_access (crypto_of E) d m h \<Longrightarrow> refuses d (act_then (mailbox_guard E m h) f)"
  using mailbox_gate.guarded_refuses [where k = "(m, h)" and d = d and f = f and E = E] by simp

lemma account_exists_iff:
  assumes "db_keys d"
  shows "list_ex (\<lambda>a. ac_mailbox_id a = m \<and> P a) (db_accounts d) \<longleftrightarrow>
     (case account_of d m of None \<Rightarrow> False | Some a \<Rightarrow> P a)"
proof (cases "account_of d m")
  case None
  with account_of_None [of d m] show ?thesis by (simp add: list_ex_iff)
next
  case (Some a)
  have "x \<in> set (db_accounts d) \<and> ac_mailbox_id x = m \<longleftrightarrow> x = a" for x
    using account_of_iff [OF assms, of m x] Some by auto
  then have "(\<exists>x. (x \<in> set (db_accounts d) \<and> ac_mailbox_id x = m) \<and> P x) \<longleftrightarrow> P a" by simp
  then show ?thesis by (simp add: list_ex_iff Some Bex_def)
qed

lemma authenticate_admin_ok:
  assumes "authenticate_admin E h s = (Inr admin, t)" "db_keys (rl_db s)"
  shows "admin_access E (rl_db s) h admin"
proof -
  obtain token s1 s2 where h: "h ''x-admin-token'' = Some (Some (cf_admin_token (en_config E)))"
      "h ''x-admin-mailbox-id'' = Some (Some admin)" "h ''x-mailbox-token'' = Some (Some token)"
    and a: "authenticate_mailbox E admin token s = (Inr (), s1)"
    and q: "sql E ''admin role lookup failed'' (sql_read (\<lambda>now d. list_ex (\<lambda>a. ac_mailbox_id a = admin \<and>
        ac_role a = ''admin'' \<and> ac_status a = ''active'') (db_accounts d))) s1 = (Inr True, s2)"
    using assms(1)
    by (auto simp: authenticate_admin_def result_simps ensure_admin_token_ok read_admin_mailbox_id_header_ok
        read_mailbox_token_header_def read_required_header_ok split: if_splits)
  have same: "rl_db s1 = rl_db s"
    using keeps_db [of "authenticate_mailbox E admin token" s] a by (simp add: preserves_intros)
  show ?thesis
    using h authenticate_mailbox_ok [OF a assms(2)] sql_read_Inr_run [OF q]
    by (simp add: admin_access_def header_access_def same account_exists_iff [OF assms(2)])
qed

interpretation admin_gate: gate "\<lambda>h. authenticate_admin E h" "\<lambda>h d admin. admin_access E d h admin" for E
  by unfold_locales (auto intro!: preserves_intros dest: authenticate_admin_ok)

lemma authorize_mailbox_creation_ok:
  assumes "authorize_mailbox_creation E h s = (Inr u, t)" "db_keys (rl_db s)"
  shows "creation_access E (rl_db s) h"
  using assms
  by (auto simp: authorize_mailbox_creation_def creation_access_def result_simps ensure_admin_token_ok
      read_optional_header_def dest!: authenticate_mailbox_ok split: if_splits option.splits)

interpretation creation_gate: gate "\<lambda>h. authorize_mailbox_creation E h"
    "\<lambda>h d u. creation_access E d h" for E
  by unfold_locales (auto intro!: preserves_intros dest: authorize_mailbox_creation_ok)

text \<open>In a world without failures a gate lets every granted credential through.\<close>

definition reliable :: "'r relay_env \<Rightarrow> bool" where
  "reliable E \<longleftrightarrow> (\<forall>n. \<not> wo_fails (en_world E n))"

lemma reliable_sql_read:
  "reliable E \<Longrightarrow> sql E what (sql_read f) s =
     (Inr (f (wo_now (en_world E (rl_tick s))) (rl_db s)), s\<lparr>rl_tick := Suc (rl_tick s)\<rparr>)"
  by (simp add: sql_def act_then_run run_sql_def world_def sql_read_def reliable_def)

lemma reliable_sql_write:
  "reliable E \<Longrightarrow> f (wo_now (en_world E (rl_tick s))) (rl_db s) = (a, d') \<Longrightarrow> db_ok d' \<Longrightarrow>
     sql E what (sql_write f) s = (Inr a, s\<lparr>rl_tick := Suc (rl_tick s), rl_db := d'\<rparr>)"
  by (simp add: sql_def act_then_run run_sql_def world_def sql_write_def reliable_def db_ok_def)

lemma reliable_run_sql:
  "reliable E \<Longrightarrow> q (wo_now (en_world E (rl_tick s))) (rl_db s) = Inr (a, d) \<Longrightarrow>
     run_sql E q s = (Inr (Inr a), s\<lparr>rl_tick := Suc (rl_tick s), rl_db := d\<rparr>)"
  by (simp add: run_sql_def world_then_run reliable_def)

lemma reliable_tx_sql:
  "reliable E \<Longrightarrow> q now (rl_db s) = Inr (a, d) \<Longrightarrow>
     tx_sql E now on_error q s = (Inr a, s\<lparr>rl_tick := Suc (rl_tick s), rl_db := d\<rparr>)"
  by (simp add: tx_sql_def world_then_run reliable_def)

lemma reliable_transaction:
  "reliable E \<Longrightarrow> body (wo_now (en_world E (rl_tick s))) (s\<lparr>rl_tick := Suc (rl_tick s)\<rparr>) = (Inr a, t) \<Longrightarrow>
     transaction E b c body s = (Inr a, t\<lparr>rl_tick := Suc (rl_tick t)\<rparr>)"
  by (simp add: transaction_def world_then_run reliable_def Let_def)

lemma authenticate_mailbox_complete:
  assumes "reliable E" "db_keys (rl_db s)" "mailbox_access (crypto_of E) (rl_db s) m token"
  shows "authenticate_mailbox E m token s = (Inr (), s\<lparr>rl_tick := Suc (rl_tick s)\<rparr>)"
  using assms
  by (auto simp: authenticate_mailbox_def mailbox_access_def act_then_run reliable_sql_read Let_def
      authentication_query split: sum.splits option.splits)

lemma mailbox_guard_complete:
  assumes "reliable E" "db_keys (rl_db s)" "header_access (crypto_of E) (rl_db s) m h"
  shows "mailbox_guard E m h s = (Inr (), s\<lparr>rl_tick := Suc (rl_tick s)\<rparr>)"
  using assms
  by (auto simp: mailbox_guard_def header_access_def act_then_run read_mailbox_token_header_def
      read_required_header_def authenticate_mailbox_complete split: option.splits)

end
