(* ===== verification/Relay_Accounts.thy ===== *)
theory Relay_Accounts
  imports Relay_Auth
begin

text \<open>
  Mailboxes, accounts and contacts: \<^verbatim>\<open>create_mailbox\<close>, \<^verbatim>\<open>admin_bootstrap_account\<close>,
  \<^verbatim>\<open>get_account_profile\<close> and the contact routes, with the account queries they share.  An
  \<^verbatim>\<open>AccountProfileResponse\<close> has the columns of an account row, in the same order.
\<close>

type_synonym account_profile_response = account_row

section \<open>Account queries\<close>

definition lookup_account_profile :: "'r relay_env \<Rightarrow> string \<Rightarrow> ('r, account_profile_response option) relay_action" where
  "lookup_account_profile E mailbox_id =
     sql E ''account lookup failed'' (sql_read (\<lambda>now d. account_of d mailbox_id))"

definition mailbox_created_at :: "'r relay_env \<Rightarrow> string \<Rightarrow> ('r, time) relay_action" where
  "mailbox_created_at E mailbox_id =
     act_then (sql E ''mailbox lookup failed'' (sql_read (\<lambda>now d.
       map_option mb_created_at (mailbox_of d mailbox_id)))) (\<lambda>row.
     act_lift (ok_or (NotFound ''mailbox_id not found'') row))"

text \<open>\<^verbatim>\<open>INSERT .. ON CONFLICT (mailbox_id) DO UPDATE .. RETURNING ..\<close> on \<^verbatim>\<open>relay_accounts\<close>.\<close>

definition upsert_account :: "account_row \<Rightarrow> (account_row \<Rightarrow> account_row) \<Rightarrow> account_profile_response sql" where
  "upsert_account row update = sql_write (\<lambda>now d.
     (case account_of d (ac_mailbox_id row) of None \<Rightarrow> row | Some a \<Rightarrow> update a,
      d\<lparr>db_accounts := upsert (\<lambda>a. ac_mailbox_id a = ac_mailbox_id row) row update (db_accounts d)\<rparr>))"

definition upsert_account_profile ::
    "'r relay_env \<Rightarrow> string \<Rightarrow> string \<Rightarrow> time \<Rightarrow> time option \<Rightarrow> ('r, account_profile_response) relay_action" where
  "upsert_account_profile E mailbox_id codename created_at activated_at =
     (let stored = lb_pg_time (en_lib E) in
      sql E ''account upsert failed'' (upsert_account
        \<lparr> ac_mailbox_id = mailbox_id, ac_codename = codename, ac_role = ''user'', ac_status = ''active'',
          ac_owner_mailbox_id = None, ac_created_at = stored created_at,
          ac_activated_at = map_option stored activated_at \<rparr>
        (\<lambda>a. a\<lparr>ac_codename := codename, ac_status := ''active'',
               ac_activated_at := map_option stored activated_at\<rparr>)))"

definition ensure_account_profile :: "'r relay_env \<Rightarrow> string \<Rightarrow> ('r, account_profile_response) relay_action" where
  "ensure_account_profile E mailbox_id =
     act_then (lookup_account_profile E mailbox_id) (\<lambda>found.
     case found of
       Some profile \<Rightarrow> act_ok profile
     | None \<Rightarrow>
         act_then (mailbox_created_at E mailbox_id) (\<lambda>created_at.
         let fallback_codename = suggested_codename (crypto_of E) mailbox_id in
         upsert_account_profile E mailbox_id fallback_codename created_at (Some created_at)))"

definition insert_mailbox :: "'r relay_env \<Rightarrow> string \<Rightarrow> bytes \<Rightarrow> time \<Rightarrow> unit sql" where
  "insert_mailbox E mailbox_id access_token_hash created_at = sql_write (\<lambda>now d.
     ((), d\<lparr>db_mailboxes := db_mailboxes d @
        [\<lparr> mb_mailbox_id = mailbox_id, mb_access_token_hash = access_token_hash,
           mb_created_at = lb_pg_time (en_lib E) created_at \<rparr>]\<rparr>))"

section \<open>Mailboxes\<close>

record create_mailbox_request =
  cr_mailbox_id :: string
  cr_mailbox_token_b64 :: string
  cr_codename :: "string option"

record create_mailbox_response =
  cm_mailbox_id :: string
  cm_codename :: string
  cm_role :: string
  cm_status :: string
  cm_created_at :: time
  cm_activated_at :: "time option"

definition create_mailbox_reply :: "string \<Rightarrow> account_profile_response \<Rightarrow> create_mailbox_response" where
  "create_mailbox_reply mailbox_id profile =
     \<lparr> cm_mailbox_id = mailbox_id, cm_codename = ac_codename profile, cm_role = ac_role profile,
       cm_status = ac_status profile, cm_created_at = ac_created_at profile,
       cm_activated_at = ac_activated_at profile \<rparr>"

definition create_mailbox ::
    "'r relay_env \<Rightarrow> headers \<Rightarrow> create_mailbox_request \<Rightarrow> ('r, nat \<times> create_mailbox_response) relay_action" where
  "create_mailbox E headers request =
     act_then (act_lift (validate_mailbox_id (cr_mailbox_id request))) (\<lambda>_.
     act_then (act_lift (decode_mailbox_token (crypto_of E) (cr_mailbox_token_b64 request))) (\<lambda>token.
     let access_token_hash = hash_mailbox_token (crypto_of E) (cr_mailbox_id request) token in
     act_then (utc_now E) (\<lambda>created_at.
     act_then (utc_now E) (\<lambda>activated_now.
     let activated_at = Some activated_now in
     act_then (act_lift (normalize_codename (cr_codename request)
       (suggested_codename (crypto_of E) (cr_mailbox_id request)))) (\<lambda>codename.
     act_then (sql E ''mailbox lookup failed'' (sql_read (\<lambda>now d. mailbox_of d (cr_mailbox_id request)))) (\<lambda>existing.
     case existing of
       Some existing_mailbox \<Rightarrow>
         if mb_access_token_hash existing_mailbox = access_token_hash then
           act_then (upsert_account_profile E (cr_mailbox_id request) codename
             (mb_created_at existing_mailbox) activated_at) (\<lambda>profile.
           act_ok (200, create_mailbox_reply (cr_mailbox_id request) profile))
         else act_err (Unauthorized ''mailbox_id is already provisioned and the token does not match'')
     | None \<Rightarrow>
         act_then (authorize_mailbox_creation E headers) (\<lambda>_.
         act_then (run_sql E (insert_mailbox E (cr_mailbox_id request) access_token_hash created_at)) (\<lambda>result.
         case result of
           Inr _ \<Rightarrow>
             act_then (upsert_account_profile E (cr_mailbox_id request) codename created_at activated_at) (\<lambda>profile.
             act_ok (201, create_mailbox_reply (cr_mailbox_id request) profile))
         | Inl e \<Rightarrow>
             if is_unique_violation e then act_err (Conflict ''mailbox_id already exists'')
             else act_err (dependency ''mailbox creation failed'' e)))))))))"

record admin_bootstrap_account_request =
  br_mailbox_id :: string
  br_mailbox_token_b64 :: "string option"
  br_codename :: "string option"

definition admin_bootstrap_account ::
    "'r relay_env \<Rightarrow> headers \<Rightarrow> admin_bootstrap_account_request \<Rightarrow> ('r, nat \<times> account_profile_response) relay_action" where
  "admin_bootstrap_account E headers request =
     (let mailbox_id = br_mailbox_id request; stored = lb_pg_time (en_lib E) in
     act_then (act_lift (validate_mailbox_id mailbox_id)) (\<lambda>_.
     act_then (sql E ''mailbox lookup failed'' (sql_read (\<lambda>now d. mailbox_of d mailbox_id))) (\<lambda>existing.
     act_then
       (case existing of
          Some existing_mailbox \<Rightarrow>
            act_then (authenticate_admin_bootstrap E headers mailbox_id) (\<lambda>_.
            act_ok (mb_created_at existing_mailbox))
        | None \<Rightarrow>
            act_then (act_lift (ensure_admin_token (en_config E) headers)) (\<lambda>_.
            act_then (act_lift (ok_or
              (BadRequest ''mailbox_token_b64 is required when bootstrapping a new admin mailbox'')
              (br_mailbox_token_b64 request))) (\<lambda>mailbox_token_b64.
            act_then (act_lift (decode_mailbox_token (crypto_of E) mailbox_token_b64)) (\<lambda>mailbox_token.
            let access_token_hash = hash_mailbox_token (crypto_of E) mailbox_id mailbox_token in
            act_then (utc_now E) (\<lambda>created_at.
            act_then (sql E ''admin mailbox bootstrap failed''
              (insert_mailbox E mailbox_id access_token_hash created_at)) (\<lambda>_.
            act_ok created_at)))))) (\<lambda>created_at.
     act_then (lookup_account_profile E mailbox_id) (\<lambda>existing_profile.
     act_then
       (case existing_profile of
          Some p \<Rightarrow>
            if ac_role p = ''user'' \<and> ac_owner_mailbox_id p \<noteq> None
            then act_err (Conflict ''managed user mailboxes cannot be promoted into admin accounts'')
            else act_ok ()
        | None \<Rightarrow> act_ok ()) (\<lambda>_.
     act_then (act_lift (normalize_codename (br_codename request)
       (suggested_codename (crypto_of E) mailbox_id))) (\<lambda>codename.
     act_then (utc_now E) (\<lambda>activated_at.
     act_then (sql E ''admin bootstrap failed'' (upsert_account
        \<lparr> ac_mailbox_id = mailbox_id, ac_codename = codename, ac_role = ''admin'', ac_status = ''active'',
          ac_owner_mailbox_id = None, ac_created_at = stored created_at,
          ac_activated_at = Some (stored activated_at) \<rparr>
        (\<lambda>a. a\<lparr>ac_codename := codename, ac_role := ''admin'', ac_status := ''active'',
               ac_owner_mailbox_id := None, ac_activated_at := Some (stored activated_at)\<rparr>))) (\<lambda>profile.
     act_ok (200, profile))))))))))"

definition get_account_profile ::
    "'r relay_env \<Rightarrow> string \<Rightarrow> headers \<Rightarrow> ('r, account_profile_response) relay_action" where
  "get_account_profile E mailbox_id headers =
     act_then (act_lift (validate_mailbox_id mailbox_id)) (\<lambda>_.
     act_then (mailbox_guard E mailbox_id headers) (\<lambda>_.
     ensure_account_profile E mailbox_id))"

section \<open>Contacts\<close>

record upsert_contact_request =
  uc_contact_mailbox_id :: string
  uc_codename :: "string option"

record contact_summary_response =
  cs_mailbox_id :: string
  cs_contact_mailbox_id :: string
  cs_codename :: string
  cs_contact_role :: string
  cs_contact_status :: string
  cs_created_at :: time
  cs_updated_at :: time

definition contact_summary :: "contact_row \<times> account_row \<Rightarrow> contact_summary_response" where
  "contact_summary r = (case r of (c, a) \<Rightarrow>
     \<lparr> cs_mailbox_id = ct_owner_mailbox_id c, cs_contact_mailbox_id = ct_contact_mailbox_id c,
       cs_codename = ct_codename c, cs_contact_role = ac_role a, cs_contact_status = ac_status a,
       cs_created_at = ct_created_at c, cs_updated_at = ct_updated_at c \<rparr>)"

definition contact_rows :: "db \<Rightarrow> (contact_row \<times> account_row) list" where
  "contact_rows d =
     inner_join (\<lambda>c a. ac_mailbox_id a = ct_contact_mailbox_id c) (db_contacts d) (db_accounts d)"

definition fetch_contact_summary ::
    "'r relay_env \<Rightarrow> string \<Rightarrow> string \<Rightarrow> ('r, contact_summary_response) relay_action" where
  "fetch_contact_summary E mailbox_id contact_mailbox_id =
     act_then (sql E ''contact lookup failed'' (sql_read (\<lambda>now d.
       map_option contact_summary (find (\<lambda>(c, a). ct_owner_mailbox_id c = mailbox_id \<and>
         ct_contact_mailbox_id c = contact_mailbox_id) (contact_rows d))))) (\<lambda>row.
     act_lift (ok_or (NotFound ''contact not found for this mailbox'') row))"

definition upsert_contact ::
    "'r relay_env \<Rightarrow> string \<Rightarrow> headers \<Rightarrow> upsert_contact_request \<Rightarrow>
      ('r, nat \<times> contact_summary_response) relay_action" where
  "upsert_contact E mailbox_id headers request =
     (let contact_mailbox_id = uc_contact_mailbox_id request; stored = lb_pg_time (en_lib E) in
     act_then (act_lift (validate_mailbox_id mailbox_id)) (\<lambda>_.
     act_then (act_lift (validate_mailbox_id contact_mailbox_id)) (\<lambda>_.
     if mailbox_id = contact_mailbox_id
     then act_err (BadRequest ''cannot add the current mailbox as its own contact'')
     else
       act_then (mailbox_guard E mailbox_id headers) (\<lambda>_.
       act_then (ensure_mailbox_exists E contact_mailbox_id) (\<lambda>_.
       act_then (ensure_account_profile E contact_mailbox_id) (\<lambda>contact_profile.
       act_then (act_lift (normalize_codename (uc_codename request) (ac_codename contact_profile))) (\<lambda>codename.
       act_then (utc_now E) (\<lambda>now.
       act_then (sql E ''contact upsert failed'' (sql_write (\<lambda>_ d.
         ((), d\<lparr>db_contacts := upsert
            (\<lambda>c. ct_owner_mailbox_id c = mailbox_id \<and> ct_contact_mailbox_id c = contact_mailbox_id)
            \<lparr> ct_owner_mailbox_id = mailbox_id, ct_contact_mailbox_id = contact_mailbox_id,
              ct_codename = codename, ct_created_at = stored now, ct_updated_at = stored now \<rparr>
            (\<lambda>c. c\<lparr>ct_codename := codename, ct_updated_at := stored now\<rparr>) (db_contacts d)\<rparr>)))) (\<lambda>_.
       act_then (fetch_contact_summary E mailbox_id contact_mailbox_id) (\<lambda>contact.
       act_ok (200, contact)))))))))))"

record list_contacts_response =
  lc_mailbox_id :: string
  lc_contact_count :: nat
  lc_contacts :: "contact_summary_response list"
  lc_generated_at :: time

definition list_contacts ::
    "'r relay_env \<Rightarrow> string \<Rightarrow> headers \<Rightarrow> ('r, list_contacts_response) relay_action" where
  "list_contacts E mailbox_id headers =
     act_then (act_lift (validate_mailbox_id mailbox_id)) (\<lambda>_.
     act_then (mailbox_guard E mailbox_id headers) (\<lambda>_.
     act_then (sql E ''contact listing failed'' (sql_read (\<lambda>now d.
       sort_desc cs_updated_at (sort_desc cs_created_at
         (map contact_summary (filter (\<lambda>(c, a). ct_owner_mailbox_id c = mailbox_id) (contact_rows d))))))) (\<lambda>contacts.
     act_then (utc_now E) (\<lambda>generated_at.
     act_ok \<lparr> lc_mailbox_id = mailbox_id, lc_contact_count = length contacts, lc_contacts = contacts,
              lc_generated_at = generated_at \<rparr>))))"

record delete_contact_response =
  dc_mailbox_id :: string
  dc_contact_mailbox_id :: string
  dc_deleted :: bool

definition delete_contact ::
    "'r relay_env \<Rightarrow> string \<Rightarrow> string \<Rightarrow> headers \<Rightarrow> ('r, delete_contact_response) relay_action" where
  "delete_contact E mailbox_id contact_mailbox_id headers =
     act_then (act_lift (validate_mailbox_id mailbox_id)) (\<lambda>_.
     act_then (act_lift (validate_mailbox_id contact_mailbox_id)) (\<lambda>_.
     act_then (mailbox_guard E mailbox_id headers) (\<lambda>_.
     act_then (sql E ''contact deletion failed'' (sql_write (\<lambda>now d.
       let hit = (\<lambda>c. ct_owner_mailbox_id c = mailbox_id \<and> ct_contact_mailbox_id c = contact_mailbox_id)
       in (length (filter hit (db_contacts d)), d\<lparr>db_contacts := filter (\<lambda>c. \<not> hit c) (db_contacts d)\<rparr>)))) (\<lambda>rows_affected.
     if \<not> 0 < rows_affected then act_err (NotFound ''contact not found for this mailbox'')
     else act_ok \<lparr> dc_mailbox_id = mailbox_id, dc_contact_mailbox_id = contact_mailbox_id,
                   dc_deleted = True \<rparr>))))"

section \<open>What the statements change\<close>

text \<open>
  The account statements of this theory either leave a row's identity, role and owner alone
  (creating plain users), or make an administrator without owner.
\<close>

definition profile_update :: "account_row \<Rightarrow> (account_row \<Rightarrow> account_row) \<Rightarrow> bool" where
  "profile_update row f \<longleftrightarrow> ac_role row = ''user'' \<and> ac_owner_mailbox_id row = None \<and>
     (\<forall>a. ac_mailbox_id (f a) = ac_mailbox_id a \<and> ac_role (f a) = ac_role a \<and>
          ac_owner_mailbox_id (f a) = ac_owner_mailbox_id a)"

definition admin_update :: "account_row \<Rightarrow> (account_row \<Rightarrow> account_row) \<Rightarrow> bool" where
  "admin_update row f \<longleftrightarrow> ac_role row = ''admin'' \<and> ac_owner_mailbox_id row = None \<and>
     (\<forall>a. ac_mailbox_id (f a) = ac_mailbox_id a \<and> ac_role (f a) = ''admin'' \<and>
          ac_owner_mailbox_id (f a) = None)"

definition contacts_free :: "(db \<Rightarrow> bool) \<Rightarrow> bool" where
  "contacts_free J \<longleftrightarrow> (\<forall>d cs. J d \<longrightarrow> db_ok (d\<lparr>db_contacts := cs\<rparr>) \<longrightarrow> J (d\<lparr>db_contacts := cs\<rparr>))"

definition account_statements_keep :: "(db \<Rightarrow> bool) \<Rightarrow> bool" where
  "account_statements_keep J \<longleftrightarrow>
     (\<forall>row f. profile_update row f \<or> admin_update row f \<longrightarrow> sql_keeps J (upsert_account row f)) \<and>
     (\<forall>d bs. J d \<longrightarrow> db_ok (d\<lparr>db_mailboxes := bs\<rparr>) \<longrightarrow> J (d\<lparr>db_mailboxes := bs\<rparr>)) \<and> contacts_free J"

lemma keeps_insert_mailbox:
  "account_statements_keep J \<Longrightarrow> sql_keeps J (insert_mailbox E m h t)"
  unfolding insert_mailbox_def by (rule sql_keeps_write) (auto simp: account_statements_keep_def)

lemma keeps_contacts:
  assumes "account_statements_keep J" and "\<And>now d. snd (f now d) = d\<lparr>db_contacts := g now d\<rparr>"
  shows "sql_keeps J (sql_write f)"
proof (rule sql_keeps_write)
  fix now d a d' assume *: "J d" "db_ok d'" "f now d = (a, d')"
  with assms(2) [of now d] have "d' = d\<lparr>db_contacts := g now d\<rparr>" by simp
  with * assms(1) show "J d'" by (simp add: account_statements_keep_def contacts_free_def)
qed

lemma db_upsert_account_profile:
  "account_statements_keep J \<Longrightarrow> preserves (on_db J) (upsert_account_profile E m c t a)"
  unfolding upsert_account_profile_def Let_def
  by (intro preserves_intros) (simp add: account_statements_keep_def profile_update_def)

lemma db_account_reads [preserves_intros]:
  "preserves (on_db J) (lookup_account_profile E m)" "preserves (on_db J) (mailbox_created_at E m)"
  "preserves (on_db J) (fetch_contact_summary E m c)"
  unfolding lookup_account_profile_def mailbox_created_at_def fetch_contact_summary_def
  by (intro preserves_intros)+

lemma db_ensure_account_profile:
  "account_statements_keep J \<Longrightarrow> preserves (on_db J) (ensure_account_profile E m)"
  unfolding ensure_account_profile_def Let_def
  by (intro preserves_intros db_upsert_account_profile)

lemma db_create_mailbox:
  "account_statements_keep J \<Longrightarrow> preserves (on_db J) (create_mailbox E h r)"
  unfolding create_mailbox_def Let_def
  by (intro preserves_intros db_upsert_account_profile keeps_insert_mailbox)

lemma db_admin_bootstrap_account:
  "account_statements_keep J \<Longrightarrow> preserves (on_db J) (admin_bootstrap_account E h r)"
  unfolding admin_bootstrap_account_def Let_def
  by (intro preserves_intros keeps_insert_mailbox) (simp_all add: account_statements_keep_def admin_update_def)

lemma db_get_account_profile:
  "account_statements_keep J \<Longrightarrow> preserves (on_db J) (get_account_profile E m h)"
  unfolding get_account_profile_def by (intro preserves_intros db_ensure_account_profile)

lemma db_upsert_contact:
  "account_statements_keep J \<Longrightarrow> preserves (on_db J) (upsert_contact E m h r)"
  unfolding upsert_contact_def Let_def
  by (intro preserves_intros db_ensure_account_profile keeps_contacts) auto

lemma db_list_contacts [preserves_intros]: "preserves (on_db J) (list_contacts E m h)"
  unfolding list_contacts_def by (intro preserves_intros)

lemma db_delete_contact:
  "account_statements_keep J \<Longrightarrow> preserves (on_db J) (delete_contact E m c h)"
  unfolding delete_contact_def Let_def by (intro preserves_intros keeps_contacts) auto

text \<open>Without the mailbox's token, every mailbox route of this theory refuses.\<close>

lemma account_routes_refuse:
  assumes "db_keys d" "\<not> header_access (crypto_of E) d m h"
  shows "refuses d (get_account_profile E m h)" "refuses d (upsert_contact E m h r)"
    "refuses d (list_contacts E m h)" "refuses d (delete_contact E m c h)"
  unfolding get_account_profile_def upsert_contact_def list_contacts_def delete_contact_def Let_def
  using assms by (intro refuses_intros; simp)+

end
