(* ===== verification/Relay_Admin.thy ===== *)
theory Relay_Admin
  imports Relay_Accounts
begin

text \<open>
  The administration routes: \<^verbatim>\<open>admin_overview\<close>, \<^verbatim>\<open>admin_provision_mailbox\<close>,
  \<^verbatim>\<open>admin_set_managed_user_status\<close>, \<^verbatim>\<open>admin_reset_managed_user_access\<close> and
  \<^verbatim>\<open>admin_delete_managed_user\<close>.
\<close>

section \<open>Overview\<close>

record admin_mailbox_summary =
  as_mailbox_id :: string
  as_codename :: string
  as_role :: string
  as_status :: string
  as_owner_mailbox_id :: "string option"
  as_created_at :: time
  as_message_count :: nat
  as_media_count :: nat
  as_device_count :: nat
  as_has_prekey_bundle :: bool

record admin_overview_response =
  av_mailbox_count :: nat
  av_mailboxes :: "admin_mailbox_summary list"
  av_generated_at :: time

definition count_distinct :: "'a list \<Rightarrow> nat" where
  "count_distinct xs = length (remdups xs)"

text \<open>
  One group of the overview query; the groups are the joined account and mailbox rows, and the
  left-joined tables only enter through \<^verbatim>\<open>COUNT(DISTINCT ..)\<close>.
\<close>

definition overview_row :: "time \<Rightarrow> db \<Rightarrow> account_row \<times> mailbox_row \<Rightarrow> admin_mailbox_summary" where
  "overview_row now d r = (case r of (a, m) \<Rightarrow>
     \<lparr> as_mailbox_id = mb_mailbox_id m, as_codename = ac_codename a, as_role = ac_role a,
       as_status = ac_status a, as_owner_mailbox_id = ac_owner_mailbox_id a, as_created_at = mb_created_at m,
       as_message_count = count_distinct (map ms_message_id (filter (\<lambda>x. ms_mailbox_id x = mb_mailbox_id m \<and>
         ms_deleted_at x = None \<and> now < ms_expires_at x) (db_messages d))),
       as_media_count = count_distinct (map ob_object_id (filter (\<lambda>b. ob_mailbox_id b = mb_mailbox_id m)
         (db_objects d))),
       as_device_count = count_distinct (map dv_device_id (filter (\<lambda>v. dv_mailbox_id v = mb_mailbox_id m \<and>
         dv_revoked_at v = None) (db_devices d))),
       as_has_prekey_bundle = list_ex (\<lambda>b. bu_mailbox_id b = mb_mailbox_id m \<and>
         now < bu_signed_prekey_expires_at b) (db_bundles d) \<rparr>)"

definition admin_overview :: "'r relay_env \<Rightarrow> headers \<Rightarrow> ('r, admin_overview_response) relay_action" where
  "admin_overview E headers =
     act_then (authenticate_admin E headers) (\<lambda>admin_mailbox_id.
     act_then (sql E ''admin overview query failed'' (sql_read (\<lambda>now d.
       sort_desc as_created_at (map (overview_row now d)
         (filter (\<lambda>(a, m). ac_mailbox_id a = admin_mailbox_id \<or> ac_owner_mailbox_id a = Some admin_mailbox_id)
           (inner_join (\<lambda>a m. mb_mailbox_id m = ac_mailbox_id a) (db_accounts d) (db_mailboxes d))))))) (\<lambda>mailboxes.
     act_then (utc_now E) (\<lambda>generated_at.
     act_ok \<lparr> av_mailbox_count = length mailboxes, av_mailboxes = mailboxes,
              av_generated_at = generated_at \<rparr>)))"

section \<open>Managed users\<close>

record admin_provision_mailbox_response =
  ap_mailbox_id :: string
  ap_mailbox_token_b64 :: string
  ap_suggested_codename :: string
  ap_created_at :: time

definition insert_account :: "account_row \<Rightarrow> unit sql" where
  "insert_account row = sql_write (\<lambda>now d. ((), d\<lparr>db_accounts := db_accounts d @ [row]\<rparr>))"

definition admin_provision_mailbox ::
    "'r relay_env \<Rightarrow> headers \<Rightarrow> ('r, nat \<times> admin_provision_mailbox_response) relay_action" where
  "admin_provision_mailbox E headers =
     (let C = crypto_of E in
     act_then (authenticate_admin E headers) (\<lambda>admin_mailbox_id.
     act_then (new_uuid E) (\<lambda>u.
     let mailbox_id = lb_uuid_to_string (en_lib E) u in
     act_then (random_token_bytes E 32) (\<lambda>mailbox_token.
     let mailbox_token_b64 = b64_encode C mailbox_token;
         access_token_hash = hash_mailbox_token C mailbox_id mailbox_token in
     act_then (utc_now E) (\<lambda>created_at.
     let codename = suggested_codename C mailbox_id in
     act_then (sql E ''admin mailbox provisioning failed''
       (insert_mailbox E mailbox_id access_token_hash created_at)) (\<lambda>_.
     act_then (sql E ''admin account provisioning failed'' (insert_account
       \<lparr> ac_mailbox_id = mailbox_id, ac_codename = codename, ac_role = ''user'', ac_status = ''provisioned'',
         ac_owner_mailbox_id = Some admin_mailbox_id,
         ac_created_at = lb_pg_time (en_lib E) created_at, ac_activated_at = None \<rparr>)) (\<lambda>_.
     act_ok (201, \<lparr> ap_mailbox_id = mailbox_id, ap_mailbox_token_b64 = mailbox_token_b64,
       ap_suggested_codename = codename, ap_created_at = created_at \<rparr>))))))))"

definition managed_by :: "string \<Rightarrow> string \<Rightarrow> account_row \<Rightarrow> bool" where
  "managed_by admin mailbox_id a \<longleftrightarrow>
     ac_mailbox_id a = mailbox_id \<and> ac_owner_mailbox_id a = Some admin \<and> ac_role a = ''user''"

text \<open>\<^verbatim>\<open>UPDATE relay_accounts SET .. WHERE .. RETURNING ..\<close> fetched as an optional row.\<close>

definition update_account ::
    "(account_row \<Rightarrow> bool) \<Rightarrow> (account_row \<Rightarrow> account_row) \<Rightarrow> account_profile_response option sql" where
  "update_account P f = sql_write (\<lambda>now d.
     (map_option f (find P (db_accounts d)), d\<lparr>db_accounts := update_where P f (db_accounts d)\<rparr>))"

definition admin_set_managed_user_status ::
    "'r relay_env \<Rightarrow> string \<Rightarrow> headers \<Rightarrow> string \<Rightarrow> ('r, account_profile_response) relay_action" where
  "admin_set_managed_user_status E mailbox_id headers request_status =
     act_then (act_lift (validate_mailbox_id mailbox_id)) (\<lambda>_.
     act_then (authenticate_admin E headers) (\<lambda>admin_mailbox_id.
     act_then (act_lift (if request_status \<in> {''active'', ''disabled'', ''provisioned''} then Inr request_status
       else Inl (BadRequest ''status must be one of active, disabled, or provisioned''))) (\<lambda>normalized_status.
     act_then (if normalized_status = ''active'' then act_then (utc_now E) (\<lambda>now. act_ok (Some now))
       else act_ok None) (\<lambda>activated_at.
     act_then (sql E ''managed user status update failed''
       (update_account (managed_by admin_mailbox_id mailbox_id)
         (\<lambda>a. a\<lparr>ac_status := normalized_status,
                ac_activated_at := map_option (lb_pg_time (en_lib E)) activated_at\<rparr>))) (\<lambda>row.
     act_lift (ok_or (NotFound ''managed user not found for this admin'') row)))))) "

record admin_managed_user_access_response =
  am_mailbox_id :: string
  am_mailbox_token_b64 :: string
  am_codename :: string
  am_status :: string
  am_owner_mailbox_id :: string
  am_created_at :: time

definition set_mailbox_token :: "string \<Rightarrow> bytes \<Rightarrow> unit sql" where
  "set_mailbox_token mailbox_id access_token_hash = sql_write (\<lambda>now d.
     ((), d\<lparr>db_mailboxes := update_where (\<lambda>b. mb_mailbox_id b = mailbox_id)
        (\<lambda>b. b\<lparr>mb_access_token_hash := access_token_hash\<rparr>) (db_mailboxes d)\<rparr>))"

definition admin_reset_managed_user_access ::
    "'r relay_env \<Rightarrow> string \<Rightarrow> headers \<Rightarrow> ('r, admin_managed_user_access_response) relay_action" where
  "admin_reset_managed_user_access E mailbox_id headers =
     (let C = crypto_of E in
     act_then (act_lift (validate_mailbox_id mailbox_id)) (\<lambda>_.
     act_then (authenticate_admin E headers) (\<lambda>admin_mailbox_id.
     act_then (sql E ''managed user lookup failed'' (sql_read (\<lambda>now d.
       find (managed_by admin_mailbox_id mailbox_id) (db_accounts d)))) (\<lambda>row.
     act_then (act_lift (ok_or (NotFound ''managed user not found for this admin'') row)) (\<lambda>account.
     act_then (random_token_bytes E 32) (\<lambda>mailbox_token.
     let mailbox_token_b64 = b64_encode C mailbox_token;
         access_token_hash = hash_mailbox_token C mailbox_id mailbox_token in
     act_then (sql E ''managed user mailbox reset failed'' (set_mailbox_token mailbox_id access_token_hash)) (\<lambda>_.
     act_then (sql E ''managed user account reset failed'' (update_account (\<lambda>a. ac_mailbox_id a = mailbox_id)
       (\<lambda>a. a\<lparr>ac_status := ''provisioned'', ac_activated_at := None\<rparr>))) (\<lambda>returned.
     act_then (act_lift (ok_or (Dependency (''managed user account reset failed: '' @
       ''no rows returned by a query that expected to return at least one row'')) returned)) (\<lambda>updated.
     act_ok \<lparr> am_mailbox_id = mailbox_id, am_mailbox_token_b64 = mailbox_token_b64,
       am_codename = ac_codename updated, am_status = ac_status updated,
       am_owner_mailbox_id = unwrap_or (ac_owner_mailbox_id account) admin_mailbox_id,
       am_created_at = ac_created_at updated \<rparr>)))))))))"

record admin_delete_managed_user_response =
  ad_mailbox_id :: string
  ad_deleted :: bool

definition delete_managed_mailbox :: "string \<Rightarrow> string \<Rightarrow> nat sql" where
  "delete_managed_mailbox admin mailbox_id = sql_write (\<lambda>now d.
     if list_ex (managed_by admin mailbox_id) (db_accounts d)
     then (length (filter (\<lambda>b. mb_mailbox_id b = mailbox_id) (db_mailboxes d)), delete_mailbox mailbox_id d)
     else (0, d))"

definition admin_delete_managed_user ::
    "'r relay_env \<Rightarrow> string \<Rightarrow> headers \<Rightarrow> ('r, admin_delete_managed_user_response) relay_action" where
  "admin_delete_managed_user E mailbox_id headers =
     act_then (act_lift (validate_mailbox_id mailbox_id)) (\<lambda>_.
     act_then (authenticate_admin E headers) (\<lambda>admin_mailbox_id.
     act_then (sql E ''managed user deletion failed''
       (delete_managed_mailbox admin_mailbox_id mailbox_id)) (\<lambda>rows_affected.
     if \<not> 0 < rows_affected then act_err (NotFound ''managed user not found for this admin'')
     else act_ok \<lparr> ad_mailbox_id = mailbox_id, ad_deleted = True \<rparr>)))"

section \<open>Ownership\<close>

text \<open>A managed account is a plain user, and its owner is an administrator.\<close>

definition has_admin :: "db \<Rightarrow> string \<Rightarrow> bool" where
  "has_admin d admin \<longleftrightarrow> (\<exists>a \<in> set (db_accounts d). ac_mailbox_id a = admin \<and> ac_role a = ''admin'')"

definition ownership :: "db \<Rightarrow> bool" where
  "ownership d \<longleftrightarrow> db_ok d \<and> (\<forall>a \<in> set (db_accounts d). \<forall>admin.
     ac_owner_mailbox_id a = Some admin \<longrightarrow> ac_role a = ''user'' \<and> has_admin d admin)"

definition status_update :: "(account_row \<Rightarrow> account_row) \<Rightarrow> bool" where
  "status_update f \<longleftrightarrow> (\<forall>a. ac_mailbox_id (f a) = ac_mailbox_id a \<and> ac_role (f a) = ac_role a \<and>
     ac_owner_mailbox_id (f a) = ac_owner_mailbox_id a)"

definition admin_statements_keep :: "(db \<Rightarrow> bool) \<Rightarrow> bool" where
  "admin_statements_keep J \<longleftrightarrow> account_statements_keep J \<and> (\<forall>d. J d \<longrightarrow> db_keys d) \<and>
     (\<forall>P f. status_update f \<longrightarrow> sql_keeps J (update_account P f)) \<and>
     (\<forall>admin row. ac_role row = ''user'' \<longrightarrow> ac_owner_mailbox_id row = Some admin \<longrightarrow>
        sql_keeps (\<lambda>d. J d \<and> has_admin d admin) (insert_account row))"

lemma admin_access_has_admin: "admin_access E d h admin \<Longrightarrow> has_admin d admin"
  by (auto simp: admin_access_def has_admin_def dest!: account_of_Some split: option.splits)

lemma db_admin_overview [preserves_intros]: "preserves (on_db J) (admin_overview E h)"
  unfolding admin_overview_def by (intro preserves_intros)

lemma keeps_insert_mailbox_admin:
  "account_statements_keep J \<Longrightarrow> sql_keeps (\<lambda>d. J d \<and> has_admin d admin) (insert_mailbox E m h t)"
  by (rule sql_keeps_conj [OF keeps_insert_mailbox])
    (auto simp: insert_mailbox_def sql_keeps_def sql_write_Inr has_admin_def)

lemma db_admin_provision_mailbox:
  assumes "admin_statements_keep J"
  shows "preserves (on_db J) (admin_provision_mailbox E h)"
  unfolding admin_provision_mailbox_def Let_def
  using assms
  by (intro admin_gate.guarded_preserves [where K = "\<lambda>admin d. has_admin d admin"] preserves_intros
      keeps_insert_mailbox_admin)
    (auto simp: admin_statements_keep_def dest: admin_access_has_admin)

lemma keeps_set_mailbox_token:
  "account_statements_keep J \<Longrightarrow> sql_keeps J (set_mailbox_token m h)"
  unfolding set_mailbox_token_def by (rule sql_keeps_write) (auto simp: account_statements_keep_def)

lemma db_admin_routes:
  assumes "admin_statements_keep J"
  shows "preserves (on_db J) (admin_set_managed_user_status E m h st)"
    "preserves (on_db J) (admin_reset_managed_user_access E m h)"
  unfolding admin_set_managed_user_status_def admin_reset_managed_user_access_def Let_def
  using assms
  by (intro preserves_intros keeps_set_mailbox_token;
      simp add: admin_statements_keep_def status_update_def)+

lemma db_admin_delete_managed_user:
  "(\<And>admin. sql_keeps J (delete_managed_mailbox admin m)) \<Longrightarrow>
     preserves (on_db J) (admin_delete_managed_user E m h)"
  unfolding admin_delete_managed_user_def by (intro preserves_intros)

lemma delete_mailbox_accounts:
  "a \<in> set (db_accounts (delete_mailbox m d)) \<longleftrightarrow> (\<exists>b \<in> set (db_accounts d). ac_mailbox_id b \<noteq> m \<and>
     a = (if ac_owner_mailbox_id b = Some m then b\<lparr>ac_owner_mailbox_id := None\<rparr> else b))"
  by (auto simp: delete_mailbox_def delete_posts_def delete_objects_def delete_intents_def Let_def)

lemma has_admin_upsert:
  assumes "has_admin d m" "profile_update row f \<or> admin_update row f"
  shows "has_admin (d\<lparr>db_accounts := upsert P row f (db_accounts d)\<rparr>) m"
proof -
  obtain a where a: "a \<in> set (db_accounts d)" "ac_mailbox_id a = m" "ac_role a = ''admin''"
    using assms(1) by (auto simp: has_admin_def)
  have "ac_mailbox_id (if P a then f a else a) = m" "ac_role (if P a then f a else a) = ''admin''"
    using a assms(2) by (auto simp: profile_update_def admin_update_def)
  with upsert_old [OF a(1), of P f row] show ?thesis unfolding has_admin_def by fastforce
qed

lemma has_admin_update:
  assumes "has_admin d m" "status_update f"
  shows "has_admin (d\<lparr>db_accounts := update_where P f (db_accounts d)\<rparr>) m"
proof -
  obtain a where a: "a \<in> set (db_accounts d)" "ac_mailbox_id a = m" "ac_role a = ''admin''"
    using assms(1) by (auto simp: has_admin_def)
  have "ac_mailbox_id (if P a then f a else a) = m" "ac_role (if P a then f a else a) = ''admin''"
    using a assms(2) by (auto simp: status_update_def)
  with update_where_old [OF a(1), of P f] show ?thesis unfolding has_admin_def by fastforce
qed

lemma ownership_upsert:
  assumes "profile_update row f \<or> admin_update row f"
  shows "sql_keeps ownership (upsert_account row f)"
  unfolding upsert_account_def
proof (rule sql_keeps_write)
  fix now and d d' :: db and a
  let ?up = "upsert (\<lambda>a. ac_mailbox_id a = ac_mailbox_id row) row f (db_accounts d)"
  assume d: "ownership d" "db_ok d'"
    and "(case account_of d (ac_mailbox_id row) of None \<Rightarrow> row | Some a \<Rightarrow> f a, d\<lparr>db_accounts := ?up\<rparr>) = (a, d')"
  then have d': "d' = d\<lparr>db_accounts := ?up\<rparr>" by simp
  have "ac_role y = ''user'' \<and> has_admin d' admin"
    if y: "y \<in> set ?up" "ac_owner_mailbox_id y = Some admin" for y admin
  proof -
    obtain x where "x \<in> set (db_accounts d)" "ac_owner_mailbox_id x = Some admin" "ac_role y = ac_role x"
      using upsert_new [OF y(1)] y(2) assms
      by (auto simp: profile_update_def admin_update_def split: if_splits)
    with d(1) has_admin_upsert [OF _ assms] show ?thesis by (auto simp: ownership_def d')
  qed
  with d(2) show "ownership d'" by (simp add: ownership_def d')
qed

lemma ownership_update:
  assumes "status_update f"
  shows "sql_keeps ownership (update_account P f)"
  unfolding update_account_def
proof (rule sql_keeps_write)
  fix now and d d' :: db and a
  assume d: "ownership d" "db_ok d'"
    and "(map_option f (find P (db_accounts d)), d\<lparr>db_accounts := update_where P f (db_accounts d)\<rparr>) = (a, d')"
  then have d': "d' = d\<lparr>db_accounts := update_where P f (db_accounts d)\<rparr>" by simp
  have "ac_role y = ''user'' \<and> has_admin d' admin"
    if y: "y \<in> set (db_accounts d')" "ac_owner_mailbox_id y = Some admin" for y admin
  proof -
    obtain x where "x \<in> set (db_accounts d)" "ac_owner_mailbox_id x = Some admin" "ac_role y = ac_role x"
      using y assms by (auto simp: d' in_update_where status_update_def split: if_splits)
    with d(1) has_admin_update [OF _ assms] show ?thesis by (auto simp: ownership_def d')
  qed
  with d(2) show "ownership d'" by (simp add: ownership_def)
qed

lemma ownership_delete: "sql_keeps ownership (delete_managed_mailbox admin m)"
  unfolding delete_managed_mailbox_def
proof (rule sql_keeps_write)
  fix now and d d' :: db and n
  assume d: "ownership d" "db_ok d'"
    and "(if list_ex (managed_by admin m) (db_accounts d)
          then (length (filter (\<lambda>b. mb_mailbox_id b = m) (db_mailboxes d)), delete_mailbox m d) else (0, d)) = (n, d')"
  then have d': "d' = delete_mailbox m d \<or> d' = d" by (auto split: if_splits)
  have "ac_role y = ''user'' \<and> has_admin (delete_mailbox m d) o1"
    if y: "y \<in> set (db_accounts (delete_mailbox m d))" "ac_owner_mailbox_id y = Some o1" for y o1
  proof -
    obtain x where x: "x \<in> set (db_accounts d)"
        "y = (if ac_owner_mailbox_id x = Some m then x\<lparr>ac_owner_mailbox_id := None\<rparr> else x)"
      using y(1) by (auto simp: delete_mailbox_accounts)
    then have y': "y \<in> set (db_accounts d)" "o1 \<noteq> m"
      using y(2) by (auto split: if_splits)
    then obtain b where "b \<in> set (db_accounts d)" "ac_mailbox_id b = o1" "ac_role b = ''admin''" "ac_role y = ''user''"
      using d(1) y(2) by (auto simp: ownership_def has_admin_def)
    moreover define c where "c = (if ac_owner_mailbox_id b = Some m then b\<lparr>ac_owner_mailbox_id := None\<rparr> else b)"
    ultimately have "c \<in> set (db_accounts (delete_mailbox m d))" "ac_mailbox_id c = o1" "ac_role c = ''admin''"
      unfolding delete_mailbox_accounts using y'(2) by auto
    with \<open>ac_role y = ''user''\<close> show ?thesis unfolding has_admin_def by blast
  qed
  with d d' show "ownership d'" by (auto simp: ownership_def)
qed

lemma has_admin_append:
  "has_admin d m \<Longrightarrow> has_admin (d\<lparr>db_accounts := db_accounts d @ [row]\<rparr>) m"
  by (auto simp: has_admin_def)

lemma ownership_statements: "admin_statements_keep ownership"
  unfolding admin_statements_keep_def account_statements_keep_def contacts_free_def
proof (intro conjI allI impI)
  show "sql_keeps ownership (update_account P f)" if "status_update f" for P f
    using that by (rule ownership_update)
  show "sql_keeps (\<lambda>d. ownership d \<and> has_admin d admin) (insert_account row)"
    if "ac_role row = ''user''" "ac_owner_mailbox_id row = Some admin" for admin row
    unfolding insert_account_def using that
    by (intro sql_keeps_write) (auto simp: ownership_def has_admin_append)
  show "sql_keeps ownership (upsert_account row f)" if "profile_update row f \<or> admin_update row f" for row f
    using that by (rule ownership_upsert)
qed (simp_all add: ownership_def db_ok_def has_admin_def)

section \<open>Who may administer\<close>

lemma admin_routes_refuse:
  assumes "db_keys d" "\<And>admin. \<not> admin_access E d h admin"
  shows "refuses d (admin_overview E h)" "refuses d (admin_provision_mailbox E h)"
    "refuses d (admin_set_managed_user_status E m h st)" "refuses d (admin_reset_managed_user_access E m h)"
    "refuses d (admin_delete_managed_user E m h)"
  unfolding admin_overview_def admin_provision_mailbox_def admin_set_managed_user_status_def
    admin_reset_managed_user_access_def admin_delete_managed_user_def Let_def
  using assms by (intro refuses_intros admin_gate.guarded_refuses; simp)+

lemma update_where_none: "find P rows = None \<Longrightarrow> update_where P f rows = rows"
  by (auto simp: find_None_iff update_where_def intro: map_idI)

lemma unmanaged_refuse:
  assumes "db_keys d" "\<And>admin. admin_access E d h admin \<Longrightarrow> find (managed_by admin m) (db_accounts d) = None"
  shows "refuses d (admin_set_managed_user_status E m h st)" (is ?status)
    and "refuses d (admin_reset_managed_user_access E m h)" (is ?reset)
    and "refuses d (admin_delete_managed_user E m h)" (is ?delete)
proof -
  show ?status
    unfolding admin_set_managed_user_status_def
    by (intro refuses_lift admin_gate.guarded_refuses_if assms(1),
        rule refuses_later, intro preserves_intros, rule refuses_noop)
      (auto simp: update_account_def sql_write_Inr update_where_none assms(2) refuses_def)
  show ?reset
    unfolding admin_reset_managed_user_access_def Let_def
    by (intro refuses_lift admin_gate.guarded_refuses_if assms(1) refuses_read) (simp add: assms(2))
  have "\<not> list_ex (managed_by admin m) (db_accounts d)" if "admin_access E d h admin" for admin
    using assms(2) [OF that] by (simp add: find_None_iff list_ex_iff)
  then show ?delete
    unfolding admin_delete_managed_user_def
    by (intro refuses_lift admin_gate.guarded_refuses_if assms(1) refuses_noop)
      (auto simp: delete_managed_mailbox_def sql_write_Inr refuses_def)
qed

end
