(* ===== verification/Relay_Messages.thy ===== *)
theory Relay_Messages
  imports Relay_Auth
begin

text \<open>
  Message drop-off: \<^verbatim>\<open>submit_message\<close> (unauthenticated, rate limited, guarded by a replay token),
  \<^verbatim>\<open>list_messages\<close> and \<^verbatim>\<open>delete_message\<close>.
\<close>

section \<open>Handlers\<close>

record submit_message_request =
  sm_ciphertext_b64 :: string
  sm_sender_device_hint :: "string option"
  sm_ttl_seconds :: "int option"
  sm_message_id :: "uuid option"
  sm_replay_token :: string

record submit_message_response =
  sr_message_id :: uuid
  sr_expires_at :: time

record stored_envelope =
  se_message_id :: uuid
  se_sender_device_hint :: "string option"
  se_ciphertext_b64 :: string
  se_received_at :: time
  se_expires_at :: time

record list_messages_response =
  lm_mailbox_id :: string
  lm_messages :: "stored_envelope list"

record delete_response =
  dm_mailbox_id :: string
  dm_message_id :: uuid
  dm_deleted :: bool

definition insert_message :: "message_row \<Rightarrow> unit sql" where
  "insert_message row = sql_write (\<lambda>now d. ((), d\<lparr>db_messages := db_messages d @ [row]\<rparr>))"

definition submit_message ::
    "'r relay_env \<Rightarrow> string \<Rightarrow> submit_message_request \<Rightarrow> ('r, nat \<times> submit_message_response) relay_action" where
  "submit_message E mailbox_id request =
     (let config = en_config E; stored = lb_pg_time (en_lib E) in
     act_then (act_lift (validate_mailbox_id mailbox_id)) (\<lambda>_.
     act_then (ensure_mailbox_exists E mailbox_id) (\<lambda>_.
     act_then (act_lift (validate_ciphertext (crypto_of E) (sm_ciphertext_b64 request)
       (cf_max_ciphertext_bytes config))) (\<lambda>ciphertext.
     act_then (act_lift (validate_sender_device_hint (sm_sender_device_hint request))) (\<lambda>_.
     act_then (act_lift (validate_replay_token (sm_replay_token request))) (\<lambda>_.
     act_then (enforce_rate_limit E (''submit:'' @ mailbox_id) (cf_submit_rate_limit_per_minute config) 60) (\<lambda>_.
     let ttl_seconds = unwrap_or (sm_ttl_seconds request) (cf_default_ttl_seconds config) in
     act_then (act_lift (validate_ttl (cf_min_ttl_seconds config) (cf_max_ttl_seconds config) ttl_seconds)) (\<lambda>_.
     act_then (reserve_replay_token E mailbox_id (sm_replay_token request)
       (i64_add ttl_seconds (cf_replay_ttl_margin_seconds config))) (\<lambda>replay_reserved.
     if \<not> replay_reserved then act_err (Conflict ''duplicate replay_token'')
     else
       act_then (utc_now E) (\<lambda>received_at.
       act_then (uuid_or_new E (sm_message_id request)) (\<lambda>message_id.
       act_then (add_seconds E received_at ttl_seconds) (\<lambda>expires_at.
       act_then (run_sql E (insert_message
         \<lparr> ms_message_id = message_id, ms_mailbox_id = mailbox_id,
           ms_sender_device_hint = sm_sender_device_hint request, ms_ciphertext = ciphertext,
           ms_received_at = stored received_at, ms_expires_at = stored expires_at,
           ms_deleted_at = None \<rparr>)) (\<lambda>result.
       case result of
         Inr _ \<Rightarrow> act_ok (202, \<lparr> sr_message_id = message_id, sr_expires_at = expires_at \<rparr>)
       | Inl e \<Rightarrow>
           if is_unique_violation e then act_err (Conflict ''message_id already exists'')
           else act_err (dependency ''message persistence failed'' e))))))))))))))"

definition live_messages :: "string \<Rightarrow> time \<Rightarrow> db \<Rightarrow> message_row list" where
  "live_messages mailbox_id now d =
     filter (\<lambda>m. ms_mailbox_id m = mailbox_id \<and> ms_deleted_at m = None \<and> now < ms_expires_at m) (db_messages d)"

definition stored_envelope_of :: "relay_lib \<Rightarrow> message_row \<Rightarrow> stored_envelope" where
  "stored_envelope_of L m =
     \<lparr> se_message_id = ms_message_id m, se_sender_device_hint = ms_sender_device_hint m,
       se_ciphertext_b64 = lb_pg_base64 L (ms_ciphertext m), se_received_at = ms_received_at m,
       se_expires_at = ms_expires_at m \<rparr>"

definition list_messages ::
    "'r relay_env \<Rightarrow> string \<Rightarrow> nat option \<Rightarrow> headers \<Rightarrow> ('r, list_messages_response) relay_action" where
  "list_messages E mailbox_id query_limit headers =
     act_then (act_lift (validate_mailbox_id mailbox_id)) (\<lambda>_.
     act_then (mailbox_guard E mailbox_id headers) (\<lambda>_.
     act_then (enforce_rate_limit E (''retrieve:'' @ mailbox_id)
       (cf_retrieve_rate_limit_per_minute (en_config E)) 60) (\<lambda>_.
     let limit = min (unwrap_or query_limit 50) 200 in
     act_then (sql E ''message retrieval failed'' (sql_read (\<lambda>now d.
       take limit (map (stored_envelope_of (en_lib E))
         (sort_key ms_received_at (live_messages mailbox_id now d)))))) (\<lambda>messages.
     act_ok \<lparr> lm_mailbox_id = mailbox_id, lm_messages = messages \<rparr>))))"

definition mark_message_deleted :: "string \<Rightarrow> uuid \<Rightarrow> nat sql" where
  "mark_message_deleted mailbox_id message_id = sql_write (\<lambda>now d.
     let hit = (\<lambda>m. ms_mailbox_id m = mailbox_id \<and> ms_message_id m = message_id \<and> ms_deleted_at m = None)
     in (length (filter hit (db_messages d)),
         d\<lparr>db_messages := update_where hit (\<lambda>m. m\<lparr>ms_deleted_at := Some now\<rparr>) (db_messages d)\<rparr>))"

definition delete_message ::
    "'r relay_env \<Rightarrow> string \<Rightarrow> uuid \<Rightarrow> headers \<Rightarrow> ('r, delete_response) relay_action" where
  "delete_message E mailbox_id message_id headers =
     act_then (act_lift (validate_mailbox_id mailbox_id)) (\<lambda>_.
     act_then (mailbox_guard E mailbox_id headers) (\<lambda>_.
     act_then (enforce_rate_limit E (''retrieve:'' @ mailbox_id)
       (cf_retrieve_rate_limit_per_minute (en_config E)) 60) (\<lambda>_.
     act_then (sql E ''message deletion failed'' (mark_message_deleted mailbox_id message_id)) (\<lambda>rows_affected.
     act_ok \<lparr> dm_mailbox_id = mailbox_id, dm_message_id = message_id, dm_deleted = (0 < rows_affected) \<rparr>))))"

section \<open>What the statements change\<close>

text \<open>A message row as \<^verbatim>\<open>submit_message\<close> writes it: within the configured size and lifetime.\<close>

definition message_bounded :: "'r relay_env \<Rightarrow> message_row \<Rightarrow> bool" where
  "message_bounded E m \<longleftrightarrow>
     ms_ciphertext m \<noteq> [] \<and> length (ms_ciphertext m) \<le> cf_max_ciphertext_bytes (en_config E) \<and>
     (\<forall>hint. ms_sender_device_hint m = Some hint \<longrightarrow> length hint \<le> 128) \<and>
     (\<exists>received_at ttl expires_at.
        cf_min_ttl_seconds (en_config E) \<le> ttl \<and> ttl \<le> cf_max_ttl_seconds (en_config E) \<and>
        lb_add_seconds (en_lib E) received_at ttl = Some expires_at \<and>
        ms_received_at m = lb_pg_time (en_lib E) received_at \<and>
        ms_expires_at m = lb_pg_time (en_lib E) expires_at)"

definition message_statements_keep :: "'r relay_env \<Rightarrow> (db \<Rightarrow> bool) \<Rightarrow> bool" where
  "message_statements_keep E J \<longleftrightarrow>
     (\<forall>row. message_bounded E row \<longrightarrow> sql_keeps J (insert_message row))"

lemma validate_sender_device_hint_ok:
  "validate_sender_device_hint v = Inr u \<Longrightarrow> v = Some h \<Longrightarrow> length h \<le> 128"
  by (auto simp: validate_sender_device_hint_def split: if_splits)

lemma keeps_insert_message:
  "message_statements_keep E J \<Longrightarrow> message_bounded E row \<Longrightarrow> sql_keeps J (insert_message row)"
  by (simp add: message_statements_keep_def)

lemma db_submit_message:
  assumes "message_statements_keep E J"
  shows "preserves (on_db J) (submit_message E m r)"
  unfolding submit_message_def Let_def add_seconds_def
  by (intro preserves_act_lift_then preserves_intros keeps_insert_message [OF assms])
    (fastforce simp: message_bounded_def validate_ciphertext_ok validate_ttl_ok result_simps
      dest: validate_sender_device_hint_ok)

lemma db_list_messages [preserves_intros]: "preserves (on_db J) (list_messages E m l h)"
  unfolding list_messages_def Let_def by (intro preserves_intros)

lemma db_delete_message:
  "sql_keeps J (mark_message_deleted m i) \<Longrightarrow> preserves (on_db J) (delete_message E m i h)"
  unfolding delete_message_def by (intro preserves_intros)

lemma message_routes_refuse:
  assumes "db_keys d" "\<not> header_access (crypto_of E) d m h"
  shows "refuses d (list_messages E m l h)" "refuses d (delete_message E m i h)"
  unfolding list_messages_def delete_message_def Let_def
  using assms by (intro refuses_intros; simp)+

end
