(* ===== verification/Relay_Prekeys.thy ===== *)
theory Relay_Prekeys
  imports Relay_Auth
begin

text \<open>
  Prekey bundles and device records: \<^verbatim>\<open>publish_prekey_bundle\<close>, \<^verbatim>\<open>fetch_prekey_bundle\<close>,
  \<^verbatim>\<open>get_prekey_inventory_status\<close>, \<^verbatim>\<open>publish_device_record\<close> and \<^verbatim>\<open>list_device_records\<close>.
\<close>

section \<open>Publishing and fetching bundles\<close>

record publish_prekey_bundle_response =
  pu_mailbox_id :: string
  pu_signed_prekey_expires_at :: time
  pu_one_time_prekey_count :: nat
  pu_updated_at :: time

text \<open>The loop \<^verbatim>\<open>for public_key in &parsed.one_time_prekeys\<close>.\<close>

definition insert_one_time_prekey :: "otk_row \<Rightarrow> unit sql" where
  "insert_one_time_prekey row = sql_write (\<lambda>now d. ((), d\<lparr>db_otks := db_otks d @ [row]\<rparr>))"

fun insert_one_time_prekeys ::
    "'r relay_env \<Rightarrow> time \<Rightarrow> string \<Rightarrow> time \<Rightarrow> bytes list \<Rightarrow> ('r, unit) relay_action" where
  "insert_one_time_prekeys E now mailbox_id updated_at [] = act_ok ()"
| "insert_one_time_prekeys E now mailbox_id updated_at (public_key # rest) =
     act_then (new_uuid E) (\<lambda>prekey_id.
     act_then (tx_sql E now (dependency ''one-time prekey insert failed'') (insert_one_time_prekey
       \<lparr> ok_prekey_id = prekey_id, ok_mailbox_id = mailbox_id, ok_public_key = public_key,
         ok_created_at = lb_pg_time (en_lib E) updated_at, ok_consumed_at = None \<rparr>)) (\<lambda>_.
     insert_one_time_prekeys E now mailbox_id updated_at rest))"

definition upsert_bundle :: "bundle_row \<Rightarrow> unit sql" where
  "upsert_bundle row = sql_write (\<lambda>now d.
     ((), d\<lparr>db_bundles := upsert (\<lambda>b. bu_mailbox_id b = bu_mailbox_id row) row
        (\<lambda>b. row) (db_bundles d)\<rparr>))"

definition delete_unused_prekeys :: "string \<Rightarrow> unit sql" where
  "delete_unused_prekeys mailbox_id = sql_write (\<lambda>now d.
     ((), d\<lparr>db_otks := filter (\<lambda>k. \<not> (ok_mailbox_id k = mailbox_id \<and> ok_consumed_at k = None)) (db_otks d)\<rparr>))"

definition publish_prekey_bundle ::
    "'r relay_env \<Rightarrow> string \<Rightarrow> headers \<Rightarrow> publish_prekey_bundle_request \<Rightarrow>
      ('r, nat \<times> publish_prekey_bundle_response) relay_action" where
  "publish_prekey_bundle E mailbox_id headers request =
     (let stored = lb_pg_time (en_lib E) in
     act_then (act_lift (validate_mailbox_id mailbox_id)) (\<lambda>_.
     act_then (mailbox_guard E mailbox_id headers) (\<lambda>_.
     act_then (enforce_rate_limit E (''prekey-publish:'' @ mailbox_id)
       (cf_submit_rate_limit_per_minute (en_config E)) 60) (\<lambda>_.
     act_then (parse_prekey_bundle_upload E request) (\<lambda>parsed.
     act_then (utc_now E) (\<lambda>updated_at.
     let signed_prekey_created_at = updated_at in
     act_then (transaction E ''prekey transaction start failed'' ''prekey transaction commit failed'' (\<lambda>now.
       act_then (tx_sql E now (dependency ''prekey bundle upsert failed'') (upsert_bundle
         \<lparr> bu_mailbox_id = mailbox_id,
           bu_identity_signing_key = pp_identity_signing_key parsed,
           bu_identity_exchange_key = pp_identity_exchange_key parsed,
           bu_signed_prekey = pp_signed_prekey parsed,
           bu_signed_prekey_signature = pp_signed_prekey_signature parsed,
           bu_signed_prekey_created_at = stored signed_prekey_created_at,
           bu_signed_prekey_expires_at = stored (pp_signed_prekey_expires_at parsed),
           bu_updated_at = stored updated_at \<rparr>)) (\<lambda>_.
       act_then (tx_sql E now (dependency ''prekey cleanup failed'') (delete_unused_prekeys mailbox_id)) (\<lambda>_.
       insert_one_time_prekeys E now mailbox_id updated_at (pp_one_time_prekeys parsed))))) (\<lambda>_.
     act_ok (201, \<lparr> pu_mailbox_id = mailbox_id,
       pu_signed_prekey_expires_at = pp_signed_prekey_expires_at parsed,
       pu_one_time_prekey_count = length (pp_one_time_prekeys parsed),
       pu_updated_at = updated_at \<rparr>))))))))"

record fetch_prekey_bundle_response =
  fb_mailbox_id :: string
  fb_identity_signing_key_b64 :: string
  fb_identity_exchange_key_b64 :: string
  fb_signed_prekey_b64 :: string
  fb_signed_prekey_signature_b64 :: string
  fb_signed_prekey_expires_at :: time
  fb_one_time_prekey_b64 :: "string option"
  fb_fetched_at :: time

definition active_bundle :: "string \<Rightarrow> time \<Rightarrow> db \<Rightarrow> bundle_row option" where
  "active_bundle mailbox_id now d =
     find (\<lambda>b. bu_mailbox_id b = mailbox_id \<and> now < bu_signed_prekey_expires_at b) (db_bundles d)"

text \<open>
  \<^verbatim>\<open>WITH candidate AS (SELECT .. ORDER BY created_at ASC LIMIT 1 ..) UPDATE .. RETURNING public_key\<close>.
\<close>

definition available_prekeys :: "string \<Rightarrow> db \<Rightarrow> otk_row list" where
  "available_prekeys mailbox_id d =
     filter (\<lambda>k. ok_mailbox_id k = mailbox_id \<and> ok_consumed_at k = None) (db_otks d)"

definition consume_one_time_prekey :: "string \<Rightarrow> bytes option sql" where
  "consume_one_time_prekey mailbox_id = sql_write (\<lambda>now d.
     case sort_key ok_created_at (available_prekeys mailbox_id d) of
       [] \<Rightarrow> (None, d)
     | candidate # _ \<Rightarrow>
         (Some (ok_public_key candidate),
          d\<lparr>db_otks := update_where (\<lambda>k. ok_prekey_id k = ok_prekey_id candidate)
             (\<lambda>k. k\<lparr>ok_consumed_at := Some now\<rparr>) (db_otks d)\<rparr>))"

definition fetch_prekey_bundle ::
    "'r relay_env \<Rightarrow> string \<Rightarrow> ('r, fetch_prekey_bundle_response) relay_action" where
  "fetch_prekey_bundle E mailbox_id =
     (let C = crypto_of E in
     act_then (act_lift (validate_mailbox_id mailbox_id)) (\<lambda>_.
     act_then (ensure_mailbox_exists E mailbox_id) (\<lambda>_.
     act_then (enforce_rate_limit E (''prekey-fetch:'' @ mailbox_id)
       (cf_retrieve_rate_limit_per_minute (en_config E)) 60) (\<lambda>_.
     act_then (transaction E ''prekey fetch transaction start failed'' ''prekey fetch commit failed'' (\<lambda>now.
       act_then (tx_sql E now (dependency ''prekey bundle lookup failed'')
         (sql_read (active_bundle mailbox_id))) (\<lambda>row.
       act_then (act_lift (ok_or (NotFound ''active prekey bundle not found'') row)) (\<lambda>found.
       act_then (tx_sql E now (dependency ''one-time prekey fetch failed'')
         (consume_one_time_prekey mailbox_id)) (\<lambda>one_time_prekey.
       act_ok (found, one_time_prekey)))))) (\<lambda>(found, one_time_prekey).
     act_then (utc_now E) (\<lambda>fetched_at.
     act_ok \<lparr> fb_mailbox_id = bu_mailbox_id found,
       fb_identity_signing_key_b64 = b64_encode C (bu_identity_signing_key found),
       fb_identity_exchange_key_b64 = b64_encode C (bu_identity_exchange_key found),
       fb_signed_prekey_b64 = b64_encode C (bu_signed_prekey found),
       fb_signed_prekey_signature_b64 = b64_encode C (bu_signed_prekey_signature found),
       fb_signed_prekey_expires_at = bu_signed_prekey_expires_at found,
       fb_one_time_prekey_b64 = map_option (b64_encode C) one_time_prekey,
       fb_fetched_at = fetched_at \<rparr>))))))"

record prekey_inventory_status_response =
  is_mailbox_id :: string
  is_signed_prekey_expires_at :: time
  is_available_one_time_prekeys :: nat
  is_checked_at :: time

definition get_prekey_inventory_status ::
    "'r relay_env \<Rightarrow> string \<Rightarrow> headers \<Rightarrow> ('r, prekey_inventory_status_response) relay_action" where
  "get_prekey_inventory_status E mailbox_id headers =
     act_then (act_lift (validate_mailbox_id mailbox_id)) (\<lambda>_.
     act_then (mailbox_guard E mailbox_id headers) (\<lambda>_.
     act_then (sql E ''prekey status lookup failed'' (sql_read (\<lambda>now d.
       map_option (\<lambda>b. (bu_signed_prekey_expires_at b, length (available_prekeys mailbox_id d)))
         (active_bundle mailbox_id now d)))) (\<lambda>row.
     act_then (act_lift (ok_or (NotFound ''active prekey bundle not found'') row)) (\<lambda>(expires_at, available).
     act_then (utc_now E) (\<lambda>checked_at.
     act_ok \<lparr> is_mailbox_id = mailbox_id, is_signed_prekey_expires_at = expires_at,
              is_available_one_time_prekeys = available, is_checked_at = checked_at \<rparr>)))))"

section \<open>Device records\<close>

record publish_device_record_response =
  pd_mailbox_id :: string
  pd_device_id :: string
  pd_revoked_at :: "time option"
  pd_updated_at :: time

definition upsert_device :: "device_row \<Rightarrow> unit sql" where
  "upsert_device row = sql_write (\<lambda>now d.
     ((), d\<lparr>db_devices := upsert
        (\<lambda>v. dv_mailbox_id v = dv_mailbox_id row \<and> dv_device_id v = dv_device_id row) row (\<lambda>v. row)
        (db_devices d)\<rparr>))"

definition publish_device_record ::
    "'r relay_env \<Rightarrow> string \<Rightarrow> headers \<Rightarrow> device_record \<Rightarrow>
      ('r, nat \<times> publish_device_record_response) relay_action" where
  "publish_device_record E mailbox_id headers request =
     (let C = crypto_of E; stored = lb_pg_time (en_lib E) in
     act_then (act_lift (validate_mailbox_id mailbox_id)) (\<lambda>_.
     act_then (mailbox_guard E mailbox_id headers) (\<lambda>_.
     act_then (sql E ''device identity lookup failed'' (sql_read (\<lambda>now d.
       map_option bu_identity_signing_key (active_bundle mailbox_id now d)))) (\<lambda>row.
     act_then (act_lift (ok_or (NotFound ''active prekey bundle not found for mailbox'') row)) (\<lambda>key_bytes.
     act_then (act_lift (ok_or Internal (try_into_array 32 key_bytes))) (\<lambda>identity_signing_key.
     if \<not> ed25519_valid_key C identity_signing_key then act_err Internal
     else
       act_then (act_lift (map_err api_error_of_core
         (device_record_verify C request identity_signing_key))) (\<lambda>_.
       act_then (utc_now E) (\<lambda>updated_at.
       act_then (act_lift (ok_or (BadRequest ''device_signing_key_b64 must be valid base64'')
         (b64_decode C (dr_device_signing_key_b64 request)))) (\<lambda>signing_key.
       act_then (act_lift (ok_or (BadRequest ''device_exchange_key_b64 must be valid base64'')
         (b64_decode C (dr_device_exchange_key_b64 request)))) (\<lambda>exchange_key.
       act_then (act_lift (ok_or (BadRequest ''signature_b64 must be valid base64'')
         (b64_decode C (dr_signature_b64 request)))) (\<lambda>signature.
       act_then (sql E ''device record upsert failed'' (upsert_device
         \<lparr> dv_mailbox_id = mailbox_id, dv_device_id = dr_device_id request,
           dv_device_label = dr_device_label request, dv_device_signing_key = signing_key,
           dv_device_exchange_key = exchange_key, dv_created_at = stored (dr_created_at request),
           dv_revoked_at = map_option stored (dr_revoked_at request), dv_signature = signature,
           dv_updated_at = stored updated_at \<rparr>)) (\<lambda>_.
       act_ok (201, \<lparr> pd_mailbox_id = mailbox_id, pd_device_id = dr_device_id request,
         pd_revoked_at = dr_revoked_at request, pd_updated_at = updated_at \<rparr>)))))))))))))"

record list_device_records_response =
  ld_mailbox_id :: string
  ld_devices :: "device_record list"

definition device_record_of_row :: "crypto \<Rightarrow> device_row \<Rightarrow> device_record" where
  "device_record_of_row C row =
     \<lparr> dr_version = ''simy-device-record-v1'', dr_device_id = dv_device_id row,
       dr_device_label = dv_device_label row,
       dr_device_signing_key_b64 = b64_encode C (dv_device_signing_key row),
       dr_device_exchange_key_b64 = b64_encode C (dv_device_exchange_key row),
       dr_created_at = dv_created_at row, dr_revoked_at = dv_revoked_at row,
       dr_signature_b64 = b64_encode C (dv_signature row) \<rparr>"

definition list_device_records :: "'r relay_env \<Rightarrow> string \<Rightarrow> ('r, list_device_records_response) relay_action" where
  "list_device_records E mailbox_id =
     act_then (act_lift (validate_mailbox_id mailbox_id)) (\<lambda>_.
     act_then (ensure_mailbox_exists E mailbox_id) (\<lambda>_.
     act_then (sql E ''device record listing failed'' (sql_read (\<lambda>now d.
       sort_desc dv_created_at (filter (\<lambda>v. dv_mailbox_id v = mailbox_id) (db_devices d))))) (\<lambda>rows.
     act_ok \<lparr> ld_mailbox_id = mailbox_id,
       ld_devices = map (device_record_of_row (crypto_of E)) rows \<rparr>)))"

section \<open>What the statements change\<close>

definition bundle_keys :: "bundle_row \<Rightarrow> pre_key_bundle" where
  "bundle_keys b =
     \<lparr> pb_identity_pub = \<lparr> ip_signing_key = bu_identity_signing_key b, ip_exchange_key = bu_identity_exchange_key b \<rparr>,
       pb_signed_prekey_pub = bu_signed_prekey b, pb_signed_prekey_sig = bu_signed_prekey_signature b,
       pb_one_time_prekey_pub = None \<rparr>"

text \<open>A published bundle: its signature verifies, and its parts have the right lengths.\<close>

definition bundle_valid :: "crypto \<Rightarrow> bundle_row \<Rightarrow> bool" where
  "bundle_valid C b \<longleftrightarrow> bundle_verify C (bundle_keys b) = Inr () \<and>
     ed25519_valid_key C (bu_identity_signing_key b) \<and>
     length (bu_identity_signing_key b) = 32 \<and> length (bu_identity_exchange_key b) = 32 \<and>
     length (bu_signed_prekey b) = 32 \<and> length (bu_signed_prekey_signature b) = 64"

lemma parse_prekey_bundle_upload_ok:
  assumes "parse_prekey_bundle_upload E r s = (Inr p, t)"
  shows "bundle_valid (crypto_of E) \<lparr> bu_mailbox_id = m, bu_identity_signing_key = pp_identity_signing_key p,
      bu_identity_exchange_key = pp_identity_exchange_key p, bu_signed_prekey = pp_signed_prekey p,
      bu_signed_prekey_signature = pp_signed_prekey_signature p, bu_signed_prekey_created_at = t1,
      bu_signed_prekey_expires_at = t2, bu_updated_at = t3 \<rparr>"
    and "distinct (pp_one_time_prekeys p)" "\<forall>k \<in> set (pp_one_time_prekeys p). length k = 32"
    and "length (pp_one_time_prekeys p) \<le> 256"
  using assms
  by (auto simp: parse_prekey_bundle_upload_def result_simps Let_def relay_decode_fixed_base64_def
      bundle_valid_def bundle_keys_def dest!: decode_one_time_prekeys_ok split: if_splits)

definition bundle_statements_keep :: "'r relay_env \<Rightarrow> (db \<Rightarrow> bool) \<Rightarrow> bool" where
  "bundle_statements_keep E J \<longleftrightarrow>
     (\<forall>row. bundle_valid (crypto_of E) row \<longrightarrow> sql_keeps J (upsert_bundle row)) \<and>
     (\<forall>m. sql_keeps J (delete_unused_prekeys m)) \<and> (\<forall>row. sql_keeps J (insert_one_time_prekey row))"

definition prekey_statements_keep :: "(db \<Rightarrow> bool) \<Rightarrow> bool" where
  "prekey_statements_keep J \<longleftrightarrow>
     (\<forall>m. sql_keeps J (consume_one_time_prekey m)) \<and> (\<forall>row. sql_keeps J (upsert_device row))"

lemma db_insert_one_time_prekeys:
  "bundle_statements_keep E J \<Longrightarrow> preserves (on_db J) (insert_one_time_prekeys E now m t ks)"
  by (induction ks) (auto intro!: preserves_intros simp: bundle_statements_keep_def)

lemma db_parse_prekey_bundle_upload [preserves_intros]:
  "preserves (on_db J) (parse_prekey_bundle_upload E r)"
  unfolding parse_prekey_bundle_upload_def default_signed_prekey_expiry_def
    validate_signed_prekey_expiry_def Let_def
  by (intro preserves_intros)

lemma keeps_bundle:
  assumes "bundle_statements_keep E J"
  shows "bundle_valid (crypto_of E) row \<Longrightarrow> sql_keeps J (upsert_bundle row)"
    "sql_keeps J (delete_unused_prekeys m)"
  using assms by (simp_all add: bundle_statements_keep_def)

definition upload_valid :: "crypto \<Rightarrow> parsed_prekey_bundle_upload \<Rightarrow> bool" where
  "upload_valid C p \<longleftrightarrow> (\<forall>m t1 t2 t3. bundle_valid C \<lparr> bu_mailbox_id = m,
      bu_identity_signing_key = pp_identity_signing_key p,
      bu_identity_exchange_key = pp_identity_exchange_key p, bu_signed_prekey = pp_signed_prekey p,
      bu_signed_prekey_signature = pp_signed_prekey_signature p, bu_signed_prekey_created_at = t1,
      bu_signed_prekey_expires_at = t2, bu_updated_at = t3 \<rparr>)"

lemma preserves_parse_then:
  assumes "\<And>p. upload_valid (crypto_of E) p \<Longrightarrow> preserves (on_db J) (f p)"
  shows "preserves (on_db J) (act_then (parse_prekey_bundle_upload E r) f)"
  by (rule preserves_then_result [where Q = "upload_valid (crypto_of E)", OF _ db_parse_prekey_bundle_upload assms])
    (auto simp: upload_valid_def intro: parse_prekey_bundle_upload_ok(1))

lemma db_publish_prekey_bundle:
  assumes "bundle_statements_keep E J"
  shows "preserves (on_db J) (publish_prekey_bundle E m h r)"
  unfolding publish_prekey_bundle_def Let_def
  by (intro preserves_parse_then preserves_intros keeps_bundle [OF assms]
      db_insert_one_time_prekeys [OF assms]) (simp add: upload_valid_def)

lemma db_fetch_prekey_bundle:
  "prekey_statements_keep J \<Longrightarrow> preserves (on_db J) (fetch_prekey_bundle E m)"
  unfolding fetch_prekey_bundle_def Let_def
  by (intro preserves_intros) (simp add: prekey_statements_keep_def)

lemma db_prekey_reads [preserves_intros]:
  "preserves (on_db J) (get_prekey_inventory_status E m h)" "preserves (on_db J) (list_device_records E m)"
  unfolding get_prekey_inventory_status_def list_device_records_def by (intro preserves_intros)+

lemma db_publish_device_record:
  "prekey_statements_keep J \<Longrightarrow> preserves (on_db J) (publish_device_record E m h r)"
  unfolding publish_device_record_def Let_def
  by (intro preserves_intros) (simp add: prekey_statements_keep_def)

lemma prekey_routes_refuse:
  assumes "db_keys d" "\<not> header_access (crypto_of E) d m h"
  shows "refuses d (publish_prekey_bundle E m h r)" "refuses d (get_prekey_inventory_status E m h)"
    "refuses d (publish_device_record E m h v)"
  unfolding publish_prekey_bundle_def get_prekey_inventory_status_def publish_device_record_def Let_def
  using assms by (intro refuses_intros; simp)+

end
