(* ===== verification/Relay_Media.thy ===== *)
theory Relay_Media
  imports Relay_Auth
begin

text \<open>
  Media: upload intents with presigned uploads, manifests, access grants and their redemption.  The
  blobs themselves are encrypted by the client (theory \<open>Media\<close>); the relay keeps their metadata.
\<close>

section \<open>Presigned requests\<close>

record presigned_request_response =
  ps_method :: string
  ps_url :: string
  ps_headers :: "(string \<times> string) list"

text \<open>The headers are collected into a \<^verbatim>\<open>BTreeMap\<close>.\<close>

definition serialize_presigned_request :: "presigned_request \<Rightarrow> presigned_request_response" where
  "serialize_presigned_request request =
     \<lparr> ps_method = pr_method request, ps_url = pr_url request,
       ps_headers = fold (\<lambda>(name, value). bt_insert name value) (pr_headers request) bt_empty \<rparr>"

definition presigning_config :: "'r relay_env \<Rightarrow> int \<Rightarrow> api_error + int" where
  "presigning_config E ttl_seconds =
     (case lb_presign_ttl_error (en_lib E) ttl_seconds of
        None \<Rightarrow> Inr ttl_seconds
      | Some error \<Rightarrow> Inl (BadRequest (''invalid presign ttl: '' @ error)))"

text \<open>A call of the object store client.\<close>

definition object_store :: "'r relay_env \<Rightarrow> string \<Rightarrow> (time \<Rightarrow> 'a) \<Rightarrow> ('r, 'a) relay_action" where
  "object_store E what f = act_then (world E) (\<lambda>out.
     if wo_fails out then act_err (Dependency (what @ '': '' @ wo_error out)) else act_ok (f (wo_now out)))"

definition presign_upload_request ::
    "'r relay_env \<Rightarrow> string \<Rightarrow> string \<Rightarrow> int \<Rightarrow> ('r, presigned_request_response) relay_action" where
  "presign_upload_request E object_key media_type ttl_seconds =
     act_then (act_lift (presigning_config E ttl_seconds)) (\<lambda>ttl.
     act_then (object_store E ''media upload presign failed'' (\<lambda>now.
       lb_presign_put (en_lib E) now (cf_media_object_store_bucket (en_config E)) object_key media_type ttl)) (\<lambda>presigned.
     act_ok (serialize_presigned_request presigned)))"

definition presign_media_access_request ::
    "'r relay_env \<Rightarrow> string \<Rightarrow> string \<Rightarrow> string \<Rightarrow> string \<Rightarrow> time \<Rightarrow>
      ('r, presigned_request_response) relay_action" where
  "presign_media_access_request E bucket object_key media_type operation expires_at =
     act_then (utc_now E) (\<lambda>now.
     let ttl_seconds = max (lb_num_seconds (en_lib E) expires_at now) 1 in
     act_then
       (if operation = ''download'' then
          act_then (act_lift (presigning_config E ttl_seconds)) (\<lambda>ttl.
          object_store E ''media download presign failed'' (\<lambda>t.
            lb_presign_get (en_lib E) t bucket object_key media_type ttl))
        else if operation = ''upload'' then
          act_then (act_lift (presigning_config E ttl_seconds)) (\<lambda>ttl.
          object_store E ''media upload grant presign failed'' (\<lambda>t.
            lb_presign_put (en_lib E) t bucket object_key media_type ttl))
        else act_err (BadRequest ''unsupported grant operation'')) (\<lambda>presigned.
     act_ok (serialize_presigned_request presigned)))"

section \<open>Upload intents\<close>

record create_media_upload_intent_request =
  ui_media_type :: string
  ui_original_size_bytes :: u64
  ui_chunk_size_bytes :: "u32 option"
  ui_ttl_seconds :: "int option"
  ui_content_sha256_b64 :: "string option"

record create_media_upload_intent_response =
  ir_intent_id :: uuid
  ir_mailbox_id :: string
  ir_bucket :: string
  ir_object_key :: string
  ir_media_type :: string
  ir_original_size_bytes :: u64
  ir_padded_size_bytes :: u64
  ir_chunk_size_bytes :: u32
  ir_region :: string
  ir_upload_endpoint :: string
  ir_presigned_upload :: presigned_request_response
  ir_content_sha256_b64 :: "string option"
  ir_expires_at :: time

text \<open>\<^verbatim>\<open>i32::try_from(chunk_size_bytes)\<close>\<close>

definition i32_try_from :: "u32 \<Rightarrow> int option" where
  "i32_try_from w = (if unat w < 2 ^ 31 then Some (int (unat w)) else None)"

definition replace_char :: "char \<Rightarrow> string \<Rightarrow> string \<Rightarrow> string" where
  "replace_char c new s = concat (map (\<lambda>x. if x = c then new else [x]) s)"

definition media_object_key :: "relay_lib \<Rightarrow> string \<Rightarrow> time \<Rightarrow> string \<Rightarrow> uuid \<Rightarrow> string" where
  "media_object_key L mailbox_id created_at media_type intent_id =
     ''mailboxes/'' @ mailbox_id @ ''/'' @ lb_year_month L created_at @ ''/'' @
     replace_char (CHR ''/'') ''-'' media_type @ ''/'' @ lb_uuid_to_string L intent_id"

definition insert_intent :: "intent_row \<Rightarrow> unit sql" where
  "insert_intent row = sql_write (\<lambda>now d. ((), d\<lparr>db_intents := db_intents d @ [row]\<rparr>))"

definition create_media_upload_intent ::
    "'r relay_env \<Rightarrow> string \<Rightarrow> headers \<Rightarrow> create_media_upload_intent_request \<Rightarrow>
      ('r, nat \<times> create_media_upload_intent_response) relay_action" where
  "create_media_upload_intent E mailbox_id headers request =
     (let config = en_config E; stored = lb_pg_time (en_lib E) in
     act_then (act_lift (validate_mailbox_id mailbox_id)) (\<lambda>_.
     act_then (mailbox_guard E mailbox_id headers) (\<lambda>_.
     act_then (enforce_rate_limit E (''media-intent:'' @ mailbox_id)
       (cf_submit_rate_limit_per_minute config) 60) (\<lambda>_.
     act_then (act_lift (validate_media_type (ui_media_type request))) (\<lambda>_.
     if ui_original_size_bytes request = 0 \<or> cf_media_max_original_size_bytes config < ui_original_size_bytes request
     then act_err (BadRequest (''original_size_bytes must be between 1 and '' @
       nat_to_string (unat (cf_media_max_original_size_bytes config))))
     else
       let chunk_size_bytes = unwrap_or (ui_chunk_size_bytes request) (cf_media_default_chunk_size_bytes config);
           ttl_seconds = unwrap_or (ui_ttl_seconds request) (cf_media_upload_intent_ttl_seconds config) in
       act_then (act_lift (validate_ttl 1 (cf_max_ttl_seconds config) ttl_seconds)) (\<lambda>_.
       act_then (act_lift (case ui_content_sha256_b64 request of
           Some s \<Rightarrow> validate_sha256_b64 (crypto_of E) s | None \<Rightarrow> Inr ())) (\<lambda>_.
       act_then (act_lift (map_err api_error_of_core
         (build_blob_padding_plan (ui_original_size_bytes request) chunk_size_bytes))) (\<lambda>padding_plan.
       act_then (new_uuid E) (\<lambda>intent_id.
       act_then (utc_now E) (\<lambda>created_at.
       act_then (add_seconds E created_at ttl_seconds) (\<lambda>expires_at.
       let object_key = media_object_key (en_lib E) mailbox_id created_at (ui_media_type request) intent_id in
       act_then (presign_upload_request E object_key (ui_media_type request) ttl_seconds) (\<lambda>presigned_upload.
       act_then (act_lift (ok_or (BadRequest ''chunk_size_bytes is too large'')
         (i32_try_from chunk_size_bytes))) (\<lambda>stored_chunk_size.
       act_then (sql E ''media upload intent creation failed'' (insert_intent
         \<lparr> it_intent_id = intent_id, it_mailbox_id = mailbox_id,
           it_bucket = cf_media_object_store_bucket config, it_object_key = object_key,
           it_media_type = ui_media_type request,
           it_original_size_bytes = sint (ui_original_size_bytes request),
           it_padded_size_bytes = sint (plan_padded_size_bytes padding_plan),
           it_chunk_size_bytes = stored_chunk_size,
           it_content_sha256_b64 = ui_content_sha256_b64 request,
           it_created_at = stored created_at, it_expires_at = stored expires_at \<rparr>)) (\<lambda>_.
       act_ok (201, \<lparr> ir_intent_id = intent_id, ir_mailbox_id = mailbox_id,
         ir_bucket = cf_media_object_store_bucket config, ir_object_key = object_key,
         ir_media_type = ui_media_type request,
         ir_original_size_bytes = ui_original_size_bytes request,
         ir_padded_size_bytes = plan_padded_size_bytes padding_plan,
         ir_chunk_size_bytes = chunk_size_bytes, ir_region = cf_media_object_store_region config,
         ir_upload_endpoint = cf_media_object_store_endpoint config,
         ir_presigned_upload = presigned_upload,
         ir_content_sha256_b64 = ui_content_sha256_b64 request, ir_expires_at = expires_at \<rparr>)))))))))))))))"

section \<open>Manifests\<close>

record create_media_manifest_request =
  mq_intent_id :: uuid
  mq_content_sha256_b64 :: "string option"
  mq_upload_completed_at :: "time option"

record create_media_manifest_response =
  mr_object_id :: uuid
  mr_mailbox_id :: string
  mr_bucket :: string
  mr_object_key :: string
  mr_media_type :: string
  mr_original_size_bytes :: int
  mr_padded_size_bytes :: int
  mr_chunk_size_bytes :: int
  mr_content_sha256_b64 :: "string option"
  mr_upload_completed_at :: time

definition insert_object :: "object_row \<Rightarrow> unit sql" where
  "insert_object row = sql_write (\<lambda>now d. ((), d\<lparr>db_objects := db_objects d @ [row]\<rparr>))"

definition create_media_manifest ::
    "'r relay_env \<Rightarrow> string \<Rightarrow> headers \<Rightarrow> create_media_manifest_request \<Rightarrow>
      ('r, nat \<times> create_media_manifest_response) relay_action" where
  "create_media_manifest E mailbox_id headers request =
     (let stored = lb_pg_time (en_lib E) in
     act_then (act_lift (validate_mailbox_id mailbox_id)) (\<lambda>_.
     act_then (mailbox_guard E mailbox_id headers) (\<lambda>_.
     act_then (act_lift (case mq_content_sha256_b64 request of
         Some s \<Rightarrow> validate_sha256_b64 (crypto_of E) s | None \<Rightarrow> Inr ())) (\<lambda>_.
     act_then (sql E ''media upload intent lookup failed'' (sql_read (\<lambda>now d.
       find (\<lambda>i. it_intent_id i = mq_intent_id request \<and> it_mailbox_id i = mailbox_id \<and>
         now < it_expires_at i) (db_intents d)))) (\<lambda>row.
     act_then (act_lift (ok_or (NotFound ''active media upload intent not found'') row)) (\<lambda>intent.
     act_then (new_uuid E) (\<lambda>object_id.
     act_then (case mq_upload_completed_at request of Some t \<Rightarrow> act_ok t | None \<Rightarrow> utc_now E) (\<lambda>upload_completed_at.
     let content_sha256_b64 = or_var (mq_content_sha256_b64 request) (it_content_sha256_b64 intent) in
     act_then (run_sql E (insert_object
       \<lparr> ob_object_id = object_id, ob_mailbox_id = mailbox_id, ob_intent_id = Some (it_intent_id intent),
         ob_bucket = it_bucket intent, ob_object_key = it_object_key intent,
         ob_media_type = it_media_type intent,
         ob_original_size_bytes = it_original_size_bytes intent,
         ob_padded_size_bytes = it_padded_size_bytes intent,
         ob_chunk_size_bytes = it_chunk_size_bytes intent,
         ob_content_sha256_b64 = content_sha256_b64, ob_created_at = stored (it_created_at intent),
         ob_upload_completed_at = stored upload_completed_at \<rparr>)) (\<lambda>result.
     case result of
       Inr _ \<Rightarrow> act_ok (201, \<lparr> mr_object_id = object_id, mr_mailbox_id = mailbox_id,
         mr_bucket = it_bucket intent, mr_object_key = it_object_key intent,
         mr_media_type = it_media_type intent,
         mr_original_size_bytes = it_original_size_bytes intent,
         mr_padded_size_bytes = it_padded_size_bytes intent,
         mr_chunk_size_bytes = it_chunk_size_bytes intent,
         mr_content_sha256_b64 = content_sha256_b64, mr_upload_completed_at = upload_completed_at \<rparr>)
     | Inl e \<Rightarrow>
         if is_unique_violation e
         then act_err (Conflict ''media object already registered for this intent or object key'')
         else act_err (dependency ''media manifest creation failed'' e))))))))))"

record list_media_manifests_response =
  ml_mailbox_id :: string
  ml_media :: "object_row list"

text \<open>\<^verbatim>\<open>StoredMediaManifest\<close> is an object row without the mailbox it was selected by.\<close>

definition list_media_manifests ::
    "'r relay_env \<Rightarrow> string \<Rightarrow> nat option \<Rightarrow> headers \<Rightarrow> ('r, list_media_manifests_response) relay_action" where
  "list_media_manifests E mailbox_id query_limit headers =
     act_then (act_lift (validate_mailbox_id mailbox_id)) (\<lambda>_.
     act_then (mailbox_guard E mailbox_id headers) (\<lambda>_.
     let limit = min (unwrap_or query_limit 50) 200 in
     act_then (sql E ''media manifest listing failed'' (sql_read (\<lambda>now d.
       take limit (sort_desc ob_upload_completed_at
         (filter (\<lambda>b. ob_mailbox_id b = mailbox_id) (db_objects d)))))) (\<lambda>media.
     act_ok \<lparr> ml_mailbox_id = mailbox_id, ml_media = media \<rparr>)))"

section \<open>Access grants\<close>

record create_media_access_grant_request =
  gq_object_key :: string
  gq_operation :: string
  gq_ttl_seconds :: "int option"

record create_media_access_grant_response =
  ga_grant_id :: uuid
  ga_grant_token :: string
  ga_operation :: string
  ga_bucket :: string
  ga_object_key :: string
  ga_media_type :: string
  ga_upload_endpoint :: string
  ga_resolve_path :: string
  ga_expires_at :: time

definition insert_grant :: "grant_row \<Rightarrow> unit sql" where
  "insert_grant row = sql_write (\<lambda>now d. ((), d\<lparr>db_grants := db_grants d @ [row]\<rparr>))"

definition create_media_access_grant ::
    "'r relay_env \<Rightarrow> string \<Rightarrow> headers \<Rightarrow> create_media_access_grant_request \<Rightarrow>
      ('r, nat \<times> create_media_access_grant_response) relay_action" where
  "create_media_access_grant E mailbox_id headers request =
     (let config = en_config E; stored = lb_pg_time (en_lib E) in
     act_then (act_lift (validate_mailbox_id mailbox_id)) (\<lambda>_.
     act_then (mailbox_guard E mailbox_id headers) (\<lambda>_.
     act_then (act_lift (validate_grant_operation (gq_operation request))) (\<lambda>_.
     let ttl_seconds = unwrap_or (gq_ttl_seconds request) (cf_media_access_grant_ttl_seconds config) in
     act_then (act_lift (validate_ttl 1 (cf_max_ttl_seconds config) ttl_seconds)) (\<lambda>_.
     act_then (sql E ''media object lookup failed'' (sql_read (\<lambda>now d.
       find (\<lambda>b. ob_mailbox_id b = mailbox_id \<and> ob_object_key b = gq_object_key request) (db_objects d)))) (\<lambda>row.
     act_then (act_lift (ok_or (NotFound ''media object not found'') row)) (\<lambda>media.
     act_then (new_uuid E) (\<lambda>grant_id.
     act_then (utc_now E) (\<lambda>created_at.
     act_then (add_seconds E created_at ttl_seconds) (\<lambda>expires_at.
     act_then (random_hex_token E 32) (\<lambda>grant_token.
     let resolve_path = ''/v1/media/access-grants/'' @ grant_token;
         grant_token_hash = sha256_bytes (crypto_of E) (as_bytes grant_token) in
     act_then (sql E ''media access grant creation failed'' (insert_grant
       \<lparr> gr_grant_id = grant_id, gr_object_id = ob_object_id media, gr_mailbox_id = mailbox_id,
         gr_grant_token_hash = grant_token_hash, gr_operation = gq_operation request,
         gr_created_at = stored created_at, gr_expires_at = stored expires_at,
         gr_redeemed_at = None \<rparr>)) (\<lambda>_.
     act_ok (201, \<lparr> ga_grant_id = grant_id, ga_grant_token = grant_token,
       ga_operation = gq_operation request, ga_bucket = ob_bucket media,
       ga_object_key = ob_object_key media, ga_media_type = ob_media_type media,
       ga_upload_endpoint = cf_media_object_store_endpoint config,
       ga_resolve_path = resolve_path, ga_expires_at = expires_at \<rparr>)))))))))))))"

definition lookup_media_access_grant :: "'r relay_env \<Rightarrow> string \<Rightarrow> ('r, grant_row \<times> object_row) relay_action" where
  "lookup_media_access_grant E grant_token =
     (let grant_token_hash = sha256_bytes (crypto_of E) (as_bytes grant_token) in
     act_then (sql E ''media access grant lookup failed'' (sql_read (\<lambda>now d.
       find (\<lambda>(g, b). gr_grant_token_hash g = grant_token_hash \<and> now < gr_expires_at g)
         (inner_join (\<lambda>g b. ob_object_id b = gr_object_id g) (db_grants d) (db_objects d))))) (\<lambda>row.
     act_lift (ok_or (NotFound ''media access grant not found or expired'') row)))"

definition redeem_grant :: "uuid \<Rightarrow> unit sql" where
  "redeem_grant grant_id = sql_write (\<lambda>now d.
     ((), d\<lparr>db_grants := update_where (\<lambda>g. gr_grant_id g = grant_id)
        (\<lambda>g. g\<lparr>gr_redeemed_at := Some now\<rparr>) (db_grants d)\<rparr>))"

definition mark_media_access_grant_redeemed :: "'r relay_env \<Rightarrow> uuid \<Rightarrow> ('r, unit) relay_action" where
  "mark_media_access_grant_redeemed E grant_id =
     sql E ''media access grant redemption failed'' (redeem_grant grant_id)"

record resolve_media_access_grant_response =
  rg_grant_id :: uuid
  rg_operation :: string
  rg_bucket :: string
  rg_object_key :: string
  rg_media_type :: string
  rg_original_size_bytes :: int
  rg_padded_size_bytes :: int
  rg_chunk_size_bytes :: int
  rg_content_sha256_b64 :: "string option"
  rg_object_store_endpoint :: string
  rg_presigned_request :: presigned_request_response
  rg_expires_at :: time

definition resolve_media_access_grant ::
    "'r relay_env \<Rightarrow> string \<Rightarrow> ('r, resolve_media_access_grant_response) relay_action" where
  "resolve_media_access_grant E grant_token =
     act_then (act_lift (validate_grant_token grant_token)) (\<lambda>_.
     act_then (lookup_media_access_grant E grant_token) (\<lambda>(g, b).
     act_then (mark_media_access_grant_redeemed E (gr_grant_id g)) (\<lambda>_.
     act_then (presign_media_access_request E (ob_bucket b) (ob_object_key b) (ob_media_type b)
       (gr_operation g) (gr_expires_at g)) (\<lambda>presigned_request.
     act_ok \<lparr> rg_grant_id = gr_grant_id g, rg_operation = gr_operation g, rg_bucket = ob_bucket b,
       rg_object_key = ob_object_key b, rg_media_type = ob_media_type b,
       rg_original_size_bytes = ob_original_size_bytes b, rg_padded_size_bytes = ob_padded_size_bytes b,
       rg_chunk_size_bytes = ob_chunk_size_bytes b, rg_content_sha256_b64 = ob_content_sha256_b64 b,
       rg_object_store_endpoint = cf_media_object_store_endpoint (en_config E),
       rg_presigned_request = presigned_request, rg_expires_at = gr_expires_at g \<rparr>))))"

record content_response =
  ce_status :: nat
  ce_headers :: "(string \<times> string) list"
  ce_body :: bytes

definition fetch_media_access_grant_content :: "'r relay_env \<Rightarrow> string \<Rightarrow> ('r, content_response) relay_action" where
  "fetch_media_access_grant_content E grant_token =
     act_then (act_lift (validate_grant_token grant_token)) (\<lambda>_.
     act_then (lookup_media_access_grant E grant_token) (\<lambda>(g, b).
     if gr_operation g \<noteq> ''download''
     then act_err (BadRequest ''media access grant does not allow downloads'')
     else
       act_then (mark_media_access_grant_redeemed E (gr_grant_id g)) (\<lambda>_.
       act_then (object_store E ''media object fetch failed'' (\<lambda>now.
         lb_get_object (en_lib E) now (ob_bucket b) (ob_object_key b))) (\<lambda>object.
       act_then (object_store E ''media object read failed'' (\<lambda>now. object)) (\<lambda>bytes.
       act_ok \<lparr> ce_status = 200,
         ce_headers = [(''content-type'', ''application/octet-stream''), (''cache-control'', ''no-store'')],
         ce_body = bytes \<rparr>)))))"

section \<open>What the statements change\<close>

definition media_statements_keep :: "(db \<Rightarrow> bool) \<Rightarrow> bool" where
  "media_statements_keep J \<longleftrightarrow>
     (\<forall>row. sql_keeps J (insert_intent row)) \<and> (\<forall>row. sql_keeps J (insert_object row)) \<and>
     (\<forall>row. sql_keeps J (insert_grant row)) \<and> (\<forall>i. sql_keeps J (redeem_grant i))"

lemma db_object_store [preserves_intros]:
  "preserves (on_db J) (object_store E what f)"
  "preserves (on_db J) (presign_upload_request E k t n)"
  "preserves (on_db J) (presign_media_access_request E b k t op e)"
  "preserves (on_db J) (lookup_media_access_grant E g)"
  unfolding presign_upload_request_def presign_media_access_request_def object_store_def
    lookup_media_access_grant_def Let_def
  by (intro preserves_intros)+

lemma db_create_media:
  assumes "media_statements_keep J"
  shows "preserves (on_db J) (create_media_upload_intent E m h ri)"
    "preserves (on_db J) (create_media_manifest E m h rm)"
    "preserves (on_db J) (create_media_access_grant E m h rg)"
  unfolding create_media_upload_intent_def create_media_manifest_def create_media_access_grant_def Let_def
  using assms by (intro preserves_intros; simp add: media_statements_keep_def)+

lemma db_list_media_manifests [preserves_intros]: "preserves (on_db J) (list_media_manifests E m l h)"
  unfolding list_media_manifests_def Let_def by (intro preserves_intros)

lemma db_redeem_media:
  assumes "media_statements_keep J"
  shows "preserves (on_db J) (resolve_media_access_grant E g)"
    "preserves (on_db J) (fetch_media_access_grant_content E g)"
  unfolding resolve_media_access_grant_def fetch_media_access_grant_content_def
    mark_media_access_grant_redeemed_def
  using assms by (intro preserves_intros; simp add: media_statements_keep_def)+

lemma media_routes_refuse:
  assumes "db_keys d" "\<not> header_access (crypto_of E) d m h"
  shows "refuses d (create_media_upload_intent E m h ri)" "refuses d (create_media_manifest E m h rm)"
    "refuses d (list_media_manifests E m l h)" "refuses d (create_media_access_grant E m h rg)"
  unfolding create_media_upload_intent_def create_media_manifest_def list_media_manifests_def
    create_media_access_grant_def Let_def
  using assms by (intro refuses_intros; simp)+

end
