(* ===== verification/Relay_Feed.thy ===== *)
theory Relay_Feed
  imports Relay_Accounts
begin

text \<open>
  The feed: \<^verbatim>\<open>create_feed_post\<close>, \<^verbatim>\<open>list_feed_posts\<close> with \<^verbatim>\<open>resolve_feed_reply_targets\<close>, and
  \<^verbatim>\<open>create_feed_reply\<close>.  A post is delivered to contacts as one ciphertext per recipient; replies
  run between the author and one recipient.
\<close>

section \<open>Posting\<close>

record create_feed_delivery_request =
  fd_recipient_mailbox_id :: string
  fd_ciphertext_b64 :: string

record create_feed_post_request =
  fp_post_id :: "uuid option"
  fp_audience :: "string option"
  fp_reply_policy :: "string option"
  fp_author_ciphertext_b64 :: string
  fp_deliveries :: "create_feed_delivery_request list"
  fp_ttl_seconds :: "int option"

record create_feed_post_response =
  cp_post_id :: uuid
  cp_mailbox_id :: string
  cp_audience :: string
  cp_reply_policy :: string
  cp_recipient_count :: nat
  cp_created_at :: time
  cp_expires_at :: time

text \<open>The loop over the deliveries; the accumulator is both \<^verbatim>\<open>seen_recipients\<close> and \<^verbatim>\<open>recipient_ids\<close>.\<close>

fun check_deliveries ::
    "crypto \<Rightarrow> nat \<Rightarrow> string \<Rightarrow> create_feed_delivery_request list \<Rightarrow> string list \<Rightarrow> api_error + string list" where
  "check_deliveries C max_ciphertext_bytes mailbox_id [] seen = Inr seen"
| "check_deliveries C max_ciphertext_bytes mailbox_id (delivery # rest) seen =
     and_then (validate_mailbox_id (fd_recipient_mailbox_id delivery)) (\<lambda>_.
     and_then (validate_ciphertext C (fd_ciphertext_b64 delivery) max_ciphertext_bytes) (\<lambda>_.
     if fd_recipient_mailbox_id delivery = mailbox_id
     then Inl (BadRequest ''author mailbox must not appear in deliveries'')
     else if fd_recipient_mailbox_id delivery \<in> set seen
     then Inl (BadRequest ''deliveries contain a duplicate recipient'')
     else check_deliveries C max_ciphertext_bytes mailbox_id rest
       (seen @ [fd_recipient_mailbox_id delivery])))"

definition allowed_recipients :: "string \<Rightarrow> string list \<Rightarrow> db \<Rightarrow> string list" where
  "allowed_recipients mailbox_id recipient_ids d =
     map (ct_contact_mailbox_id \<circ> fst) (filter (\<lambda>(c, a). ct_owner_mailbox_id c = mailbox_id \<and>
       ct_contact_mailbox_id c \<in> set recipient_ids \<and> ac_status a = ''active'') (contact_rows d))"

definition insert_post :: "post_row \<Rightarrow> unit sql" where
  "insert_post row = sql_write (\<lambda>now d. ((), d\<lparr>db_posts := db_posts d @ [row]\<rparr>))"

definition insert_delivery :: "delivery_row \<Rightarrow> unit sql" where
  "insert_delivery row = sql_write (\<lambda>now d. ((), d\<lparr>db_deliveries := db_deliveries d @ [row]\<rparr>))"

fun insert_deliveries ::
    "'r relay_env \<Rightarrow> time \<Rightarrow> uuid \<Rightarrow> time \<Rightarrow> create_feed_delivery_request list \<Rightarrow> ('r, unit) relay_action" where
  "insert_deliveries E now post_id created_at [] = act_ok ()"
| "insert_deliveries E now post_id created_at (delivery # rest) =
     act_then (new_uuid E) (\<lambda>delivery_id.
     act_then (tx_sql E now (dependency ''feed delivery creation failed'') (insert_delivery
       \<lparr> de_delivery_id = delivery_id, de_post_id = post_id,
         de_recipient_mailbox_id = fd_recipient_mailbox_id delivery,
         de_ciphertext_b64 = fd_ciphertext_b64 delivery,
         de_created_at = lb_pg_time (en_lib E) created_at \<rparr>)) (\<lambda>_.
     insert_deliveries E now post_id created_at rest))"

definition conflict_or :: "string \<Rightarrow> string \<Rightarrow> sql_error \<Rightarrow> api_error" where
  "conflict_or conflict what e = (if is_unique_violation e then Conflict conflict else dependency what e)"

definition create_feed_post ::
    "'r relay_env \<Rightarrow> string \<Rightarrow> headers \<Rightarrow> create_feed_post_request \<Rightarrow>
      ('r, nat \<times> create_feed_post_response) relay_action" where
  "create_feed_post E mailbox_id headers request =
     (let config = en_config E; C = crypto_of E; stored = lb_pg_time (en_lib E) in
     act_then (act_lift (validate_mailbox_id mailbox_id)) (\<lambda>_.
     act_then (mailbox_guard E mailbox_id headers) (\<lambda>_.
     act_then (act_lift (let requested = unwrap_or (fp_audience request) ''contacts'' in
       if requested = ''contacts'' then Inr requested
       else Inl (BadRequest ''audience must be contacts''))) (\<lambda>audience.
     act_then (act_lift (let requested = unwrap_or (fp_reply_policy request) ''contacts_only'' in
       if requested = ''contacts_only'' \<or> requested = ''no_replies'' then Inr requested
       else Inl (BadRequest ''reply_policy must be no_replies or contacts_only''))) (\<lambda>reply_policy.
     if fp_deliveries request = []
     then act_err (BadRequest ''deliveries must include at least one recipient'')
     else
       let ttl_seconds = unwrap_or (fp_ttl_seconds request) (cf_default_ttl_seconds config) in
       act_then (act_lift (validate_ttl (cf_min_ttl_seconds config) (cf_max_ttl_seconds config) ttl_seconds)) (\<lambda>_.
       act_then (act_lift (validate_ciphertext C (fp_author_ciphertext_b64 request)
         (cf_max_ciphertext_bytes config))) (\<lambda>_.
       act_then (act_lift (check_deliveries C (cf_max_ciphertext_bytes config) mailbox_id
         (fp_deliveries request) [])) (\<lambda>recipient_ids.
       act_then (sql E ''feed recipient lookup failed'' (sql_read (\<lambda>now.
         allowed_recipients mailbox_id recipient_ids))) (\<lambda>allowed.
       if length (remdups allowed) \<noteq> length recipient_ids \<or> \<not> list_all (\<lambda>r. r \<in> set allowed) recipient_ids
       then act_err (BadRequest
         ''all feed recipients must be active relay-backed contacts for this mailbox'')
       else
         act_then (ensure_account_profile E mailbox_id) (\<lambda>author_profile.
         act_then (uuid_or_new E (fp_post_id request)) (\<lambda>post_id.
         act_then (utc_now E) (\<lambda>created_at.
         act_then (add_seconds E created_at ttl_seconds) (\<lambda>expires_at.
         act_then (transaction E ''feed transaction start failed'' ''feed transaction commit failed'' (\<lambda>now.
           act_then (tx_sql E now (conflict_or ''post_id already exists'' ''feed post creation failed'')
             (insert_post
               \<lparr> po_post_id = post_id, po_author_mailbox_id = mailbox_id,
                 po_author_codename = ac_codename author_profile, po_audience = audience,
                 po_reply_policy = reply_policy,
                 po_author_ciphertext_b64 = fp_author_ciphertext_b64 request,
                 po_created_at = stored created_at, po_expires_at = stored expires_at \<rparr>)) (\<lambda>_.
           insert_deliveries E now post_id created_at (fp_deliveries request)))) (\<lambda>_.
         act_ok (201, \<lparr> cp_post_id = post_id, cp_mailbox_id = mailbox_id, cp_audience = audience,
           cp_reply_policy = reply_policy, cp_recipient_count = length (fp_deliveries request),
           cp_created_at = created_at, cp_expires_at = expires_at \<rparr>)))))))))))))))"

section \<open>Listing\<close>

record feed_post_visible_row =
  fv_post_id :: uuid
  fv_author_mailbox_id :: string
  fv_author_codename :: string
  fv_audience :: string
  fv_reply_policy :: string
  fv_ciphertext_b64 :: string
  fv_created_at :: time
  fv_expires_at :: time
  fv_visibility :: string

record feed_reply_visible_response =
  rv_reply_id :: uuid
  rv_post_id :: uuid
  rv_author_mailbox_id :: string
  rv_author_codename :: string
  rv_recipient_mailbox_id :: string
  rv_ciphertext_b64 :: string
  rv_created_at :: time
  rv_expires_at :: time
  rv_visibility :: string

record feed_reply_target_response =
  rt_mailbox_id :: string
  rt_codename :: string

record feed_post_visible_response = feed_post_visible_row +
  vp_can_reply :: bool
  vp_reply_targets :: "feed_reply_target_response list"
  vp_replies :: "feed_reply_visible_response list"

record list_feed_posts_response =
  lf_mailbox_id :: string
  lf_post_count :: nat
  lf_posts :: "feed_post_visible_response list"
  lf_generated_at :: time

definition visible_row :: "post_row \<Rightarrow> string \<Rightarrow> string \<Rightarrow> feed_post_visible_row" where
  "visible_row p ciphertext_b64 visibility =
     \<lparr> fv_post_id = po_post_id p, fv_author_mailbox_id = po_author_mailbox_id p,
       fv_author_codename = po_author_codename p, fv_audience = po_audience p,
       fv_reply_policy = po_reply_policy p, fv_ciphertext_b64 = ciphertext_b64,
       fv_created_at = po_created_at p, fv_expires_at = po_expires_at p, fv_visibility = visibility \<rparr>"

text \<open>The \<^verbatim>\<open>UNION ALL\<close> of authored and received posts, newest first.\<close>

definition visible_posts :: "string \<Rightarrow> nat \<Rightarrow> time \<Rightarrow> db \<Rightarrow> feed_post_visible_row list" where
  "visible_posts mailbox_id limit now d =
     (let authored = map (\<lambda>p. visible_row p (po_author_ciphertext_b64 p) ''authored'')
            (filter (\<lambda>p. po_author_mailbox_id p = mailbox_id \<and> now < po_expires_at p) (db_posts d));
          received = map (\<lambda>(p, e). visible_row p (de_ciphertext_b64 e) ''received'')
            (filter (\<lambda>(p, e). de_recipient_mailbox_id e = mailbox_id \<and> now < po_expires_at p)
              (inner_join (\<lambda>p e. de_post_id e = po_post_id p) (db_posts d) (db_deliveries d)))
      in take limit (sort_desc fv_created_at (authored @ received)))"

definition visible_reply :: "string \<Rightarrow> reply_row \<Rightarrow> feed_reply_visible_response" where
  "visible_reply mailbox_id r =
     \<lparr> rv_reply_id = re_reply_id r, rv_post_id = re_post_id r, rv_author_mailbox_id = re_author_mailbox_id r,
       rv_author_codename = re_author_codename r, rv_recipient_mailbox_id = re_recipient_mailbox_id r,
       rv_ciphertext_b64 = (if re_author_mailbox_id r = mailbox_id then re_author_ciphertext_b64 r
         else re_recipient_ciphertext_b64 r),
       rv_created_at = re_created_at r, rv_expires_at = re_expires_at r,
       rv_visibility = (if re_author_mailbox_id r = mailbox_id then ''authored'' else ''received'') \<rparr>"

definition visible_replies :: "string \<Rightarrow> uuid list \<Rightarrow> time \<Rightarrow> db \<Rightarrow> feed_reply_visible_response list" where
  "visible_replies mailbox_id post_ids now d =
     map (visible_reply mailbox_id) (sort_key re_created_at (filter (\<lambda>r. re_post_id r \<in> set post_ids \<and>
       now < re_expires_at r \<and> (mailbox_id = re_author_mailbox_id r \<or> mailbox_id = re_recipient_mailbox_id r))
       (db_replies d)))"

definition resolve_feed_reply_targets ::
    "'r relay_env \<Rightarrow> string \<Rightarrow> feed_post_visible_row \<Rightarrow> ('r, feed_reply_target_response list) relay_action" where
  "resolve_feed_reply_targets E viewer_mailbox_id post =
     (if fv_reply_policy post = ''no_replies'' then act_ok []
      else if fv_author_mailbox_id post = viewer_mailbox_id
      then sql E ''feed reply target lookup failed'' (sql_read (\<lambda>now d.
        map (\<lambda>(e, a). \<lparr> rt_mailbox_id = de_recipient_mailbox_id e, rt_codename = ac_codename a \<rparr>)
          (sort_key (ac_codename \<circ> snd) (filter (\<lambda>(e, a). de_post_id e = fv_post_id post \<and> ac_status a = ''active'')
            (inner_join (\<lambda>e a. ac_mailbox_id a = de_recipient_mailbox_id e) (db_deliveries d) (db_accounts d))))))
      else act_ok [\<lparr> rt_mailbox_id = fv_author_mailbox_id post, rt_codename = fv_author_codename post \<rparr>])"

definition group_replies ::
    "feed_reply_visible_response list \<Rightarrow> (uuid \<times> feed_reply_visible_response list) list" where
  "group_replies rows = fold (\<lambda>reply groups.
     bt_insert (rv_post_id reply) (unwrap_or (bt_get (rv_post_id reply) groups) [] @ [reply]) groups) rows bt_empty"

text \<open>The loop over the posts; \<^verbatim>\<open>replies_by_post.remove\<close> takes a post's replies out of the map.\<close>

fun assemble_posts ::
    "'r relay_env \<Rightarrow> string \<Rightarrow> feed_post_visible_row list \<Rightarrow> (uuid \<times> feed_reply_visible_response list) list \<Rightarrow>
      feed_post_visible_response list \<Rightarrow> ('r, feed_post_visible_response list) relay_action" where
  "assemble_posts E mailbox_id [] replies_by_post visible = act_ok visible"
| "assemble_posts E mailbox_id (post # posts) replies_by_post visible =
     act_then (resolve_feed_reply_targets E mailbox_id post) (\<lambda>reply_targets.
     assemble_posts E mailbox_id posts (bt_remove (fv_post_id post) replies_by_post)
       (visible @ [\<lparr> fv_post_id = fv_post_id post, fv_author_mailbox_id = fv_author_mailbox_id post,
          fv_author_codename = fv_author_codename post, fv_audience = fv_audience post,
          fv_reply_policy = fv_reply_policy post, fv_ciphertext_b64 = fv_ciphertext_b64 post,
          fv_created_at = fv_created_at post, fv_expires_at = fv_expires_at post,
          fv_visibility = fv_visibility post, vp_can_reply = (fv_reply_policy post \<noteq> ''no_replies''),
          vp_reply_targets = reply_targets,
          vp_replies = unwrap_or (bt_get (fv_post_id post) replies_by_post) [] \<rparr>]))"

definition list_feed_posts ::
    "'r relay_env \<Rightarrow> string \<Rightarrow> nat option \<Rightarrow> headers \<Rightarrow> ('r, list_feed_posts_response) relay_action" where
  "list_feed_posts E mailbox_id query_limit headers =
     act_then (act_lift (validate_mailbox_id mailbox_id)) (\<lambda>_.
     act_then (mailbox_guard E mailbox_id headers) (\<lambda>_.
     let limit = min (unwrap_or query_limit 50) 200 in
     act_then (sql E ''feed listing failed'' (sql_read (visible_posts mailbox_id limit))) (\<lambda>posts.
     let post_ids = map fv_post_id posts in
     act_then (if post_ids = [] then act_ok []
       else sql E ''feed reply listing failed'' (sql_read (visible_replies mailbox_id post_ids))) (\<lambda>reply_rows.
     act_then (assemble_posts E mailbox_id posts (group_replies reply_rows) []) (\<lambda>visible.
     act_then (utc_now E) (\<lambda>generated_at.
     act_ok \<lparr> lf_mailbox_id = mailbox_id, lf_post_count = length visible, lf_posts = visible,
              lf_generated_at = generated_at \<rparr>))))))"

section \<open>Replying\<close>

record create_feed_reply_request =
  rq_reply_id :: "uuid option"
  rq_recipient_mailbox_id :: "string option"
  rq_author_ciphertext_b64 :: string
  rq_recipient_ciphertext_b64 :: string
  rq_ttl_seconds :: "int option"

record create_feed_reply_response =
  rr_reply_id :: uuid
  rr_post_id :: uuid
  rr_mailbox_id :: string
  rr_recipient_mailbox_id :: string
  rr_created_at :: time
  rr_expires_at :: time

record feed_post_access_row =
  pa_post_id :: uuid
  pa_author_mailbox_id :: string
  pa_reply_policy :: string
  pa_expires_at :: time
  pa_recipient_visible :: bool

definition delivered :: "db \<Rightarrow> uuid \<Rightarrow> string \<Rightarrow> bool" where
  "delivered d post_id mailbox_id =
     list_ex (\<lambda>e. de_post_id e = post_id \<and> de_recipient_mailbox_id e = mailbox_id) (db_deliveries d)"

definition post_access :: "string \<Rightarrow> uuid \<Rightarrow> time \<Rightarrow> db \<Rightarrow> feed_post_access_row option" where
  "post_access mailbox_id post_id now d =
     map_option (\<lambda>p. \<lparr> pa_post_id = po_post_id p, pa_author_mailbox_id = po_author_mailbox_id p,
         pa_reply_policy = po_reply_policy p, pa_expires_at = po_expires_at p,
         pa_recipient_visible = delivered d (po_post_id p) mailbox_id \<rparr>)
       (find (\<lambda>p. po_post_id p = post_id \<and> now < po_expires_at p) (db_posts d))"

text \<open>Whom the reply goes to: an author picks an active recipient of the post, a recipient answers the author.\<close>

definition reply_recipient ::
    "'r relay_env \<Rightarrow> string \<Rightarrow> uuid \<Rightarrow> feed_post_access_row \<Rightarrow> string option \<Rightarrow> ('r, string) relay_action" where
  "reply_recipient E mailbox_id post_id post requested_mailbox_id =
     (if pa_author_mailbox_id post = mailbox_id then
        act_then (act_lift (ok_or (BadRequest ''recipient_mailbox_id is required for author replies'')
          requested_mailbox_id)) (\<lambda>requested.
        act_then (act_lift (validate_mailbox_id requested)) (\<lambda>_.
        act_then (sql E ''reply recipient lookup failed'' (sql_read (\<lambda>now d.
          list_ex (\<lambda>(e, a). de_post_id e = post_id \<and> de_recipient_mailbox_id e = requested \<and>
              ac_status a = ''active'')
            (inner_join (\<lambda>e a. ac_mailbox_id a = de_recipient_mailbox_id e) (db_deliveries d) (db_accounts d))))) (\<lambda>is_valid_recipient.
        if \<not> is_valid_recipient then act_err (BadRequest
          ''author replies must target an active recipient from the original post audience'')
        else act_ok requested)))
      else
        act_then (case requested_mailbox_id of
            Some requested \<Rightarrow>
              act_then (act_lift (validate_mailbox_id requested)) (\<lambda>_.
              if requested \<noteq> pa_author_mailbox_id post
              then act_err (BadRequest ''recipient replies can only target the original post author'')
              else act_ok ())
          | None \<Rightarrow> act_ok ()) (\<lambda>_.
        act_ok (pa_author_mailbox_id post)))"

definition insert_reply :: "reply_row \<Rightarrow> unit sql" where
  "insert_reply row = sql_write (\<lambda>now d. ((), d\<lparr>db_replies := db_replies d @ [row]\<rparr>))"

definition create_feed_reply ::
    "'r relay_env \<Rightarrow> string \<Rightarrow> uuid \<Rightarrow> headers \<Rightarrow> create_feed_reply_request \<Rightarrow>
      ('r, nat \<times> create_feed_reply_response) relay_action" where
  "create_feed_reply E mailbox_id post_id headers request =
     (let config = en_config E; C = crypto_of E; stored = lb_pg_time (en_lib E) in
     act_then (act_lift (validate_mailbox_id mailbox_id)) (\<lambda>_.
     act_then (mailbox_guard E mailbox_id headers) (\<lambda>_.
     act_then (sql E ''feed post lookup failed'' (sql_read (post_access mailbox_id post_id))) (\<lambda>row.
     act_then (act_lift (ok_or (NotFound ''feed post not found'') row)) (\<lambda>post.
     if pa_author_mailbox_id post \<noteq> mailbox_id \<and> \<not> pa_recipient_visible post
     then act_err (NotFound ''feed post not found'')
     else if pa_reply_policy post = ''no_replies''
     then act_err (BadRequest ''replies are disabled for this feed post'')
     else
       act_then (act_lift (validate_ciphertext C (rq_author_ciphertext_b64 request)
         (cf_max_ciphertext_bytes config))) (\<lambda>_.
       act_then (act_lift (validate_ciphertext C (rq_recipient_ciphertext_b64 request)
         (cf_max_ciphertext_bytes config))) (\<lambda>_.
       act_then (reply_recipient E mailbox_id post_id post (rq_recipient_mailbox_id request)) (\<lambda>recipient_mailbox_id.
       if recipient_mailbox_id = mailbox_id
       then act_err (BadRequest ''feed replies must target another mailbox'')
       else
         let ttl_seconds = unwrap_or (rq_ttl_seconds request) (cf_default_ttl_seconds config) in
         act_then (act_lift (validate_ttl (cf_min_ttl_seconds config) (cf_max_ttl_seconds config) ttl_seconds)) (\<lambda>_.
         act_then (utc_now E) (\<lambda>created_at.
         act_then (add_seconds E created_at ttl_seconds) (\<lambda>requested_expiry.
         let expires_at = (if requested_expiry < pa_expires_at post then requested_expiry else pa_expires_at post) in
         act_then (uuid_or_new E (rq_reply_id request)) (\<lambda>reply_id.
         act_then (ensure_account_profile E mailbox_id) (\<lambda>author_profile.
         act_then (run_sql E (insert_reply
           \<lparr> re_reply_id = reply_id, re_post_id = post_id, re_author_mailbox_id = mailbox_id,
             re_author_codename = ac_codename author_profile,
             re_recipient_mailbox_id = recipient_mailbox_id,
             re_author_ciphertext_b64 = rq_author_ciphertext_b64 request,
             re_recipient_ciphertext_b64 = rq_recipient_ciphertext_b64 request,
             re_created_at = stored created_at, re_expires_at = stored expires_at \<rparr>)) (\<lambda>result.
         act_then (act_lift (map_err (conflict_or ''reply_id already exists'' ''feed reply creation failed'') result)) (\<lambda>_.
         act_ok (201, \<lparr> rr_reply_id = reply_id, rr_post_id = pa_post_id post, rr_mailbox_id = mailbox_id,
           rr_recipient_mailbox_id = recipient_mailbox_id, rr_created_at = created_at,
           rr_expires_at = expires_at \<rparr>))))))))))))))))"

section \<open>What the statements change\<close>

text \<open>Postgres keeps microseconds: conversion is monotone, and stored times convert to themselves.\<close>

definition pg_time_laws :: "relay_lib \<Rightarrow> bool" where
  "pg_time_laws L \<longleftrightarrow> mono (lb_pg_time L) \<and> (\<forall>t. lb_pg_time L (lb_pg_time L t) = lb_pg_time L t)"

text \<open>
  A reply belongs to a post that allows replies, expires no later than it, and runs between the
  post's author and a mailbox the post was delivered to.
\<close>

definition reply_ok :: "db \<Rightarrow> reply_row \<Rightarrow> bool" where
  "reply_ok d r \<longleftrightarrow> (\<exists>p \<in> set (db_posts d). po_post_id p = re_post_id r \<and>
     po_reply_policy p \<noteq> ''no_replies'' \<and> re_expires_at r \<le> po_expires_at p \<and>
     (re_author_mailbox_id r = po_author_mailbox_id p \<and> delivered d (po_post_id p) (re_recipient_mailbox_id r) \<or>
      re_recipient_mailbox_id r = po_author_mailbox_id p \<and> delivered d (po_post_id p) (re_author_mailbox_id r)))"

definition feed_ok :: "relay_lib \<Rightarrow> db \<Rightarrow> bool" where
  "feed_ok L d \<longleftrightarrow> db_ok d \<and> (\<forall>p \<in> set (db_posts d). lb_pg_time L (po_expires_at p) = po_expires_at p) \<and>
     (\<forall>r \<in> set (db_replies d). reply_ok d r)"

definition feed_statements_keep :: "'r relay_env \<Rightarrow> (db \<Rightarrow> bool) \<Rightarrow> bool" where
  "feed_statements_keep E J \<longleftrightarrow>
     (\<forall>row t. po_expires_at row = lb_pg_time (en_lib E) t \<longrightarrow> sql_keeps J (insert_post row)) \<and>
     (\<forall>row. sql_keeps J (insert_delivery row)) \<and>
     (\<forall>row. sql_keeps (\<lambda>d. J d \<and> reply_ok d row) (insert_reply row))"

lemma db_insert_deliveries:
  "(\<And>row. sql_keeps J (insert_delivery row)) \<Longrightarrow> preserves (on_db J) (insert_deliveries E now p t ds)"
  by (induction ds) (auto intro!: preserves_intros)

lemma keeps_feed:
  assumes "feed_statements_keep E J"
  shows "po_expires_at row = lb_pg_time (en_lib E) t \<Longrightarrow> sql_keeps J (insert_post row)"
    "sql_keeps J (insert_delivery e)" "sql_keeps (\<lambda>d. J d \<and> reply_ok d r) (insert_reply r)"
  using assms unfolding feed_statements_keep_def by blast+

lemma db_create_feed_post:
  assumes "feed_statements_keep E J" "account_statements_keep J"
  shows "preserves (on_db J) (create_feed_post E m h r)"
  unfolding create_feed_post_def Let_def
  by (intro preserves_intros db_ensure_account_profile db_insert_deliveries assms(2)
      keeps_feed(1) [OF assms(1), where t = "_ :: time"] keeps_feed(2) [OF assms(1)]) simp

text \<open>What a reply's checks found out about its post and its recipient.\<close>

definition access_known :: "string \<Rightarrow> uuid \<Rightarrow> feed_post_access_row \<Rightarrow> db \<Rightarrow> bool" where
  "access_known m i post d \<longleftrightarrow> (\<exists>p \<in> set (db_posts d). po_post_id p = i \<and>
     pa_author_mailbox_id post = po_author_mailbox_id p \<and> pa_reply_policy post = po_reply_policy p \<and>
     pa_expires_at post = po_expires_at p \<and> pa_recipient_visible post = delivered d i m)"

definition recipient_known :: "string \<Rightarrow> uuid \<Rightarrow> feed_post_access_row \<Rightarrow> string \<Rightarrow> db \<Rightarrow> bool" where
  "recipient_known m i post recipient d \<longleftrightarrow>
     (if pa_author_mailbox_id post = m then delivered d i recipient else recipient = pa_author_mailbox_id post)"

lemma post_access_then:
  assumes "\<And>post. preserves (on_db (\<lambda>d. J d \<and> access_known m i post d)) (f post)"
  shows "preserves (on_db J) (act_then (sql E what (sql_read (post_access m i)))
    (\<lambda>row. act_then (act_lift (ok_or e row)) f))"
proof (rule preserves_read_then [where K = "\<lambda>row d. \<forall>post. row = Some post \<longrightarrow> access_known m i post d"])
  show "\<forall>post. post_access m i now d = Some post \<longrightarrow> access_known m i post d" for now d
    by (auto simp: post_access_def access_known_def dest!: find_in)
  show "preserves (on_db (\<lambda>d. J d \<and> (\<forall>post. row = Some post \<longrightarrow> access_known m i post d)))
      (act_then (act_lift (ok_or e row)) f)" for row
    using assms by (cases row) (auto simp: preserves_def act_then_def on_db_def)
qed

lemma reply_recipient_then:
  assumes "\<And>recipient. preserves (on_db (\<lambda>d. J d \<and> recipient_known m i post recipient d)) (f recipient)"
  shows "preserves (on_db J) (act_then (reply_recipient E m i post req) f)"
proof -
  have other: "preserves (on_db J) (f (pa_author_mailbox_id post))" if "pa_author_mailbox_id post \<noteq> m"
    using assms [of "pa_author_mailbox_id post"] that by (simp add: recipient_known_def)
  have author: "preserves (on_db (\<lambda>d. J d \<and> delivered d i recipient)) (f recipient)"
    if "pa_author_mailbox_id post = m" for recipient
    using assms [of recipient] that by (simp add: recipient_known_def)
  have valid: "valid \<longrightarrow> delivered d i requested"
    if "valid = list_ex (\<lambda>(e, a). de_post_id e = i \<and> de_recipient_mailbox_id e = requested \<and> ac_status a = ''active'')
      (inner_join (\<lambda>e a. ac_mailbox_id a = de_recipient_mailbox_id e) (db_deliveries d) (db_accounts d))"
    for valid d requested
    using that by (auto simp: delivered_def list_ex_iff set_inner_join)
  show ?thesis
    unfolding reply_recipient_def if_distrib [where f = "\<lambda>x. act_then x f"] act_then_assoc act_then_ok
  proof (intro preserves_if preserves_act_lift_then)
    assume a: "pa_author_mailbox_id post = m"
    fix requested u
    show "preserves (on_db J) (act_then (sql E ''reply recipient lookup failed'' (sql_read (\<lambda>now d.
          list_ex (\<lambda>(e, a). de_post_id e = i \<and> de_recipient_mailbox_id e = requested \<and> ac_status a = ''active'')
            (inner_join (\<lambda>e a. ac_mailbox_id a = de_recipient_mailbox_id e) (db_deliveries d) (db_accounts d)))))
        (\<lambda>valid. if \<not> valid then act_then (act_err (BadRequest
          ''author replies must target an active recipient from the original post audience'')) f
        else f requested))"
    proof (rule preserves_read_then [where K = "\<lambda>valid d. valid \<longrightarrow> delivered d i requested"])
      show "preserves (on_db (\<lambda>d. J d \<and> (valid \<longrightarrow> delivered d i requested)))
          (if \<not> valid then act_then (act_err (BadRequest
            ''author replies must target an active recipient from the original post audience'')) f
          else f requested)" for valid
        using author [OF a, of requested] by (cases valid) (auto simp: preserves_def act_then_def)
    qed (use valid in blast)
  next
    assume "pa_author_mailbox_id post \<noteq> m"
    from other [OF this] show "preserves (on_db J) (act_then (case req of
          Some requested \<Rightarrow> act_then (act_lift (validate_mailbox_id requested)) (\<lambda>_.
            if requested \<noteq> pa_author_mailbox_id post
            then act_err (BadRequest ''recipient replies can only target the original post author'')
            else act_ok ())
        | None \<Rightarrow> act_ok ()) (\<lambda>_. f (pa_author_mailbox_id post)))"
      by (intro preserves_intros)
  qed
qed

lemma account_statements_keep_conj:
  assumes "account_statements_keep J"
    and "\<And>d xs. K (d\<lparr>db_mailboxes := xs\<rparr>) = K d" "\<And>d xs. K (d\<lparr>db_accounts := xs\<rparr>) = K d"
      "\<And>d xs. K (d\<lparr>db_contacts := xs\<rparr>) = K d"
  shows "account_statements_keep (\<lambda>d. J d \<and> K d)"
  using assms
  by (auto simp: account_statements_keep_def contacts_free_def upsert_account_def sql_keeps_def sql_write_Inr)

lemma known_updates [simp]:
  "access_known m i post (d\<lparr>db_mailboxes := ms\<rparr>) = access_known m i post d"
  "access_known m i post (d\<lparr>db_accounts := as\<rparr>) = access_known m i post d"
  "access_known m i post (d\<lparr>db_contacts := cs\<rparr>) = access_known m i post d"
  "access_known m i post (d\<lparr>db_replies := rs\<rparr>) = access_known m i post d"
  "recipient_known m i post q (d\<lparr>db_mailboxes := ms\<rparr>) = recipient_known m i post q d"
  "recipient_known m i post q (d\<lparr>db_accounts := as\<rparr>) = recipient_known m i post q d"
  "recipient_known m i post q (d\<lparr>db_contacts := cs\<rparr>) = recipient_known m i post q d"
  "recipient_known m i post q (d\<lparr>db_replies := rs\<rparr>) = recipient_known m i post q d"
  by (simp_all add: access_known_def recipient_known_def delivered_def)

text \<open>The expiry a reply is stored with does not exceed its post's.\<close>

lemma stored_expiry_le:
  "pg_time_laws L \<Longrightarrow> lb_pg_time L e = e \<Longrightarrow> lb_pg_time L (if x < e then x else e) \<le> e"
  using monoD [of "lb_pg_time L" x e] by (auto simp: pg_time_laws_def)

lemma db_create_feed_reply:
  assumes "feed_statements_keep E J" "account_statements_keep J" "pg_time_laws (en_lib E)"
    and J: "\<And>d. J d \<Longrightarrow> \<forall>p \<in> set (db_posts d). lb_pg_time (en_lib E) (po_expires_at p) = po_expires_at p"
  shows "preserves (on_db J) (create_feed_reply E m i h r)"
proof -
  have reply: "sql_keeps (\<lambda>d. (J d \<and> access_known m i post d) \<and> recipient_known m i post q d) (insert_reply row)"
    if "re_post_id row = i" "re_author_mailbox_id row = m" "re_recipient_mailbox_id row = q"
      "re_expires_at row = lb_pg_time (en_lib E) (if x < pa_expires_at post then x else pa_expires_at post)"
      "\<not> (pa_author_mailbox_id post \<noteq> m \<and> \<not> pa_recipient_visible post)" "pa_reply_policy post \<noteq> ''no_replies''"
    for post q row x
  proof -
    have "reply_ok d row" if "J d" "access_known m i post d" "recipient_known m i post q d" for d
    proof -
      obtain p where p: "p \<in> set (db_posts d)" "po_post_id p = i"
          "pa_author_mailbox_id post = po_author_mailbox_id p" "pa_reply_policy post = po_reply_policy p"
          "pa_expires_at post = po_expires_at p" "pa_recipient_visible post = delivered d i m"
        using \<open>access_known m i post d\<close> by (auto simp: access_known_def)
      moreover from p(1,5) J [OF \<open>J d\<close>] have "re_expires_at row \<le> po_expires_at p"
        unfolding \<open>re_expires_at row = _\<close> by (simp only: stored_expiry_le assms(3))
      ultimately show ?thesis
        using \<open>recipient_known m i post q d\<close> \<open>re_post_id row = i\<close> \<open>re_author_mailbox_id row = m\<close>
          \<open>re_recipient_mailbox_id row = q\<close> \<open>\<not> (_ \<and> _)\<close> \<open>pa_reply_policy post \<noteq> _\<close>
        unfolding reply_ok_def recipient_known_def by (intro bexI [of _ p]) (auto split: if_splits)
    qed
    then show ?thesis
      using keeps_feed(3) [OF assms(1), of row]
      by (auto simp: sql_keeps_def insert_reply_def sql_write_Inr)
  qed
  show ?thesis
    unfolding create_feed_reply_def Let_def
    by (intro post_access_then reply_recipient_then preserves_act_lift_then preserves_intros reply
        db_ensure_account_profile account_statements_keep_conj assms(2)) simp_all
qed

lemma db_feed_reads [preserves_intros]:
  "preserves (on_db J) (resolve_feed_reply_targets E m p)"
  unfolding resolve_feed_reply_targets_def by (intro preserves_intros)

lemma db_assemble_posts [preserves_intros]: "preserves (on_db J) (assemble_posts E m ps g v)"
  by (induction ps arbitrary: g v) (auto intro!: preserves_intros)

lemma db_list_feed_posts [preserves_intros]: "preserves (on_db J) (list_feed_posts E m l h)"
  unfolding list_feed_posts_def Let_def by (intro preserves_intros)

lemma feed_routes_refuse:
  assumes "db_keys d" "\<not> header_access (crypto_of E) d m h"
  shows "refuses d (create_feed_post E m h rp)" "refuses d (list_feed_posts E m l h)"
    "refuses d (create_feed_reply E m i h rr)"
  unfolding create_feed_post_def list_feed_posts_def create_feed_reply_def Let_def
  using assms by (intro refuses_intros; simp)+

end
