(* ===== verification/Relay_Cleanup.thy ===== *)
theory Relay_Cleanup
  imports Relay_Auth
begin

text \<open>
  The background task \<^verbatim>\<open>cleanup_expired_messages\<close>, one round of its endless loop per
  \<open>cleanup_round\<close>, and \<^verbatim>\<open>healthz\<close>.
\<close>

section \<open>The cleanup task\<close>

definition delete_expired_messages :: "unit sql" where
  "delete_expired_messages = sql_write (\<lambda>now d.
     ((), d\<lparr>db_messages := filter (\<lambda>m. \<not> (ms_expires_at m \<le> now \<or> ms_deleted_at m \<noteq> None)) (db_messages d)\<rparr>))"

definition delete_expired_posts :: "unit sql" where
  "delete_expired_posts = sql_write (\<lambda>now d. ((), delete_posts (\<lambda>p. po_expires_at p \<le> now) d))"

definition delete_expired_replies :: "unit sql" where
  "delete_expired_replies = sql_write (\<lambda>now d.
     ((), d\<lparr>db_replies := filter (\<lambda>r. \<not> re_expires_at r \<le> now) (db_replies d)\<rparr>))"

definition delete_expired_intents :: "unit sql" where
  "delete_expired_intents = sql_write (\<lambda>now d. ((), delete_intents (\<lambda>i. it_expires_at i \<le> now) d))"

definition delete_expired_grants :: "unit sql" where
  "delete_expired_grants = sql_write (\<lambda>now d.
     ((), d\<lparr>db_grants := filter (\<lambda>g. \<not> gr_expires_at g \<le> now) (db_grants d)\<rparr>))"

definition delete_dead_prekeys :: "unit sql" where
  "delete_dead_prekeys = sql_write (\<lambda>now d.
     ((), d\<lparr>db_otks := filter (\<lambda>k. \<not> (ok_consumed_at k \<noteq> None \<or>
        \<not> list_ex (\<lambda>b. bu_mailbox_id b = ok_mailbox_id k \<and> now < bu_signed_prekey_expires_at b) (db_bundles d)))
        (db_otks d)\<rparr>))"

definition delete_expired_bundles :: "unit sql" where
  "delete_expired_bundles = sql_write (\<lambda>now d.
     ((), d\<lparr>db_bundles := filter (\<lambda>b. \<not> bu_signed_prekey_expires_at b \<le> now) (db_bundles d)\<rparr>))"

text \<open>A failing statement is logged, and the round goes on with the next one.\<close>

definition log_failure :: "('r, sql_error + 'a) relay_action \<Rightarrow> ('r, unit) relay_action" where
  "log_failure m = act_then m (\<lambda>_. act_ok ())"

definition cleanup_round :: "'r relay_env \<Rightarrow> ('r, unit) relay_action" where
  "cleanup_round E =
     act_then (log_failure (run_sql E delete_expired_messages)) (\<lambda>_.
     act_then (log_failure (run_sql E delete_expired_posts)) (\<lambda>_.
     act_then (log_failure (run_sql E delete_expired_replies)) (\<lambda>_.
     act_then (log_failure (run_sql E delete_expired_intents)) (\<lambda>_.
     act_then (log_failure (run_sql E delete_expired_grants)) (\<lambda>_.
     act_then (log_failure (run_sql E delete_dead_prekeys)) (\<lambda>_.
     log_failure (run_sql E delete_expired_bundles)))))))"

section \<open>Health\<close>

record health_response =
  he_status :: string
  he_server_time :: time
  he_postgres :: string
  he_redis :: string

text \<open>\<^verbatim>\<open>action.await.is_ok()\<close>\<close>

definition succeeds :: "('r, 'a) relay_action \<Rightarrow> ('r, bool) relay_action" where
  "succeeds m = (\<lambda>s. case m s of (r, t) \<Rightarrow> (Inr (is_ok r), t))"

definition healthz :: "'r relay_env \<Rightarrow> ('r, nat \<times> health_response) relay_action" where
  "healthz E =
     act_then (succeeds (sql E '''' (sql_read (\<lambda>now d. ())))) (\<lambda>postgres_ok.
     act_then (succeeds (ping_redis E)) (\<lambda>redis_ok.
     let status = (if postgres_ok \<and> redis_ok then 200 else 503) in
     act_then (utc_now E) (\<lambda>server_time.
     act_ok (status,
       \<lparr> he_status = (if postgres_ok \<and> redis_ok then ''ok'' else ''degraded''),
         he_server_time = server_time,
         he_postgres = (if postgres_ok then ''ok'' else ''error''),
         he_redis = (if redis_ok then ''ok'' else ''error'') \<rparr>))))"

section \<open>What the statements change\<close>

definition cleanup_statements_keep :: "(db \<Rightarrow> bool) \<Rightarrow> bool" where
  "cleanup_statements_keep J \<longleftrightarrow>
     (\<forall>q \<in> {delete_expired_messages, delete_expired_posts, delete_expired_replies, delete_expired_intents,
        delete_expired_grants, delete_dead_prekeys, delete_expired_bundles}. sql_keeps J q)"

lemma db_cleanup_round:
  "cleanup_statements_keep J \<Longrightarrow> preserves (on_db J) (cleanup_round E)"
  unfolding cleanup_round_def log_failure_def
  by (intro preserves_intros) (simp_all add: cleanup_statements_keep_def)

lemma db_succeeds [preserves_intros]: "preserves (on_db J) m \<Longrightarrow> preserves (on_db J) (succeeds m)"
  by (auto simp: preserves_def succeeds_def split: prod.splits)

lemma db_healthz [preserves_intros]: "preserves (on_db J) (healthz E)"
  unfolding healthz_def Let_def by (intro preserves_intros)

end
