(* ===== verification/Relay_System.thy ===== *)
theory Relay_System
  imports Relay_Admin Relay_Messages Relay_Prekeys Relay_Media Relay_Feed Relay_Cleanup
begin

text \<open>
  The relay as a whole: the routes of \<^verbatim>\<open>main\<close> as a request type with its dispatcher, the cleanup
  task running between requests, and the states they reach from empty tables.  Requests are handled
  one at a time.
\<close>

section \<open>Routes\<close>

datatype relay_request =
    Healthz
  | AdminBootstrapAccount headers admin_bootstrap_account_request
  | AdminOverview headers
  | AdminProvisionMailbox headers
  | AdminSetManagedUserStatus string headers string
  | AdminResetManagedUserAccess string headers
  | AdminDeleteManagedUser string headers
  | CreateMailbox headers create_mailbox_request
  | GetAccountProfile string headers
  | UpsertContact string headers upsert_contact_request
  | ListContacts string headers
  | DeleteContact string string headers
  | CreateFeedPost string headers create_feed_post_request
  | ListFeedPosts string "nat option" headers
  | CreateFeedReply string uuid headers create_feed_reply_request
  | FetchPrekeyBundle string
  | ListDeviceRecords string
  | ResolveMediaAccessGrant string
  | FetchMediaAccessGrantContent string
  | PublishPrekeyBundle string headers publish_prekey_bundle_request
  | GetPrekeyInventoryStatus string headers
  | PublishDeviceRecord string headers device_record
  | CreateMediaUploadIntent string headers create_media_upload_intent_request
  | CreateMediaManifest string headers create_media_manifest_request
  | ListMediaManifests string "nat option" headers
  | CreateMediaAccessGrant string headers create_media_access_grant_request
  | SubmitMessage string submit_message_request
  | ListMessages string "nat option" headers
  | DeleteMessage string uuid headers

datatype relay_response =
    HealthReply "nat \<times> health_response"
  | ProfileReply "nat \<times> account_profile_response"
  | OverviewReply admin_overview_response
  | ProvisionReply "nat \<times> admin_provision_mailbox_response"
  | AccessReply admin_managed_user_access_response
  | DeletedUserReply admin_delete_managed_user_response
  | MailboxReply "nat \<times> create_mailbox_response"
  | ContactReply "nat \<times> contact_summary_response"
  | ContactsReply list_contacts_response
  | DeletedContactReply delete_contact_response
  | PostReply "nat \<times> create_feed_post_response"
  | FeedReply list_feed_posts_response
  | ReplyReply "nat \<times> create_feed_reply_response"
  | BundleReply fetch_prekey_bundle_response
  | DevicesReply list_device_records_response
  | GrantReply resolve_media_access_grant_response
  | ContentReply content_response
  | PublishedReply "nat \<times> publish_prekey_bundle_response"
  | InventoryReply prekey_inventory_status_response
  | DeviceReply "nat \<times> publish_device_record_response"
  | IntentReply "nat \<times> create_media_upload_intent_response"
  | ManifestReply "nat \<times> create_media_manifest_response"
  | ManifestsReply list_media_manifests_response
  | NewGrantReply "nat \<times> create_media_access_grant_response"
  | SubmittedReply "nat \<times> submit_message_response"
  | MessagesReply list_messages_response
  | DeletedMessageReply delete_response

definition reply_with :: "('a \<Rightarrow> relay_response) \<Rightarrow> ('r, 'a) relay_action \<Rightarrow> ('r, relay_response) relay_action" where
  "reply_with f m = act_then m (\<lambda>a. act_ok (f a))"

fun handle :: "'r relay_env \<Rightarrow> relay_request \<Rightarrow> ('r, relay_response) relay_action" where
  "handle E Healthz = reply_with HealthReply (healthz E)"
| "handle E (AdminBootstrapAccount h r) = reply_with ProfileReply (admin_bootstrap_account E h r)"
| "handle E (AdminOverview h) = reply_with OverviewReply (admin_overview E h)"
| "handle E (AdminProvisionMailbox h) = reply_with ProvisionReply (admin_provision_mailbox E h)"
| "handle E (AdminSetManagedUserStatus m h st) =
     reply_with (\<lambda>p. ProfileReply (200, p)) (admin_set_managed_user_status E m h st)"
| "handle E (AdminResetManagedUserAccess m h) = reply_with AccessReply (admin_reset_managed_user_access E m h)"
| "handle E (AdminDeleteManagedUser m h) = reply_with DeletedUserReply (admin_delete_managed_user E m h)"
| "handle E (CreateMailbox h r) = reply_with MailboxReply (create_mailbox E h r)"
| "handle E (GetAccountProfile m h) = reply_with (\<lambda>p. ProfileReply (200, p)) (get_account_profile E m h)"
| "handle E (UpsertContact m h r) = reply_with ContactReply (upsert_contact E m h r)"
| "handle E (ListContacts m h) = reply_with ContactsReply (list_contacts E m h)"
| "handle E (DeleteContact m c h) = reply_with DeletedContactReply (delete_contact E m c h)"
| "handle E (CreateFeedPost m h r) = reply_with PostReply (create_feed_post E m h r)"
| "handle E (ListFeedPosts m l h) = reply_with FeedReply (list_feed_posts E m l h)"
| "handle E (CreateFeedReply m i h r) = reply_with ReplyReply (create_feed_reply E m i h r)"
| "handle E (FetchPrekeyBundle m) = reply_with BundleReply (fetch_prekey_bundle E m)"
| "handle E (ListDeviceRecords m) = reply_with DevicesReply (list_device_records E m)"
| "handle E (ResolveMediaAccessGrant g) = reply_with GrantReply (resolve_media_access_grant E g)"
| "handle E (FetchMediaAccessGrantContent g) = reply_with ContentReply (fetch_media_access_grant_content E g)"
| "handle E (PublishPrekeyBundle m h r) = reply_with PublishedReply (publish_prekey_bundle E m h r)"
| "handle E (GetPrekeyInventoryStatus m h) = reply_with InventoryReply (get_prekey_inventory_status E m h)"
| "handle E (PublishDeviceRecord m h r) = reply_with DeviceReply (publish_device_record E m h r)"
| "handle E (CreateMediaUploadIntent m h r) = reply_with IntentReply (create_media_upload_intent E m h r)"
| "handle E (CreateMediaManifest m h r) = reply_with ManifestReply (create_media_manifest E m h r)"
| "handle E (ListMediaManifests m l h) = reply_with ManifestsReply (list_media_manifests E m l h)"
| "handle E (CreateMediaAccessGrant m h r) = reply_with NewGrantReply (create_media_access_grant E m h r)"
| "handle E (SubmitMessage m r) = reply_with SubmittedReply (submit_message E m r)"
| "handle E (ListMessages m l h) = reply_with MessagesReply (list_messages E m l h)"
| "handle E (DeleteMessage m i h) = reply_with DeletedMessageReply (delete_message E m i h)"

section \<open>Runs\<close>

datatype relay_event = Request relay_request | CleanupTick

fun after_event :: "'r relay_env \<Rightarrow> relay_event \<Rightarrow> 'r relay_state \<Rightarrow> 'r relay_state" where
  "after_event E (Request r) s = snd (handle E r s)"
| "after_event E CleanupTick s = snd (cleanup_round E s)"

fun after_events :: "'r relay_env \<Rightarrow> relay_event list \<Rightarrow> 'r relay_state \<Rightarrow> 'r relay_state" where
  "after_events E [] s = s"
| "after_events E (ev # evs) s = after_events E evs (after_event E ev s)"

definition initial_state :: "'r \<Rightarrow> 'r relay_state" where
  "initial_state r = \<lparr> rl_db = empty_db, rl_redis = r, rl_tick = 0 \<rparr>"

inductive relay_reachable :: "'r relay_env \<Rightarrow> 'r relay_state \<Rightarrow> bool" for E where
  start: "relay_reachable E (initial_state r)"
| event: "relay_reachable E s \<Longrightarrow> relay_reachable E (after_event E ev s)"

lemma reachable_after_events: "relay_reachable E s \<Longrightarrow> relay_reachable E (after_events E evs s)"
  by (induction evs arbitrary: s) (auto intro: relay_reachable.event)

section \<open>Invariants from statements\<close>

text \<open>
  \<open>D\<close> restricts the requests that submit or delete messages, delete mailboxes or publish keys; an invariant that only holds in
  runs without some of them is kept by the statements of the others.
\<close>

definition statements_keep :: "'r relay_env \<Rightarrow> (relay_request \<Rightarrow> bool) \<Rightarrow> (db \<Rightarrow> bool) \<Rightarrow> bool" where
  "statements_keep E D J \<longleftrightarrow> admin_statements_keep J \<and> prekey_statements_keep J \<and>
     media_statements_keep J \<and> feed_statements_keep E J \<and>
     (\<forall>m r. D (SubmitMessage m r) \<longrightarrow> message_statements_keep E J) \<and>
     (\<forall>admin m h. D (AdminDeleteManagedUser m h) \<longrightarrow> sql_keeps J (delete_managed_mailbox admin m)) \<and>
     (\<forall>m i h. D (DeleteMessage m i h) \<longrightarrow> sql_keeps J (mark_message_deleted m i)) \<and>
     (\<forall>m h r. D (PublishPrekeyBundle m h r) \<longrightarrow> bundle_statements_keep E J)"

definition all_statements_keep :: "'r relay_env \<Rightarrow> (db \<Rightarrow> bool) \<Rightarrow> bool" where
  "all_statements_keep E J \<longleftrightarrow> statements_keep E (\<lambda>_. True) J \<and> cleanup_statements_keep J"

lemma db_reply_with [preserves_intros]: "preserves (on_db J) m \<Longrightarrow> preserves (on_db J) (reply_with f m)"
  unfolding reply_with_def by (intro preserves_intros)

lemma db_handle:
  assumes "statements_keep E D J" "D req"
    and "\<And>m i h r. preserves (on_db J) (create_feed_reply E m i h r)"
  shows "preserves (on_db J) (handle E req)"
proof -
  have acc: "account_statements_keep J" and adm: "admin_statements_keep J"
    and pre: "prekey_statements_keep J" and med: "media_statements_keep J"
    and feed: "feed_statements_keep E J"
    using assms(1) by (simp_all add: statements_keep_def admin_statements_keep_def)
  note handlers = db_reply_with assms(3) db_healthz db_admin_overview db_list_contacts db_list_feed_posts
    db_prekey_reads db_list_media_manifests db_list_messages db_admin_bootstrap_account [OF acc]
    db_create_mailbox [OF acc] db_get_account_profile [OF acc] db_upsert_contact [OF acc]
    db_delete_contact [OF acc] db_admin_provision_mailbox [OF adm] db_admin_routes [OF adm]
    db_fetch_prekey_bundle [OF pre] db_publish_device_record [OF pre]
    db_create_media [OF med] db_redeem_media [OF med] db_create_feed_post [OF feed acc]
  show ?thesis
  proof (cases req)
    case (SubmitMessage m r)
    then have "message_statements_keep E J"
      using assms(1,2) unfolding statements_keep_def by blast
    then show ?thesis
      unfolding SubmitMessage handle.simps by (intro db_reply_with db_submit_message)
  next
    case (AdminDeleteManagedUser m h)
    then have "sql_keeps J (delete_managed_mailbox admin m)" for admin
      using assms(1,2) unfolding statements_keep_def by blast
    then show ?thesis
      unfolding AdminDeleteManagedUser handle.simps by (intro db_reply_with db_admin_delete_managed_user)
  next
    case (DeleteMessage m i h)
    then have "sql_keeps J (mark_message_deleted m i)"
      using assms(1,2) unfolding statements_keep_def by blast
    then show ?thesis
      unfolding DeleteMessage handle.simps by (intro db_reply_with db_delete_message)
  next
    case (PublishPrekeyBundle m h r)
    then have "bundle_statements_keep E J"
      using assms(1,2) unfolding statements_keep_def by blast
    then show ?thesis
      unfolding PublishPrekeyBundle handle.simps by (intro db_reply_with db_publish_prekey_bundle)
  qed (simp only: handle.simps, intro handlers)+
qed

fun event_allowed :: "(relay_request \<Rightarrow> bool) \<Rightarrow> relay_event \<Rightarrow> bool" where
  "event_allowed D (Request r) = D r"
| "event_allowed D CleanupTick = True"

lemma db_after_event:
  assumes "statements_keep E D J" "event_allowed D ev"
    and "\<And>m i h r. preserves (on_db J) (create_feed_reply E m i h r)"
    and "preserves (on_db J) (cleanup_round E)" and "J (rl_db s)"
  shows "J (rl_db (after_event E ev s))"
proof (cases ev)
  case (Request r)
  then have "D r" using assms(2) by simp
  with Request show ?thesis
    using preservesD [OF db_handle [OF assms(1) _ assms(3)], of r s] assms(5) by (simp add: on_db_def)
next
  case CleanupTick
  then show ?thesis using preservesD [OF assms(4), of s] assms(5) by (simp add: on_db_def)
qed

lemma db_after_events:
  assumes "statements_keep E D J" "list_all (event_allowed D) evs"
    and "\<And>m i h r. preserves (on_db J) (create_feed_reply E m i h r)"
    and "preserves (on_db J) (cleanup_round E)" and "J (rl_db s)"
  shows "J (rl_db (after_events E evs s))"
  using assms(2,5)
proof (induction evs arbitrary: s)
  case (Cons ev evs)
  have "J (rl_db (after_event E ev s))"
    using db_after_event [OF assms(1) _ assms(3,4), of ev s] Cons.prems by simp
  with Cons show ?case by simp
qed simp

lemma reachable_invariant:
  assumes "relay_reachable E s" "all_statements_keep E J"
    and "\<And>m i h r. preserves (on_db J) (create_feed_reply E m i h r)" and "J empty_db"
  shows "J (rl_db s)"
  using assms(1)
proof (induction rule: relay_reachable.induct)
  case (start r)
  then show ?case using assms(4) by (simp add: initial_state_def)
next
  case (event s ev)
  have "event_allowed (\<lambda>_. True) ev" by (cases ev) simp_all
  with assms(2) show ?case
    by (intro db_after_event [OF _ _ assms(3) db_cleanup_round event.IH]) (simp_all add: all_statements_keep_def)
qed

text \<open>Every statement checks the constraints, so the tables always satisfy them.\<close>

lemma keeps_db_ok: "sql_keeps db_ok (sql_write f)"
  by (rule sql_keeps_write)

lemmas statement_defs =
  upsert_account_def update_account_def delete_managed_mailbox_def insert_account_def
  insert_message_def mark_message_deleted_def upsert_bundle_def delete_unused_prekeys_def
  insert_one_time_prekey_def consume_one_time_prekey_def upsert_device_def insert_intent_def
  insert_object_def insert_grant_def redeem_grant_def insert_post_def insert_delivery_def
  insert_reply_def delete_expired_messages_def delete_expired_posts_def delete_expired_replies_def
  delete_expired_intents_def delete_expired_grants_def delete_dead_prekeys_def delete_expired_bundles_def

lemmas statement_group_defs =
  all_statements_keep_def statements_keep_def admin_statements_keep_def account_statements_keep_def contacts_free_def
  message_statements_keep_def bundle_statements_keep_def prekey_statements_keep_def
  media_statements_keep_def feed_statements_keep_def cleanup_statements_keep_def

lemma reply_ok_append [simp]: "reply_ok (d\<lparr>db_replies := rs\<rparr>) r = reply_ok d r"
  by (simp add: reply_ok_def delivered_def)

lemma db_ok_statements: "all_statements_keep E db_ok"
  unfolding statement_group_defs
  by (auto simp: statement_defs keeps_db_ok has_admin_append intro!: sql_keeps_write)
    (simp add: db_ok_def)

lemma db_create_feed_reply_plain:
  assumes "account_statements_keep J" "\<And>row. sql_keeps J (insert_reply row)"
  shows "preserves (on_db J) (create_feed_reply E m i h r)"
  unfolding create_feed_reply_def reply_recipient_def Let_def
  by (intro preserves_intros db_ensure_account_profile assms)

end
