(* ===== verification/Relay_Demo.thy ===== *)
theory Relay_Demo
  imports Relay_System
begin

text \<open>
  A concrete environment for the witnesses: the reference crypto record, a clock that advances by one
  second per external call and stops after 500, a world without failures, and a Redis that keeps the keys set with
  \<^verbatim>\<open>SET NX EX\<close> and their expiry.
\<close>

definition demo_config :: relay_config where
  "demo_config =
     \<lparr> cf_bind_addr = ''127.0.0.1:8080'', cf_admin_token = ''admin'', cf_postgres_dsn = ''dsn'',
       cf_redis_url = ''redis'', cf_media_object_store_endpoint = ''s3'',
       cf_media_object_store_bucket = ''bucket'', cf_media_object_store_region = ''us-east-1'',
       cf_media_object_store_access_key_id = ''id'', cf_media_object_store_secret_access_key = ''key'',
       cf_min_ttl_seconds = 300, cf_default_ttl_seconds = 604800, cf_max_ttl_seconds = 2592000,
       cf_max_ciphertext_bytes = 262144, cf_replay_ttl_margin_seconds = 300,
       cf_media_upload_intent_ttl_seconds = 900, cf_media_access_grant_ttl_seconds = 900,
       cf_media_default_chunk_size_bytes = 262144, cf_media_max_original_size_bytes = 52428800,
       cf_submit_rate_limit_per_minute = 120, cf_retrieve_rate_limit_per_minute = 240,
       cf_cleanup_interval_seconds = 60 \<rparr>"

definition demo_lib :: relay_lib where
  "demo_lib =
     \<lparr> lb_crypto = ref_crypto, lb_uuid_to_string = (\<lambda>u. ''demo-uuid-'' @ from_bytes (u64_to_be_bytes (ucast u))),
       lb_year_month = (\<lambda>_. ''2025/11''), lb_add_seconds = (\<lambda>t k. Some (t + k)), lb_pg_time = (\<lambda>t. t),
       lb_pg_base64 = from_bytes, lb_num_seconds = (\<lambda>a b. a - b), lb_presign_ttl_error = (\<lambda>_. None),
       lb_presign_put = (\<lambda>t b k c n. \<lparr> pr_method = ''PUT'', pr_url = b @ ''/'' @ k, pr_headers = [] \<rparr>),
       lb_presign_get = (\<lambda>t b k c n. \<lparr> pr_method = ''GET'', pr_url = b @ ''/'' @ k, pr_headers = [] \<rparr>),
       lb_get_object = (\<lambda>t b k. as_bytes k) \<rparr>"

type_synonym demo_redis = "(string \<times> int) list"

definition demo_redis_api :: "demo_redis redis_api" where
  "demo_redis_api =
     \<lparr> rd_incr = (\<lambda>t k r. (Some 1, r)), rd_expire = (\<lambda>t k n r. (Some (), r)),
       rd_set_nx_ex = (\<lambda>t k v n r. if list_ex (\<lambda>(k', e). k' = k \<and> t < e) r then (Some False, r)
          else (Some True, (k, t + n) # r)),
       rd_ping = (\<lambda>t r. (Some ''PONG'', r)) \<rparr>"

definition demo_env :: "demo_redis relay_env" where
  "demo_env =
     \<lparr> en_config = demo_config, en_lib = demo_lib,
       en_world = (\<lambda>n. \<lparr> wo_fails = False, wo_applied = False, wo_error = '''', wo_now = 1000 + int (min n 500),
          wo_uuid = word_of_nat n, wo_random = replicate 32 (word_of_nat n) \<rparr>),
       en_redis = demo_redis_api \<rparr>"

definition alice_id :: string where "alice_id = ''alice-mailbox-01''"
definition bob_id :: string where "bob_id = ''bob-mailbox-0001''"
definition alice_token :: string where "alice_token = ''alice-token-alice-token-alice-to''"
definition bob_token :: string where "bob_token = ''bob-token--bob-token--bob-token-''"

definition mailbox_headers :: "string \<Rightarrow> headers" where
  "mailbox_headers token = (\<lambda>name. if name = ''x-mailbox-token'' then Some (Some token) else None)"

definition admin_headers :: headers where
  "admin_headers = (\<lambda>name. if name = ''x-admin-token'' then Some (Some ''admin'')
     else if name = ''x-admin-mailbox-id'' then Some (Some alice_id)
     else if name = ''x-mailbox-token'' then Some (Some alice_token) else None)"

text \<open>Alice becomes an administrator, Bob a user, and Alice provisions a managed mailbox.\<close>

definition demo_events :: "relay_event list" where
  "demo_events =
     [Request (AdminBootstrapAccount admin_headers
        \<lparr> br_mailbox_id = alice_id, br_mailbox_token_b64 = Some alice_token, br_codename = None \<rparr>),
      Request (CreateMailbox admin_headers
        \<lparr> cr_mailbox_id = bob_id, cr_mailbox_token_b64 = bob_token, cr_codename = Some ''Bob'' \<rparr>),
      Request (AdminProvisionMailbox admin_headers), CleanupTick]"

definition demo_run :: "demo_redis relay_state" where
  "demo_run = after_events demo_env demo_events (initial_state [])"

lemma demo_run_reachable: "relay_reachable demo_env demo_run"
  unfolding demo_run_def by (intro reachable_after_events relay_reachable.start)

text \<open>
  The same mailboxes as explicit tables, with a prekey bundle, two one-time prekeys, a contact and a
  feed post of Bob's.
\<close>

definition demo_account :: "string \<Rightarrow> string \<Rightarrow> account_row" where
  "demo_account m role =
     \<lparr> ac_mailbox_id = m, ac_codename = m, ac_role = role, ac_status = ''active'', ac_owner_mailbox_id = None,
       ac_created_at = 900, ac_activated_at = Some 900 \<rparr>"

definition demo_mailbox :: "string \<Rightarrow> string \<Rightarrow> mailbox_row" where
  "demo_mailbox m token =
     \<lparr> mb_mailbox_id = m, mb_access_token_hash = hash_mailbox_token ref_crypto m (as_bytes token),
       mb_created_at = 900 \<rparr>"

definition demo_bundle :: bundle_row where
  "demo_bundle =
     \<lparr> bu_mailbox_id = bob_id, bu_identity_signing_key = replicate 32 1, bu_identity_exchange_key = replicate 32 2,
       bu_signed_prekey = replicate 32 3, bu_signed_prekey_signature = replicate 32 1 @ replicate 32 3,
       bu_signed_prekey_created_at = 900, bu_signed_prekey_expires_at = 5000, bu_updated_at = 900 \<rparr>"

definition demo_otk :: "uuid \<Rightarrow> byte \<Rightarrow> otk_row" where
  "demo_otk i b =
     \<lparr> ok_prekey_id = i, ok_mailbox_id = bob_id, ok_public_key = replicate 32 b, ok_created_at = 900,
       ok_consumed_at = None \<rparr>"

definition demo_post :: post_row where
  "demo_post =
     \<lparr> po_post_id = 7, po_author_mailbox_id = bob_id, po_author_codename = ''Bob'', po_audience = ''contacts'',
       po_reply_policy = ''contacts_only'', po_author_ciphertext_b64 = ''c'', po_created_at = 950,
       po_expires_at = 5000 \<rparr>"

definition demo_db :: db where
  "demo_db = empty_db
     \<lparr>db_mailboxes := [demo_mailbox alice_id alice_token, demo_mailbox bob_id bob_token],
      db_accounts := [demo_account alice_id ''admin'', demo_account bob_id ''user''],
      db_bundles := [demo_bundle], db_otks := [demo_otk 1 8, demo_otk 2 9],
      db_contacts := [\<lparr> ct_owner_mailbox_id = bob_id, ct_contact_mailbox_id = alice_id, ct_codename = ''Alice'',
         ct_created_at = 900, ct_updated_at = 900 \<rparr>],
      db_posts := [demo_post],
      db_deliveries := [\<lparr> de_delivery_id = 1, de_post_id = 7, de_recipient_mailbox_id = alice_id,
         de_ciphertext_b64 = ''d'', de_created_at = 950 \<rparr>]\<rparr>"

definition demo_state :: "demo_redis relay_state" where
  "demo_state = \<lparr> rl_db = demo_db, rl_redis = [], rl_tick = 0 \<rparr>"

lemma demo_names [simp]: "alice_id \<noteq> bob_id" "bob_id \<noteq> alice_id" "length alice_id = 16" "length bob_id = 16"
  "length alice_token = 32" "length bob_token = 32"
  by (simp_all add: alice_id_def bob_id_def alice_token_def bob_token_def)

lemma demo_valid_ids [simp]: "validate_mailbox_id alice_id = Inr ()" "validate_mailbox_id bob_id = Inr ()"
  by (simp_all add: validate_mailbox_id_ok)
    (simp_all add: alice_id_def bob_id_def is_id_char_def is_ascii_alphanumeric_def)

lemmas db_ok_defs = db_ok_def db_checks_def db_keys_def db_refs_def has_mailbox_def List.map_filter_def

lemmas demo_rows = demo_db_def empty_db_def demo_mailbox_def demo_account_def demo_bundle_def demo_otk_def
  demo_post_def

lemma demo_ok: "db_ok demo_db"
  by (simp add: db_ok_defs demo_rows)

lemma demo_reliable: "reliable demo_env"
  by (simp add: reliable_def demo_env_def)

lemma demo_fields [simp]: "rl_db demo_state = demo_db" "rl_redis demo_state = []" "rl_tick demo_state = 0"
  "crypto_of demo_env = ref_crypto"
  "en_config demo_env = demo_config" "en_lib demo_env = demo_lib"
  by (simp_all add: demo_state_def demo_env_def demo_lib_def)

lemma demo_access:
  "header_access ref_crypto demo_db bob_id (mailbox_headers bob_token)"
  "header_access ref_crypto demo_db alice_id admin_headers"
  by (simp_all add: header_access_def mailbox_headers_def admin_headers_def mailbox_access_def
      decode_mailbox_token_def ref_crypto_def [THEN arg_cong [where f = b64_decode]] demo_db_def
      mailbox_of_def account_of_def demo_mailbox_def demo_account_def)

section \<open>Steps of the demo world\<close>

lemma demo_crypto [simp]: "lb_crypto demo_lib = ref_crypto"
  by (simp add: demo_lib_def)

lemma demo_steps:
  "world demo_env s = (Inr (en_world demo_env (rl_tick s)), s\<lparr>rl_tick := Suc (rl_tick s)\<rparr>)"
  "utc_now demo_env s = (Inr (1000 + int (min (rl_tick s) 500)), s\<lparr>rl_tick := Suc (rl_tick s)\<rparr>)"
  "new_uuid demo_env s = (Inr (word_of_nat (rl_tick s)), s\<lparr>rl_tick := Suc (rl_tick s)\<rparr>)"
  "wo_now (en_world demo_env n) = 1000 + int (min n 500)"
  "redis_connection demo_env s = (Inr (), s\<lparr>rl_tick := Suc (rl_tick s)\<rparr>)"
  by (simp_all add: utc_now_def new_uuid_def redis_connection_def act_then_run world_def) (simp_all add: demo_env_def)

lemma demo_redis_cmd:
  "f (1000 + int (min (rl_tick s) 500)) (rl_redis s) = (Some a, r) \<Longrightarrow>
     redis_cmd demo_env what f s = (Inr a, s\<lparr>rl_tick := Suc (rl_tick s), rl_redis := r\<rparr>)"
  by (simp add: redis_cmd_def demo_steps act_then_run Let_def) (simp add: demo_env_def)

lemma demo_redis:
  "rd_incr (en_redis demo_env) t k r = (Some 1, r)" "rd_expire (en_redis demo_env) t k n r = (Some (), r)"
  "rd_ping (en_redis demo_env) t r = (Some ''PONG'', r)"
  "rd_set_nx_ex (en_redis demo_env) t k v n r = (if list_ex (\<lambda>(k', e). k' = k \<and> t < e) r
     then (Some False, r) else (Some True, (k, t + n) # r))"
  by (simp_all add: demo_env_def demo_redis_api_def)

lemma demo_rate_limit:
  assumes "0 < limit"
  shows "enforce_rate_limit demo_env k limit w s = (Inr (), s\<lparr>rl_tick := rl_tick s + 3\<rparr>)"
proof -
  have "0 < unat limit" using assms by (simp add: unat_gt_0)
  then have "\<not> int (unat limit) < 1" by linarith
  then show ?thesis
    by (simp only: enforce_rate_limit_def Let_def act_then_run)
      (simp add: demo_steps demo_redis_cmd demo_redis act_then_run numeral_3_eq_3)
qed

lemma demo_found: "list_ex (\<lambda>b. mb_mailbox_id b = m) (db_mailboxes (rl_db s)) \<Longrightarrow>
    ensure_mailbox_exists demo_env m s = (Inr (), s\<lparr>rl_tick := Suc (rl_tick s)\<rparr>)"
  by (simp add: ensure_mailbox_exists_def act_then_run reliable_sql_read demo_reliable)

lemma demo_reserve:
  "rl_redis s = [] \<Longrightarrow> reserve_replay_token demo_env m token ttl s = (Inr True,
     s\<lparr>rl_tick := 2 + rl_tick s, rl_redis := [(''relay:replay:'' @ m @ '':'' @ token,
        1000 + int (min (1 + rl_tick s) 500) + ttl)]\<rparr>)"
  using demo_redis_cmd [where a = True and s = "s\<lparr>rl_tick := Suc (rl_tick s)\<rparr>"]
  by (simp add: reserve_replay_token_def act_then_run demo_steps demo_redis)

end
