(* ===== verification/Relay_Invariants.thy ===== *)
theory Relay_Invariants
  imports Relay_Demo
begin

text \<open>
  What holds of the tables in every reachable state: the schema's constraints, the ownership of
  managed accounts, the bounds of stored messages, the signatures of stored prekey bundles, and the
  participants and lifetimes of feed replies.
\<close>

section \<open>Preservation by the statements\<close>

definition messages_ok :: "'r relay_env \<Rightarrow> db \<Rightarrow> bool" where
  "messages_ok E d \<longleftrightarrow> db_ok d \<and> (\<forall>m \<in> set (db_messages d). message_bounded E m)"

definition bundles_ok :: "'r relay_env \<Rightarrow> db \<Rightarrow> bool" where
  "bundles_ok E d \<longleftrightarrow> db_ok d \<and> (\<forall>b \<in> set (db_bundles d). bundle_valid (crypto_of E) b)"

lemma delete_mailbox_tables:
  "set (db_messages (delete_mailbox m d)) = {x \<in> set (db_messages d). ms_mailbox_id x \<noteq> m}"
  "set (db_bundles (delete_mailbox m d)) = {b \<in> set (db_bundles d). bu_mailbox_id b \<noteq> m}"
  "set (db_otks (delete_mailbox m d)) = {k \<in> set (db_otks d). ok_mailbox_id k \<noteq> m}"
  "set (db_posts (delete_mailbox m d)) = {p \<in> set (db_posts d). po_author_mailbox_id p \<noteq> m}"
  by (auto simp: delete_mailbox_def delete_posts_def delete_objects_def delete_intents_def Let_def)

lemma delete_posts_tables [simp]:
  "db_accounts (delete_posts P d) = db_accounts d" "db_messages (delete_posts P d) = db_messages d"
  "db_bundles (delete_posts P d) = db_bundles d" "db_otks (delete_posts P d) = db_otks d"
  by (simp_all add: delete_posts_def Let_def)

lemma delete_intents_tables [simp]:
  "db_accounts (delete_intents P d) = db_accounts d" "db_messages (delete_intents P d) = db_messages d"
  "db_bundles (delete_intents P d) = db_bundles d" "db_otks (delete_intents P d) = db_otks d"
  "db_posts (delete_intents P d) = db_posts d" "db_deliveries (delete_intents P d) = db_deliveries d"
  "db_replies (delete_intents P d) = db_replies d"
  by (simp_all add: delete_intents_def Let_def)

lemma message_bounded_deleted [simp]: "message_bounded E (m\<lparr>ms_deleted_at := t\<rparr>) = message_bounded E m"
  by (simp add: message_bounded_def)

text \<open>An invariant that only reads some tables is kept by the statements on the others.\<close>

lemma messages_statements: "all_statements_keep E (messages_ok E)"
  unfolding statement_group_defs
  by (auto simp: statement_defs messages_ok_def db_ok_def delete_mailbox_tables in_update_where
      has_admin_append Let_def intro!: sql_keeps_write split: if_splits list.splits)

lemma bundles_statements: "all_statements_keep E (bundles_ok E)"
  unfolding statement_group_defs
  by (auto simp: statement_defs bundles_ok_def db_ok_def delete_mailbox_tables has_admin_append Let_def
      dest!: upsert_new intro!: sql_keeps_write split: if_splits list.splits)

lemma ownership_free:
  "db_accounts d' = db_accounts d \<Longrightarrow> ownership d \<Longrightarrow> db_ok d' \<Longrightarrow> ownership d'"
  by (simp add: ownership_def has_admin_def)

lemma ownership_keeps:
  "(\<And>now d. db_accounts (snd (f now d)) = db_accounts d) \<Longrightarrow> sql_keeps ownership (sql_write f)"
  by (rule sql_keeps_write) (metis ownership_free snd_conv)

lemma ownership_all_statements: "all_statements_keep E ownership"
  using ownership_statements ownership_delete
  unfolding all_statements_keep_def statements_keep_def message_statements_keep_def bundle_statements_keep_def
    prekey_statements_keep_def media_statements_keep_def feed_statements_keep_def cleanup_statements_keep_def
  by (auto simp: statement_defs Let_def intro!: ownership_keeps sql_keeps_conj split: list.splits)
    (auto simp: sql_keeps_def sql_write_Inr intro: ownership_free)

lemma delivered_delete_mailbox:
  "delivered d i x \<Longrightarrow> x \<noteq> m \<Longrightarrow> i \<in> po_post_id ` set (db_posts (delete_mailbox m d)) \<Longrightarrow>
     delivered (delete_mailbox m d) i x"
  by (auto simp: delivered_def list_ex_iff delete_mailbox_def delete_posts_def delete_objects_def
      delete_intents_def Let_def)

lemma reply_ok_grow:
  assumes "reply_ok d r" "set (db_posts d) \<subseteq> set (db_posts d')" "set (db_deliveries d) \<subseteq> set (db_deliveries d')"
  shows "reply_ok d' r"
proof -
  have "delivered d' i x" if "delivered d i x" for i x
    using that assms(3) by (auto simp: delivered_def list_ex_iff)
  with assms(1,2) show ?thesis unfolding reply_ok_def by blast
qed

lemma reply_ok_delete_posts:
  assumes "reply_ok d r" "db_keys d" "r \<in> set (db_replies (delete_posts P d))"
  shows "reply_ok (delete_posts P d) r"
proof -
  let ?d = "delete_posts P d"
  obtain p where p: "p \<in> set (db_posts d)" "po_post_id p = re_post_id r" and rest:
      "po_reply_policy p \<noteq> ''no_replies''" "re_expires_at r \<le> po_expires_at p"
      "re_author_mailbox_id r = po_author_mailbox_id p \<and> delivered d (po_post_id p) (re_recipient_mailbox_id r) \<or>
       re_recipient_mailbox_id r = po_author_mailbox_id p \<and> delivered d (po_post_id p) (re_author_mailbox_id r)"
    using assms(1) by (auto simp: reply_ok_def)
  obtain q where q: "q \<in> set (db_posts d)" "\<not> P q" "po_post_id q = re_post_id r"
    using assms(3) by (auto simp: delete_posts_def Let_def)
  have "distinct (map po_post_id (db_posts d))" using assms(2) by (simp add: db_keys_def)
  with p q have "q = p" by (metis distinct_map inj_onD)
  then have p': "p \<in> set (db_posts ?d)" using p q by (simp add: delete_posts_def Let_def)
  have "delivered ?d (po_post_id p) x" if "delivered d (po_post_id p) x" for x
    using that p' by (auto simp: delivered_def list_ex_iff delete_posts_def Let_def)
  with p' p rest show ?thesis unfolding reply_ok_def by blast
qed

lemma delete_mailbox_feed:
  "db_posts (delete_mailbox m d) = db_posts (delete_posts (\<lambda>p. po_author_mailbox_id p = m) d)"
  "db_deliveries (delete_mailbox m d) = filter (\<lambda>e. de_recipient_mailbox_id e \<noteq> m)
     (db_deliveries (delete_posts (\<lambda>p. po_author_mailbox_id p = m) d))"
  "db_replies (delete_mailbox m d) = filter (\<lambda>r. re_author_mailbox_id r \<noteq> m \<and> re_recipient_mailbox_id r \<noteq> m)
     (db_replies (delete_posts (\<lambda>p. po_author_mailbox_id p = m) d))"
  by (simp_all add: delete_mailbox_def delete_objects_def Let_def)

lemma reply_ok_delete_mailbox:
  assumes "reply_ok d r" "db_keys d" "r \<in> set (db_replies (delete_mailbox m d))"
  shows "reply_ok (delete_mailbox m d) r"
proof -
  let ?P = "\<lambda>p. po_author_mailbox_id p = m"
  have r: "r \<in> set (db_replies (delete_posts ?P d))" "re_author_mailbox_id r \<noteq> m" "re_recipient_mailbox_id r \<noteq> m"
    using assms(3) by (auto simp: delete_mailbox_feed)
  have "delivered (delete_mailbox m d) i x" if "delivered (delete_posts ?P d) i x" "x \<noteq> m" for i x
    using that by (auto simp: delivered_def list_ex_iff delete_mailbox_feed)
  with reply_ok_delete_posts [OF assms(1,2) r(1)] r(2,3) show ?thesis
    unfolding reply_ok_def delete_mailbox_feed(1) by blast
qed

lemma delete_posts_posts: "set (db_posts (delete_posts P d)) = {p \<in> set (db_posts d). \<not> P p}"
  "set (db_replies (delete_posts P d)) \<subseteq> set (db_replies d)"
  by (auto simp: delete_posts_def Let_def)

lemma delete_mailbox_replies: "set (db_replies (delete_mailbox m d)) \<subseteq> set (db_replies d)"
  using delete_posts_posts(2) by (force simp: delete_mailbox_feed)

text \<open>Tables other than the feed's may change freely, and replies may go.\<close>

lemma feed_free:
  assumes "feed_ok L d" "db_ok d'" "db_posts d' = db_posts d" "db_deliveries d' = db_deliveries d"
    "set (db_replies d') \<subseteq> set (db_replies d)"
  shows "feed_ok L d'"
  using assms reply_ok_grow [of d _ d'] by (auto simp: feed_ok_def)

lemma feed_keeps:
  assumes "\<And>now d. db_posts (snd (f now d)) = db_posts d" "\<And>now d. db_deliveries (snd (f now d)) = db_deliveries d"
    "\<And>now d. set (db_replies (snd (f now d))) \<subseteq> set (db_replies d)"
  shows "sql_keeps (feed_ok L) (sql_write f)"
  by (rule sql_keeps_write) (metis assms feed_free snd_conv)

lemma feed_insert_post:
  assumes "pg_time_laws (en_lib E)" "po_expires_at row = lb_pg_time (en_lib E) t"
  shows "sql_keeps (feed_ok (en_lib E)) (insert_post row)"
  unfolding insert_post_def
proof (rule sql_keeps_write)
  fix now and d d' :: db and u
  assume d: "feed_ok (en_lib E) d" "db_ok d'" and "((), d\<lparr>db_posts := db_posts d @ [row]\<rparr>) = (u, d')"
  then have d': "d' = d\<lparr>db_posts := db_posts d @ [row]\<rparr>" by simp
  have "reply_ok d' r" if "reply_ok d r" for r
    using that by (rule reply_ok_grow) (auto simp: d')
  with assms d show "feed_ok (en_lib E) d'"
    by (auto simp: feed_ok_def pg_time_laws_def d')
qed

lemma feed_insert_delivery: "sql_keeps (feed_ok L) (insert_delivery row)"
  unfolding insert_delivery_def
proof (rule sql_keeps_write)
  fix now and d d' :: db and u
  assume d: "feed_ok L d" "db_ok d'" and "((), d\<lparr>db_deliveries := db_deliveries d @ [row]\<rparr>) = (u, d')"
  then have d': "d' = d\<lparr>db_deliveries := db_deliveries d @ [row]\<rparr>" by simp
  have "reply_ok d' r" if "reply_ok d r" for r
    using that by (rule reply_ok_grow) (auto simp: d')
  with d show "feed_ok L d'" by (auto simp: feed_ok_def d')
qed

lemma feed_insert_reply: "sql_keeps (\<lambda>d. feed_ok L d \<and> reply_ok d row) (insert_reply row)"
  unfolding insert_reply_def by (rule sql_keeps_write) (auto simp: feed_ok_def)

lemma feed_delete_managed: "sql_keeps (feed_ok L) (delete_managed_mailbox admin m)"
  unfolding delete_managed_mailbox_def
proof (rule sql_keeps_write)
  fix now and d d' :: db and n
  assume d: "feed_ok L d" "db_ok d'"
    and "(if list_ex (managed_by admin m) (db_accounts d)
      then (length (filter (\<lambda>b. mb_mailbox_id b = m) (db_mailboxes d)), delete_mailbox m d) else (0, d)) = (n, d')"
  then have "d' = d \<or> d' = delete_mailbox m d" by (auto split: if_splits)
  with d delete_mailbox_replies [of m d] show "feed_ok L d'"
    by (auto simp: feed_ok_def db_ok_def delete_mailbox_tables intro!: reply_ok_delete_mailbox)
qed

lemma feed_delete_expired: "sql_keeps (feed_ok L) delete_expired_posts"
  unfolding delete_expired_posts_def
proof (rule sql_keeps_write)
  fix now and d d' :: db and u
  assume d: "feed_ok L d" "db_ok d'" and "((), delete_posts (\<lambda>p. po_expires_at p \<le> now) d) = (u, d')"
  then have "d' = delete_posts (\<lambda>p. po_expires_at p \<le> now) d" by simp
  with d delete_posts_posts(2) [of "\<lambda>p. po_expires_at p \<le> now" d] show "feed_ok L d'"
    by (auto simp: feed_ok_def db_ok_def delete_posts_posts(1) intro!: reply_ok_delete_posts)
qed

lemma feed_statements:
  assumes "pg_time_laws (en_lib E)"
  shows "all_statements_keep E (feed_ok (en_lib E))"
  unfolding statement_group_defs
proof (intro conjI allI impI)
  show "\<forall>q \<in> {delete_expired_messages, delete_expired_posts, delete_expired_replies, delete_expired_intents,
      delete_expired_grants, delete_dead_prekeys, delete_expired_bundles}. sql_keeps (feed_ok (en_lib E)) q"
    by (auto simp: delete_expired_messages_def delete_expired_replies_def delete_expired_intents_def
        delete_expired_grants_def delete_dead_prekeys_def delete_expired_bundles_def feed_delete_expired
        intro!: feed_keeps)
  show "sql_keeps (feed_ok (en_lib E)) (insert_post row)" if "po_expires_at row = lb_pg_time (en_lib E) t" for row t
    using assms that by (rule feed_insert_post)
  show "sql_keeps (\<lambda>d. feed_ok (en_lib E) d \<and> has_admin d admin) (insert_account row)"
    if "ac_owner_mailbox_id row = Some admin" for admin row
    unfolding insert_account_def
    by (rule sql_keeps_write) (auto simp: has_admin_append intro: feed_free)
  show "sql_keeps (\<lambda>d. feed_ok (en_lib E) d \<and> reply_ok d row) (insert_reply row)" for row
    by (rule feed_insert_reply)
  show "db_keys d" if "feed_ok (en_lib E) d" for d
    using that by (simp add: feed_ok_def db_ok_def)
  show "sql_keeps (feed_ok (en_lib E)) (consume_one_time_prekey m)" for m
    unfolding consume_one_time_prekey_def by (rule feed_keeps) (auto split: list.splits)
qed (auto simp: upsert_account_def update_account_def insert_message_def
    mark_message_deleted_def upsert_bundle_def delete_unused_prekeys_def insert_one_time_prekey_def
    upsert_device_def insert_intent_def insert_object_def insert_grant_def redeem_grant_def Let_def
    feed_insert_delivery feed_delete_managed intro!: feed_keeps intro: feed_free)

section \<open>Invariants of the reachable states\<close>

lemma plain_reply_keeps:
  "all_statements_keep E J \<Longrightarrow> (\<And>row. sql_keeps J (insert_reply row)) \<Longrightarrow>
     preserves (on_db J) (create_feed_reply E m i h r)"
  by (rule db_create_feed_reply_plain)
    (simp_all add: all_statements_keep_def statements_keep_def admin_statements_keep_def)

lemma invariantI:
  assumes "relay_reachable E s" "all_statements_keep E J" "\<And>row. sql_keeps J (insert_reply row)" "J empty_db"
  shows "J (rl_db s)"
  by (rule reachable_invariant [OF assms(1,2) plain_reply_keeps [OF assms(2,3)] assms(4)])

lemma insert_reply_keeps:
  "sql_keeps db_ok (insert_reply row)" "sql_keeps ownership (insert_reply row)"
  "sql_keeps (messages_ok E) (insert_reply row)" "sql_keeps (bundles_ok E) (insert_reply row)"
  unfolding insert_reply_def
  by (rule keeps_db_ok, rule ownership_keeps, simp)
    (auto simp: messages_ok_def bundles_ok_def intro!: sql_keeps_write)

lemma empty_db_invariants: "db_ok empty_db" "ownership empty_db" "messages_ok E empty_db"
  "bundles_ok E empty_db" "feed_ok L empty_db"
  using empty_db_ok by (simp_all add: ownership_def messages_ok_def bundles_ok_def feed_ok_def)
    (simp_all add: empty_db_def)

text \<open>The schema holds in every reachable state: Postgres refuses a statement that would break it.\<close>

lemma relay_tables_consistent:
  assumes "relay_reachable E s"
  shows "db_ok (rl_db s)"
  using assms
  by (rule invariantI) (rule db_ok_statements insert_reply_keeps empty_db_invariants)+

lemma relay_ownership_holds: "relay_reachable E s \<Longrightarrow> ownership (rl_db s)"
  by (erule invariantI) (rule ownership_all_statements insert_reply_keeps empty_db_invariants)+

text \<open>C26: In every reachable state an account with an owner is a plain user account, and its owner is an
  administrator's account.\<close>

theorem relay_ownership:
  assumes "relay_reachable E s"
  shows "ownership (rl_db s)"
  using assms by (rule relay_ownership_holds)

theorem relay_ownership_witness: "ownership (rl_db demo_run)"
  by (rule relay_ownership [OF demo_run_reachable])

text \<open>C27: In every reachable state each stored message has a non-empty ciphertext of at most the configured
  size, a device hint of at most 128 bytes, and an expiry that is its arrival plus a lifetime within the
  configured bounds.\<close>

theorem relay_messages_bounded:
  assumes "relay_reachable E s"
  shows "messages_ok E (rl_db s)"
  using assms
  by (rule invariantI) (rule messages_statements insert_reply_keeps empty_db_invariants)+

theorem relay_messages_bounded_witness: "messages_ok demo_env (rl_db demo_run)"
  by (rule relay_messages_bounded [OF demo_run_reachable])

text \<open>C17: In every reachable state each feed reply belongs to a post that allows replies, expires no later
  than that post, and runs between the post's author and a mailbox the post was delivered to, provided
  storing a time in Postgres is monotone and stored times stay as they are.\<close>

theorem relay_feed_replies_confined:
  assumes "relay_reachable E s" and "pg_time_laws (en_lib E)"
  shows "feed_ok (en_lib E) (rl_db s)"
  using assms(1)
proof (rule reachable_invariant)
  show "all_statements_keep E (feed_ok (en_lib E))" using assms(2) by (rule feed_statements)
  then have "feed_statements_keep E (feed_ok (en_lib E))" "account_statements_keep (feed_ok (en_lib E))"
    by (simp_all add: all_statements_keep_def statements_keep_def admin_statements_keep_def)
  then show "preserves (on_db (feed_ok (en_lib E))) (create_feed_reply E m i h r)" for m i h r
    using assms(2) by (rule db_create_feed_reply) (simp add: feed_ok_def)
qed (rule empty_db_invariants)

theorem relay_feed_replies_confined_witness: "feed_ok demo_lib (rl_db demo_run)"
  using relay_feed_replies_confined [OF demo_run_reachable]
  by (simp add: pg_time_laws_def demo_lib_def mono_def)

lemma reachable_bundles: "relay_reachable E s \<Longrightarrow> bundles_ok E (rl_db s)"
  by (erule invariantI) (rule bundles_statements insert_reply_keeps empty_db_invariants)+

end
