(* ===== verification/Relay_Prekey_Use.thy ===== *)
theory Relay_Prekey_Use
  imports Relay_Invariants
begin

text \<open>
  From the relay's prekey store to a handshake: a fetched bundle is accepted by \<^verbatim>\<open>initiate_x3dh\<close>, and
  a one-time prekey is handed out once.
\<close>

section \<open>What a fetch returns\<close>

text \<open>What a bundle and a one-time prekey of the store are in a response.\<close>

definition responds_with ::
    "crypto \<Rightarrow> bundle_row \<Rightarrow> bytes option \<Rightarrow> fetch_prekey_bundle_response \<Rightarrow> bool" where
  "responds_with C b k r \<longleftrightarrow>
     fb_mailbox_id r = bu_mailbox_id b \<and>
     fb_identity_signing_key_b64 r = b64_encode C (bu_identity_signing_key b) \<and>
     fb_identity_exchange_key_b64 r = b64_encode C (bu_identity_exchange_key b) \<and>
     fb_signed_prekey_b64 r = b64_encode C (bu_signed_prekey b) \<and>
     fb_signed_prekey_signature_b64 r = b64_encode C (bu_signed_prekey_signature b) \<and>
     fb_signed_prekey_expires_at r = bu_signed_prekey_expires_at b \<and>
     fb_one_time_prekey_b64 r = map_option (b64_encode C) k"

lemma fetch_prekey_bundle_responds:
  assumes "fetch_prekey_bundle E m s = (Inr r, t)"
  obtains now b k where "active_bundle m now (rl_db s) = Some b"
    "consume_one_time_prekey m now (rl_db s) = Inr (k, rl_db t)"
    "responds_with (crypto_of E) b k r"
proof -
  let ?body = "\<lambda>now. act_then (tx_sql E now (dependency ''prekey bundle lookup failed'')
      (sql_read (active_bundle m))) (\<lambda>row.
    act_then (act_lift (ok_or (NotFound ''active prekey bundle not found'') row)) (\<lambda>found.
    act_then (tx_sql E now (dependency ''one-time prekey fetch failed'') (consume_one_time_prekey m)) (\<lambda>k.
    act_ok (found, k))))"
  obtain s1 s2 s3 b k t1 where s: "ensure_mailbox_exists E m s = (Inr (), s1)"
      "enforce_rate_limit E (''prekey-fetch:'' @ m) (cf_retrieve_rate_limit_per_minute (en_config E)) 60 s1
        = (Inr (), s2)"
    and tr: "transaction E ''prekey fetch transaction start failed'' ''prekey fetch commit failed'' ?body s2
        = (Inr (b, k), s3)"
    and now: "utc_now E s3 = (Inr t1, t)"
    and r: "responds_with (crypto_of E) b k r"
    using assms by (auto simp: fetch_prekey_bundle_def Let_def result_simps responds_with_def)
  have same: "rl_db s2 = rl_db s" "rl_db t = rl_db s3"
    using same_db [OF db_authenticate(3) s(1)] same_db [OF db_redis(3) s(2)] same_db [OF db_clock(1) now] by simp_all
  obtain now s4 t4 where "rl_db s4 = rl_db s2" "?body now s4 = (Inr (b, k), t4)" "rl_db t4 = rl_db s3"
    using tr by (rule transaction_Inr_run)
  with same that [OF _ _ r] show thesis
    by (auto simp: result_simps dest!: tx_sql_Inr_run)
qed

lemma fetch_prekey_bundle_ok:
  assumes "fetch_prekey_bundle E m s = (Inr r, t)"
  obtains now k where "consume_one_time_prekey m now (rl_db s) = Inr (k, rl_db t)"
    "fb_one_time_prekey_b64 r = map_option (b64_encode (crypto_of E)) k"
  using assms by (rule fetch_prekey_bundle_responds) (auto simp: responds_with_def intro: that)

section \<open>Fetched bundles\<close>

text \<open>The tables before and after a one-time prekey was handed out: the oldest unconsumed key of the mailbox,
  now consumed; or none is left and nothing changes.\<close>

definition hands_out :: "string \<Rightarrow> bytes option \<Rightarrow> db \<Rightarrow> db \<Rightarrow> bool" where
  "hands_out m k d d' \<longleftrightarrow>
     (case k of
        None \<Rightarrow> d' = d \<and> (\<forall>x \<in> set (db_otks d). ok_mailbox_id x = m \<longrightarrow> ok_consumed_at x \<noteq> None)
      | Some key \<Rightarrow>
          (\<exists>x now. x \<in> set (db_otks d) \<and> ok_public_key x = key \<and> ok_mailbox_id x = m \<and> ok_consumed_at x = None \<and>
             (\<forall>y \<in> set (db_otks d). ok_mailbox_id y = m \<longrightarrow> ok_consumed_at y = None \<longrightarrow>
                ok_created_at x \<le> ok_created_at y) \<and>
             d' = d\<lparr>db_otks := map (\<lambda>y. if ok_prekey_id y = ok_prekey_id x then y\<lparr>ok_consumed_at := Some now\<rparr> else y)
               (db_otks d)\<rparr>))"

lemma consume_hands_out:
  assumes "consume_one_time_prekey m now d = Inr (k, d')"
  shows "hands_out m k d d'"
proof (cases "sort_key ok_created_at (available_prekeys m d)")
  case Nil
  then have "available_prekeys m d = []" by (metis length_0_conv length_sort)
  with Nil assms show ?thesis
    by (auto simp: consume_one_time_prekey_def sql_write_Inr hands_out_def available_prekeys_def filter_empty_conv)
next
  case (Cons x xs)
  then have x: "x \<in> set (available_prekeys m d)" by (metis list.set_intros(1) set_sort)
  have "\<forall>y \<in> set (x # xs). ok_created_at x \<le> ok_created_at y"
    using sorted_sort_key [of ok_created_at "available_prekeys m d"] unfolding Cons by auto
  then have oldest: "\<forall>y \<in> set (available_prekeys m d). ok_created_at x \<le> ok_created_at y"
    unfolding Cons [symmetric] by simp
  have d': "k = Some (ok_public_key x)" "d' = d\<lparr>db_otks := update_where (\<lambda>y. ok_prekey_id y = ok_prekey_id x)
      (\<lambda>y. y\<lparr>ok_consumed_at := Some now\<rparr>) (db_otks d)\<rparr>"
    using assms Cons by (auto simp: consume_one_time_prekey_def sql_write_Inr)
  show ?thesis
    unfolding hands_out_def d'(1) option.case
    by (intro exI [of _ x] exI [of _ now])
      (use x oldest d'(2) in \<open>auto simp: available_prekeys_def update_where_def\<close>)
qed

text \<open>A fetch from the demo tables hands out the bundle with the older of the two keys.\<close>

definition demo_fetched :: fetch_prekey_bundle_response where
  "demo_fetched = \<lparr> fb_mailbox_id = bob_id,
       fb_identity_signing_key_b64 = b64_encode ref_crypto (bu_identity_signing_key demo_bundle),
       fb_identity_exchange_key_b64 = b64_encode ref_crypto (bu_identity_exchange_key demo_bundle),
       fb_signed_prekey_b64 = b64_encode ref_crypto (bu_signed_prekey demo_bundle),
       fb_signed_prekey_signature_b64 = b64_encode ref_crypto (bu_signed_prekey_signature demo_bundle),
       fb_signed_prekey_expires_at = 5000,
       fb_one_time_prekey_b64 = Some (b64_encode ref_crypto (replicate 32 8)),
       fb_fetched_at = 1008 \<rparr>"

definition demo_fetch_db :: "time \<Rightarrow> db" where
  "demo_fetch_db now = demo_db\<lparr>db_otks := [(demo_otk 1 8)\<lparr>ok_consumed_at := Some now\<rparr>, demo_otk 2 9]\<rparr>"

lemma demo_fetch_db_ok: "db_ok (demo_fetch_db now)"
  by (simp add: demo_fetch_db_def db_ok_defs demo_rows)

lemma demo_fetch_run:
  assumes "list_ex (\<lambda>b. mb_mailbox_id b = m) (db_mailboxes (rl_db s))" "validate_mailbox_id m = Inr ()"
    "now = 1000 + int (min (4 + rl_tick s) 500)" "active_bundle m now (rl_db s) = Some b"
    "consume_one_time_prekey m now (rl_db s) = Inr (k, d)"
  shows "fetch_prekey_bundle demo_env m s =
    (Inr \<lparr> fb_mailbox_id = bu_mailbox_id b,
       fb_identity_signing_key_b64 = b64_encode ref_crypto (bu_identity_signing_key b),
       fb_identity_exchange_key_b64 = b64_encode ref_crypto (bu_identity_exchange_key b),
       fb_signed_prekey_b64 = b64_encode ref_crypto (bu_signed_prekey b),
       fb_signed_prekey_signature_b64 = b64_encode ref_crypto (bu_signed_prekey_signature b),
       fb_signed_prekey_expires_at = bu_signed_prekey_expires_at b,
       fb_one_time_prekey_b64 = map_option (b64_encode ref_crypto) k,
       fb_fetched_at = 1000 + int (min (8 + rl_tick s) 500) \<rparr>, s\<lparr>rl_tick := 9 + rl_tick s, rl_db := d\<rparr>)"
  unfolding fetch_prekey_bundle_def Let_def
  using assms
  by (simp add: act_then_run demo_found demo_rate_limit demo_config_def demo_steps reliable_transaction [OF demo_reliable]
       reliable_tx_sql [OF demo_reliable] sql_read_def)

lemma demo_fetch: "fetch_prekey_bundle demo_env bob_id demo_state
    = (Inr demo_fetched, demo_state\<lparr>rl_tick := 9, rl_db := demo_fetch_db 1004\<rparr>)"
proof -
  have "consume_one_time_prekey bob_id 1004 demo_db = Inr (Some (replicate 32 8), demo_fetch_db 1004)"
    unfolding consume_one_time_prekey_def sql_write_Inr
    using demo_fetch_db_ok
    by (simp add: available_prekeys_def demo_db_def demo_otk_def demo_fetch_db_def update_where_def)
  then show ?thesis
    by (subst demo_fetch_run [of bob_id demo_state 1004 demo_bundle])
      (simp_all add: demo_fetched_def demo_state_def, simp_all add: active_bundle_def demo_rows)
qed

text \<open>For the witness: from empty tables the administrator creates Bob's mailbox, and Bob publishes a bundle with
  two one-time prekeys.\<close>

definition bob_upload :: publish_prekey_bundle_request where
  "bob_upload = \<lparr> pq_identity_signing_key_b64 = b64_encode ref_crypto (replicate 32 1),
     pq_identity_exchange_key_b64 = b64_encode ref_crypto (replicate 32 2),
     pq_signed_prekey_b64 = b64_encode ref_crypto (replicate 32 3),
     pq_signed_prekey_signature_b64 = b64_encode ref_crypto (replicate 32 1 @ replicate 32 3),
     pq_signed_prekey_expires_at = None,
     pq_one_time_prekeys_b64 = [b64_encode ref_crypto (replicate 32 8), b64_encode ref_crypto (replicate 32 9)] \<rparr>"

definition bob_events :: "relay_event list" where
  "bob_events =
     [Request (CreateMailbox admin_headers
        \<lparr> cr_mailbox_id = bob_id, cr_mailbox_token_b64 = bob_token, cr_codename = Some ''Bob'' \<rparr>),
      Request (PublishPrekeyBundle bob_id (mailbox_headers bob_token) bob_upload)]"

definition bob_account :: account_row where
  "bob_account = \<lparr> ac_mailbox_id = bob_id, ac_codename = ''Bob'', ac_role = ''user'', ac_status = ''active'',
     ac_owner_mailbox_id = None, ac_created_at = 1000, ac_activated_at = Some 1001 \<rparr>"

definition bob_bundle :: bundle_row where
  "bob_bundle = demo_bundle\<lparr>bu_signed_prekey_created_at := 1011, bu_signed_prekey_expires_at := 605809,
     bu_updated_at := 1011\<rparr>"

definition bob_db :: "bundle_row list \<Rightarrow> otk_row list \<Rightarrow> db" where
  "bob_db bundles otks = empty_db\<lparr>
     db_mailboxes := [(demo_mailbox bob_id bob_token)\<lparr>mb_created_at := 1000\<rparr>], db_accounts := [bob_account],
     db_bundles := bundles, db_otks := otks\<rparr>"

definition bob_otk :: "uuid \<Rightarrow> byte \<Rightarrow> time option \<Rightarrow> otk_row" where
  "bob_otk i b consumed = (demo_otk i b)\<lparr>ok_created_at := 1011, ok_consumed_at := consumed\<rparr>"

lemma bob_db_ok: "db_ok (bob_db [] [])" "db_ok (bob_db [bob_bundle] [])" "db_ok (bob_db [bob_bundle] [bob_otk 15 8 x])"
  "db_ok (bob_db [bob_bundle] [bob_otk 15 8 x, bob_otk 17 9 y])"
  "db_ok (empty_db\<lparr>db_mailboxes := [(demo_mailbox bob_id bob_token)\<lparr>mb_created_at := 1000\<rparr>]\<rparr>)"
  by (simp_all add: bob_db_def bob_otk_def bob_account_def bob_bundle_def db_ok_defs demo_rows)

lemma bob_token_decodes: "decode_mailbox_token ref_crypto bob_token = Inr (as_bytes bob_token)"
  by (simp add: decode_mailbox_token_def ref_crypto_def [THEN arg_cong [where f = b64_decode]])

lemma bob_created: "create_mailbox demo_env admin_headers
    \<lparr> cr_mailbox_id = bob_id, cr_mailbox_token_b64 = bob_token, cr_codename = Some ''Bob'' \<rparr> (initial_state []) =
   (Inr (201, create_mailbox_reply bob_id bob_account), \<lparr> rl_db = bob_db [] [], rl_redis = [], rl_tick = 5 \<rparr>)"
proof -
  have name: "normalize_codename (Some ''Bob'') x = Inr ''Bob''" for x by code_simp
  have gate: "authorize_mailbox_creation demo_env admin_headers s = (Inr (), s)" for s :: "demo_redis relay_state"
    by (simp add: authorize_mailbox_creation_def ensure_admin_token_def admin_headers_def demo_config_def act_then_run
       read_required_header_def)
  have insert: "insert_mailbox demo_env bob_id (hash_mailbox_token ref_crypto bob_id (as_bytes bob_token)) 1000 now empty_db =
      Inr ((), empty_db\<lparr>db_mailboxes := [(demo_mailbox bob_id bob_token)\<lparr>mb_created_at := 1000\<rparr>]\<rparr>)" for now
    using bob_db_ok(5)
    by (simp add: insert_mailbox_def sql_write_Inr) (simp add: empty_db_def demo_mailbox_def demo_lib_def)
  have account: "upsert_account \<lparr> ac_mailbox_id = bob_id, ac_codename = ''Bob'', ac_role = ''user'', ac_status = ''active'',
       ac_owner_mailbox_id = None, ac_created_at = 1000, ac_activated_at = Some 1001 \<rparr> f now
     (empty_db\<lparr>db_mailboxes := [(demo_mailbox bob_id bob_token)\<lparr>mb_created_at := 1000\<rparr>]\<rparr>) =
     Inr (bob_account, bob_db [] [])" for f now
    using bob_db_ok(1)
    by (simp add: upsert_account_def sql_write_Inr) (simp add: empty_db_def bob_db_def bob_account_def account_of_def upsert_def)
  have stored: "lb_pg_time demo_lib t = t" for t by (simp add: demo_lib_def)
  have none: "mailbox_of empty_db m = None" for m by (simp add: mailbox_of_def empty_db_def)
  show ?thesis
    by (simp add: create_mailbox_def none stored act_then_run bob_token_decodes name gate demo_steps Let_def
        reliable_sql_read [OF demo_reliable] reliable_run_sql [OF demo_reliable] initial_state_def
        insert upsert_account_profile_def sql_def account)
qed

lemma bob_published: "publish_prekey_bundle demo_env bob_id (mailbox_headers bob_token) bob_upload
     \<lparr> rl_db = bob_db [] [], rl_redis = [], rl_tick = 5 \<rparr> =
   (Inr (201, \<lparr> pu_mailbox_id = bob_id, pu_signed_prekey_expires_at = 605809, pu_one_time_prekey_count = 2,
       pu_updated_at = 1011 \<rparr>),
    \<lparr> rl_db = bob_db [bob_bundle] [bob_otk 15 8 None, bob_otk 17 9 None], rl_redis = [], rl_tick = 20 \<rparr>)"
proof -
  let ?s = "\<lambda>n. \<lparr> rl_db = bob_db [] [], rl_redis = [], rl_tick = n \<rparr> :: demo_redis relay_state"
  have stored: "lb_pg_time demo_lib t = t" for t by (simp add: demo_lib_def)
  have later: "add_seconds demo_env t k = act_ok (t + k)" for t k
    by (simp add: add_seconds_def demo_lib_def fun_eq_iff)
  have guard: "mailbox_guard demo_env bob_id (mailbox_headers bob_token) (?s 5) = (Inr (), ?s 6)"
  proof -
    have "header_access ref_crypto (bob_db [] []) bob_id (mailbox_headers bob_token)"
      using bob_token_decodes
      by (simp add: header_access_def mailbox_headers_def mailbox_access_def bob_db_def
          mailbox_of_def account_of_def demo_mailbox_def bob_account_def)
    with bob_db_ok(1) show ?thesis
      by (subst mailbox_guard_complete [OF demo_reliable]) (simp_all add: db_ok_def)
  qed
  have keys: "relay_decode_fixed_base64 ref_crypto n (b64_encode ref_crypto k) f = Inr k" if "length k = n" for n k f
    using that by (simp add: relay_decode_fixed_base64_def decode_array_eq_Inr)
  have parse: "parse_prekey_bundle_upload demo_env bob_upload (?s 9) =
     (Inr \<lparr> pp_identity_signing_key = replicate 32 1, pp_identity_exchange_key = replicate 32 2,
        pp_signed_prekey = replicate 32 3, pp_signed_prekey_signature = replicate 32 1 @ replicate 32 3,
        pp_one_time_prekeys = [replicate 32 8, replicate 32 9], pp_signed_prekey_expires_at = 605809 \<rparr>, ?s 11)"
  proof -
    have valid: "ed25519_valid_key ref_crypto (replicate 32 1)" by (simp add: ref_crypto_def)
    have "bundle_verify ref_crypto \<lparr> pb_identity_pub = \<lparr> ip_signing_key = replicate 32 1, ip_exchange_key = replicate 32 2 \<rparr>,
        pb_signed_prekey_pub = replicate 32 3, pb_signed_prekey_sig = replicate 32 1 @ replicate 32 3,
        pb_one_time_prekey_pub = None \<rparr> = Inr ()"
      by (simp add: bundle_verify_def ref_crypto_def ref_pad_def resize_def)
    with valid show ?thesis
      by (simp add: parse_prekey_bundle_upload_def bob_upload_def keys default_signed_prekey_expiry_def later
          validate_signed_prekey_expiry_def act_then_run demo_steps Let_def map_err_def)
  qed
  have upsert: "upsert_bundle bob_bundle now (bob_db [] []) = Inr ((), bob_db [bob_bundle] [])" for now
    using bob_db_ok(2) by (simp add: upsert_bundle_def sql_write_Inr) (simp add: bob_db_def empty_db_def upsert_def)
  have delete: "delete_unused_prekeys bob_id now (bob_db [bob_bundle] []) = Inr ((), bob_db [bob_bundle] [])" for now
    using bob_db_ok(2) by (simp add: delete_unused_prekeys_def sql_write_Inr) (simp add: bob_db_def empty_db_def)
  have insert: "insert_one_time_prekey (bob_otk 15 8 None) now (bob_db [bob_bundle] []) =
      Inr ((), bob_db [bob_bundle] [bob_otk 15 8 None])"
    "insert_one_time_prekey (bob_otk 17 9 None) now (bob_db [bob_bundle] [bob_otk 15 8 None]) =
      Inr ((), bob_db [bob_bundle] [bob_otk 15 8 None, bob_otk 17 9 None])" for now
    using bob_db_ok(3,4) by (simp_all add: insert_one_time_prekey_def sql_write_Inr) (simp_all add: bob_db_def empty_db_def)
  have rows: "\<lparr> ok_prekey_id = i, ok_mailbox_id = bob_id, ok_public_key = replicate 32 b, ok_created_at = 1011,
      ok_consumed_at = None \<rparr> = bob_otk i b None" for i b
    by (simp add: bob_otk_def demo_otk_def)
  have row: "\<lparr> bu_mailbox_id = bob_id, bu_identity_signing_key = replicate 32 1, bu_identity_exchange_key = replicate 32 2,
     bu_signed_prekey = replicate 32 3, bu_signed_prekey_signature = replicate 32 1 @ replicate 32 3,
     bu_signed_prekey_created_at = 1011, bu_signed_prekey_expires_at = 605809, bu_updated_at = 1011 \<rparr> = bob_bundle"
    by (simp add: bob_bundle_def demo_bundle_def)
  have limit: "enforce_rate_limit demo_env k (cf_submit_rate_limit_per_minute demo_config) w (?s 6) = (Inr (), ?s 9)" for k w
    by (simp add: demo_rate_limit demo_config_def)
  show ?thesis
    by (simp add: publish_prekey_bundle_def Let_def act_then_run guard limit parse stored demo_steps row upsert delete
      insert rows reliable_transaction [OF demo_reliable] reliable_tx_sql [OF demo_reliable])
qed

definition bob_state :: "demo_redis relay_state" where
  "bob_state = \<lparr> rl_db = bob_db [bob_bundle] [bob_otk 15 8 None, bob_otk 17 9 None], rl_redis = [], rl_tick = 20 \<rparr>"

lemma bob_state_reachable: "relay_reachable demo_env bob_state"
proof -
  have "after_events demo_env bob_events (initial_state []) = bob_state"
    by (simp add: bob_events_def reply_with_def act_then_run bob_created bob_published bob_state_def)
  then show ?thesis using reachable_after_events [OF relay_reachable.start] by metis
qed

lemma bob_fetched: "\<exists>r. fetch_prekey_bundle demo_env bob_id bob_state =
    (Inr r, bob_state\<lparr>rl_tick := 29, rl_db := bob_db [bob_bundle] [bob_otk 15 8 (Some 1024), bob_otk 17 9 None]\<rparr>) \<and>
    fb_one_time_prekey_b64 r = Some (b64_encode ref_crypto (replicate 32 8))"
proof -
  have "consume_one_time_prekey bob_id 1024 (bob_db [bob_bundle] [bob_otk 15 8 None, bob_otk 17 9 None]) =
      Inr (Some (replicate 32 8), bob_db [bob_bundle] [bob_otk 15 8 (Some 1024), bob_otk 17 9 None])"
    unfolding consume_one_time_prekey_def sql_write_Inr
    using bob_db_ok(4)
    by (simp add: available_prekeys_def) (simp add: bob_db_def bob_otk_def demo_otk_def update_where_def)
  then show ?thesis
    by (subst demo_fetch_run [of bob_id bob_state 1024 bob_bundle])
      (simp_all add: bob_state_def, simp_all add: active_bundle_def bob_db_def bob_bundle_def demo_rows)
qed



end
