(* ===== verification/Relay_Prekey_Once.thy ===== *)
theory Relay_Prekey_Once
  imports Relay_Prekey_Use
begin

text \<open>
  A one-time prekey is handed out once: an invariant of the tables between two fetches, kept by every
  statement but the upload of that key.
\<close>

section \<open>One-time prekeys\<close>

definition prekey_spent :: "bytes \<Rightarrow> db \<Rightarrow> bool" where
  "prekey_spent k d \<longleftrightarrow> db_ok d \<and> (\<forall>x \<in> set (db_otks d). ok_public_key x = k \<longrightarrow> ok_consumed_at x \<noteq> None)"

text \<open>The event is an upload that lists the key.\<close>

fun uploads_prekey :: "crypto \<Rightarrow> bytes \<Rightarrow> relay_event \<Rightarrow> bool" where
  "uploads_prekey C k (Request (PublishPrekeyBundle m h r)) =
     (Some k \<in> b64_decode C ` set (pq_one_time_prekeys_b64 r))"
| "uploads_prekey C k ev = False"

lemma spent_free: "db_otks d' = db_otks d \<Longrightarrow> db_ok d' \<Longrightarrow> prekey_spent k d \<Longrightarrow> prekey_spent k d'"
  by (simp add: prekey_spent_def)

lemma spent_consume: "sql_keeps (prekey_spent k) (consume_one_time_prekey m)"
  unfolding consume_one_time_prekey_def
  by (rule sql_keeps_write) (auto simp: prekey_spent_def in_update_where split: list.splits)

lemma spent_keeps:
  "(\<And>now d. set (db_otks (snd (f now d))) \<subseteq> set (db_otks d)) \<Longrightarrow> sql_keeps (prekey_spent k) (sql_write f)"
  by (rule sql_keeps_write) (metis (no_types, lifting) prekey_spent_def snd_conv subsetD)

lemma spent_conj:
  "(\<And>now d. db_otks (snd (f now d)) = db_otks d) \<Longrightarrow> (\<And>now d d'. snd (f now d) = d' \<Longrightarrow> P d \<Longrightarrow> P d') \<Longrightarrow>
     sql_keeps (\<lambda>d. prekey_spent k d \<and> P d) (sql_write f)"
  by (rule sql_keeps_write) (metis spent_free snd_conv)

definition no_upload :: "relay_request \<Rightarrow> bool" where
  "no_upload req = (case req of PublishPrekeyBundle m h r \<Rightarrow> False | _ \<Rightarrow> True)"

lemma spent_statements:
  "statements_keep E no_upload (prekey_spent k)"
  "cleanup_statements_keep (prekey_spent k)" "sql_keeps (prekey_spent k) (insert_reply row)"
  unfolding statement_group_defs no_upload_def
  by (auto simp: spent_consume upsert_account_def update_account_def delete_managed_mailbox_def insert_account_def
      insert_message_def mark_message_deleted_def upsert_device_def insert_intent_def insert_object_def
      insert_grant_def redeem_grant_def insert_post_def insert_delivery_def insert_reply_def
      delete_expired_messages_def delete_expired_posts_def delete_expired_replies_def
      delete_expired_intents_def delete_expired_grants_def delete_dead_prekeys_def delete_expired_bundles_def
      has_admin_append Let_def delete_mailbox_tables intro!: spent_keeps
      spent_conj
      intro: spent_free split: if_splits)
    (simp add: prekey_spent_def db_ok_def)

lemma decode_one_time_prekeys_from:
  "decode_one_time_prekeys C es keys = Inr ks \<Longrightarrow> x \<in> set ks \<Longrightarrow> x \<in> set keys \<or> Some x \<in> b64_decode C ` set es"
proof (induction C es keys rule: decode_one_time_prekeys.induct)
  case (2 C e es keys)
  then obtain y where "b64_decode C e = Some y" "y \<notin> set keys" "decode_one_time_prekeys C es (keys @ [y]) = Inr ks"
    by (auto simp: result_simps relay_decode_fixed_base64_def decode_array_eq_Inr split: if_splits)
  with "2.IH" [of y] 2 show ?case
    by (auto simp: result_simps relay_decode_fixed_base64_def decode_array_eq_Inr split: if_splits)
qed simp

lemma spent_insert:
  "k \<notin> set ks \<Longrightarrow> preserves (on_db (prekey_spent k)) (insert_one_time_prekeys E now m t ks)"
  by (induction ks)
    (auto intro!: preserves_intros sql_keeps_write simp: insert_one_time_prekey_def prekey_spent_def)

lemma spent_publish:
  assumes "Some k \<notin> b64_decode (crypto_of E) ` set (pq_one_time_prekeys_b64 r)"
  shows "preserves (on_db (prekey_spent k)) (publish_prekey_bundle E m h r)"
proof -
  have parse: "preserves (on_db J) (act_then (parse_prekey_bundle_upload E r) f)"
    if "\<And>p. k \<notin> set (pp_one_time_prekeys p) \<Longrightarrow> preserves (on_db J) (f p)" for f and J
    using _ db_parse_prekey_bundle_upload that
  proof (rule preserves_then_result [where Q = "\<lambda>p. k \<notin> set (pp_one_time_prekeys p)"])
    fix s p t assume "parse_prekey_bundle_upload E r s = (Inr p, t)"
    then show "k \<notin> set (pp_one_time_prekeys p)"
      using assms
      by (auto simp: parse_prekey_bundle_upload_def result_simps Let_def dest!: decode_one_time_prekeys_from
          split: if_splits)
  qed
  show ?thesis
    unfolding publish_prekey_bundle_def Let_def
    by (intro parse preserves_intros spent_insert)
      (auto simp: upsert_bundle_def delete_unused_prekeys_def intro!: spent_keeps)
qed

lemma spent_after_event:
  assumes "prekey_spent k (rl_db s)" "\<not> uploads_prekey (crypto_of E) k ev"
  shows "prekey_spent k (rl_db (after_event E ev s))"
proof (cases "\<exists>m h r. ev = Request (PublishPrekeyBundle m h r)")
  case True
  then obtain m h r where ev: "ev = Request (PublishPrekeyBundle m h r)" by blast
  with assms have "preserves (on_db (prekey_spent k)) (handle E (PublishPrekeyBundle m h r))"
    by (simp add: db_reply_with spent_publish)
  from preservesD [OF this, of s] assms(1) ev show ?thesis by (simp add: on_db_def)
next
  case False
  then have "event_allowed no_upload ev"
    by (cases ev) (auto simp: no_upload_def split: relay_request.splits)
  then show ?thesis
    by (rule db_after_event [OF spent_statements(1)])
      (auto intro!: db_create_feed_reply_plain db_cleanup_round spent_statements assms(1)
        simp: spent_statements(1) [unfolded statements_keep_def admin_statements_keep_def])
qed

lemma spent_after_events:
  assumes "prekey_spent k (rl_db s)" "\<And>ev. ev \<in> set evs \<Longrightarrow> \<not> uploads_prekey (crypto_of E) k ev"
  shows "prekey_spent k (rl_db (after_events E evs s))"
  using assms by (induction evs arbitrary: s) (simp_all add: spent_after_event)

lemma consumed_spent:
  assumes "consume_one_time_prekey m now d = Inr (Some k, d')"
  shows "prekey_spent k d'"
proof -
  obtain c rest where c: "sort_key ok_created_at (available_prekeys m d) = c # rest" "ok_public_key c = k"
    and d': "d' = d\<lparr>db_otks := update_where (\<lambda>x. ok_prekey_id x = ok_prekey_id c)
             (\<lambda>x. x\<lparr>ok_consumed_at := Some now\<rparr>) (db_otks d)\<rparr>" and ok: "db_ok d'"
    using assms by (auto simp: consume_one_time_prekey_def sql_write_Inr split: list.splits)
  have "c \<in> set (available_prekeys m d)" using c(1) by (metis list.set_intros(1) set_sort)
  then have "c\<lparr>ok_consumed_at := Some now\<rparr> \<in> set (db_otks d')"
    by (auto simp: d' in_update_where available_prekeys_def intro!: bexI [where x = c])
  moreover have "inj_on ok_public_key (set (db_otks d'))"
    using ok by (simp add: db_ok_def db_keys_def distinct_map)
  ultimately have only: "x = c\<lparr>ok_consumed_at := Some now\<rparr>" if "x \<in> set (db_otks d')" "ok_public_key x = k" for x
    using that c(2) by (intro inj_onD [of ok_public_key "set (db_otks d')"]) simp_all
  then have "ok_consumed_at x = Some now" if "x \<in> set (db_otks d')" "ok_public_key x = k" for x
    using only [OF that] by simp
  with ok show ?thesis by (auto simp: prekey_spent_def)
qed

lemma spent_not_consumed:
  "consume_one_time_prekey m now d = Inr (Some k, d') \<Longrightarrow> \<not> prekey_spent k d"
proof
  assume c: "consume_one_time_prekey m now d = Inr (Some k, d')" and "prekey_spent k d"
  then obtain x rest where x: "sort_key ok_created_at (available_prekeys m d) = x # rest" "ok_public_key x = k"
    by (auto simp: consume_one_time_prekey_def sql_write_Inr split: list.splits)
  then have "x \<in> set (available_prekeys m d)" by (metis list.set_intros(1) set_sort)
  with x \<open>prekey_spent k d\<close> show False by (auto simp: prekey_spent_def available_prekeys_def)
qed

text \<open>C16: A one-time prekey that a fetch handed out is handed out by no later fetch, for any mailbox, whatever
  requests, failures and cleanup rounds lie between, as long as no upload in between lists that key again.\<close>

theorem relay_one_time_prekey_once:
  assumes "fetch_prekey_bundle E m s = (Inr r, t)" and "fb_one_time_prekey_b64 r = Some k"
    and "\<And>ev. ev \<in> set evs \<Longrightarrow> \<not> uploads_prekey (crypto_of E) (the (b64_decode (crypto_of E) k)) ev"
    and "fetch_prekey_bundle E m' (after_events E evs t) = (Inr r', u)"
    and "b64_laws (crypto_of E)"
  shows "fb_one_time_prekey_b64 r' \<noteq> Some k"
proof
  assume again: "fb_one_time_prekey_b64 r' = Some k"
  obtain now key where "consume_one_time_prekey m now (rl_db s) = Inr (key, rl_db t)"
    and key: "fb_one_time_prekey_b64 r = map_option (b64_encode (crypto_of E)) key"
    using assms(1) by (rule fetch_prekey_bundle_ok)
  moreover from assms(2) key have "key = Some (the (b64_decode (crypto_of E) k))"
    using b64_decode_encode [OF assms(5)] by (cases key) auto
  ultimately have "prekey_spent (the (b64_decode (crypto_of E) k)) (rl_db t)"
    by (auto intro: consumed_spent)
  then have spent: "prekey_spent (the (b64_decode (crypto_of E) k)) (rl_db (after_events E evs t))"
    using assms(3) by (rule spent_after_events)
  obtain now' key' where "consume_one_time_prekey m' now' (rl_db (after_events E evs t)) = Inr (key', rl_db u)"
    and key': "fb_one_time_prekey_b64 r' = map_option (b64_encode (crypto_of E)) key'"
    using assms(4) by (rule fetch_prekey_bundle_ok)
  moreover from again key' have "key' = Some (the (b64_decode (crypto_of E) k))"
    using b64_decode_encode [OF assms(5)] by (cases key') auto
  ultimately show False using spent by (auto dest: spent_not_consumed)
qed


text \<open>Between the two fetches of the witness the cleanup task runs and removes the consumed key.\<close>

definition demo_cleaned :: "demo_redis relay_state" where
  "demo_cleaned = \<lparr> rl_db = demo_db\<lparr>db_otks := [demo_otk 2 9]\<rparr>, rl_redis = [], rl_tick = 16 \<rparr>"

lemma demo_cleaned_ok: "db_ok (rl_db demo_cleaned)"
  by (simp add: demo_cleaned_def db_ok_defs demo_rows)

lemma demo_cleanup:
  "after_event demo_env CleanupTick (demo_state\<lparr>rl_tick := 9, rl_db := demo_fetch_db 1004\<rparr>) = demo_cleaned"
proof -
  have q: "delete_expired_messages now (demo_fetch_db n) = Inr ((), demo_fetch_db n)"
    "delete_expired_replies now (demo_fetch_db n) = Inr ((), demo_fetch_db n)"
    "delete_expired_intents now (demo_fetch_db n) = Inr ((), demo_fetch_db n)"
    "delete_expired_grants now (demo_fetch_db n) = Inr ((), demo_fetch_db n)" for now n
    unfolding delete_expired_messages_def delete_expired_replies_def
      delete_expired_intents_def delete_expired_grants_def sql_write_Inr
    using demo_fetch_db_ok [of n] by (simp_all add: demo_fetch_db_def demo_db_def empty_db_def delete_intents_def)
  have posts: "delete_expired_posts 1010 (demo_fetch_db n) = Inr ((), demo_fetch_db n)" for n
    unfolding delete_expired_posts_def sql_write_Inr
    using demo_fetch_db_ok [of n]
    by (simp add: demo_fetch_db_def demo_db_def empty_db_def delete_posts_def demo_post_def)
  have keys: "delete_dead_prekeys 1014 (demo_fetch_db n) = Inr ((), rl_db demo_cleaned)" for n
    unfolding delete_dead_prekeys_def sql_write_Inr
    using demo_cleaned_ok
    by (simp add: demo_fetch_db_def demo_db_def empty_db_def demo_cleaned_def demo_otk_def demo_bundle_def)
  have bundles: "delete_expired_bundles 1015 (rl_db demo_cleaned) = Inr ((), rl_db demo_cleaned)"
    unfolding delete_expired_bundles_def sql_write_Inr
    using demo_cleaned_ok by (simp add: demo_cleaned_def demo_db_def empty_db_def demo_bundle_def)
  show ?thesis
    by (simp add: cleanup_round_def log_failure_def act_then_run reliable_run_sql [OF demo_reliable] demo_steps
        q posts keys bundles) (simp add: demo_cleaned_def demo_state_def)
qed

lemma demo_fetch_again: "\<exists>r u. fetch_prekey_bundle demo_env bob_id demo_cleaned = (Inr r, u) \<and>
    fb_one_time_prekey_b64 r = Some (b64_encode ref_crypto (replicate 32 9))"
proof -
  let ?d = "\<lambda>now. demo_db\<lparr>db_otks := [(demo_otk 2 9)\<lparr>ok_consumed_at := Some now\<rparr>]\<rparr>"
  have ok: "db_ok (?d now)" for now by (simp add: db_ok_defs demo_rows)
  have "consume_one_time_prekey bob_id 1020 (rl_db demo_cleaned) = Inr (Some (replicate 32 9), ?d 1020)"
    unfolding consume_one_time_prekey_def sql_write_Inr
    using ok by (simp add: available_prekeys_def demo_cleaned_def demo_otk_def update_where_def)
  then show ?thesis
    by (subst demo_fetch_run [of bob_id demo_cleaned 1020 demo_bundle])
      (simp_all add: demo_cleaned_def, simp_all add: active_bundle_def demo_rows)
qed

theorem relay_one_time_prekey_once_witness:
  "\<exists>r r' u. fetch_prekey_bundle demo_env bob_id demo_state = (Inr r, demo_state\<lparr>rl_tick := 9, rl_db := demo_fetch_db 1004\<rparr>) \<and>
     fetch_prekey_bundle demo_env bob_id (after_events demo_env [CleanupTick]
       (demo_state\<lparr>rl_tick := 9, rl_db := demo_fetch_db 1004\<rparr>)) = (Inr r', u) \<and>
     fb_one_time_prekey_b64 r = Some (b64_encode ref_crypto (replicate 32 8)) \<and>
     fb_one_time_prekey_b64 r' \<noteq> Some (b64_encode ref_crypto (replicate 32 8))"
proof -
  obtain r' u where f: "fetch_prekey_bundle demo_env bob_id (after_events demo_env [CleanupTick]
      (demo_state\<lparr>rl_tick := 9, rl_db := demo_fetch_db 1004\<rparr>)) = (Inr r', u)"
    using demo_fetch_again by (auto simp: demo_cleanup simp del: after_event.simps)
  have k: "fb_one_time_prekey_b64 demo_fetched = Some (b64_encode ref_crypto (replicate 32 8))"
    by (simp add: demo_fetched_def)
  have "fb_one_time_prekey_b64 r' \<noteq> Some (b64_encode ref_crypto (replicate 32 8))"
    by (rule relay_one_time_prekey_once [OF demo_fetch k _ f]) simp_all
  with demo_fetch f k show ?thesis by blast
qed

end
