(* ===== verification/Relay_Delivery.thy ===== *)
theory Relay_Delivery
  imports Relay_Invariants
begin

text \<open>
  Drop-off and pick-up: a message that \<^verbatim>\<open>submit_message\<close> accepted stays listed until its mailbox's owner
  deletes it, the mailbox is deleted, or it expires.
\<close>

section \<open>What a handler did\<close>

lemma stored_result_ok:
  "(case r of Inl e \<Rightarrow> if P e then act_err x else act_err (y e) | Inr (v :: unit) \<Rightarrow> act_ok a) s = (Inr b, t) \<longleftrightarrow>
     r = Inr () \<and> a = b \<and> s = t"
  by (cases r) auto

lemma submit_message_ok:
  assumes "submit_message E m req s = (Inr (st, resp), t)"
  obtains ciphertext received where "b64_decode (crypto_of E) (sm_ciphertext_b64 req) = Some ciphertext"
    "\<lparr> ms_message_id = sr_message_id resp, ms_mailbox_id = m, ms_sender_device_hint = sm_sender_device_hint req,
       ms_ciphertext = ciphertext, ms_received_at = received,
       ms_expires_at = lb_pg_time (en_lib E) (sr_expires_at resp), ms_deleted_at = None \<rparr> \<in> set (db_messages (rl_db t))"
    "db_ok (rl_db t)" "st = 202"
proof -
  obtain ciphertext received i ex s1 where c: "validate_ciphertext (crypto_of E) (sm_ciphertext_b64 req)
      (cf_max_ciphertext_bytes (en_config E)) = Inr ciphertext"
    and run: "run_sql E (insert_message \<lparr> ms_message_id = i, ms_mailbox_id = m,
         ms_sender_device_hint = sm_sender_device_hint req, ms_ciphertext = ciphertext,
         ms_received_at = received, ms_expires_at = lb_pg_time (en_lib E) ex,
         ms_deleted_at = None \<rparr>) s1 = (Inr (Inr ()), t)"
    and "resp = \<lparr> sr_message_id = i, sr_expires_at = ex \<rparr>" "st = 202"
    using assms by (auto simp: submit_message_def Let_def result_simps stored_result_ok split: if_splits)
  then show thesis
    by (intro that [of ciphertext received])
      (auto simp: validate_ciphertext_ok run_sql_def world_then_run insert_message_def sql_write_Inr
        split: sum.splits if_splits)
qed

lemma list_messages_ok:
  assumes "list_messages E m l h s = (Inr r, t)"
  obtains now n where "lm_messages r = take (min (unwrap_or l 50) 200)
      (map (stored_envelope_of (en_lib E)) (sort_key ms_received_at (live_messages m now (rl_db s))))"
    "now = wo_now (en_world E n)"
proof -
  obtain s1 s2 where s: "mailbox_guard E m h s = (Inr (), s1)"
      "enforce_rate_limit E (''retrieve:'' @ m) (cf_retrieve_rate_limit_per_minute (en_config E)) 60 s1 = (Inr (), s2)"
    and q: "sql E ''message retrieval failed'' (sql_read (\<lambda>now d. take (min (unwrap_or l 50) 200)
      (map (stored_envelope_of (en_lib E)) (sort_key ms_received_at (live_messages m now d))))) s2
      = (Inr (lm_messages r), t)"
    using assms by (auto simp: list_messages_def Let_def result_simps)
  have "rl_db s2 = rl_db s"
    using same_db [OF db_authenticate(1) s(1)] same_db [OF db_redis(3) s(2)] by simp
  with q have "lm_messages r = take (min (unwrap_or l 50) 200) (map (stored_envelope_of (en_lib E))
      (sort_key ms_received_at (live_messages m (wo_now (en_world E (rl_tick s2))) (rl_db s))))"
    by (auto simp: sql_def act_then_eq_Inr run_sql_def world_then_run sql_read_def result_simps split: if_splits)
  then show thesis by (rule that) (rule refl)
qed

section \<open>A stored message stays\<close>

fun removes_message :: "string \<Rightarrow> uuid \<Rightarrow> relay_event \<Rightarrow> bool" where
  "removes_message m i (Request (DeleteMessage m' i' h)) = (m' = m \<and> i' = i)"
| "removes_message m i (Request (AdminDeleteManagedUser m' h)) = (m' = m)"
| "removes_message m i ev = False"

definition keeps_message :: "string \<Rightarrow> uuid \<Rightarrow> relay_request \<Rightarrow> bool" where
  "keeps_message m i req \<longleftrightarrow> \<not> removes_message m i (Request req)"

definition stored :: "message_row \<Rightarrow> db \<Rightarrow> bool" where
  "stored row d \<longleftrightarrow> db_ok d \<and> row \<in> set (db_messages d)"

lemma stored_free: "set (db_messages d) \<subseteq> set (db_messages d') \<Longrightarrow> db_ok d' \<Longrightarrow> stored row d \<Longrightarrow> stored row d'"
  by (auto simp: stored_def)

lemma stored_keeps:
  "(\<And>now d. set (db_messages d) \<subseteq> set (db_messages (snd (f now d)))) \<Longrightarrow> sql_keeps (stored row) (sql_write f)"
  by (rule sql_keeps_write) (metis stored_free snd_conv)

lemma stored_conj:
  "(\<And>now d. set (db_messages d) \<subseteq> set (db_messages (snd (f now d)))) \<Longrightarrow>
     (\<And>now d d'. snd (f now d) = d' \<Longrightarrow> P d \<Longrightarrow> P d') \<Longrightarrow> sql_keeps (\<lambda>d. stored row d \<and> P d) (sql_write f)"
  by (rule sql_keeps_write) (metis stored_free snd_conv)

lemma stored_mark_deleted:
  "\<not> (m = ms_mailbox_id row \<and> i = ms_message_id row) \<Longrightarrow> sql_keeps (stored row) (mark_message_deleted m i)"
  unfolding mark_message_deleted_def Let_def
  by (rule sql_keeps_write) (auto simp: stored_def in_update_where intro!: bexI [where x = row])

lemma stored_delete_managed:
  "m \<noteq> ms_mailbox_id row \<Longrightarrow> sql_keeps (stored row) (delete_managed_mailbox admin m)"
  unfolding delete_managed_mailbox_def
  by (rule sql_keeps_write) (auto simp: stored_def delete_mailbox_tables split: if_splits)

lemma stored_statements:
  "statements_keep E (keeps_message (ms_mailbox_id row) (ms_message_id row)) (stored row)"
  "sql_keeps (stored row) (insert_reply r)"
  unfolding statement_group_defs keeps_message_def
  by (auto simp: stored_mark_deleted stored_delete_managed upsert_account_def update_account_def insert_account_def
      insert_message_def upsert_device_def insert_intent_def insert_object_def insert_grant_def redeem_grant_def
      insert_post_def insert_delivery_def insert_reply_def upsert_bundle_def delete_unused_prekeys_def
      insert_one_time_prekey_def consume_one_time_prekey_def has_admin_append Let_def
      intro!: stored_keeps stored_conj intro: stored_free split: list.splits)
    (simp add: stored_def db_ok_def)

text \<open>A statement outside a transaction, at the times the world knows.\<close>

lemma db_run_sql_now:
  assumes "\<And>n a d d'. J d \<Longrightarrow> q (wo_now (en_world E n)) d = Inr (a, d') \<Longrightarrow> J d'"
  shows "preserves (on_db J) (run_sql E q)"
  using assms
  by (intro preservesI) (auto simp: run_sql_def world_then_run on_db_def split: sum.splits)

lemma stored_cleanup:
  assumes "\<And>n. wo_now (en_world E n) < ms_expires_at row" "ms_deleted_at row = None"
  shows "preserves (on_db (stored row)) (cleanup_round E)"
  unfolding cleanup_round_def log_failure_def
proof (intro preserves_then preserves_pure)
  show "preserves (on_db (stored row)) (run_sql E delete_expired_messages)"
    using assms
    by (intro db_run_sql_now) (auto simp: delete_expired_messages_def sql_write_Inr stored_def linorder_not_le)
qed (auto simp: delete_expired_posts_def delete_expired_replies_def delete_expired_intents_def
    delete_expired_grants_def delete_dead_prekeys_def delete_expired_bundles_def intro!: db_run_sql stored_keeps)

lemma stored_after_events:
  assumes "\<And>n. wo_now (en_world E n) < ms_expires_at row" "ms_deleted_at row = None"
    and "\<And>ev. ev \<in> set evs \<Longrightarrow> \<not> removes_message (ms_mailbox_id row) (ms_message_id row) ev"
    and "stored row (rl_db s)"
  shows "stored row (rl_db (after_events E evs s))"
proof (rule db_after_events [OF stored_statements(1)])
  have "event_allowed (keeps_message (ms_mailbox_id row) (ms_message_id row)) ev" if "ev \<in> set evs" for ev
    using assms(3) [OF that] by (cases ev) (simp_all add: keeps_message_def)
  then show "list_all (event_allowed (keeps_message (ms_mailbox_id row) (ms_message_id row))) evs"
    by (simp add: list_all_iff)
  show "preserves (on_db (stored row)) (create_feed_reply E m i h r)" for m i h r
    using stored_statements(1) [of E row]
    by (intro db_create_feed_reply_plain stored_statements(2)) (simp add: statements_keep_def admin_statements_keep_def)
qed (use assms in \<open>auto intro: stored_cleanup\<close>)

text \<open>C13: A message the relay accepted is returned, with the submitted ciphertext and hint and the promised
  expiry, by every successful listing of its mailbox that is not full, whatever requests and cleanup rounds
  lie between, as long as the clock stays before the expiry and no request deletes the message or its mailbox.\<close>

theorem relay_message_delivery:
  assumes "submit_message E m req s = (Inr (st, resp), t)"
    and "\<And>ev. ev \<in> set evs \<Longrightarrow> \<not> removes_message m (sr_message_id resp) ev"
    and "\<And>n. wo_now (en_world E n) < lb_pg_time (en_lib E) (sr_expires_at resp)"
    and "list_messages E m l h (after_events E evs t) = (Inr r, u)"
    and "length (lm_messages r) < min (unwrap_or l 50) 200"
  shows "\<exists>env ciphertext. env \<in> set (lm_messages r) \<and> se_message_id env = sr_message_id resp \<and>
      b64_decode (crypto_of E) (sm_ciphertext_b64 req) = Some ciphertext \<and>
      se_ciphertext_b64 env = lb_pg_base64 (en_lib E) ciphertext \<and>
      se_sender_device_hint env = sm_sender_device_hint req \<and>
      se_expires_at env = lb_pg_time (en_lib E) (sr_expires_at resp)"
proof -
  obtain ciphertext received where c: "b64_decode (crypto_of E) (sm_ciphertext_b64 req) = Some ciphertext"
    and row: "\<lparr> ms_message_id = sr_message_id resp, ms_mailbox_id = m,
       ms_sender_device_hint = sm_sender_device_hint req, ms_ciphertext = ciphertext, ms_received_at = received,
       ms_expires_at = lb_pg_time (en_lib E) (sr_expires_at resp), ms_deleted_at = None \<rparr>
         \<in> set (db_messages (rl_db t))" (is "?row \<in> _") and "db_ok (rl_db t)"
    using assms(1) by (rule submit_message_ok)
  then have "stored ?row (rl_db t)" by (simp add: stored_def)
  then have kept: "stored ?row (rl_db (after_events E evs t))"
    using assms(2,3) by (intro stored_after_events) simp_all
  obtain now n where list: "lm_messages r = take (min (unwrap_or l 50) 200)
      (map (stored_envelope_of (en_lib E)) (sort_key ms_received_at (live_messages m now (rl_db (after_events E evs t)))))"
    and now: "now = wo_now (en_world E n)"
    using assms(4) by (rule list_messages_ok)
  have "?row \<in> set (live_messages m now (rl_db (after_events E evs t)))"
    using kept assms(3) by (simp add: live_messages_def stored_def now)
  then have "stored_envelope_of (en_lib E) ?row \<in> set (lm_messages r)"
    using assms(5) unfolding list by (simp add: min_def split: if_splits)
  with c show ?thesis by (intro exI conjI) (auto simp: stored_envelope_of_def)
qed


text \<open>The witness: a message for Bob, a health check, and Bob's listing.\<close>

definition demo_message :: submit_message_request where
  "demo_message = \<lparr> sm_ciphertext_b64 = ''hello'', sm_sender_device_hint = Some ''phone'',
     sm_ttl_seconds = None, sm_message_id = Some 42, sm_replay_token = ''replay-token-0001'' \<rparr>"

definition demo_message_row :: message_row where
  "demo_message_row = \<lparr> ms_message_id = 42, ms_mailbox_id = bob_id, ms_sender_device_hint = Some ''phone'',
     ms_ciphertext = as_bytes ''hello'', ms_received_at = 1006, ms_expires_at = 605806, ms_deleted_at = None \<rparr>"

definition demo_submitted :: "demo_redis relay_state" where
  "demo_submitted = \<lparr> rl_db = demo_db\<lparr>db_messages := [demo_message_row]\<rparr>,
     rl_redis = [(''relay:replay:'' @ bob_id @ '':replay-token-0001'', 606105)], rl_tick = 8 \<rparr>"

lemma demo_submitted_ok: "db_ok (rl_db demo_submitted)"
  by (simp add: demo_submitted_def demo_message_row_def db_ok_defs demo_rows)

lemma demo_submit:
  "submit_message demo_env bob_id demo_message demo_state =
     (Inr (202, \<lparr> sr_message_id = 42, sr_expires_at = 605806 \<rparr>), demo_submitted)"
proof -
  have insert: "insert_message demo_message_row 1007 demo_db = Inr ((), rl_db demo_submitted)"
    unfolding insert_message_def sql_write_Inr
    using demo_submitted_ok by (simp add: demo_submitted_def demo_db_def empty_db_def)
  have checks: "validate_ciphertext ref_crypto ''hello'' 262144 = Inr (as_bytes ''hello'')"
    "validate_sender_device_hint (Some ''phone'') = Inr ()" "validate_replay_token ''replay-token-0001'' = Inr ()"
    "validate_ttl 300 2592000 604800 = Inr ()"
    by (simp add: validate_ciphertext_ok ref_crypto_def as_bytes_def, code_simp, code_simp, simp add: validate_ttl_def)
  have found: "list_ex (\<lambda>b. mb_mailbox_id b = bob_id) (db_mailboxes demo_db)"
    by (simp add: demo_rows)
  show ?thesis
    using insert
    by (simp add: submit_message_def demo_message_def demo_message_row_def act_then_run demo_found found checks demo_rate_limit
        demo_config_def        demo_reserve demo_steps add_seconds_def uuid_or_new_def
        reliable_run_sql [OF demo_reliable] i64_add_def unwrap_or_def demo_lib_def Let_def)
      (simp add: demo_submitted_def demo_state_def)
qed

lemma demo_list:
  "\<exists>u. list_messages demo_env bob_id None (mailbox_headers bob_token) (after_events demo_env [Request Healthz] demo_submitted)
     = (Inr \<lparr> lm_mailbox_id = bob_id, lm_messages = [stored_envelope_of demo_lib demo_message_row] \<rparr>, u)"
proof -
  let ?t = "after_events demo_env [Request Healthz] demo_submitted"
  have db: "rl_db ?t = rl_db demo_submitted"
    using keeps_db [of "handle demo_env Healthz" demo_submitted] by (simp add: db_reply_with db_healthz)
  have tick: "rl_tick ?t = 12"
    by (simp add: reply_with_def healthz_def succeeds_def ping_redis_def act_then_run reliable_sql_read demo_reliable
        demo_steps demo_redis_cmd demo_redis Let_def demo_submitted_def)
  have access: "header_access ref_crypto (rl_db demo_submitted) bob_id (mailbox_headers bob_token)"
    using demo_access(1) access_free [of "rl_db demo_submitted" demo_db] by (simp add: demo_submitted_def)
  have live: "live_messages bob_id 1016 (rl_db demo_submitted) = [demo_message_row]"
    by (simp add: live_messages_def demo_submitted_def demo_message_row_def)
  show ?thesis
    using demo_submitted_ok
    by (simp add: list_messages_def act_then_run mailbox_guard_complete demo_reliable db access db_ok_def
        demo_rate_limit demo_config_def reliable_sql_read demo_steps tick live unwrap_or_def Let_def del: after_events.simps)
qed

theorem relay_message_delivery_witness:
  "\<exists>r u env. list_messages demo_env bob_id None (mailbox_headers bob_token)
      (after_events demo_env [Request Healthz] demo_submitted) = (Inr r, u) \<and>
     env \<in> set (lm_messages r) \<and> se_message_id env = 42 \<and> se_ciphertext_b64 env = ''hello''"
proof -
  obtain u where l: "list_messages demo_env bob_id None (mailbox_headers bob_token)
      (after_events demo_env [Request Healthz] demo_submitted)
    = (Inr \<lparr> lm_mailbox_id = bob_id, lm_messages = [stored_envelope_of demo_lib demo_message_row] \<rparr>, u)"
    using demo_list by blast
  from relay_message_delivery [OF demo_submit _ _ l] l show ?thesis
    by (auto simp: demo_steps demo_lib_def ref_crypto_def demo_message_def unwrap_or_def)
qed

end
