(* ===== verification/Relay_Mail.thy ===== *)
theory Relay_Mail
  imports Relay_Invariants
begin

text \<open>
  An abstract specification of the message service, and its implementation by the whole relay: the
  stored messages form a set, and an event changes it in at most one of four ways.
\<close>

section \<open>The specification\<close>

definition mail :: "db \<Rightarrow> message_row set" where
  "mail d = set (db_messages d)"

text \<open>
  Failing calls may or may not have taken effect, so every event may also leave the mail as it is.
  Requests that do not concern messages only ever do that.
\<close>

inductive mail_step :: "'r relay_env \<Rightarrow> relay_event \<Rightarrow> message_row set \<Rightarrow> message_row set \<Rightarrow> bool" for E where
  stay: "mail_step E ev M M"
| drop_off: "ms_message_id row \<notin> ms_message_id ` M \<Longrightarrow> ms_mailbox_id row = m \<Longrightarrow> ms_deleted_at row = None \<Longrightarrow>
    message_bounded E row \<Longrightarrow> b64_decode (crypto_of E) (sm_ciphertext_b64 r) = Some (ms_ciphertext row) \<Longrightarrow>
    ms_sender_device_hint row = sm_sender_device_hint r \<Longrightarrow>
    mail_step E (Request (SubmitMessage m r)) M (insert row M)"
| mark: "M' = (\<lambda>x. if ms_mailbox_id x = m \<and> ms_message_id x = i \<and> ms_deleted_at x = None
      then x\<lparr>ms_deleted_at := Some now\<rparr> else x) ` M \<Longrightarrow> mail_step E (Request (DeleteMessage m i h)) M M'"
| close: "mail_step E (Request (AdminDeleteManagedUser m h)) M {x \<in> M. ms_mailbox_id x \<noteq> m}"
| purge: "mail_step E CleanupTick M {x \<in> M. now < ms_expires_at x \<and> ms_deleted_at x = None}"

inductive_simps mail_step_simps:
  "mail_step E (Request (SubmitMessage m r)) M M'" "mail_step E (Request (DeleteMessage m i h)) M M'"
  "mail_step E (Request (AdminDeleteManagedUser m h)) M M'" "mail_step E CleanupTick M M'"

section \<open>Actions that change the mail at most once\<close>

definition quiet :: "('r, 'a) relay_action \<Rightarrow> bool" where
  "quiet m \<longleftrightarrow> (\<forall>M. preserves (on_db (\<lambda>d. mail d = M)) m)"

definition once :: "(message_row set \<Rightarrow> message_row set \<Rightarrow> bool) \<Rightarrow> ('r, 'a) relay_action \<Rightarrow> bool" where
  "once R m \<longleftrightarrow> (\<forall>s. R (mail (rl_db s)) (mail (rl_db (snd (m s)))))"

lemma quietI: "(\<And>J. preserves (on_db J) m) \<Longrightarrow> quiet m"
  by (simp add: quiet_def)

lemma quiet_db: "quiet m \<Longrightarrow> mail (rl_db (snd (m s))) = mail (rl_db s)"
  by (auto simp: quiet_def preserves_def on_db_def)

lemma quiet_once: "quiet m \<Longrightarrow> (\<And>M. R M M) \<Longrightarrow> once R m"
  by (simp add: once_def quiet_db)

lemma once_later:
  assumes "quiet m" "\<And>M. R M M" "\<And>a. once R (f a)"
  shows "once R (act_then m f)"
  unfolding once_def
proof
  fix s
  obtain r t where t: "m s = (r, t)" "mail (rl_db t) = mail (rl_db s)"
    using quiet_db [OF assms(1), of s] by (cases "m s") simp
  have "R (mail (rl_db t)) (mail (rl_db (snd (f a t))))" for a using assms(3) by (simp add: once_def)
  with t assms(2) show "R (mail (rl_db s)) (mail (rl_db (snd (act_then m f s))))"
    by (cases r) simp_all
qed

lemma once_first:
  assumes "once R m" "\<And>a. quiet (f a)"
  shows "once R (act_then m f)"
  unfolding once_def
proof
  fix s
  have "R (mail (rl_db s)) (mail (rl_db (snd (m s))))" using assms(1) by (simp add: once_def)
  then show "R (mail (rl_db s)) (mail (rl_db (snd (act_then m f s))))"
    using quiet_db [OF assms(2)] by (cases "m s"; cases "fst (m s)") simp_all
qed

lemma once_lift:
  "(\<And>M. R M M) \<Longrightarrow> (\<And>a. r = Inr a \<Longrightarrow> once R (f a)) \<Longrightarrow> once R (act_then (act_lift r) f)"
  by (cases r) (auto simp: once_def act_then_run)

lemma once_if: "(b \<Longrightarrow> once R m) \<Longrightarrow> (\<not> b \<Longrightarrow> once R n) \<Longrightarrow> once R (if b then m else n)"
  by simp

lemma once_err: "(\<And>M. R M M) \<Longrightarrow> once R (act_err e)"
  by (simp add: once_def)

lemma once_run_sql:
  fixes E :: "'r relay_env"
  assumes "\<And>M. R M M" "\<And>now d a d'. q now d = Inr (a, d') \<Longrightarrow> R (mail d) (mail d')"
  shows "once R (run_sql E q)"
  using assms by (auto simp: once_def run_sql_def world_then_run split: sum.splits)

lemma once_sql:
  fixes E :: "'r relay_env"
  assumes "\<And>M. R M M" "\<And>now d a d'. q now d = Inr (a, d') \<Longrightarrow> R (mail d) (mail d')"
  shows "once R (sql E what q)"
  unfolding sql_def
proof (rule once_first)
  show "once R (run_sql E q)" by (rule once_run_sql) (fact assms)+
qed (simp add: quietI preserves_pure)

section \<open>The implementation\<close>

lemma insert_message_drop_off:
  assumes "insert_message row now d = Inr (u, d')" "ms_mailbox_id row = m" "ms_deleted_at row = None"
    "message_bounded E row" "b64_decode (crypto_of E) (sm_ciphertext_b64 r) = Some (ms_ciphertext row)"
    "ms_sender_device_hint row = sm_sender_device_hint r"
  shows "mail_step E (Request (SubmitMessage m r)) (mail d) (mail d')"
proof -
  have "db_messages d' = db_messages d @ [row]" "db_ok d'"
    using assms(1) by (auto simp: insert_message_def sql_write_Inr)
  then have "mail d' = insert row (mail d)" "ms_message_id row \<notin> ms_message_id ` mail d"
    by (auto simp: mail_def db_ok_def db_keys_def)
  with mail_step.drop_off [OF _ assms(2-)] show ?thesis by simp
qed

lemma once_submit: "once (mail_step E (Request (SubmitMessage m r))) (submit_message E m r)"
  unfolding submit_message_def Let_def add_seconds_def
  by (rule once_lift once_if once_err mail_step.stay |
      (rule once_later, rule quietI, rule db_authenticate db_redis db_clock db_uuid_or_new))+
    (rule once_first, rule once_run_sql, rule mail_step.stay, erule insert_message_drop_off,
      (fastforce simp: message_bounded_def validate_ciphertext_ok validate_ttl_ok result_simps
        dest: validate_sender_device_hint_ok)+,
      auto intro!: quietI preserves_intros)

lemma once_delete: "once (mail_step E (Request (DeleteMessage m i h))) (delete_message E m i h)"
  unfolding delete_message_def Let_def
  by (rule once_lift mail_step.stay |
      (rule once_later, rule quietI, rule db_authenticate db_redis))+
    (rule once_first, rule once_sql, rule mail_step.stay, rule mail_step.mark,
      auto simp: mark_message_deleted_def Let_def sql_write_Inr mail_def update_where_def quietI preserves_pure)

lemma once_close: "once (mail_step E (Request (AdminDeleteManagedUser m h))) (admin_delete_managed_user E m h)"
  unfolding admin_delete_managed_user_def
  by (rule once_lift mail_step.stay | (rule once_later, rule quietI, rule db_authenticate_admin))+
    (rule once_first, rule once_sql, rule mail_step.stay,
      auto simp: delete_managed_mailbox_def sql_write_Inr mail_def delete_mailbox_tables mail_step_simps
        intro!: quietI preserves_intros split: if_splits)

lemma quiet_cleanup:
  "quiet (run_sql E q)" if "q \<in> {delete_expired_posts, delete_expired_replies, delete_expired_intents,
     delete_expired_grants, delete_dead_prekeys, delete_expired_bundles}"
  using that unfolding quiet_def
  by (auto intro!: db_run_sql sql_keeps_write simp: mail_def delete_expired_posts_def delete_expired_replies_def
      delete_expired_intents_def delete_expired_grants_def delete_dead_prekeys_def delete_expired_bundles_def)

lemma quiet_then: "quiet m \<Longrightarrow> (\<And>a. quiet (f a)) \<Longrightarrow> quiet (act_then m f)"
  by (simp add: quiet_def preserves_then)

lemma once_cleanup: "once (mail_step E CleanupTick) (cleanup_round E)"
  unfolding cleanup_round_def log_failure_def
  by (intro once_first once_run_sql mail_step.stay quiet_then quiet_cleanup; simp add: quietI preserves_pure)
    (auto simp: delete_expired_messages_def sql_write_Inr mail_def mail_step_simps linorder_not_le)

section \<open>The implementation\<close>

definition no_mail :: "relay_request \<Rightarrow> bool" where
  "no_mail req = (case req of SubmitMessage m r \<Rightarrow> False | DeleteMessage m i h \<Rightarrow> False
     | AdminDeleteManagedUser m h \<Rightarrow> False | _ \<Rightarrow> True)"

definition same_mail :: "message_row set \<Rightarrow> db \<Rightarrow> bool" where
  "same_mail M d \<longleftrightarrow> db_ok d \<and> mail d = M"

lemma same_mail_free: "db_messages d' = db_messages d \<Longrightarrow> db_ok d' \<Longrightarrow> same_mail M d \<Longrightarrow> same_mail M d'"
  by (simp add: same_mail_def mail_def)

lemma same_mail_keeps:
  "(\<And>now d. db_messages (snd (f now d)) = db_messages d) \<Longrightarrow> sql_keeps (same_mail M) (sql_write f)"
  by (rule sql_keeps_write) (metis same_mail_free snd_conv)

lemma same_mail_conj:
  "(\<And>now d. db_messages (snd (f now d)) = db_messages d) \<Longrightarrow>
     (\<And>now d d'. snd (f now d) = d' \<Longrightarrow> P d \<Longrightarrow> P d') \<Longrightarrow> sql_keeps (\<lambda>d. same_mail M d \<and> P d) (sql_write f)"
  by (rule sql_keeps_write) (metis same_mail_free snd_conv)

lemma same_mail_statements:
  "statements_keep E no_mail (same_mail M)" "sql_keeps (same_mail M) (insert_reply r)"
  unfolding statement_group_defs no_mail_def
  by (auto simp: upsert_account_def update_account_def insert_account_def
      upsert_device_def insert_intent_def insert_object_def insert_grant_def redeem_grant_def
      insert_post_def insert_delivery_def insert_reply_def upsert_bundle_def delete_unused_prekeys_def
      insert_one_time_prekey_def consume_one_time_prekey_def has_admin_append Let_def
      intro!: same_mail_keeps same_mail_conj intro: same_mail_free split: list.splits)
    (simp add: same_mail_def db_ok_def)

lemma no_mail_quiet:
  assumes "no_mail req" "db_ok (rl_db s)"
  shows "mail (rl_db (snd (handle E req s))) = mail (rl_db s)"
proof -
  let ?J = "same_mail (mail (rl_db s))"
  have "preserves (on_db ?J) (create_feed_reply E m i h r)" for m i h r
    using same_mail_statements(1) [of E "mail (rl_db s)"]
    by (intro db_create_feed_reply_plain same_mail_statements(2)) (simp add: statements_keep_def admin_statements_keep_def)
  then have "preserves (on_db ?J) (handle E req)"
    using assms(1) by (intro db_handle [OF same_mail_statements(1)])
  from preservesD [OF this, of s] assms(2) show ?thesis by (simp add: on_db_def same_mail_def)
qed

lemma once_reply_with: "once R m \<Longrightarrow> once R (reply_with f m)"
  unfolding reply_with_def by (rule once_first) (simp_all add: quietI preserves_pure)



end
