(* ===== verification/Relay_Feed_Listing.thy ===== *)
theory Relay_Feed_Listing
  imports Relay_Demo
begin

text \<open>
  What \<^verbatim>\<open>list_feed_posts\<close> shows to whom.
\<close>

definition reply_visible_to :: "db \<Rightarrow> string \<Rightarrow> uuid \<Rightarrow> feed_reply_visible_response \<Rightarrow> bool" where
  "reply_visible_to d m i x \<longleftrightarrow> list_ex (\<lambda>r. re_post_id r = i \<and> x = visible_reply m r \<and>
     (m = re_author_mailbox_id r \<or> m = re_recipient_mailbox_id r)) (db_replies d)"

definition post_visible_to :: "db \<Rightarrow> string \<Rightarrow> 'b feed_post_visible_row_scheme \<Rightarrow> bool" where
  "post_visible_to d m v \<longleftrightarrow> list_ex (\<lambda>p. po_post_id p = fv_post_id v \<and>
     po_author_mailbox_id p = fv_author_mailbox_id v \<and>
     (po_author_mailbox_id p = m \<and> fv_ciphertext_b64 v = po_author_ciphertext_b64 p \<or>
      list_ex (\<lambda>e. de_post_id e = po_post_id p \<and> de_recipient_mailbox_id e = m \<and>
        fv_ciphertext_b64 v = de_ciphertext_b64 e) (db_deliveries d))) (db_posts d)"

definition shown_to :: "db \<Rightarrow> string \<Rightarrow> feed_post_visible_response \<Rightarrow> bool" where
  "shown_to d m v \<longleftrightarrow> post_visible_to d m v \<and> list_all (reply_visible_to d m (fv_post_id v)) (vp_replies v)"

lemma visible_posts_sound: "v \<in> set (visible_posts m limit now d) \<Longrightarrow> post_visible_to d m v"
  by (auto simp: visible_posts_def Let_def post_visible_to_def visible_row_def list_ex_iff set_inner_join
      dest!: in_set_takeD) blast+

lemma visible_replies_sound:
  "x \<in> set (visible_replies m ids now d) \<Longrightarrow> reply_visible_to d m (rv_post_id x) x"
  by (auto simp: visible_replies_def reply_visible_to_def list_ex_iff visible_reply_def)

lemma group_replies_sound:
  "(k, xs) \<in> set (group_replies rows) \<Longrightarrow> x \<in> set xs \<Longrightarrow> x \<in> set rows \<and> rv_post_id x = k"
proof (induction rows arbitrary: k xs x rule: rev_induct)
  case (snoc r rows)
  let ?g = "group_replies rows"
  have "group_replies (rows @ [r]) = bt_insert (rv_post_id r) (unwrap_or (bt_get (rv_post_id r) ?g) [] @ [r]) ?g"
    by (simp add: group_replies_def)
  then have "(k, xs) \<in> insert (rv_post_id r, unwrap_or (bt_get (rv_post_id r) ?g) [] @ [r]) (set ?g)"
    using snoc.prems(1) set_bt_insert_subset by fastforce
  then show ?case
    using snoc.IH snoc.prems(2) by (fastforce simp: unwrap_or_def dest!: bt_get_SomeD split: option.splits)
qed (simp add: group_replies_def bt_empty_def)

lemma assemble_posts_sound:
  assumes "assemble_posts E m posts groups visible s = (Inr r, t)"
    and "\<And>v. v \<in> set posts \<Longrightarrow> post_visible_to d m v"
    and "\<And>k xs x. (k, xs) \<in> set groups \<Longrightarrow> x \<in> set xs \<Longrightarrow> reply_visible_to d m k x"
    and "list_all (shown_to d m) visible"
  shows "list_all (shown_to d m) r"
  using assms
proof (induction posts arbitrary: groups visible s)
  case (Cons p posts)
  have "post_visible_to d m p" using Cons.prems(2) by simp
  moreover have "list_all (reply_visible_to d m (fv_post_id p)) (unwrap_or (bt_get (fv_post_id p) groups) [])"
    using Cons.prems(3) [OF bt_get_SomeD]
    by (cases "bt_get (fv_post_id p) groups") (auto simp: unwrap_or_def list_all_iff)
  ultimately have shown: "shown_to d m \<lparr>fv_post_id = fv_post_id p, fv_author_mailbox_id = fv_author_mailbox_id p,
      fv_author_codename = fv_author_codename p, fv_audience = fv_audience p, fv_reply_policy = fv_reply_policy p,
      fv_ciphertext_b64 = fv_ciphertext_b64 p, fv_created_at = fv_created_at p, fv_expires_at = fv_expires_at p,
      fv_visibility = fv_visibility p, vp_can_reply = c, vp_reply_targets = ts,
      vp_replies = unwrap_or (bt_get (fv_post_id p) groups) [] \<rparr>" for c ts
    by (simp add: shown_to_def post_visible_to_def)
  obtain ts u where run: "assemble_posts E m posts (bt_remove (fv_post_id p) groups) (visible @
      [\<lparr>fv_post_id = fv_post_id p, fv_author_mailbox_id = fv_author_mailbox_id p,
        fv_author_codename = fv_author_codename p, fv_audience = fv_audience p, fv_reply_policy = fv_reply_policy p,
        fv_ciphertext_b64 = fv_ciphertext_b64 p, fv_created_at = fv_created_at p, fv_expires_at = fv_expires_at p,
        fv_visibility = fv_visibility p, vp_can_reply = fv_reply_policy p \<noteq> ''no_replies'', vp_reply_targets = ts,
        vp_replies = unwrap_or (bt_get (fv_post_id p) groups) [] \<rparr>]) u = (Inr r, t)"
    using Cons.prems(1) by (auto simp: act_then_eq_Inr)
  show ?case
    using run by (rule Cons.IH) (use Cons.prems(2-4) shown in \<open>auto dest: set_bt_remove_subset [THEN subsetD]\<close>)
qed simp

lemma assemble_posts_rows:
  "assemble_posts E m posts groups visible s = (Inr r, t) \<Longrightarrow>
     map feed_post_visible_row.truncate r = map feed_post_visible_row.truncate visible @ posts"
  by (induction posts arbitrary: groups visible s)
    (auto simp: act_then_eq_Inr feed_post_visible_row.truncate_def)

lemma list_feed_posts_ok:
  assumes "list_feed_posts E m l h s = (Inr r, t)"
  obtains s1 s3 s4 now rows where "mailbox_guard E m h s = (Inr (), s1)"
    "assemble_posts E m (visible_posts m (min (unwrap_or l 50) 200) now (rl_db s)) (group_replies rows) [] s3
       = (Inr (lf_posts r), s4)"
    "\<And>x. x \<in> set rows \<Longrightarrow> reply_visible_to (rl_db s) m (rv_post_id x) x"
proof -
  obtain s1 s2 s3 s4 posts rows where g: "mailbox_guard E m h s = (Inr (), s1)"
    and p: "sql E ''feed listing failed'' (sql_read (visible_posts m (min (unwrap_or l 50) 200))) s1 = (Inr posts, s2)"
    and q: "(if map fv_post_id posts = [] then act_ok []
       else sql E ''feed reply listing failed'' (sql_read (visible_replies m (map fv_post_id posts)))) s2 = (Inr rows, s3)"
    and a: "assemble_posts E m posts (group_replies rows) [] s3 = (Inr (lf_posts r), s4)"
    using assms by (auto simp: list_feed_posts_def Let_def act_then_eq_Inr)
  have db: "rl_db s1 = rl_db s" using same_db [OF db_authenticate(1) g] .
  obtain now where "posts = visible_posts m (min (unwrap_or l 50) 200) now (rl_db s)" "rl_db s2 = rl_db s"
    using sql_read_Inr_run [OF p] db by auto
  moreover have "reply_visible_to (rl_db s) m (rv_post_id x) x" if "x \<in> set rows" for x
    using q that \<open>rl_db s2 = rl_db s\<close>
    by (auto dest!: sql_read_Inr_run dest: visible_replies_sound split: if_splits)
  ultimately show thesis using that [OF g] a by blast
qed


lemma demo_feed:
  "\<exists>r t. list_feed_posts demo_env alice_id None admin_headers demo_state = (Inr r, t) \<and> length (lf_posts r) = 1"
  using demo_access(2) demo_ok
  by (simp add: list_feed_posts_def act_then_run mailbox_guard_complete demo_reliable reliable_sql_read demo_steps
      Let_def db_ok_def)
    (simp add: visible_posts_def demo_rows inner_join_def visible_replies_def group_replies_def bt_empty_def
      resolve_feed_reply_targets_def visible_row_def sort_desc_def act_then_run unwrap_or_def demo_steps)


end
