(* ===== verification/Relay_Authorization.thy ===== *)
theory Relay_Authorization
  imports Relay_Demo
begin

text \<open>
  Which requests the tables entitle to their route, and the refusal of all others.
\<close>

section \<open>Entitlement\<close>

text \<open>The administrator a request speaks for.\<close>

definition header_admin :: "'r relay_env \<Rightarrow> db \<Rightarrow> headers \<Rightarrow> string option" where
  "header_admin E d h =
     (case h ''x-admin-mailbox-id'' of
        Some (Some admin) \<Rightarrow> if admin_access E d h admin then Some admin else None
      | _ \<Rightarrow> None)"

definition manages :: "'r relay_env \<Rightarrow> db \<Rightarrow> headers \<Rightarrow> string \<Rightarrow> bool" where
  "manages E d h m =
     (case header_admin E d h of None \<Rightarrow> False | Some admin \<Rightarrow> list_ex (managed_by admin m) (db_accounts d))"

definition may_bootstrap :: "'r relay_env \<Rightarrow> db \<Rightarrow> headers \<Rightarrow> string \<Rightarrow> bool" where
  "may_bootstrap E d h m \<longleftrightarrow>
     h ''x-admin-token'' = Some (Some (cf_admin_token (en_config E))) \<and>
     (case mailbox_of d m of None \<Rightarrow> True | Some b \<Rightarrow> header_access (crypto_of E) d m h) \<and>
     (case account_of d m of None \<Rightarrow> True | Some a \<Rightarrow> \<not> (ac_role a = ''user'' \<and> ac_owner_mailbox_id a \<noteq> None))"

definition may_create :: "'r relay_env \<Rightarrow> db \<Rightarrow> headers \<Rightarrow> create_mailbox_request \<Rightarrow> bool" where
  "may_create E d h r =
     (case decode_mailbox_token (crypto_of E) (cr_mailbox_token_b64 r) of
        Inl e \<Rightarrow> False
      | Inr token \<Rightarrow>
          (case mailbox_of d (cr_mailbox_id r) of
             None \<Rightarrow> creation_access E d h
           | Some b \<Rightarrow> mb_access_token_hash b = hash_mailbox_token (crypto_of E) (cr_mailbox_id r) token))"

fun authorized :: "'r relay_env \<Rightarrow> db \<Rightarrow> relay_request \<Rightarrow> bool" where
  "authorized E d (AdminBootstrapAccount h r) = may_bootstrap E d h (br_mailbox_id r)"
| "authorized E d (AdminOverview h) = (header_admin E d h \<noteq> None)"
| "authorized E d (AdminProvisionMailbox h) = (header_admin E d h \<noteq> None)"
| "authorized E d (AdminSetManagedUserStatus m h st) = manages E d h m"
| "authorized E d (AdminResetManagedUserAccess m h) = manages E d h m"
| "authorized E d (AdminDeleteManagedUser m h) = manages E d h m"
| "authorized E d (CreateMailbox h r) = may_create E d h r"
| "authorized E d (GetAccountProfile m h) = header_access (crypto_of E) d m h"
| "authorized E d (UpsertContact m h r) = header_access (crypto_of E) d m h"
| "authorized E d (ListContacts m h) = header_access (crypto_of E) d m h"
| "authorized E d (DeleteContact m c h) = header_access (crypto_of E) d m h"
| "authorized E d (CreateFeedPost m h rp) = header_access (crypto_of E) d m h"
| "authorized E d (ListFeedPosts m l h) = header_access (crypto_of E) d m h"
| "authorized E d (CreateFeedReply m i h rr) = header_access (crypto_of E) d m h"
| "authorized E d (PublishPrekeyBundle m h rb) = header_access (crypto_of E) d m h"
| "authorized E d (GetPrekeyInventoryStatus m h) = header_access (crypto_of E) d m h"
| "authorized E d (PublishDeviceRecord m h v) = header_access (crypto_of E) d m h"
| "authorized E d (CreateMediaUploadIntent m h ri) = header_access (crypto_of E) d m h"
| "authorized E d (CreateMediaManifest m h rm) = header_access (crypto_of E) d m h"
| "authorized E d (ListMediaManifests m l h) = header_access (crypto_of E) d m h"
| "authorized E d (CreateMediaAccessGrant m h rg) = header_access (crypto_of E) d m h"
| "authorized E d (ListMessages m l h) = header_access (crypto_of E) d m h"
| "authorized E d (DeleteMessage m i h) = header_access (crypto_of E) d m h"
| "authorized E d req = True"

section \<open>Refusal\<close>

lemma header_admin_None: "header_admin E d h = None \<longleftrightarrow> (\<forall>admin. \<not> admin_access E d h admin)"
  by (auto simp: header_admin_def admin_access_def split: option.splits)

lemma header_admin_access: "admin_access E d h admin \<Longrightarrow> header_admin E d h = Some admin"
  by (auto simp: header_admin_def admin_access_def split: option.splits)

lemma not_manages: "\<not> manages E d h m \<Longrightarrow> admin_access E d h admin \<Longrightarrow> find (managed_by admin m) (db_accounts d) = None"
  by (auto simp: manages_def header_admin_access find_None_iff list_ex_iff)

lemma refuses_reply_with: "refuses d m \<Longrightarrow> refuses d (reply_with f m)"
  unfolding reply_with_def by (rule refuses_first)

lemma create_mailbox_refuses:
  assumes "db_keys d" "\<not> may_create E d h r"
  shows "refuses d (create_mailbox E h r)"
  unfolding create_mailbox_def Let_def
  by ((rule refuses_lift refuses_read | (rule refuses_later, rule preserves_intros))+)
    (use assms(2) in \<open>auto simp: may_create_def refuses_err split: option.splits sum.splits
      intro!: creation_gate.guarded_refuses assms(1)\<close>)

lemma bootstrap_token_refuses:
  assumes "db_keys d" "h ''x-admin-token'' \<noteq> Some (Some (cf_admin_token (en_config E)))"
  shows "refuses d (authenticate_admin_bootstrap E h m)"
  unfolding authenticate_admin_bootstrap_def
  using assms(2) by (intro refuses_intros) (simp add: ensure_admin_token_ok)

lemma bootstrap_guard: "authenticate_admin_bootstrap E h m = act_then (act_lift (ensure_admin_token (en_config E) h))
   (\<lambda>_. mailbox_guard E m h)"
  by (simp add: authenticate_admin_bootstrap_def mailbox_guard_def)

lemma bootstrap_refuses:
  assumes "db_ok d" "\<not> may_bootstrap E d h (br_mailbox_id r)"
  shows "refuses d (admin_bootstrap_account E h r)"
proof (cases "mailbox_of d (br_mailbox_id r)")
  case None
  with assms have "h ''x-admin-token'' \<noteq> Some (Some (cf_admin_token (en_config E)))"
    by (auto simp: may_bootstrap_def db_ok_def db_refs_def mailbox_of_None dest!: account_of_Some split: option.splits)
  with None show ?thesis
    unfolding admin_bootstrap_account_def Let_def
    by (intro refuses_lift refuses_read) 
     (auto intro!: refuses_first refuses_intros simp: ensure_admin_token_ok)
next
  case (Some b)
  have rest: "refuses d (act_then (lookup_account_profile E (br_mailbox_id r)) (\<lambda>existing_profile.
      act_then (case existing_profile of
          Some p \<Rightarrow> if ac_role p = ''user'' \<and> ac_owner_mailbox_id p \<noteq> None
            then act_err (Conflict ''managed user mailboxes cannot be promoted into admin accounts'')
            else act_ok ()
        | None \<Rightarrow> act_ok ()) f))"
    if "h ''x-admin-token'' = Some (Some (cf_admin_token (en_config E)))"
      "header_access (crypto_of E) d (br_mailbox_id r) h" for f :: "unit \<Rightarrow> ('a, nat \<times> account_row) relay_action"
    unfolding lookup_account_profile_def
    using assms(2) that Some
    by (intro refuses_read refuses_first) (auto simp: may_bootstrap_def refuses_err split: option.splits)
  show ?thesis
    unfolding admin_bootstrap_account_def Let_def
    using assms(1)
    by (intro refuses_lift refuses_read, simp only: Some option.case bootstrap_guard act_then_assoc act_then_ok)
      (intro refuses_lift mailbox_gate.guarded_refuses_if [where k = "(br_mailbox_id r, h)", simplified];
        simp add: rest db_ok_def ensure_admin_token_ok)
qed


text \<open>C12: A request whose credentials do not entitle it to its route gets an error and leaves every table
  as it was: the mailbox's token for the mailbox routes, an active administrator's token and headers for the
  admin routes, ownership of the target account for the managed-user routes, the stored token or a creation
  credential for mailbox creation, and for bootstrapping an administrator the admin token together with the
  mailbox's own token and an account that is not a managed user's.\<close>

theorem relay_authorization:
  assumes "db_ok (rl_db s)" and "\<not> authorized E (rl_db s) req"
  shows "(\<exists>e. fst (handle E req s) = Inl e) \<and> rl_db (snd (handle E req s)) = rl_db s"
proof (rule refusesD)
  have keys: "db_keys (rl_db s)" using assms(1) by (simp add: db_ok_def)
  note routes = account_routes_refuse [OF keys] message_routes_refuse [OF keys] prekey_routes_refuse [OF keys]
    media_routes_refuse [OF keys] feed_routes_refuse [OF keys]
  show "refuses (rl_db s) (handle E req)"
    using assms
    by (cases req)
      (auto intro!: refuses_reply_with routes admin_routes_refuse(1,2) [OF keys] unmanaged_refuse [OF keys]
        create_mailbox_refuses [OF keys] bootstrap_refuses dest: not_manages simp: header_admin_None)
qed

theorem relay_authorization_witness:
  "(\<exists>e. fst (handle demo_env (ListMessages bob_id None (mailbox_headers alice_token)) demo_state) = Inl e) \<and>
     rl_db (snd (handle demo_env (ListMessages bob_id None (mailbox_headers alice_token)) demo_state)) = demo_db"
proof -
  have "hash_mailbox_token ref_crypto bob_id (as_bytes bob_token) \<noteq> hash_mailbox_token ref_crypto bob_id (as_bytes alice_token)"
    by code_simp
  then have "\<not> header_access ref_crypto demo_db bob_id (mailbox_headers alice_token)"
    by (simp add: header_access_def mailbox_headers_def mailbox_access_def decode_mailbox_token_def
        ref_crypto_def [THEN arg_cong [where f = b64_decode]] mailbox_of_def account_of_def demo_rows)
  with relay_authorization [of demo_state demo_env "ListMessages bob_id None (mailbox_headers alice_token)"]
  show ?thesis using demo_ok by (simp del: handle.simps)
qed

section \<open>Authentication decides access\<close>

lemma authenticate_admin_complete:
  assumes "reliable E" "db_keys (rl_db s)" "admin_access E (rl_db s) h admin" "validate_mailbox_id admin = Inr ()"
  shows "authenticate_admin E h s = (Inr admin, s\<lparr>rl_tick := rl_tick s + 2\<rparr>)"
proof -
  obtain token where h: "h ''x-admin-token'' = Some (Some (cf_admin_token (en_config E)))"
      "h ''x-admin-mailbox-id'' = Some (Some admin)" "h ''x-mailbox-token'' = Some (Some token)"
      "mailbox_access (crypto_of E) (rl_db s) admin token"
    using assms(3) by (auto simp: admin_access_def header_access_def split: option.splits)
  have "list_ex (\<lambda>a. ac_mailbox_id a = admin \<and> ac_role a = ''admin'' \<and> ac_status a = ''active'') (db_accounts (rl_db s))"
    using assms(3) account_exists_iff [OF assms(2), of admin "\<lambda>a. ac_role a = ''admin'' \<and> ac_status a = ''active''"]
    by (auto simp: admin_access_def)
  with h assms show ?thesis
    by (simp add: authenticate_admin_def act_then_run ensure_admin_token_def read_admin_mailbox_id_header_def
        read_mailbox_token_header_def read_required_header_def authenticate_mailbox_complete reliable_sql_read)
qed

text \<open>C15: While the calls to Postgres succeed, authentication accepts just the credentials that the access
  relation grants on the tables: for a mailbox its own token and an account that is not disabled, for an
  administrator the admin token, a valid mailbox id with its token, and an active administrator's account.\<close>

theorem relay_authentication_exact:
  assumes "reliable E" and "db_ok (rl_db s)"
  shows "(fst (authenticate_mailbox E m token s) = Inr ()) = mailbox_access (crypto_of E) (rl_db s) m token \<and>
    (fst (mailbox_guard E m h s) = Inr ()) = header_access (crypto_of E) (rl_db s) m h \<and>
    (fst (authenticate_admin E h s) = Inr admin) =
      (admin_access E (rl_db s) h admin \<and> validate_mailbox_id admin = Inr ())"
proof (intro conjI)
  have keys: "db_keys (rl_db s)" using assms(2) by (simp add: db_ok_def)
  show "(fst (authenticate_mailbox E m token s) = Inr ()) = mailbox_access (crypto_of E) (rl_db s) m token"
    using authenticate_mailbox_complete [OF assms(1) keys] authenticate_mailbox_ok [OF _ keys]
    by (metis fst_conv prod.collapse)
  show "(fst (mailbox_guard E m h s) = Inr ()) = header_access (crypto_of E) (rl_db s) m h"
    using mailbox_guard_complete [OF assms(1) keys] mailbox_guard_ok [OF _ keys]
    by (metis fst_conv prod.collapse)
  have "validate_mailbox_id admin = Inr ()" if "fst (authenticate_admin E h s) = Inr admin"
    using that by (cases "authenticate_admin E h s")
      (auto simp: authenticate_admin_def result_simps read_admin_mailbox_id_header_ok split: if_splits)
  then show "(fst (authenticate_admin E h s) = Inr admin) =
      (admin_access E (rl_db s) h admin \<and> validate_mailbox_id admin = Inr ())"
    using authenticate_admin_complete [OF assms(1) keys] authenticate_admin_ok [OF _ keys]
    by (metis fst_conv prod.collapse)
qed

theorem relay_authentication_exact_witness:
  "fst (mailbox_guard demo_env bob_id (mailbox_headers bob_token) demo_state) = Inr () \<and>
   fst (authenticate_admin demo_env (mailbox_headers bob_token) demo_state) \<noteq> Inr bob_id"
  using relay_authentication_exact [OF demo_reliable, of demo_state bob_id bob_token "mailbox_headers bob_token" bob_id]
    demo_access demo_ok
  by (simp add: admin_access_def mailbox_headers_def)

end
