(* ===== verification/Relay_Redis.thy ===== *)
theory Relay_Redis
  imports Relay_System
begin

text \<open>
  What requests do to Redis: they increment rate counters, reserve replay tokens and ping, and nothing
  else.  An invariant of the relay's state that these three keep, that does not speak of the tables and
  that the passing of time keeps, is kept by every request and every cleanup round.
\<close>

definition redis_keeps :: "'r relay_env \<Rightarrow> ('r relay_state \<Rightarrow> bool) \<Rightarrow> bool" where
  "redis_keeps E I \<longleftrightarrow>
     (\<forall>s d. I (s\<lparr>rl_db := d\<rparr>) = I s) \<and>
     (\<forall>s. I s \<longrightarrow> I (s\<lparr>rl_tick := Suc (rl_tick s)\<rparr>)) \<and>
     (\<forall>k limit w. preserves I (enforce_rate_limit E k limit w)) \<and>
     (\<forall>m token ttl. preserves I (reserve_replay_token E m token ttl)) \<and>
     preserves I (ping_redis E)"

named_theorems redis_intros \<open>rules for showing that a handler keeps an invariant of Redis\<close>

lemma redis_world [redis_intros]: "redis_keeps E I \<Longrightarrow> preserves I (world E)"
  by (simp add: redis_keeps_def preserves_def world_def)

lemma redis_commands [redis_intros]:
  "redis_keeps E I \<Longrightarrow> preserves I (enforce_rate_limit E k limit w)"
  "redis_keeps E I \<Longrightarrow> preserves I (reserve_replay_token E m token ttl)"
  "redis_keeps E I \<Longrightarrow> preserves I (ping_redis E)"
  by (simp_all add: redis_keeps_def)

lemma redis_db: "redis_keeps E I \<Longrightarrow> I (s\<lparr>rl_db := d\<rparr>) = I s"
  by (simp add: redis_keeps_def)

lemma redis_tick: "redis_keeps E I \<Longrightarrow> I s \<Longrightarrow> I (s\<lparr>rl_tick := Suc (rl_tick s)\<rparr>)"
  by (simp add: redis_keeps_def)

lemma redis_sql [redis_intros]:
  "redis_keeps E I \<Longrightarrow> preserves I (run_sql E q)"
  "redis_keeps E I \<Longrightarrow> preserves I (sql E what q)"
  "redis_keeps E I \<Longrightarrow> preserves I (tx_sql E now on_error q)"
  by (auto simp: preserves_def run_sql_def sql_def tx_sql_def act_then_run world_def redis_db redis_tick
      split: sum.splits prod.splits)

lemma redis_transaction [redis_intros]:
  assumes "redis_keeps E I" "\<And>now. preserves I (body now)"
  shows "preserves I (transaction E b c body)"
proof (rule preservesI)
  fix s assume I: "I s"
  let ?o = "en_world E (rl_tick s)" and ?s = "s\<lparr>rl_tick := Suc (rl_tick s)\<rparr>"
  have s: "I ?s" by (rule redis_tick [OF assms(1) I])
  show "I (snd (transaction E b c body s))"
  proof (cases "body (wo_now ?o) ?s")
    case (Pair r t)
    have "I t" using preservesD [OF assms(2) s, of "wo_now ?o"] Pair by simp
    with s Pair show ?thesis
      by (cases r) (auto simp: transaction_def world_then_run Let_def redis_db [OF assms(1)]
          dest: redis_tick [OF assms(1)])
  qed
qed

lemma redis_clock [redis_intros]:
  assumes "redis_keeps E I"
  shows "preserves I (utc_now E)" "preserves I (new_uuid E)" "preserves I (random_token_bytes E n)"
    "preserves I (random_hex_token E n)" "preserves I (uuid_or_new E x)" "preserves I (add_seconds E t k)"
    "preserves I (redis_connection E)"
  unfolding utc_now_def new_uuid_def random_token_bytes_def random_hex_token_def uuid_or_new_def
    add_seconds_def redis_connection_def
  by (intro preserves_intros redis_intros assms)+

lemma redis_auth [redis_intros]:
  assumes "redis_keeps E I"
  shows "preserves I (ensure_mailbox_exists E m)" "preserves I (authenticate_mailbox E m t)"
    "preserves I (mailbox_guard E m h)" "preserves I (authenticate_admin E h)"
    "preserves I (authenticate_admin_bootstrap E h m)" "preserves I (authorize_mailbox_creation E h)"
  unfolding ensure_mailbox_exists_def authenticate_mailbox_def mailbox_guard_def authenticate_admin_def
    authenticate_admin_bootstrap_def authorize_mailbox_creation_def Let_def
  by (intro preserves_intros redis_intros assms)+

lemma redis_accounts [redis_intros]:
  assumes "redis_keeps E I"
  shows "preserves I (lookup_account_profile E m)" "preserves I (mailbox_created_at E m)"
    "preserves I (upsert_account_profile E m c t a)" "preserves I (ensure_account_profile E m)"
    "preserves I (create_mailbox E h cr)" "preserves I (admin_bootstrap_account E h br)"
    "preserves I (get_account_profile E m h)" "preserves I (fetch_contact_summary E m c)"
    "preserves I (upsert_contact E m h uc)" "preserves I (list_contacts E m h)"
    "preserves I (delete_contact E m c h)"
  unfolding lookup_account_profile_def mailbox_created_at_def upsert_account_profile_def ensure_account_profile_def
    create_mailbox_def admin_bootstrap_account_def get_account_profile_def fetch_contact_summary_def
    upsert_contact_def list_contacts_def delete_contact_def Let_def
  by (intro preserves_intros redis_intros assms)+

lemma redis_admin [redis_intros]:
  assumes "redis_keeps E I"
  shows "preserves I (admin_overview E h)" "preserves I (admin_provision_mailbox E h)"
    "preserves I (admin_set_managed_user_status E m h st)" "preserves I (admin_reset_managed_user_access E m h)"
    "preserves I (admin_delete_managed_user E m h)"
  unfolding admin_overview_def admin_provision_mailbox_def admin_set_managed_user_status_def
    admin_reset_managed_user_access_def admin_delete_managed_user_def Let_def
  by (intro preserves_intros redis_intros assms)+

lemma redis_insert_keys [redis_intros]:
  "redis_keeps E I \<Longrightarrow> preserves I (insert_one_time_prekeys E now m t ks)"
proof (induction ks)
  case (Cons k ks)
  then show ?case
    unfolding insert_one_time_prekeys.simps by (intro preserves_intros redis_intros) auto
qed (simp add: preserves_def)

lemma redis_parse_upload [redis_intros]:
  assumes "redis_keeps E I"
  shows "preserves I (parse_prekey_bundle_upload E r)"
  unfolding parse_prekey_bundle_upload_def default_signed_prekey_expiry_def validate_signed_prekey_expiry_def Let_def
  by (intro preserves_intros redis_intros assms)

lemma redis_prekeys [redis_intros]:
  assumes "redis_keeps E I"
  shows "preserves I (publish_prekey_bundle E m h rp)" "preserves I (fetch_prekey_bundle E m)"
    "preserves I (get_prekey_inventory_status E m h)" "preserves I (publish_device_record E m h rd)"
    "preserves I (list_device_records E m)"
  unfolding publish_prekey_bundle_def fetch_prekey_bundle_def get_prekey_inventory_status_def
    publish_device_record_def list_device_records_def Let_def
  by (intro preserves_intros redis_intros assms)+

lemma redis_media [redis_intros]:
  assumes "redis_keeps E I"
  shows "preserves I (object_store E what f)" "preserves I (presign_upload_request E k t n)"
    "preserves I (presign_media_access_request E b k t op e)" "preserves I (lookup_media_access_grant E g)"
    "preserves I (mark_media_access_grant_redeemed E i)"
    "preserves I (create_media_upload_intent E m h ri)" "preserves I (create_media_manifest E m h rm)"
    "preserves I (list_media_manifests E m l h)" "preserves I (create_media_access_grant E m h rg)"
    "preserves I (resolve_media_access_grant E g)" "preserves I (fetch_media_access_grant_content E g)"
  unfolding object_store_def presign_upload_request_def presign_media_access_request_def
    lookup_media_access_grant_def mark_media_access_grant_redeemed_def create_media_upload_intent_def
    create_media_manifest_def list_media_manifests_def create_media_access_grant_def
    resolve_media_access_grant_def fetch_media_access_grant_content_def Let_def
  by (intro preserves_intros redis_intros assms)+

lemma redis_feed_loops [redis_intros]:
  assumes "redis_keeps E I"
  shows "preserves I (insert_deliveries E now p t ds)" "preserves I (resolve_feed_reply_targets E m v)"
    "preserves I (assemble_posts E m ps g vs)" "preserves I (reply_recipient E m i post r)"
proof -
  show "preserves I (insert_deliveries E now p t ds)"
  proof (induction ds)
    case (Cons d ds)
    then show ?case
      unfolding insert_deliveries.simps by (intro preserves_intros redis_intros assms)
  qed (simp add: preserves_def)
  show "preserves I (resolve_feed_reply_targets E m v)" for v
    unfolding resolve_feed_reply_targets_def by (intro preserves_intros redis_intros assms)
  note targets = this
  show "preserves I (assemble_posts E m ps g vs)"
  proof (induction ps arbitrary: g vs)
    case (Cons p ps)
    show ?case
      unfolding assemble_posts.simps by (intro preserves_intros targets Cons.IH)
  qed (simp add: preserves_def)
  show "preserves I (reply_recipient E m i post r)"
    unfolding reply_recipient_def Let_def by (intro preserves_intros redis_intros assms)
qed

lemma redis_feed [redis_intros]:
  assumes "redis_keeps E I"
  shows "preserves I (create_feed_post E m h rp)" "preserves I (list_feed_posts E m l h)"
    "preserves I (create_feed_reply E m i h rr)"
  unfolding create_feed_post_def list_feed_posts_def create_feed_reply_def Let_def
  by (intro preserves_intros redis_intros assms)+

lemma redis_messages [redis_intros]:
  assumes "redis_keeps E I"
  shows "preserves I (submit_message E m rs)" "preserves I (list_messages E m l h)"
    "preserves I (delete_message E m i h)"
  unfolding submit_message_def list_messages_def delete_message_def Let_def
  by (intro preserves_intros redis_intros assms)+

lemma redis_succeeds: "preserves I m \<Longrightarrow> preserves I (succeeds m)"
  by (auto simp: preserves_def succeeds_def split: prod.splits)

lemma redis_system [redis_intros]:
  assumes "redis_keeps E I"
  shows "preserves I (healthz E)" "preserves I (cleanup_round E)"
  unfolding healthz_def cleanup_round_def log_failure_def Let_def
  by (intro preserves_intros redis_intros redis_succeeds assms)+

lemma redis_handle:
  assumes "redis_keeps E I"
  shows "preserves I (handle E req)"
  by (cases req; simp only: handle.simps reply_with_def; intro preserves_then preserves_pure redis_intros assms)

lemma redis_after_event: "redis_keeps E I \<Longrightarrow> I s \<Longrightarrow> I (after_event E ev s)"
  by (cases ev) (simp_all add: preservesD [OF redis_handle] preservesD [OF redis_system(2)])

lemma redis_after_events: "redis_keeps E I \<Longrightarrow> I s \<Longrightarrow> I (after_events E evs s)"
  by (induction evs arbitrary: s) (simp_all add: redis_after_event)

end
