(* ===== verification/Relay_Replay.thy ===== *)
theory Relay_Replay
  imports Relay_Redis Relay_Delivery
begin

text \<open>
  Replay protection of \<^verbatim>\<open>submit_message\<close>: a replay token that let one message in lets no second one into
  the same mailbox while Redis holds it, whatever happens in between.
\<close>

section \<open>What the relay relies on in Redis\<close>

text \<open>
  \<open>held r k T\<close>: the key exists and does not expire before \<open>T\<close>.  \<^verbatim>\<open>SET key value NX EX n\<close> creates a
  missing key for \<open>n\<close> seconds and leaves an existing one alone; \<^verbatim>\<open>INCR\<close>, \<^verbatim>\<open>PING\<close> and an \<^verbatim>\<open>EXPIRE\<close> of
  another key do not remove it.
\<close>

definition replay_laws :: "'r redis_api \<Rightarrow> ('r \<Rightarrow> string \<Rightarrow> time \<Rightarrow> bool) \<Rightarrow> time \<Rightarrow> bool" where
  "replay_laws api held second \<longleftrightarrow>
     (\<forall>now k v n r r'. 0 < n \<longrightarrow> rd_set_nx_ex api now k v n r = (Some True, r') \<longrightarrow> held r' k (now + n * second)) \<and>
     (\<forall>now k v n r T. held r k T \<longrightarrow> now < T \<longrightarrow> fst (rd_set_nx_ex api now k v n r) \<noteq> Some True) \<and>
     (\<forall>now k k' v n r T. held r k T \<longrightarrow> now < T \<longrightarrow>
        held (snd (rd_set_nx_ex api now k' v n r)) k T \<and> held (snd (rd_incr api now k' r)) k T \<and>
        held (snd (rd_ping api now r)) k T \<and> (k' \<noteq> k \<longrightarrow> held (snd (rd_expire api now k' n r)) k T))"

lemma replay_lawsD:
  assumes "replay_laws api held second"
  shows "0 < n \<Longrightarrow> rd_set_nx_ex api now k v n r = (Some True, r') \<Longrightarrow> held r' k (now + n * second)"
    and "held r k T \<Longrightarrow> now < T \<Longrightarrow> fst (rd_set_nx_ex api now k v n r) \<noteq> Some True"
    and "held r k T \<Longrightarrow> now < T \<Longrightarrow> held (snd (rd_set_nx_ex api now k' v n r)) k T"
    and "held r k T \<Longrightarrow> now < T \<Longrightarrow> held (snd (rd_incr api now k' r)) k T"
    and "held r k T \<Longrightarrow> now < T \<Longrightarrow> held (snd (rd_ping api now r)) k T"
    and "held r k T \<Longrightarrow> now < T \<Longrightarrow> k' \<noteq> k \<Longrightarrow> held (snd (rd_expire api now k' n r)) k T"
  using assms unfolding replay_laws_def by blast+

definition replay_key :: "string \<Rightarrow> string \<Rightarrow> string" where
  "replay_key m token = ''relay:replay:'' @ m @ '':'' @ token"

text \<open>
  The invariant of a run that begins at call \<open>first\<close> of the world and in which the clock stays before
  \<open>T\<close> up to call \<open>finish\<close>.
\<close>

definition token_held ::
    "('r \<Rightarrow> string \<Rightarrow> time \<Rightarrow> bool) \<Rightarrow> string \<Rightarrow> time \<Rightarrow> nat \<Rightarrow> nat \<Rightarrow> 'r relay_state \<Rightarrow> bool" where
  "token_held held key T first finish s \<longleftrightarrow>
     first \<le> rl_tick s \<and> (rl_tick s \<le> finish \<longrightarrow> held (rl_redis s) key T)"

lemma token_held_redis_cmd:
  assumes "\<And>n. first \<le> n \<Longrightarrow> n < finish \<Longrightarrow> wo_now (en_world E n) < T"
    and "\<And>now r. held r key T \<Longrightarrow> now < T \<Longrightarrow> held (snd (f now r)) key T"
  shows "preserves (token_held held key T first finish) (redis_cmd E what f)"
proof (rule preservesI)
  fix s assume I: "token_held held key T first finish s"
  let ?s = "snd (redis_cmd E what f s)"
  have "rl_tick ?s = Suc (rl_tick s)"
    and redis: "rl_redis ?s \<in> {rl_redis s, snd (f (wo_now (en_world E (rl_tick s))) (rl_redis s))}"
    by (auto simp: redis_cmd_def world_then_run Let_def split: prod.splits)
  with I redis assms show "token_held held key T first finish ?s"
    by (auto simp: token_held_def)
qed

lemma token_held_kept:
  assumes "replay_laws (en_redis E) held second" "\<And>k. key \<noteq> ''relay:limit:'' @ k"
    and "\<And>n. first \<le> n \<Longrightarrow> n < finish \<Longrightarrow> wo_now (en_world E n) < T"
  shows "redis_keeps E (token_held held key T first finish)"
proof -
  note cmd = token_held_redis_cmd [OF assms(3)]
  note laws = replay_lawsD [OF assms(1)]
  have world: "preserves (token_held held key T first finish) (world E)"
    by (auto simp: preserves_def token_held_def world_def)
  have connection: "preserves (token_held held key T first finish) (redis_connection E)"
    unfolding redis_connection_def by (intro preserves_intros world)
  show ?thesis
    unfolding redis_keeps_def
  proof (intro conjI allI impI)
    show "preserves (token_held held key T first finish) (enforce_rate_limit E k limit w)" for k limit w
      unfolding enforce_rate_limit_def Let_def
      by (intro preserves_intros connection cmd laws(4,6) assms(2)[symmetric])
    show "preserves (token_held held key T first finish) (reserve_replay_token E m token ttl)" for m token ttl
      unfolding reserve_replay_token_def Let_def by (intro preserves_intros connection cmd laws(3))
    show "preserves (token_held held key T first finish) (ping_redis E)"
      unfolding ping_redis_def by (intro preserves_intros connection cmd laws(5))
  qed (auto simp: token_held_def)
qed

lemma tick_kept: "redis_keeps E (\<lambda>s. n \<le> rl_tick s)"
proof -
  have cmd: "preserves (\<lambda>s. n \<le> rl_tick s) (redis_cmd E what f)" for what and f :: "time \<Rightarrow> 'a \<Rightarrow> 'b option \<times> 'a"
    by (auto simp: preserves_def redis_cmd_def world_then_run Let_def split: prod.splits)
  have connection: "preserves (\<lambda>s. n \<le> rl_tick s) (redis_connection E)"
    by (auto simp: preserves_def redis_connection_def world_then_run)
  show ?thesis
    unfolding redis_keeps_def enforce_rate_limit_def reserve_replay_token_def ping_redis_def Let_def
    by (intro conjI allI impI preserves_intros connection cmd; simp)
qed


section \<open>A submission in two halves\<close>

text \<open>\<open>submit_message\<close> up to its replay reservation, and what follows an accepted reservation.\<close>

definition replay_ttl :: "'r relay_env \<Rightarrow> submit_message_request \<Rightarrow> int" where
  "replay_ttl E req = i64_add (unwrap_or (sm_ttl_seconds req) (cf_default_ttl_seconds (en_config E)))
     (cf_replay_ttl_margin_seconds (en_config E))"

definition submit_checks :: "'r relay_env \<Rightarrow> string \<Rightarrow> submit_message_request \<Rightarrow> ('r, bytes) relay_action" where
  "submit_checks E m req =
     act_then (act_lift (validate_mailbox_id m)) (\<lambda>_.
     act_then (ensure_mailbox_exists E m) (\<lambda>_.
     act_then (act_lift (validate_ciphertext (crypto_of E) (sm_ciphertext_b64 req)
       (cf_max_ciphertext_bytes (en_config E)))) (\<lambda>ciphertext.
     act_then (act_lift (validate_sender_device_hint (sm_sender_device_hint req))) (\<lambda>_.
     act_then (act_lift (validate_replay_token (sm_replay_token req))) (\<lambda>_.
     act_then (enforce_rate_limit E (''submit:'' @ m) (cf_submit_rate_limit_per_minute (en_config E)) 60) (\<lambda>_.
     act_then (act_lift (validate_ttl (cf_min_ttl_seconds (en_config E)) (cf_max_ttl_seconds (en_config E))
       (unwrap_or (sm_ttl_seconds req) (cf_default_ttl_seconds (en_config E))))) (\<lambda>_.
     act_ok ciphertext)))))))"

definition submit_store ::
    "'r relay_env \<Rightarrow> string \<Rightarrow> submit_message_request \<Rightarrow> bytes \<Rightarrow> ('r, nat \<times> submit_message_response) relay_action" where
  "submit_store E m req ciphertext =
     act_then (utc_now E) (\<lambda>received_at.
     act_then (uuid_or_new E (sm_message_id req)) (\<lambda>message_id.
     act_then (add_seconds E received_at (unwrap_or (sm_ttl_seconds req) (cf_default_ttl_seconds (en_config E)))) (\<lambda>expires_at.
     act_then (run_sql E (insert_message
       \<lparr> ms_message_id = message_id, ms_mailbox_id = m, ms_sender_device_hint = sm_sender_device_hint req,
         ms_ciphertext = ciphertext, ms_received_at = lb_pg_time (en_lib E) received_at,
         ms_expires_at = lb_pg_time (en_lib E) expires_at, ms_deleted_at = None \<rparr>)) (\<lambda>result.
     case result of
       Inr _ \<Rightarrow> act_ok (202, \<lparr> sr_message_id = message_id, sr_expires_at = expires_at \<rparr>)
     | Inl e \<Rightarrow>
         if is_unique_violation e then act_err (Conflict ''message_id already exists'')
         else act_err (dependency ''message persistence failed'' e)))))"

lemma submit_message_halves:
  "submit_message E m req =
     act_then (submit_checks E m req) (\<lambda>ciphertext.
     act_then (reserve_replay_token E m (sm_replay_token req) (replay_ttl E req)) (\<lambda>reserved.
     if \<not> reserved then act_err (Conflict ''duplicate replay_token'') else submit_store E m req ciphertext))"
  by (simp only: submit_message_def submit_checks_def submit_store_def replay_ttl_def act_then_assoc act_then_ok Let_def)

lemma submit_checks_keep:
  "preserves (on_db J) (submit_checks E m req)"
  "redis_keeps E I \<Longrightarrow> preserves I (submit_checks E m req)"
  unfolding submit_checks_def by (intro preserves_intros redis_intros; simp)+

lemma submit_store_redis:
  "submit_store E m req c s = (r, t) \<Longrightarrow> rl_redis t = rl_redis s \<and> rl_tick s \<le> rl_tick t"
  by (auto simp: submit_store_def utc_now_def uuid_or_new_def new_uuid_def add_seconds_def run_sql_def
      act_then_run world_def split: option.splits sum.splits prod.splits if_splits)

lemma reserve_tick: "reserve_replay_token E m token ttl s = (Inr b, t) \<Longrightarrow> rl_tick t = Suc (Suc (rl_tick s))"
  by (auto simp: reserve_replay_token_def redis_connection_def redis_cmd_def act_then_run world_def Let_def
      split: if_splits prod.splits option.splits)

lemma reserve_held:
  assumes "replay_laws (en_redis E) held second" "0 < ttl"
    and "reserve_replay_token E m token ttl s = (Inr True, t)"
  shows "held (rl_redis t) (replay_key m token) (wo_now (en_world E (Suc (rl_tick s))) + ttl * second)"
  using assms(3) replay_lawsD(1) [OF assms(1,2)]
  by (auto simp: reserve_replay_token_def redis_connection_def redis_cmd_def act_then_run world_def Let_def
      replay_key_def split: if_splits prod.splits option.splits)

lemma reserve_refused:
  assumes "replay_laws (en_redis E) held second" "held (rl_redis s) (replay_key m token) T"
    and "wo_now (en_world E (Suc (rl_tick s))) < T"
  shows "fst (reserve_replay_token E m token ttl s) \<noteq> Inr True"
  using replay_lawsD(2) [OF assms(1,2,3)]
  by (auto simp: reserve_replay_token_def redis_connection_def redis_cmd_def act_then_run world_def Let_def
      replay_key_def split: if_splits prod.splits option.splits) (metis fst_conv)

text \<open>C35: While Redis holds the replay token of an accepted message (the message's lifetime and the configured
  margin), every further submission with that token to the mailbox is answered by an error and stores nothing,
  whatever other requests and cleanup rounds lie in between and whichever calls fail.\<close>

theorem relay_replay_refused:
  assumes "replay_laws (en_redis E) held second"
    and "submit_message E m req s = (Inr x, t)" and "0 < replay_ttl E req"
    and "sm_replay_token req' = sm_replay_token req"
    and "submit_message E m req' (after_events E evs t) = (r, u)"
    and clock: "\<And>k n. rl_tick s \<le> k \<Longrightarrow> k < rl_tick t \<Longrightarrow> k < n \<Longrightarrow> n < rl_tick u \<Longrightarrow>
       wo_now (en_world E n) < wo_now (en_world E k) + replay_ttl E req * second"
  shows "(\<exists>e. r = Inl e) \<and> rl_db u = rl_db (after_events E evs t)"
proof -
  let ?key = "replay_key m (sm_replay_token req)"
  obtain c s1 s2 where checks: "submit_checks E m req s = (Inr c, s1)"
    and reserve: "reserve_replay_token E m (sm_replay_token req) (replay_ttl E req) s1 = (Inr True, s2)"
    and store: "submit_store E m req c s2 = (Inr x, t)"
    using assms(2) by (auto simp: submit_message_halves result_simps split: if_splits)
  let ?k = "Suc (rl_tick s1)"
  let ?T = "wo_now (en_world E ?k) + replay_ttl E req * second"
  have tick1: "rl_tick s \<le> rl_tick s1"
    using preservesD [OF submit_checks_keep(2) [OF tick_kept], of "rl_tick s" s E m req] checks by simp
  note held = reserve_held [OF assms(1,3) reserve] reserve_tick [OF reserve] submit_store_redis [OF store]
  have "?k < rl_tick t" using held by simp
  have before: "wo_now (en_world E n) < ?T" if "?k < n" "n < rl_tick u" for n
    using clock [of ?k n] that tick1 \<open>?k < rl_tick t\<close> by simp
  let ?I = "token_held held ?key ?T (rl_tick t) (rl_tick u)"
  have kept: "redis_keeps E ?I"
    by (rule token_held_kept [OF assms(1)]) (use before \<open>?k < rl_tick t\<close> in \<open>auto simp: replay_key_def\<close>)
  have "?I t" using held by (simp add: token_held_def)
  then have I: "?I (after_events E evs t)" by (rule redis_after_events [OF kept])
  show ?thesis
  proof (cases "submit_checks E m req' (after_events E evs t)")
    case (Pair q v)
    have db: "rl_db v = rl_db (after_events E evs t)"
      using same_db [OF submit_checks_keep(1) Pair] .
    show ?thesis
    proof (cases q)
      case (Inl e)
      then show ?thesis using assms(5) Pair db by (auto simp: submit_message_halves)
    next
      case (Inr c')
      have "?I v"
        using preservesD [OF submit_checks_keep(2) [OF kept] I, of m req'] Pair by simp
      obtain b w where w: "reserve_replay_token E m (sm_replay_token req) (replay_ttl E req') v = (b, w)"
        by fastforce
      have "b \<noteq> Inr True"
      proof
        assume b: "b = Inr True"
        then have "submit_store E m req' c' w = (r, u)"
          using assms(4,5) Pair Inr w by (simp add: submit_message_halves)
        then have "Suc (rl_tick v) < rl_tick u"
          using submit_store_redis reserve_tick [OF w [unfolded b]] by fastforce
        with reserve_refused [OF assms(1), of v m "sm_replay_token req" ?T "replay_ttl E req'"] w b \<open>?I v\<close>
          before [of "Suc (rl_tick v)"] \<open>?k < rl_tick t\<close>
        show False by (simp add: token_held_def)
      qed
      moreover have "rl_db w = rl_db v"
        using same_db [OF db_redis(4) w] .
      ultimately show ?thesis
        using assms(4,5) Pair Inr w db
        by (cases b) (auto simp: submit_message_halves act_then_run)
    qed
  qed
qed


text \<open>The witness: the message of \<open>Relay_Delivery\<close>, submitted a second time after a health check.\<close>

lemma demo_replay_laws:
  "replay_laws demo_redis_api (\<lambda>r k T. list_ex (\<lambda>(k', e). k' = k \<and> T \<le> e) r) 1"
  by (auto simp: replay_laws_def demo_redis_api_def list_ex_iff split: if_splits)

theorem relay_replay_refused_witness:
  "\<exists>e u. submit_message demo_env bob_id demo_message (after_events demo_env [Request Healthz] demo_submitted) = (Inl e, u) \<and>
     rl_db u = rl_db (after_events demo_env [Request Healthz] demo_submitted)"
proof -
  obtain r u where run: "submit_message demo_env bob_id demo_message
      (after_events demo_env [Request Healthz] demo_submitted) = (r, u)" by fastforce
  have laws: "replay_laws (en_redis demo_env) (\<lambda>r k T. list_ex (\<lambda>(k', e). k' = k \<and> T \<le> e) r) 1"
    using demo_replay_laws by (simp add: demo_env_def)
  have ttl: "replay_ttl demo_env demo_message = 605100"
    by (simp add: replay_ttl_def demo_message_def demo_config_def unwrap_or_def i64_add_def)
  from relay_replay_refused [OF laws demo_submit _ refl run] run show ?thesis
    by (auto simp: ttl demo_steps)
qed

end
