(* ===== verification/Relay_Rate.thy ===== *)
theory Relay_Rate
  imports Relay_Replay
begin

text \<open>
  The submission rate limit: while a counting window is open, no more messages get into a mailbox than
  the configured number, over any interleaving with other requests.
\<close>

section \<open>What the relay relies on in Redis\<close>

text \<open>
  \<open>counts r k T c\<close>: the key holds an integer of at least \<open>c\<close> and does not expire before \<open>T\<close>.
  \<^verbatim>\<open>INCR\<close> adds one and answers with the new value; no command on another key changes it.
\<close>

definition rate_laws :: "'r redis_api \<Rightarrow> ('r \<Rightarrow> string \<Rightarrow> time \<Rightarrow> int \<Rightarrow> bool) \<Rightarrow> bool" where
  "rate_laws api counts \<longleftrightarrow>
     (\<forall>r k T c c'. counts r k T c \<longrightarrow> c' \<le> c \<longrightarrow> counts r k T c') \<and>
     (\<forall>r k T c now. counts r k T c \<longrightarrow> now < T \<longrightarrow>
        counts (snd (rd_incr api now k r)) k T (c + 1) \<and> (\<forall>v. fst (rd_incr api now k r) = Some v \<longrightarrow> c < v)) \<and>
     (\<forall>r k T c now k' x n. counts r k T c \<longrightarrow> now < T \<longrightarrow>
        counts (snd (rd_ping api now r)) k T c \<and>
        (k' \<noteq> k \<longrightarrow> counts (snd (rd_incr api now k' r)) k T c \<and> counts (snd (rd_expire api now k' n r)) k T c \<and>
           counts (snd (rd_set_nx_ex api now k' x n r)) k T c))"

lemma rate_lawsD:
  assumes "rate_laws api counts"
  shows "counts r k T c \<Longrightarrow> c' \<le> c \<Longrightarrow> counts r k T c'"
    and "counts r k T c \<Longrightarrow> now < T \<Longrightarrow> counts (snd (rd_incr api now k r)) k T (c + 1)"
    and "counts r k T c \<Longrightarrow> now < T \<Longrightarrow> fst (rd_incr api now k r) = Some v \<Longrightarrow> c < v"
    and "counts r k T c \<Longrightarrow> now < T \<Longrightarrow> counts (snd (rd_ping api now r)) k T c"
    and "counts r k T c \<Longrightarrow> now < T \<Longrightarrow> k' \<noteq> k \<Longrightarrow> counts (snd (rd_incr api now k' r)) k T c"
    and "counts r k T c \<Longrightarrow> now < T \<Longrightarrow> k' \<noteq> k \<Longrightarrow> counts (snd (rd_expire api now k' n r)) k T c"
    and "counts r k T c \<Longrightarrow> now < T \<Longrightarrow> k' \<noteq> k \<Longrightarrow> counts (snd (rd_set_nx_ex api now k' x n r)) k T c"
  using assms unfolding rate_laws_def by blast+

definition counted ::
    "('r \<Rightarrow> string \<Rightarrow> time \<Rightarrow> int \<Rightarrow> bool) \<Rightarrow> string \<Rightarrow> time \<Rightarrow> nat \<Rightarrow> nat \<Rightarrow> int \<Rightarrow> 'r relay_state \<Rightarrow> bool" where
  "counted counts key T first finish c s \<longleftrightarrow>
     first \<le> rl_tick s \<and> (rl_tick s \<le> finish \<longrightarrow> counts (rl_redis s) key T c)"

lemma redis_cmd_run:
  assumes "redis_cmd E what f s = (r, t)"
  shows "rl_tick t = Suc (rl_tick s)" "rl_db t = rl_db s"
    "rl_redis t = rl_redis s \<and> \<not> is_ok r \<or> rl_redis t = snd (f (wo_now (en_world E (rl_tick s))) (rl_redis s))"
    "r = Inr a \<Longrightarrow> fst (f (wo_now (en_world E (rl_tick s))) (rl_redis s)) = Some a"
  using assms
  by (auto simp: redis_cmd_def world_then_run Let_def split: prod.splits if_splits option.splits)

lemma counted_redis_cmd:
  assumes "\<And>n. first \<le> n \<Longrightarrow> n < finish \<Longrightarrow> wo_now (en_world E n) < T"
    and "\<And>now r. counts r key T c \<Longrightarrow> now < T \<Longrightarrow> counts (snd (f now r)) key T c"
  shows "preserves (counted counts key T first finish c) (redis_cmd E what f)"
proof (rule preservesI)
  fix s assume I: "counted counts key T first finish c s"
  obtain r t where run: "redis_cmd E what f s = (r, t)" by fastforce
  with I redis_cmd_run(1,3) [OF run] assms show "counted counts key T first finish c (snd (redis_cmd E what f s))"
    by (auto simp: counted_def)
qed

text \<open>The limiter after its increment.\<close>

definition limit_check :: "'r relay_env \<Rightarrow> string \<Rightarrow> u32 \<Rightarrow> int \<Rightarrow> int \<Rightarrow> ('r, unit) relay_action" where
  "limit_check E key limit window count =
     act_then
       (if count = 1
        then act_then (redis_cmd E ''redis rate-limit expiry failed''
               (\<lambda>now. rd_expire (en_redis E) now key window)) (\<lambda>_. act_ok ())
        else act_ok ()) (\<lambda>_.
     if int (unat limit) < count then act_err (TooManyRequests ''rate limit exceeded'') else act_ok ())"

lemma enforce_rate_limit_steps:
  "enforce_rate_limit E k limit window =
     act_then (redis_connection E) (\<lambda>_.
     act_then (redis_cmd E ''redis rate-limit increment failed'' (\<lambda>now. rd_incr (en_redis E) now (''relay:limit:'' @ k)))
       (limit_check E (''relay:limit:'' @ k) limit window))"
  by (simp only: enforce_rate_limit_def limit_check_def [abs_def] Let_def)

lemma limit_check_later:
  "count \<noteq> 1 \<Longrightarrow> limit_check E key limit window count s =
     (if int (unat limit) < count then Inl (TooManyRequests ''rate limit exceeded'') else Inr (), s)"
  by (simp add: limit_check_def act_then_ok)

lemma limit_check_first:
  assumes "limit_check E key limit window 1 s = (r, t)"
  shows "rl_tick s < rl_tick t"
proof -
  obtain q v where cmd: "redis_cmd E ''redis rate-limit expiry failed'' (\<lambda>now. rd_expire (en_redis E) now key window) s = (q, v)"
    by fastforce
  with assms have "t = v" by (cases q) (auto simp: limit_check_def act_then_run split: if_splits)
  with redis_cmd_run(1) [OF cmd] show ?thesis by simp
qed

text \<open>The limiter on the key that is counted.\<close>

lemma enforce_counts:
  assumes laws: "rate_laws (en_redis E) counts" and c: "1 \<le> c"
    and clock: "\<And>n. first \<le> n \<Longrightarrow> n < finish \<Longrightarrow> wo_now (en_world E n) < T"
    and key: "key = ''relay:limit:'' @ k"
    and I: "counted counts key T first finish c s"
    and run: "enforce_rate_limit E k limit w s = (r, t)"
  shows "counted counts key T first finish c t \<and>
    (r = Inr () \<and> rl_tick t \<le> finish \<longrightarrow>
       counted counts key T first finish (c + 1) t \<and> c < int (unat limit))"
proof -
  have steps: "enforce_rate_limit E k limit w =
     act_then (redis_connection E) (\<lambda>_.
     act_then (redis_cmd E ''redis rate-limit increment failed'' (\<lambda>now. rd_incr (en_redis E) now key))
       (limit_check E key limit w))"
    by (simp only: enforce_rate_limit_steps key)
  let ?s = "s\<lparr>rl_tick := Suc (rl_tick s)\<rparr>"
  obtain q v where cmd: "redis_cmd E ''redis rate-limit increment failed'' (\<lambda>now. rd_incr (en_redis E) now key) ?s = (q, v)"
    by fastforce
  note v = redis_cmd_run [OF cmd, simplified]
  have start: "first \<le> rl_tick s" "rl_tick s \<le> finish \<Longrightarrow> counts (rl_redis s) key T c"
    using I by (simp_all add: counted_def)
  have now: "wo_now (en_world E (Suc (rl_tick s))) < T" if "rl_tick v \<le> finish"
    using clock that start(1) v(1) by simp
  have held: "counts (rl_redis s) key T c" if "rl_tick v \<le> finish"
    using start(2) that v(1) by simp
  have incr: "counts (snd (rd_incr (en_redis E) (wo_now (en_world E (Suc (rl_tick s)))) key (rl_redis s))) key T (c + 1)"
    if "rl_tick v \<le> finish"
    by (rule rate_lawsD(2) [OF laws held [OF that] now [OF that]])
  have more: "c < count" if "q = Inr count" "rl_tick v \<le> finish" for count
    by (rule rate_lawsD(3) [OF laws held [OF that(2)] now [OF that(2)]]) (rule v(4) [OF that(1)])
  have counts: "counts (rl_redis v) key T c" "is_ok q \<Longrightarrow> counts (rl_redis v) key T (c + 1)"
    if "rl_tick v \<le> finish"
  proof -
    have "counts (snd (rd_incr (en_redis E) (wo_now (en_world E (Suc (rl_tick s)))) key (rl_redis s))) key T c"
      using rate_lawsD(1) [OF laws incr [OF that]] by simp
    then show "counts (rl_redis v) key T c" "is_ok q \<Longrightarrow> counts (rl_redis v) key T (c + 1)"
      using v(3) start(2) that v(1) incr [OF that] by (metis Suc_leD)+
  qed
  show ?thesis
  proof (cases "wo_fails (en_world E (rl_tick s))")
    case True
    then show ?thesis
      using run start by (auto simp: steps redis_connection_def act_then_run world_def counted_def)
  next
    case False
    then have rest: "act_then (redis_cmd E ''redis rate-limit increment failed'' (\<lambda>now. rd_incr (en_redis E) now key))
        (limit_check E key limit w) ?s = (r, t)"
      using run by (simp add: steps redis_connection_def act_then_run world_def)
    show ?thesis
    proof (cases q)
      case (Inl e)
      with rest cmd have "r = Inl e" "t = v" by (auto simp: act_then_run)
      with start v(1) counts(1) show ?thesis by (simp add: counted_def)
    next
      case (Inr count)
      with rest cmd have tail: "limit_check E key limit w count v = (r, t)" by (simp add: act_then_run)
      show ?thesis
      proof (cases "count = 1")
        case True
        then have "rl_tick v < rl_tick t" using limit_check_first tail by blast
        moreover have "\<not> rl_tick v \<le> finish" using more [OF Inr] c True by fastforce
        ultimately show ?thesis using start v(1) by (simp add: counted_def)
      next
        case False
        then have t: "t = v" "r = Inr () \<Longrightarrow> count \<le> int (unat limit)"
          using tail by (auto simp: limit_check_later split: if_splits)
        have "is_ok q" using Inr by simp
        with t start v(1) counts more [OF Inr] show ?thesis by (auto simp: counted_def)
      qed
    qed
  qed
qed


lemma counted_kept:
  assumes laws: "rate_laws (en_redis E) counts" and c: "1 \<le> c"
    and clock: "\<And>n. first \<le> n \<Longrightarrow> n < finish \<Longrightarrow> wo_now (en_world E n) < T"
    and key: "key = ''relay:limit:'' @ k"
  shows "redis_keeps E (counted counts key T first finish c)"
proof -
  note cmd = counted_redis_cmd [OF clock] and keep = rate_lawsD [OF laws]
  have world: "preserves (counted counts key T first finish c) (world E)"
    by (auto simp: preserves_def counted_def world_def)
  have connection: "preserves (counted counts key T first finish c) (redis_connection E)"
    unfolding redis_connection_def by (intro preserves_intros world)
  show ?thesis
    unfolding redis_keeps_def
  proof (intro conjI allI impI)
    show "preserves (counted counts key T first finish c) (enforce_rate_limit E k' limit w)" for k' limit w
    proof (cases "k' = k")
      case True
      show ?thesis
      proof (rule preservesI)
        fix s assume "counted counts key T first finish c s"
        moreover obtain r t where "enforce_rate_limit E k' limit w s = (r, t)" by fastforce
        ultimately show "counted counts key T first finish c (snd (enforce_rate_limit E k' limit w s))"
          using enforce_counts [OF laws c clock key, where s = s and limit = limit and w = w] True by simp
      qed
    next
      case False
      then have other: "''relay:limit:'' @ k' \<noteq> key" by (simp add: key)
      show ?thesis
        unfolding enforce_rate_limit_steps limit_check_def
        by (intro preserves_intros connection cmd keep(5,6) other)
    qed
    show "preserves (counted counts key T first finish c) (reserve_replay_token E m token ttl)" for m token ttl
      unfolding reserve_replay_token_def Let_def
      by (intro preserves_intros connection cmd keep(7)) (simp_all add: key)
    show "preserves (counted counts key T first finish c) (ping_redis E)"
      unfolding ping_redis_def by (intro preserves_intros connection cmd keep(4))
  qed (auto simp: counted_def)
qed

section \<open>The limit\<close>

text \<open>The messages that the events put into a mailbox.\<close>

fun accepted_submission :: "'r relay_env \<Rightarrow> string \<Rightarrow> relay_event \<Rightarrow> 'r relay_state \<Rightarrow> bool" where
  "accepted_submission E m (Request (SubmitMessage m' req)) s = (m' = m \<and> is_ok (fst (submit_message E m req s)))"
| "accepted_submission E m ev s = False"

fun accepted_submissions :: "'r relay_env \<Rightarrow> string \<Rightarrow> relay_event list \<Rightarrow> 'r relay_state \<Rightarrow> nat" where
  "accepted_submissions E m [] s = 0"
| "accepted_submissions E m (ev # evs) s =
     (if accepted_submission E m ev s then 1 else 0) + accepted_submissions E m evs (after_event E ev s)"


lemma tick_after_events: "rl_tick s \<le> rl_tick (after_events E evs s)"
  using redis_after_events [OF tick_kept, of "rl_tick s" s E evs] by simp

lemma submit_store_keep: "redis_keeps E I \<Longrightarrow> preserves I (submit_store E m req c)"
  unfolding submit_store_def by (intro preserves_intros redis_intros; simp)

lemma submit_counts:
  assumes laws: "rate_laws (en_redis E) counts" and c: "1 \<le> c"
    and clock: "\<And>n. first \<le> n \<Longrightarrow> n < finish \<Longrightarrow> wo_now (en_world E n) < T"
    and key: "key = ''relay:limit:'' @ ''submit:'' @ m"
    and I: "counted counts key T first finish c s"
    and run: "submit_message E m req s = (Inr x, t)" and t: "rl_tick t \<le> finish"
  shows "counted counts key T first finish (c + 1) t \<and> c < int (unat (cf_submit_rate_limit_per_minute (en_config E)))"
proof -
  obtain ciphertext s1 s2 s3 where r: "submit_checks E m req s = (Inr ciphertext, s2)"
      "reserve_replay_token E m (sm_replay_token req) (replay_ttl E req) s2 = (Inr True, s3)"
      "submit_store E m req ciphertext s3 = (Inr x, t)"
    and s1: "ensure_mailbox_exists E m s = (Inr (), s1)"
      "enforce_rate_limit E (''submit:'' @ m) (cf_submit_rate_limit_per_minute (en_config E)) 60 s1 = (Inr (), s2)"
    using run by (auto simp: submit_message_halves submit_checks_def result_simps split: if_splits)
  have kept: "redis_keeps E (counted counts key T first finish d)" if "1 \<le> d" for d
    by (rule counted_kept [OF laws that clock key])
  have "counted counts key T first finish c s1"
    using preservesD [OF redis_auth(1) [OF kept [OF c]] I, of m] s1(1) by simp
  moreover have "rl_tick s2 \<le> finish"
    using reserve_tick [OF r(2)] submit_store_redis [OF r(3)] t by simp
  ultimately have s2: "counted counts key T first finish (c + 1) s2"
    "c < int (unat (cf_submit_rate_limit_per_minute (en_config E)))"
    using enforce_counts [OF laws c clock key _ s1(2)] by auto
  have "counted counts key T first finish (c + 1) s3"
    using preservesD [OF redis_commands(2) [OF kept] s2(1), of m "sm_replay_token req" "replay_ttl E req"] r(2) c by simp
  then have "counted counts key T first finish (c + 1) t"
    using preservesD [OF submit_store_keep [OF kept], of "c + 1" s3 m req ciphertext] r(3) c by simp
  with s2(2) show ?thesis by simp
qed

lemma accepted_event:
  assumes "accepted_submission E m ev s"
  obtains req x where "ev = Request (SubmitMessage m req)" "submit_message E m req s = (Inr x, after_event E ev s)"
proof -
  obtain req where ev: "ev = Request (SubmitMessage m req)" and ok: "is_ok (fst (submit_message E m req s))"
    using assms by (cases "(E, m, ev, s)" rule: accepted_submission.cases) auto
  then obtain x t where "submit_message E m req s = (Inr x, t)"
    by (cases "submit_message E m req s") (auto simp: is_ok_iff)
  with ev show thesis by (intro that [of req x]) (simp_all add: reply_with_def)
qed

lemma accepted_bound:
  assumes laws: "rate_laws (en_redis E) counts"
    and clock: "\<And>n. first \<le> n \<Longrightarrow> n < finish \<Longrightarrow> wo_now (en_world E n) < T"
    and key: "key = ''relay:limit:'' @ ''submit:'' @ m"
    and "1 \<le> c" "counted counts key T first finish c s" "rl_tick (after_events E evs s) \<le> finish"
  shows "c + int (accepted_submissions E m evs s)
     \<le> max c (int (unat (cf_submit_rate_limit_per_minute (en_config E))))"
  using assms(4-)
proof (induction evs arbitrary: c s)
  case (Cons ev evs)
  let ?s = "after_event E ev s" and ?limit = "int (unat (cf_submit_rate_limit_per_minute (en_config E)))"
  have tick: "rl_tick (after_events E evs ?s) \<le> finish" using Cons.prems(3) by simp
  show ?case
  proof (cases "accepted_submission E m ev s")
    case True
    then obtain req x where run: "submit_message E m req s = (Inr x, ?s)" by (rule accepted_event)
    have "rl_tick ?s \<le> finish" using tick tick_after_events [of ?s E evs] by simp
    then have "counted counts key T first finish (c + 1) ?s" "c < ?limit"
      using submit_counts [OF laws Cons.prems(1) clock key Cons.prems(2) run] by simp_all
    with Cons.IH [of "c + 1" ?s] Cons.prems(1) tick True show ?thesis by simp
  next
    case False
    have "counted counts key T first finish c ?s"
      by (rule redis_after_event [OF counted_kept [OF laws Cons.prems(1) clock key] Cons.prems(2)])
    with Cons.IH [of c ?s] Cons.prems(1) tick False show ?thesis by simp
  qed
qed simp

text \<open>C36: While the counting window of a mailbox is open (its Redis counter was started and does not expire
  before \<open>T\<close>), the requests and cleanup rounds of a run that ends before \<open>T\<close> put at most one message less than
  the configured submission limit into the mailbox (none when the limit is 0), whatever else the run contains and whichever calls fail.\<close>

theorem relay_submissions_limited:
  assumes "rate_laws (en_redis E) counts"
    and "counts (rl_redis s) (''relay:limit:submit:'' @ m) T 1"
    and "\<And>n. rl_tick s \<le> n \<Longrightarrow> n < rl_tick (after_events E evs s) \<Longrightarrow> wo_now (en_world E n) < T"
  shows "accepted_submissions E m evs s \<le> unat (cf_submit_rate_limit_per_minute (en_config E)) - 1"
proof -
  have I: "counted counts (''relay:limit:submit:'' @ m) T (rl_tick s) (rl_tick (after_events E evs s)) 1 s"
    using assms(2) by (simp add: counted_def)
  have "1 + int (accepted_submissions E m evs s) \<le> max 1 (int (unat (cf_submit_rate_limit_per_minute (en_config E))))"
    by (rule accepted_bound [OF assms(1) assms(3) _ _ I]) simp_all
  then show ?thesis by linarith
qed

text \<open>
  The witness: a Redis with values and expiry times, a limit of one message a minute, and a mailbox that
  has had its message.
\<close>

type_synonym counting_redis = "string \<Rightarrow> (int \<times> time option) option"

definition alive_entry :: "time \<Rightarrow> (int \<times> time option) option \<Rightarrow> bool" where
  "alive_entry now entry = (case entry of None \<Rightarrow> False | Some (v, e) \<Rightarrow> (case e of None \<Rightarrow> True | Some t \<Rightarrow> now < t))"

definition counting_redis_api :: "counting_redis redis_api" where
  "counting_redis_api =
     \<lparr> rd_incr = (\<lambda>now k r. if alive_entry now (r k)
          then (Some (fst (the (r k)) + 1), r(k \<mapsto> (fst (the (r k)) + 1, snd (the (r k)))))
          else (Some 1, r(k \<mapsto> (1, None)))),
       rd_expire = (\<lambda>now k n r. if alive_entry now (r k) then (Some (), r(k \<mapsto> (fst (the (r k)), Some (now + n))))
          else (Some (), r)),
       rd_set_nx_ex = (\<lambda>now k v n r. if alive_entry now (r k) then (Some False, r)
          else (Some True, r(k \<mapsto> (1, Some (now + n))))),
       rd_ping = (\<lambda>now r. (Some ''PONG'', r)) \<rparr>"

definition entry_counts :: "counting_redis \<Rightarrow> string \<Rightarrow> time \<Rightarrow> int \<Rightarrow> bool" where
  "entry_counts r k T c = (case r k of None \<Rightarrow> False
     | Some (v, e) \<Rightarrow> c \<le> v \<and> (case e of None \<Rightarrow> True | Some t \<Rightarrow> T \<le> t))"

lemma counting_rate_laws: "rate_laws counting_redis_api entry_counts"
  unfolding rate_laws_def counting_redis_api_def entry_counts_def alive_entry_def
  by (auto split: option.splits prod.splits)

definition limited_env :: "counting_redis relay_env" where
  "limited_env = \<lparr> en_config = demo_config\<lparr>cf_submit_rate_limit_per_minute := 1\<rparr>, en_lib = demo_lib,
     en_world = en_world demo_env, en_redis = counting_redis_api \<rparr>"

theorem relay_submissions_limited_witness:
  "accepted_submissions limited_env bob_id [Request (SubmitMessage bob_id demo_message), CleanupTick]
     \<lparr> rl_db = demo_db, rl_redis = [''relay:limit:submit:'' @ bob_id \<mapsto> (1, Some 2000)], rl_tick = 0 \<rparr> = 0"
  using relay_submissions_limited [of limited_env entry_counts
      "\<lparr> rl_db = demo_db, rl_redis = [''relay:limit:submit:'' @ bob_id \<mapsto> (1, Some 2000)], rl_tick = 0 \<rparr>"
      bob_id 2000 "[Request (SubmitMessage bob_id demo_message), CleanupTick]"]
  by (simp add: limited_env_def counting_rate_laws entry_counts_def demo_steps)

end
