(* ===== verification/Relay_Liveness.thy ===== *)
theory Relay_Liveness
  imports Relay_Authorization Relay_Rate
begin

text \<open>
  Entitled reads are answered: the converse of the refusal of requests without entitlement.
\<close>

text \<open>An action that always succeeds.\<close>

definition works :: "('r, 'a) relay_action \<Rightarrow> bool" where
  "works m \<longleftrightarrow> (\<forall>s. is_ok (fst (m s)))"

named_theorems works_intros \<open>rules for showing that an action succeeds\<close>

lemma works_ok [works_intros]: "works (act_ok a)"
  by (simp add: works_def)

lemma works_then [works_intros]: "works m \<Longrightarrow> (\<And>a. works (f a)) \<Longrightarrow> works (act_then m f)"
  unfolding works_def by (auto simp: is_ok_iff act_then_run split: prod.splits sum.splits)
    (metis fst_conv sum.distinct(1))

lemma works_if [works_intros]: "(b \<Longrightarrow> works m) \<Longrightarrow> (\<not> b \<Longrightarrow> works n) \<Longrightarrow> works (if b then m else n)"
  by simp

lemma works_sql_read [works_intros]: "reliable E \<Longrightarrow> works (sql E what (sql_read f))"
  by (simp add: works_def reliable_sql_read)

lemma works_clock [works_intros]: "works (utc_now E)"
  by (simp add: works_def utc_now_def act_then_run world_def)

lemma works_feed_loop [works_intros]: "reliable E \<Longrightarrow> works (assemble_posts E m ps g v)"
proof (induction ps arbitrary: g v)
  case Nil
  show ?case unfolding assemble_posts.simps by (rule works_ok)
next
  case (Cons p ps)
  then show ?case
    unfolding assemble_posts.simps resolve_feed_reply_targets_def by (intro works_intros)
qed

lemma guarded_works:
  assumes "reliable E" "db_keys (rl_db s)" "header_access (crypto_of E) (rl_db s) m h" "validate_mailbox_id m = Inr ()"
    and "\<And>u. works (f u)"
  shows "is_ok (fst (act_then (act_lift (validate_mailbox_id m)) (\<lambda>u. act_then (mailbox_guard E m h) f) s))"
  using assms(4,5) mailbox_guard_complete [OF assms(1-3)] by (simp add: works_def act_then_run)

lemma admin_works:
  assumes "reliable E" "db_keys (rl_db s)" "admin_access E (rl_db s) h admin" "validate_mailbox_id admin = Inr ()"
    and "\<And>u. works (f u)"
  shows "is_ok (fst (act_then (authenticate_admin E h) f s))"
  using assms(5) authenticate_admin_complete [OF assms(1-4)] by (simp add: works_def act_then_run)

text \<open>
  The counter of a rate limit has room for one more request, whatever the time: Redis answers \<^verbatim>\<open>INCR\<close> with a
  number within the limit, and \<^verbatim>\<open>EXPIRE\<close> on the incremented counter.
\<close>

definition has_room :: "'r relay_env \<Rightarrow> string \<Rightarrow> u32 \<Rightarrow> 'r \<Rightarrow> bool" where
  "has_room E namespace limit r \<longleftrightarrow>
     (\<forall>now. \<exists>count r'. rd_incr (en_redis E) now (''relay:limit:'' @ namespace) r = (Some count, r') \<and>
        count \<le> int (unat limit) \<and>
        (\<forall>later. fst (rd_expire (en_redis E) later (''relay:limit:'' @ namespace) 60 r') \<noteq> None))"

lemma enforce_has_room:
  assumes "reliable E" "has_room E k limit (rl_redis s)"
  shows "is_ok (fst (enforce_rate_limit E k limit 60 s))"
proof -
  obtain key where key: "key = ''relay:limit:'' @ k" by blast
  let ?now = "wo_now (en_world E (Suc (rl_tick s)))"
  obtain count r' where r: "rd_incr (en_redis E) ?now key (rl_redis s) = (Some count, r')"
      "count \<le> int (unat limit)" "\<And>later. fst (rd_expire (en_redis E) later key 60 r') \<noteq> None"
    using assms(2) unfolding has_room_def key by blast
  have ok: "\<not> wo_fails (en_world E n)" for n using assms(1) by (simp add: reliable_def)
  have connection: "redis_connection E u = (Inr (), u\<lparr>rl_tick := Suc (rl_tick u)\<rparr>)" for u
    by (simp add: redis_connection_def world_then_run ok)
  have incr: "redis_cmd E what (\<lambda>now. rd_incr (en_redis E) now key) (s\<lparr>rl_tick := Suc (rl_tick s)\<rparr>) =
      (Inr count, s\<lparr>rl_tick := Suc (Suc (rl_tick s)), rl_redis := r'\<rparr>)" for what
    using r(1) by (simp add: redis_cmd_def world_then_run ok)
  have expire: "is_ok (fst (redis_cmd E what (\<lambda>now. rd_expire (en_redis E) now key 60) u))"
    if "rl_redis u = r'" for what u
    using r(3) [of "wo_now (en_world E (rl_tick u))"] that
    by (auto simp: redis_cmd_def world_then_run ok split: prod.splits option.splits)
  have "is_ok (fst (limit_check E key limit 60 count u))" if "rl_redis u = r'" for u
    using expire [OF that, of "''redis rate-limit expiry failed''"] r(2)
    by (auto simp: limit_check_def act_then_run is_ok_iff split: prod.splits sum.splits)
  then show ?thesis
    by (simp add: enforce_rate_limit_steps key [symmetric] connection act_then_run incr del: append_Cons)
qed

lemma list_messages_works:
  assumes "reliable E" "db_keys (rl_db s)" "header_access (crypto_of E) (rl_db s) m h" "validate_mailbox_id m = Inr ()"
    and "has_room E (''retrieve:'' @ m) (cf_retrieve_rate_limit_per_minute (en_config E)) (rl_redis s)"
  shows "is_ok (fst (list_messages E m limit h s))"
proof -
  let ?s = "s\<lparr>rl_tick := Suc (rl_tick s)\<rparr>" and ?limit = "cf_retrieve_rate_limit_per_minute (en_config E)"
  have "is_ok (fst (enforce_rate_limit E (''retrieve:'' @ m) ?limit 60 ?s))"
    using assms(1,5) by (intro enforce_has_room) simp_all
  then obtain u where u: "enforce_rate_limit E (''retrieve:'' @ m) ?limit 60 ?s = (Inr (), u)"
    by (cases "enforce_rate_limit E (''retrieve:'' @ m) ?limit 60 ?s") (auto simp: is_ok_iff)
  show ?thesis
    using assms(4) mailbox_guard_complete [OF assms(1-3)] u
    by (simp add: list_messages_def act_then_run reliable_sql_read [OF assms(1)])
qed

text \<open>The mailbox and the headers of a read of a mailbox.\<close>

fun mailbox_read :: "relay_request \<Rightarrow> (string \<times> headers) option" where
  "mailbox_read (ListContacts m h) = Some (m, h)"
| "mailbox_read (ListFeedPosts m l h) = Some (m, h)"
| "mailbox_read (ListMediaManifests m l h) = Some (m, h)"
| "mailbox_read (ListMessages m l h) = Some (m, h)"
| "mailbox_read req = None"

text \<open>The request is not limited, or its counter has room.\<close>

fun within_limit :: "'r relay_env \<Rightarrow> 'r relay_state \<Rightarrow> relay_request \<Rightarrow> bool" where
  "within_limit E s (ListMessages m l h) =
     has_room E (''retrieve:'' @ m) (cf_retrieve_rate_limit_per_minute (en_config E)) (rl_redis s)"
| "within_limit E s req = True"

text \<open>C20: While Postgres and Redis answer, the owner of a mailbox whose account is not disabled gets the
  contacts, the feed and the media manifests of the mailbox, and its messages too unless the retrieval limit of
  the mailbox is exhausted, and an active administrator gets the overview.\<close>

theorem relay_entitled_reads_answered:
  assumes "reliable E" and "db_ok (rl_db s)"
  shows "(mailbox_read req = Some (m, h) \<and> header_access (crypto_of E) (rl_db s) m h \<and> validate_mailbox_id m = Inr () \<and>
      within_limit E s req \<longrightarrow> is_ok (fst (handle E req s))) \<and>
    (admin_access E (rl_db s) h admin \<and> validate_mailbox_id admin = Inr ()
      \<longrightarrow> is_ok (fst (handle E (AdminOverview h) s)))"
proof (intro conjI impI; elim conjE)
  have keys: "db_keys (rl_db s)" using assms(2) by (simp add: db_ok_def)
  assume m: "mailbox_read req = Some (m, h)" "header_access (crypto_of E) (rl_db s) m h" "validate_mailbox_id m = Inr ()"
    "within_limit E s req"
  note works = guarded_works [OF assms(1) keys m(2,3)] works_intros assms(1)
  show "is_ok (fst (handle E req s))"
  proof (cases req)
    case (ListContacts i g)
    with m(1) have "req = ListContacts m h" by simp
    then show ?thesis
      by (simp only: handle.simps reply_with_def list_contacts_def act_then_assoc) (intro works)
  next
    case (ListFeedPosts i l g)
    with m(1) have "req = ListFeedPosts m l h" by simp
    then show ?thesis
      by (simp only: handle.simps reply_with_def list_feed_posts_def act_then_assoc Let_def) (intro works)
  next
    case (ListMediaManifests i l g)
    with m(1) have "req = ListMediaManifests m l h" by simp
    then show ?thesis
      by (simp only: handle.simps reply_with_def list_media_manifests_def act_then_assoc Let_def) (intro works)
  next
    case (ListMessages i l g)
    with m(1) have req: "req = ListMessages m l h" by simp
    with m(4) have "is_ok (fst (list_messages E m l h s))"
      by (intro list_messages_works assms(1) keys m(2,3)) simp
    with req show ?thesis
      by (auto simp: reply_with_def act_then_run is_ok_iff split: prod.splits sum.splits)
  qed (use m(1) in simp_all)
next
  have keys: "db_keys (rl_db s)" using assms(2) by (simp add: db_ok_def)
  assume "admin_access E (rl_db s) h admin" "validate_mailbox_id admin = Inr ()"
  then show "is_ok (fst (handle E (AdminOverview h) s))"
    unfolding handle.simps reply_with_def admin_overview_def act_then_assoc
    by (rule admin_works [OF assms(1) keys]) (intro works_intros assms(1))
qed

text \<open>The witness: on a Redis that counts, the retrieval after the 239th of the window is answered.\<close>

theorem relay_entitled_reads_answered_witness:
  "let s = \<lparr> rl_db = demo_db, rl_redis = [''relay:limit:retrieve:'' @ bob_id \<mapsto> (239, Some 2000)], rl_tick = 0 \<rparr> in
   is_ok (fst (handle limited_env (ListMessages bob_id None (mailbox_headers bob_token)) s)) \<and>
   is_ok (fst (handle limited_env (AdminOverview admin_headers) s))"
proof -
  let ?s = "\<lparr> rl_db = demo_db, rl_redis = [''relay:limit:retrieve:'' @ bob_id \<mapsto> (239, Some 2000)], rl_tick = 0 \<rparr>"
  have E: "reliable limited_env" "crypto_of limited_env = ref_crypto"
    using demo_reliable by (simp_all add: limited_env_def reliable_def)
  have room: "within_limit limited_env ?s (ListMessages bob_id None (mailbox_headers bob_token))"
    by (simp add: has_room_def limited_env_def counting_redis_api_def alive_entry_def demo_config_def)
  have admin: "admin_access limited_env demo_db admin_headers alice_id"
    using demo_access(2) E
    by (simp add: admin_access_def)
      (simp add: admin_headers_def demo_config_def account_of_def demo_rows limited_env_def)
  show ?thesis
    unfolding Let_def
    using relay_entitled_reads_answered [OF E(1), of ?s
        "ListMessages bob_id None (mailbox_headers bob_token)" bob_id "mailbox_headers bob_token" alice_id]
      relay_entitled_reads_answered [OF E(1), of ?s Healthz bob_id admin_headers alice_id]
      demo_access(1) demo_ok E room admin
    by (simp del: handle.simps within_limit.simps)
qed

end
