(* ===== verification/Relay_Retention.thy ===== *)
theory Relay_Retention
  imports Relay_Prekey_Use Relay_Authorization
begin

text \<open>
  What the relay keeps and what it removes: a cleanup round removes exactly the rows that are dead, and the
  deletion of a managed user leaves no trace of the mailbox and touches nobody else's rows.
\<close>

section \<open>Deletes keep the constraints\<close>

lemma distinct_map_filter_mono:
  "distinct (List.map_filter f xs) \<Longrightarrow> (\<And>x y. x \<in> set xs \<Longrightarrow> g x = Some y \<Longrightarrow> f x = Some y) \<Longrightarrow>
     distinct (List.map_filter g xs)"
proof (induction xs)
  case (Cons x xs)
  note mono = Cons.prems(2)
  have f: "distinct (List.map_filter f xs)"
    using Cons.prems(1) by (cases "f x") (simp_all add: map_filter_simps)
  have g: "distinct (List.map_filter g xs)"
    by (rule Cons.IH [OF f]) (rule mono, simp_all)
  show ?case
  proof (cases "g x")
    case None
    with g show ?thesis by (simp add: map_filter_simps)
  next
    case (Some y)
    then have y: "f x = Some y" using mono by simp
    have "y \<notin> set (List.map_filter g xs)"
    proof
      assume "y \<in> set (List.map_filter g xs)"
      then obtain z where z: "z \<in> set xs" "g z = Some y" by (auto simp: List.map_filter_def)
      then have "f z = Some y" using mono by simp
      with z(1) have "y \<in> set (List.map_filter f xs)" by (force simp: List.map_filter_def image_iff)
      with Cons.prems(1) y show False by (simp add: map_filter_simps)
    qed
    with g Some show ?thesis by (simp add: map_filter_simps)
  qed
qed (simp add: map_filter_simps)

text \<open>Deleting rows that no other table references.\<close>

lemma delete_plain_ok:
  assumes "db_ok d"
  shows "db_ok (d\<lparr>db_messages := filter P (db_messages d)\<rparr>)" "db_ok (d\<lparr>db_replies := filter P1 (db_replies d)\<rparr>)"
    "db_ok (d\<lparr>db_grants := filter P2 (db_grants d)\<rparr>)" "db_ok (d\<lparr>db_otks := filter P3 (db_otks d)\<rparr>)"
    "db_ok (d\<lparr>db_bundles := filter P4 (db_bundles d)\<rparr>)"
  using assms
  by (simp_all add: db_ok_def db_checks_def db_keys_def db_refs_def has_mailbox_def distinct_map_filter cong: option.case_cong)

lemma delete_posts_ok: "db_ok d \<Longrightarrow> db_ok (delete_posts P d)"
  by (simp add: delete_posts_def Let_def db_ok_def db_checks_def db_keys_def db_refs_def has_mailbox_def
      distinct_map_filter cong: option.case_cong)

lemma delete_intents_ok:
  assumes "db_ok d"
  shows "db_ok (delete_intents P d)"
proof -
  let ?alive = "it_intent_id ` set (filter (\<lambda>i. \<not> P i) (db_intents d))"
  let ?f = "\<lambda>b. b\<lparr>ob_intent_id := (case ob_intent_id b of Some i \<Rightarrow> if i \<in> ?alive then Some i else None | None \<Rightarrow> None)\<rparr>"
  have "distinct (List.map_filter (ob_intent_id \<circ> ?f) (db_objects d))"
    by (rule distinct_map_filter_mono [where f = ob_intent_id])
      (use assms in \<open>auto simp: db_ok_def db_keys_def split: option.splits if_splits\<close>)
  then have "distinct (List.map_filter ob_intent_id (map ?f (db_objects d)))"
    by (simp add: List.map_filter_def filter_map comp_def)
  with assms show ?thesis
    by (auto simp: delete_intents_def Let_def db_ok_def db_checks_def db_keys_def db_refs_def has_mailbox_def
        distinct_map_filter comp_def image_image split: option.splits)
qed

section \<open>A cleanup round\<close>

lemma reliable_log_failure:
  assumes "reliable E" "f (wo_now (en_world E (rl_tick s))) (rl_db s) = ((), d)" "db_ok d"
  shows "log_failure (run_sql E (sql_write f)) s = (Inr (), s\<lparr>rl_tick := Suc (rl_tick s), rl_db := d\<rparr>)"
  by (simp add: log_failure_def act_then_run reliable_run_sql [OF assms(1), where a = "()" and d = d] sql_write_Inr assms(2,3))

text \<open>The effect of each statement at a given time, and of a round whose statements ran at the given times.\<close>

definition drop_messages :: "time \<Rightarrow> db \<Rightarrow> db" where
  "drop_messages now d =
     d\<lparr>db_messages := filter (\<lambda>m. \<not> (ms_expires_at m \<le> now \<or> ms_deleted_at m \<noteq> None)) (db_messages d)\<rparr>"

definition drop_replies :: "time \<Rightarrow> db \<Rightarrow> db" where
  "drop_replies now d = d\<lparr>db_replies := filter (\<lambda>r. \<not> re_expires_at r \<le> now) (db_replies d)\<rparr>"

definition drop_grants :: "time \<Rightarrow> db \<Rightarrow> db" where
  "drop_grants now d = d\<lparr>db_grants := filter (\<lambda>g. \<not> gr_expires_at g \<le> now) (db_grants d)\<rparr>"

definition drop_prekeys :: "time \<Rightarrow> db \<Rightarrow> db" where
  "drop_prekeys now d = d\<lparr>db_otks := filter (\<lambda>k. \<not> (ok_consumed_at k \<noteq> None \<or>
     \<not> list_ex (\<lambda>b. bu_mailbox_id b = ok_mailbox_id k \<and> now < bu_signed_prekey_expires_at b) (db_bundles d)))
     (db_otks d)\<rparr>"

definition drop_bundles :: "time \<Rightarrow> db \<Rightarrow> db" where
  "drop_bundles now d = d\<lparr>db_bundles := filter (\<lambda>b. \<not> bu_signed_prekey_expires_at b \<le> now) (db_bundles d)\<rparr>"

definition drop_posts :: "time \<Rightarrow> db \<Rightarrow> db" where
  "drop_posts now = delete_posts (\<lambda>p. po_expires_at p \<le> now)"

definition drop_intents :: "time \<Rightarrow> db \<Rightarrow> db" where
  "drop_intents now = delete_intents (\<lambda>i. it_expires_at i \<le> now)"

lemmas drop_defs = drop_messages_def drop_posts_def drop_replies_def drop_intents_def drop_grants_def
  drop_prekeys_def drop_bundles_def

lemma drop_ok [intro]:
  assumes "db_ok d"
  shows "db_ok (drop_messages now d)" "db_ok (drop_posts now d)" "db_ok (drop_replies now d)"
    "db_ok (drop_intents now d)" "db_ok (drop_grants now d)" "db_ok (drop_prekeys now d)" "db_ok (drop_bundles now d)"
  unfolding drop_defs by (intro delete_plain_ok delete_posts_ok delete_intents_ok assms)+

lemma drop_statements:
  "delete_expired_messages = sql_write (\<lambda>now d. ((), drop_messages now d))"
  "delete_expired_posts = sql_write (\<lambda>now d. ((), drop_posts now d))"
  "delete_expired_replies = sql_write (\<lambda>now d. ((), drop_replies now d))"
  "delete_expired_intents = sql_write (\<lambda>now d. ((), drop_intents now d))"
  "delete_expired_grants = sql_write (\<lambda>now d. ((), drop_grants now d))"
  "delete_dead_prekeys = sql_write (\<lambda>now d. ((), drop_prekeys now d))"
  "delete_expired_bundles = sql_write (\<lambda>now d. ((), drop_bundles now d))"
  by (simp_all only: delete_expired_messages_def delete_expired_posts_def delete_expired_replies_def
      delete_expired_intents_def delete_expired_grants_def delete_dead_prekeys_def delete_expired_bundles_def drop_defs)

definition cleaned :: "(nat \<Rightarrow> time) \<Rightarrow> db \<Rightarrow> db" where
  "cleaned at d = drop_bundles (at 6) (drop_prekeys (at 5) (drop_grants (at 4) (drop_intents (at 3)
     (drop_replies (at 2) (drop_posts (at 1) (drop_messages (at 0) d))))))"

lemma reliable_cleanup:
  assumes "reliable E" "db_ok (rl_db s)"
  shows "after_event E CleanupTick s =
    s\<lparr>rl_tick := rl_tick s + 7, rl_db := cleaned (\<lambda>n. wo_now (en_world E (rl_tick s + n))) (rl_db s)\<rparr>"
  by (simp add: cleanup_round_def act_then_run drop_statements reliable_log_failure [OF assms(1) refl] drop_ok
      assms(2) cleaned_def eval_nat_numeral)

section \<open>Cleanup removes the dead and keeps the living\<close>

text \<open>Nothing that was dead at time \<open>t\<close> is left in the tables that the task cleans.  The one-time prekeys left
  are unconsumed and belong to a mailbox with a live bundle in \<open>d0\<close>, the tables before.\<close>

definition no_dead_rows :: "time \<Rightarrow> db \<Rightarrow> db \<Rightarrow> bool" where
  "no_dead_rows t d0 d \<longleftrightarrow>
     (\<forall>m \<in> set (db_messages d). t < ms_expires_at m \<and> ms_deleted_at m = None) \<and>
     (\<forall>p \<in> set (db_posts d). t < po_expires_at p) \<and>
     (\<forall>e \<in> set (db_deliveries d). \<exists>p \<in> set (db_posts d). po_post_id p = de_post_id e) \<and>
     (\<forall>r \<in> set (db_replies d). t < re_expires_at r \<and> (\<exists>p \<in> set (db_posts d). po_post_id p = re_post_id r)) \<and>
     (\<forall>i \<in> set (db_intents d). t < it_expires_at i) \<and>
     (\<forall>g \<in> set (db_grants d). t < gr_expires_at g) \<and>
     (\<forall>b \<in> set (db_bundles d). t < bu_signed_prekey_expires_at b) \<and>
     (\<forall>k \<in> set (db_otks d). ok_consumed_at k = None \<and>
        (\<exists>b \<in> set (db_bundles d0). bu_mailbox_id b = ok_mailbox_id k \<and> t < bu_signed_prekey_expires_at b))"

text \<open>Everything that is still alive at time \<open>t\<close> is in the tables \<open>d\<close> afterwards, and the tables that the task
  does not clean are as before.  An object whose upload intent has gone no longer names it.\<close>

definition living_rows_kept :: "time \<Rightarrow> db \<Rightarrow> db \<Rightarrow> bool" where
  "living_rows_kept t d0 d \<longleftrightarrow>
     {m \<in> set (db_messages d0). t < ms_expires_at m \<and> ms_deleted_at m = None} \<subseteq> set (db_messages d) \<and>
     {p \<in> set (db_posts d0). t < po_expires_at p} \<subseteq> set (db_posts d) \<and>
     (\<forall>p \<in> set (db_posts d0). t < po_expires_at p \<longrightarrow>
        {e \<in> set (db_deliveries d0). de_post_id e = po_post_id p} \<subseteq> set (db_deliveries d) \<and>
        {r \<in> set (db_replies d0). re_post_id r = po_post_id p \<and> t < re_expires_at r} \<subseteq> set (db_replies d)) \<and>
     {i \<in> set (db_intents d0). t < it_expires_at i} \<subseteq> set (db_intents d) \<and>
     {g \<in> set (db_grants d0). t < gr_expires_at g} \<subseteq> set (db_grants d) \<and>
     {b \<in> set (db_bundles d0). t < bu_signed_prekey_expires_at b} \<subseteq> set (db_bundles d) \<and>
     (\<forall>b \<in> set (db_bundles d0). t < bu_signed_prekey_expires_at b \<longrightarrow>
        {k \<in> set (db_otks d0). ok_mailbox_id k = bu_mailbox_id b \<and> ok_consumed_at k = None} \<subseteq> set (db_otks d)) \<and>
     (\<forall>b \<in> set (db_objects d0). b \<in> set (db_objects d) \<or> b\<lparr>ob_intent_id := None\<rparr> \<in> set (db_objects d)) \<and>
     db_mailboxes d = db_mailboxes d0 \<and> db_accounts d = db_accounts d0 \<and> db_devices d = db_devices d0 \<and>
     db_contacts d = db_contacts d0"

text \<open>No row appears.\<close>

definition only_removed :: "db \<Rightarrow> db \<Rightarrow> bool" where
  "only_removed d0 d \<longleftrightarrow>
     set (db_messages d) \<subseteq> set (db_messages d0) \<and> set (db_posts d) \<subseteq> set (db_posts d0) \<and>
     set (db_deliveries d) \<subseteq> set (db_deliveries d0) \<and> set (db_replies d) \<subseteq> set (db_replies d0) \<and>
     set (db_intents d) \<subseteq> set (db_intents d0) \<and> set (db_grants d) \<subseteq> set (db_grants d0) \<and>
     set (db_bundles d) \<subseteq> set (db_bundles d0) \<and> set (db_otks d) \<subseteq> set (db_otks d0) \<and>
     (\<forall>b \<in> set (db_objects d). \<exists>b0 \<in> set (db_objects d0). b = b0 \<or> b = b0\<lparr>ob_intent_id := None\<rparr>)"

text \<open>The tables of a round, one by one.\<close>

lemma cleaned_tables:
  "set (db_messages (cleaned at d)) = {m \<in> set (db_messages d). at 0 < ms_expires_at m \<and> ms_deleted_at m = None}"
  "set (db_posts (cleaned at d)) = {p \<in> set (db_posts d). at 1 < po_expires_at p}"
  "set (db_deliveries (cleaned at d)) = {e \<in> set (db_deliveries d).
     de_post_id e \<in> po_post_id ` {p \<in> set (db_posts d). at 1 < po_expires_at p}}"
  "set (db_replies (cleaned at d)) = {r \<in> set (db_replies d). at 2 < re_expires_at r \<and>
     re_post_id r \<in> po_post_id ` {p \<in> set (db_posts d). at 1 < po_expires_at p}}"
  "set (db_intents (cleaned at d)) = {i \<in> set (db_intents d). at 3 < it_expires_at i}"
  "set (db_grants (cleaned at d)) = {g \<in> set (db_grants d). at 4 < gr_expires_at g}"
  "set (db_otks (cleaned at d)) = {k \<in> set (db_otks d). ok_consumed_at k = None \<and>
     (\<exists>b \<in> set (db_bundles d). bu_mailbox_id b = ok_mailbox_id k \<and> at 5 < bu_signed_prekey_expires_at b)}"
  "set (db_bundles (cleaned at d)) = {b \<in> set (db_bundles d). at 6 < bu_signed_prekey_expires_at b}"
  "db_mailboxes (cleaned at d) = db_mailboxes d" "db_accounts (cleaned at d) = db_accounts d"
  "db_devices (cleaned at d) = db_devices d" "db_contacts (cleaned at d) = db_contacts d"
  by (auto simp: cleaned_def drop_defs delete_posts_def delete_intents_def Let_def list_ex_iff not_le)

lemma cleaned_objects:
  "b \<in> set (db_objects d) \<Longrightarrow>
     b \<in> set (db_objects (cleaned at d)) \<or> b\<lparr>ob_intent_id := None\<rparr> \<in> set (db_objects (cleaned at d))"
  by (cases "ob_intent_id b")
    (auto simp: cleaned_def drop_defs delete_posts_def delete_intents_def Let_def image_iff
      intro!: bexI [of _ b] split: option.splits)

lemma cleaned_old_objects:
  "b \<in> set (db_objects (cleaned at d)) \<Longrightarrow> \<exists>b0 \<in> set (db_objects d). b = b0 \<or> b = b0\<lparr>ob_intent_id := None\<rparr>"
  by (auto simp: cleaned_def drop_defs delete_posts_def delete_intents_def Let_def split: option.splits)
    (metis (no_types, lifting) object_row.surjective object_row.update_convs(3))+

text \<open>C21: A cleanup round that no call fails in removes every message, post, delivery, reply, upload intent,
  access grant, prekey bundle and one-time prekey that was dead when the round began (expired, deleted or
  consumed, or belonging to something that is), and keeps everything that is still alive when it ends, and
  adds nothing, in every reachable state: no constraint of the schema stops one of its statements.\<close>

theorem relay_cleanup_exact:
  assumes "reliable E" and "relay_reachable E s"
    and "\<And>n. n < 7 \<Longrightarrow> start \<le> wo_now (en_world E (rl_tick s + n)) \<and> wo_now (en_world E (rl_tick s + n)) \<le> finish"
  shows "no_dead_rows start (rl_db s) (rl_db (after_event E CleanupTick s)) \<and>
    living_rows_kept finish (rl_db s) (rl_db (after_event E CleanupTick s)) \<and>
    only_removed (rl_db s) (rl_db (after_event E CleanupTick s))"
proof -
  let ?at = "\<lambda>n. wo_now (en_world E (rl_tick s + n))"
  have t: "start \<le> ?at n" "?at n \<le> finish" if "n < 7" for n using assms(3) [OF that] by simp_all
  have at: "start \<le> ?at 0" "start \<le> ?at 1" "start \<le> ?at 2" "start \<le> ?at 3" "start \<le> ?at 4" "start \<le> ?at 5"
    "start \<le> ?at 6" "?at 0 \<le> finish" "?at 1 \<le> finish" "?at 2 \<le> finish" "?at 3 \<le> finish" "?at 4 \<le> finish"
    "?at 5 \<le> finish" "?at 6 \<le> finish"
    by (rule t; simp)+
  have run: "rl_db (after_event E CleanupTick s) = cleaned ?at (rl_db s)"
    using reliable_cleanup [OF assms(1) relay_tables_consistent [OF assms(2)]] by simp
  have "no_dead_rows start (rl_db s) (cleaned ?at (rl_db s))"
    unfolding no_dead_rows_def cleaned_tables
    by (intro conjI ballI; insert at(1-7); fastforce)
  moreover have "living_rows_kept finish (rl_db s) (cleaned ?at (rl_db s))"
    unfolding living_rows_kept_def cleaned_tables
    by (intro conjI ballI impI cleaned_objects refl; insert at(8-); fastforce)
  moreover have "only_removed (rl_db s) (cleaned ?at (rl_db s))"
    unfolding only_removed_def cleaned_tables by (intro conjI ballI cleaned_old_objects; fastforce)
  ultimately show ?thesis by (simp only: run)
qed

lemma prekeys_after_cleanup:
  "no_dead_rows t d0 d \<Longrightarrow> \<forall>k \<in> set (db_otks d). ok_consumed_at k = None"
  "only_removed d0 d \<Longrightarrow> set (db_otks d) \<subseteq> set (db_otks d0)"
  "only_removed d0 d \<Longrightarrow> set (db_bundles d) \<subseteq> set (db_bundles d0)"
  "living_rows_kept t d0 d \<Longrightarrow> {b \<in> set (db_bundles d0). t < bu_signed_prekey_expires_at b} \<subseteq> set (db_bundles d)"
  "living_rows_kept t d0 d \<Longrightarrow> \<forall>b \<in> set (db_bundles d0). t < bu_signed_prekey_expires_at b \<longrightarrow>
     {k \<in> set (db_otks d0). ok_mailbox_id k = bu_mailbox_id b \<and> ok_consumed_at k = None} \<subseteq> set (db_otks d)"
  by (simp_all add: no_dead_rows_def living_rows_kept_def only_removed_def)

text \<open>The witness: a round after a fetch consumed one of the two prekeys keeps the other one and the bundle.\<close>

theorem relay_cleanup_exact_witness:
  "let s = after_event demo_env (Request (FetchPrekeyBundle bob_id)) bob_state;
       t = after_event demo_env CleanupTick s
   in set (db_otks (rl_db s)) = {bob_otk 15 8 (Some 1024), bob_otk 17 9 None} \<and>
      set (db_otks (rl_db t)) = {bob_otk 17 9 None} \<and> set (db_bundles (rl_db t)) = {bob_bundle}"
proof -
  let ?s = "after_event demo_env (Request (FetchPrekeyBundle bob_id)) bob_state"
  let ?t = "after_event demo_env CleanupTick ?s"
  obtain r where "fetch_prekey_bundle demo_env bob_id bob_state = (Inr r,
      bob_state\<lparr>rl_tick := 29, rl_db := bob_db [bob_bundle] [bob_otk 15 8 (Some 1024), bob_otk 17 9 None]\<rparr>)"
    using bob_fetched by blast
  then have s: "?s = bob_state\<lparr>rl_tick := 29, rl_db := bob_db [bob_bundle] [bob_otk 15 8 (Some 1024), bob_otk 17 9 None]\<rparr>"
    by (simp add: reply_with_def act_then_run)
  have "relay_reachable demo_env ?s"
    using reachable_after_events [OF bob_state_reachable, of "[Request (FetchPrekeyBundle bob_id)]"] by simp
  from relay_cleanup_exact [OF demo_reliable this, of 1029 1035]
  have clean: "no_dead_rows 1029 (rl_db ?s) (rl_db ?t)" "living_rows_kept 1035 (rl_db ?s) (rl_db ?t)" "only_removed (rl_db ?s) (rl_db ?t)"
    by (simp_all add: s demo_steps del: after_event.simps)
  note t = prekeys_after_cleanup(1) [OF clean(1)] prekeys_after_cleanup(2,3) [OF clean(3)]
    prekeys_after_cleanup(4,5) [OF clean(2)]
  have rows: "set (db_otks (rl_db ?s)) = {bob_otk 15 8 (Some 1024), bob_otk 17 9 None}"
    "set (db_bundles (rl_db ?s)) = {bob_bundle}"
    by (simp_all add: s bob_db_def del: after_event.simps)
  have fields: "ok_consumed_at (bob_otk i b x) = x" "ok_mailbox_id (bob_otk i b x) = bob_id" "bu_mailbox_id bob_bundle = bob_id"
    "bu_signed_prekey_expires_at bob_bundle = 605809" for i b x
    by (simp_all add: bob_otk_def demo_otk_def bob_bundle_def demo_bundle_def)
  have "{bob_bundle} \<subseteq> set (db_bundles (rl_db ?t))" "{bob_otk 17 9 None} \<subseteq> set (db_otks (rl_db ?t))"
    using t(4,5) unfolding rows by (auto simp: fields simp del: after_event.simps)
  moreover have "set (db_otks (rl_db ?t)) \<subseteq> {bob_otk 17 9 None}"
  proof
    fix k assume k: "k \<in> set (db_otks (rl_db ?t))"
    with t(2) have "k = bob_otk 15 8 (Some 1024) \<or> k = bob_otk 17 9 None" unfolding rows by blast
    moreover have "ok_consumed_at k = None" using t(1) k by blast
    ultimately show "k \<in> {bob_otk 17 9 None}" by (auto simp: fields)
  qed
  ultimately show ?thesis using rows t(3) unfolding Let_def by blast
qed

section \<open>Deletion of a managed user\<close>

text \<open>No row of any table names the mailbox.\<close>

definition erased :: "string \<Rightarrow> db \<Rightarrow> bool" where
  "erased m d \<longleftrightarrow>
     m \<notin> mb_mailbox_id ` set (db_mailboxes d) \<and> m \<notin> ac_mailbox_id ` set (db_accounts d) \<and>
     Some m \<notin> ac_owner_mailbox_id ` set (db_accounts d) \<and> m \<notin> ms_mailbox_id ` set (db_messages d) \<and>
     m \<notin> it_mailbox_id ` set (db_intents d) \<and> m \<notin> ob_mailbox_id ` set (db_objects d) \<and>
     m \<notin> gr_mailbox_id ` set (db_grants d) \<and> m \<notin> bu_mailbox_id ` set (db_bundles d) \<and>
     m \<notin> ok_mailbox_id ` set (db_otks d) \<and> m \<notin> dv_mailbox_id ` set (db_devices d) \<and>
     m \<notin> ct_owner_mailbox_id ` set (db_contacts d) \<and> m \<notin> ct_contact_mailbox_id ` set (db_contacts d) \<and>
     m \<notin> po_author_mailbox_id ` set (db_posts d) \<and> m \<notin> de_recipient_mailbox_id ` set (db_deliveries d) \<and>
     m \<notin> re_author_mailbox_id ` set (db_replies d) \<and> m \<notin> re_recipient_mailbox_id ` set (db_replies d)"

text \<open>The rows of the others are still there: those that neither name the mailbox nor hang on one of its posts or
  objects.\<close>

definition others_kept :: "string \<Rightarrow> db \<Rightarrow> db \<Rightarrow> bool" where
  "others_kept m d d' \<longleftrightarrow>
     {b \<in> set (db_mailboxes d). mb_mailbox_id b \<noteq> m} \<subseteq> set (db_mailboxes d') \<and>
     {a \<in> set (db_accounts d). ac_mailbox_id a \<noteq> m} \<subseteq> set (db_accounts d') \<and>
     {x \<in> set (db_messages d). ms_mailbox_id x \<noteq> m} \<subseteq> set (db_messages d') \<and>
     {i \<in> set (db_intents d). it_mailbox_id i \<noteq> m} \<subseteq> set (db_intents d') \<and>
     (\<forall>b \<in> set (db_objects d). ob_mailbox_id b \<noteq> m \<longrightarrow>
        b \<in> set (db_objects d') \<or> b\<lparr>ob_intent_id := None\<rparr> \<in> set (db_objects d')) \<and>
     {g \<in> set (db_grants d). gr_mailbox_id g \<noteq> m \<and>
        gr_object_id g \<in> ob_object_id ` {b \<in> set (db_objects d). ob_mailbox_id b \<noteq> m}} \<subseteq> set (db_grants d') \<and>
     {b \<in> set (db_bundles d). bu_mailbox_id b \<noteq> m} \<subseteq> set (db_bundles d') \<and>
     {k \<in> set (db_otks d). ok_mailbox_id k \<noteq> m} \<subseteq> set (db_otks d') \<and>
     {v \<in> set (db_devices d). dv_mailbox_id v \<noteq> m} \<subseteq> set (db_devices d') \<and>
     {c \<in> set (db_contacts d). ct_owner_mailbox_id c \<noteq> m \<and> ct_contact_mailbox_id c \<noteq> m} \<subseteq> set (db_contacts d') \<and>
     {p \<in> set (db_posts d). po_author_mailbox_id p \<noteq> m} \<subseteq> set (db_posts d') \<and>
     (\<forall>p \<in> set (db_posts d). po_author_mailbox_id p \<noteq> m \<longrightarrow>
        {e \<in> set (db_deliveries d). de_post_id e = po_post_id p \<and> de_recipient_mailbox_id e \<noteq> m}
          \<subseteq> set (db_deliveries d') \<and>
        {r \<in> set (db_replies d). re_post_id r = po_post_id p \<and> re_author_mailbox_id r \<noteq> m \<and>
           re_recipient_mailbox_id r \<noteq> m} \<subseteq> set (db_replies d'))"

lemma delete_mailbox_erases: "erased m (delete_mailbox m d)"
  by (auto simp: erased_def delete_mailbox_def delete_posts_def delete_objects_def delete_intents_def Let_def
      image_image split: if_splits)

lemma sql_Inr_run:
  assumes "sql E what q s = (Inr a, t)"
  obtains now where "q now (rl_db s) = Inr (a, rl_db t)"
  using assms by (auto simp: sql_def act_then_run run_sql_def world_def map_err_def
      split: sum.splits prod.splits if_splits)

definition unlink :: "uuid set \<Rightarrow> object_row \<Rightarrow> object_row" where
  "unlink A b = b\<lparr>ob_intent_id := (case ob_intent_id b of Some i \<Rightarrow> if i \<in> A then Some i else None | None \<Rightarrow> None)\<rparr>"

lemma unlink_cases: "unlink A b = b \<or> unlink A b = b\<lparr>ob_intent_id := None\<rparr>"
  by (cases b) (auto simp: unlink_def split: option.splits)

lemma delete_intents_objects:
  "db_objects (delete_intents P d) = map (unlink (it_intent_id ` set (filter (\<lambda>i. \<not> P i) (db_intents d)))) (db_objects d)"
  by (auto simp: delete_intents_def Let_def unlink_def split: option.splits)

lemma delete_mailbox_objects:
  assumes "b \<in> set (db_objects d)" "ob_mailbox_id b \<noteq> m"
  shows "b \<in> set (db_objects (delete_mailbox m d)) \<or> b\<lparr>ob_intent_id := None\<rparr> \<in> set (db_objects (delete_mailbox m d))"
proof -
  let ?d = "delete_objects (\<lambda>b. ob_mailbox_id b = m) (delete_posts (\<lambda>p. po_author_mailbox_id p = m) d)"
  have "db_objects (delete_mailbox m d) = db_objects (delete_intents (\<lambda>i. it_mailbox_id i = m) ?d)"
    by (simp add: delete_mailbox_def Let_def)
  moreover have "db_objects ?d = filter (\<lambda>b. ob_mailbox_id b \<noteq> m) (db_objects d)"
    by (simp add: delete_objects_def delete_posts_def Let_def)
  ultimately obtain A where "db_objects (delete_mailbox m d) =
      map (unlink A) (filter (\<lambda>b. ob_mailbox_id b \<noteq> m) (db_objects d))"
    by (metis delete_intents_objects)
  with assms have "unlink A b \<in> set (db_objects (delete_mailbox m d))" by simp
  with unlink_cases [of A b] show ?thesis by metis
qed

lemma delete_mailbox_keeps:
  assumes "\<forall>a \<in> set (db_accounts d). ac_owner_mailbox_id a \<noteq> Some m"
  shows "others_kept m d (delete_mailbox m d)"
  unfolding others_kept_def
proof (intro conjI ballI impI delete_mailbox_objects)
  show "{a \<in> set (db_accounts d). ac_mailbox_id a \<noteq> m} \<subseteq> set (db_accounts (delete_mailbox m d))"
    using assms
    by (auto simp: delete_mailbox_def delete_posts_def delete_objects_def delete_intents_def Let_def image_iff)
qed (auto simp: delete_mailbox_def delete_posts_def delete_objects_def delete_intents_def Let_def)

text \<open>C22: When a deletion of a managed user succeeds, in a state with the ownership invariant (as every reachable
  state), the request came from an active
  administrator who owns that account, no row of any table names the mailbox afterwards (nor does any message,
  object, grant, prekey, device, contact, post, delivery or reply of it survive), and the rows of everybody else
  are still there.\<close>

theorem relay_managed_deletion:
  assumes "ownership (rl_db s)" and "admin_delete_managed_user E m h s = (Inr r, t)"
  shows "(\<exists>admin a. admin_access E (rl_db s) h admin \<and> a \<in> set (db_accounts (rl_db s)) \<and> managed_by admin m a) \<and>
    erased m (rl_db t) \<and> others_kept m (rl_db s) (rl_db t)"
proof -
  have keys: "db_keys (rl_db s)" using assms(1) by (simp add: ownership_def db_ok_def)
  obtain admin s1 n where a: "authenticate_admin E h s = (Inr admin, s1)"
    and q: "sql E ''managed user deletion failed'' (delete_managed_mailbox admin m) s1 = (Inr n, t)" and n: "0 < n"
    using assms(2) by (auto simp: admin_delete_managed_user_def result_simps split: if_splits)
  have s1: "rl_db s1 = rl_db s" by (rule same_db [OF db_authenticate_admin a])
  obtain now where "delete_managed_mailbox admin m now (rl_db s1) = Inr (n, rl_db t)"
    using q by (rule sql_Inr_run)
  with n s1 obtain a where managed: "a \<in> set (db_accounts (rl_db s))" "managed_by admin m a"
    and t: "rl_db t = delete_mailbox m (rl_db s)"
    by (auto simp: delete_managed_mailbox_def sql_write_Inr list_ex_iff split: if_splits)
  have "ac_owner_mailbox_id x \<noteq> Some m" if "x \<in> set (db_accounts (rl_db s))" for x
  proof
    assume "ac_owner_mailbox_id x = Some m"
    then have "has_admin (rl_db s) m"
      using assms(1) that by (auto simp: ownership_def)
    then obtain y where "y \<in> set (db_accounts (rl_db s))" "ac_mailbox_id y = m" "ac_role y = ''admin''"
      by (auto simp: has_admin_def)
    moreover have "inj_on ac_mailbox_id (set (db_accounts (rl_db s)))"
      using keys by (simp add: db_keys_def distinct_map)
    ultimately have "y = a" using managed by (auto simp: managed_by_def dest: inj_onD)
    with managed \<open>ac_role y = ''admin''\<close> show False by (simp add: managed_by_def)
  qed
  then have "others_kept m (rl_db s) (rl_db t)" unfolding t by (intro delete_mailbox_keeps) simp
  moreover have "erased m (rl_db t)" unfolding t by (rule delete_mailbox_erases)
  ultimately show ?thesis using authenticate_admin_ok [OF a keys] managed by blast
qed

text \<open>The witness: Alice manages Carol, who has a message.\<close>

definition carol_id :: string where "carol_id = ''carol-mailbox-01''"

definition managed_db :: db where
  "managed_db = demo_db\<lparr>
     db_mailboxes := db_mailboxes demo_db @ [demo_mailbox carol_id bob_token],
     db_accounts := db_accounts demo_db @ [(demo_account carol_id ''user'')\<lparr>ac_owner_mailbox_id := Some alice_id\<rparr>],
     db_messages := [\<lparr> ms_message_id = 5, ms_mailbox_id = carol_id, ms_sender_device_hint = None, ms_ciphertext = [1],
       ms_received_at = 950, ms_expires_at = 5000, ms_deleted_at = None \<rparr>]\<rparr>"

lemma carol_names: "carol_id \<noteq> alice_id" "carol_id \<noteq> bob_id" "alice_id \<noteq> carol_id" "bob_id \<noteq> carol_id"
  "validate_mailbox_id carol_id = Inr ()"
  by (simp_all add: validate_mailbox_id_ok)
    (simp_all add: carol_id_def alice_id_def bob_id_def is_id_char_def is_ascii_alphanumeric_def)

lemma managed_ownership: "ownership managed_db"
  by (simp add: ownership_def managed_db_def db_ok_defs demo_rows has_admin_def carol_names)

lemma managed_deleted: "delete_mailbox carol_id managed_db = demo_db"
  by (simp add: managed_db_def demo_rows delete_mailbox_def delete_posts_def delete_objects_def delete_intents_def
      Let_def carol_names)

theorem relay_managed_deletion_witness:
  "\<exists>r t. admin_delete_managed_user demo_env carol_id admin_headers (demo_state\<lparr>rl_db := managed_db\<rparr>) = (Inr r, t) \<and>
     erased carol_id (rl_db t) \<and> others_kept carol_id managed_db (rl_db t)"
proof -
  let ?s = "demo_state\<lparr>rl_db := managed_db\<rparr>"
  have "mailbox_of managed_db alice_id = mailbox_of demo_db alice_id" "account_of managed_db alice_id = account_of demo_db alice_id"
    by (simp_all add: mailbox_of_def account_of_def managed_db_def demo_rows)
  then have "mailbox_access ref_crypto managed_db alice_id token = mailbox_access ref_crypto demo_db alice_id token" for token
    by (simp only: mailbox_access_def)
  with demo_access(2) have "header_access ref_crypto managed_db alice_id admin_headers"
    by (simp only: header_access_def)
  then have access: "admin_access demo_env (rl_db ?s) admin_headers alice_id"
    by (simp add: admin_access_def)
      (simp add: admin_headers_def demo_config_def account_of_def managed_db_def demo_rows)
  have keys: "db_keys (rl_db ?s)" using managed_ownership by (simp add: ownership_def db_ok_def)
  have managed: "list_ex (managed_by alice_id carol_id) (db_accounts managed_db)"
    "length (filter (\<lambda>b. mb_mailbox_id b = carol_id) (db_mailboxes managed_db)) = 1"
    by (simp_all add: managed_by_def managed_db_def demo_rows carol_names)
  obtain t where t: "admin_delete_managed_user demo_env carol_id admin_headers ?s =
      (Inr \<lparr> ad_mailbox_id = carol_id, ad_deleted = True \<rparr>, t)"
    using authenticate_admin_complete [OF demo_reliable keys access demo_valid_ids(1)] managed
    by (simp add: admin_delete_managed_user_def act_then_run carol_names delete_managed_mailbox_def
        reliable_sql_write [OF demo_reliable] managed_deleted demo_ok)
  then show ?thesis
    using relay_managed_deletion [of ?s demo_env carol_id admin_headers _ t] managed_ownership by auto
qed

end
