(* ===== verification/Relay_Responses.thy ===== *)
theory Relay_Responses
  imports Relay_Demo
begin

text \<open>
  Every request is answered: the only panic of the handlers is \<^verbatim>\<open>chrono\<close>'s date arithmetic, and it
  stays in range when the clock is at least the longest lifetime away from the end of the calendar.
\<close>

section \<open>Actions that do not panic\<close>

definition no_panic :: "('r, 'a) relay_action \<Rightarrow> bool" where
  "no_panic m \<longleftrightarrow> (\<forall>s. fst (m s) \<noteq> Inl Panicked)"

named_theorems no_panic_intros \<open>rules for showing that a handler does not panic\<close>
named_theorems pure_errors \<open>errors of the pure checks\<close>

text \<open>The date arithmetic is defined from every clock reading for every lifetime the relay grants.\<close>

definition clock_in_range :: "'r relay_env \<Rightarrow> bool" where
  "clock_in_range E \<longleftrightarrow> (\<forall>n k. 1 \<le> k \<and> k \<le> cf_max_ttl_seconds (en_config E) \<or>
       cf_min_ttl_seconds (en_config E) \<le> k \<and> k \<le> cf_max_ttl_seconds (en_config E) \<or> k = 7 * 24 * 60 * 60 \<longrightarrow>
     lb_add_seconds (en_lib E) (wo_now (en_world E n)) k \<noteq> None)"

lemma no_panic_basic [no_panic_intros]:
  "no_panic (act_ok a)" "e \<noteq> Panicked \<Longrightarrow> no_panic (act_err e)" "r \<noteq> Inl Panicked \<Longrightarrow> no_panic (act_lift r)"
  by (simp_all add: no_panic_def)

lemma no_panic_then: "no_panic m \<Longrightarrow> (\<And>a. no_panic (f a)) \<Longrightarrow> no_panic (act_then m f)"
  unfolding no_panic_def act_then_def
  by (auto split: prod.splits sum.splits) (metis fst_conv)+

lemma no_panic_lift_then:
  "r \<noteq> Inl Panicked \<Longrightarrow> (\<And>a. r = Inr a \<Longrightarrow> no_panic (f a)) \<Longrightarrow> no_panic (act_then (act_lift r) f)"
  by (cases r) (auto simp: no_panic_def act_then_run)

lemma no_panic_clock_then:
  "(\<And>n. no_panic (f (wo_now (en_world E n)))) \<Longrightarrow> no_panic (act_then (utc_now E) f)"
  by (simp add: no_panic_def utc_now_def act_then_run world_def)

lemma no_panic_cases [no_panic_intros]:
  "(b \<Longrightarrow> no_panic m) \<Longrightarrow> (\<not> b \<Longrightarrow> no_panic n) \<Longrightarrow> no_panic (if b then m else n)"
  "(x = None \<Longrightarrow> no_panic m) \<Longrightarrow> (\<And>a. x = Some a \<Longrightarrow> no_panic (g a)) \<Longrightarrow>
     no_panic (case x of None \<Rightarrow> m | Some a \<Rightarrow> g a)"
  "(\<And>e. r = Inl e \<Longrightarrow> no_panic (h e)) \<Longrightarrow> (\<And>a. r = Inr a \<Longrightarrow> no_panic (k a)) \<Longrightarrow>
     no_panic (case r of Inl e \<Rightarrow> h e | Inr a \<Rightarrow> k a)"
  "(\<And>a b. p = (a, b) \<Longrightarrow> no_panic (l a b)) \<Longrightarrow> no_panic (case p of (a, b) \<Rightarrow> l a b)"
  by (cases b, simp_all, cases x, simp_all, cases r, simp_all, cases p, simp)

lemma no_panic_world [no_panic_intros]: "no_panic (world E)" "no_panic (utc_now E)" "no_panic (new_uuid E)"
  "no_panic (random_token_bytes E n)" "no_panic (random_hex_token E n)" "no_panic (uuid_or_new E x)"
  by (auto simp: no_panic_def world_def utc_now_def new_uuid_def random_token_bytes_def random_hex_token_def
      uuid_or_new_def act_then_run split: option.splits)

lemma no_panic_add_seconds:
  assumes "clock_in_range E"
  shows no_panic_add_week [no_panic_intros]: "no_panic (add_seconds E (wo_now (en_world E n)) (7 * 24 * 60 * 60))"
    and no_panic_add_ttl: "validate_ttl low (cf_max_ttl_seconds (en_config E)) k = Inr u \<Longrightarrow>
      low = 1 \<or> low = cf_min_ttl_seconds (en_config E) \<Longrightarrow> no_panic (add_seconds E (wo_now (en_world E n)) k)"
  using assms unfolding add_seconds_def clock_in_range_def
  by (auto intro!: no_panic_basic(3) simp: validate_ttl_ok result_simps) (metis option.distinct(1))+

lemma no_panic_sql [no_panic_intros]:
  "no_panic (run_sql E q)" "no_panic (sql E what q)" "(\<And>e. on_error e \<noteq> Panicked) \<Longrightarrow> no_panic (tx_sql E now on_error q)"
  by (auto simp: no_panic_def run_sql_def sql_def tx_sql_def dependency_def act_then_run world_def
      split: sum.splits prod.splits)

lemma no_panic_transaction [no_panic_intros]:
  assumes "\<And>now. no_panic (body now)"
  shows "no_panic (transaction E b c body)"
  using assms
  by (auto simp: no_panic_def transaction_def act_then_run world_def Let_def split: prod.splits sum.splits)
    (metis fst_conv)+

lemma no_panic_redis_cmd: "no_panic (redis_cmd E what f)"
  by (auto simp: no_panic_def redis_cmd_def act_then_run world_def Let_def split: prod.splits option.splits)

lemma no_panic_redis [no_panic_intros]: "no_panic (redis_connection E)" "no_panic (ping_redis E)"
  "no_panic (enforce_rate_limit E k n w)" "no_panic (reserve_replay_token E m t ttl)"
  unfolding ping_redis_def enforce_rate_limit_def reserve_replay_token_def redis_connection_def Let_def
  by (intro no_panic_then no_panic_intros no_panic_redis_cmd; simp)+


text \<open>The pure checks return errors of their own.\<close>

lemma pure_results [pure_errors]:
  "ok_or e x \<noteq> Inl Panicked \<longleftrightarrow> x \<noteq> None \<or> e \<noteq> Panicked"
  "(\<And>e. f e \<noteq> Panicked) \<Longrightarrow> map_err f r \<noteq> Inl Panicked" "api_error_of_core c \<noteq> Panicked" "dependency what v \<noteq> Panicked" "conflict_or t what v \<noteq> Panicked"
  by (cases r, auto simp: result_simps api_error_of_core_def dependency_def conflict_or_def) (metis)

lemma field_checks [pure_errors]:
  "validate_mailbox_id v \<noteq> Inl Panicked" "normalize_codename c f \<noteq> Inl Panicked"
  "decode_mailbox_token C v \<noteq> Inl Panicked" "validate_ciphertext C v n \<noteq> Inl Panicked"
  "validate_sender_device_hint x \<noteq> Inl Panicked" "validate_replay_token v \<noteq> Inl Panicked"
  "validate_media_type v \<noteq> Inl Panicked" "validate_sha256_b64 C v \<noteq> Inl Panicked"
  "validate_grant_operation v \<noteq> Inl Panicked" "validate_grant_token v \<noteq> Inl Panicked"
  "validate_ttl low high ttl \<noteq> Inl Panicked" "relay_decode_fixed_base64 C n v field \<noteq> Inl Panicked"
  by (auto simp: validate_mailbox_id_def normalize_codename_def decode_mailbox_token_def validate_ciphertext_def
      validate_sender_device_hint_def validate_replay_token_def validate_media_type_def validate_sha256_b64_def
      validate_grant_operation_def validate_grant_token_def validate_ttl_def relay_decode_fixed_base64_def
      decode_array_def Let_def result_simps split: if_splits option.splits)

lemma header_checks [pure_errors]:
  "read_required_header h n \<noteq> Inl Panicked" "read_optional_header h n \<noteq> Inl Panicked"
  "read_mailbox_token_header h \<noteq> Inl Panicked" "read_admin_mailbox_id_header h \<noteq> Inl Panicked"
  "ensure_admin_token c h \<noteq> Inl Panicked" "presigning_config E ttl \<noteq> Inl Panicked"
  by (auto simp: read_required_header_def read_optional_header_def read_mailbox_token_header_def
      read_admin_mailbox_id_header_def ensure_admin_token_def presigning_config_def result_simps
      field_checks split: if_splits option.splits)

lemma loop_checks [pure_errors]:
  "decode_one_time_prekeys C es keys \<noteq> Inl Panicked"
  "check_deliveries C n m ds seen \<noteq> Inl Panicked"
proof -
  show "decode_one_time_prekeys C es keys \<noteq> Inl Panicked"
    by (induction C es keys rule: decode_one_time_prekeys.induct) (auto simp: result_simps field_checks)
  show "check_deliveries C n m ds seen \<noteq> Inl Panicked"
    by (induction C n m ds seen rule: check_deliveries.induct) (auto simp: result_simps field_checks)
qed

section \<open>The handlers\<close>

lemma no_panic_auth [no_panic_intros]:
  "no_panic (ensure_mailbox_exists E m)" "no_panic (authenticate_mailbox E m t)" "no_panic (mailbox_guard E m h)"
  "no_panic (authenticate_admin E h)" "no_panic (authenticate_admin_bootstrap E h m)"
  "no_panic (authorize_mailbox_creation E h)"
  unfolding ensure_mailbox_exists_def authenticate_mailbox_def mailbox_guard_def authenticate_admin_def
    authenticate_admin_bootstrap_def authorize_mailbox_creation_def Let_def
  by (rule no_panic_then no_panic_intros | simp add: pure_errors split: option.split)+

lemma no_panic_accounts [no_panic_intros]:
  "no_panic (lookup_account_profile E m)" "no_panic (mailbox_created_at E m)"
  "no_panic (upsert_account_profile E m c t a)" "no_panic (ensure_account_profile E m)"
  "no_panic (create_mailbox E h cr)" "no_panic (admin_bootstrap_account E h br)"
  "no_panic (get_account_profile E m h)" "no_panic (fetch_contact_summary E m c)"
  "no_panic (upsert_contact E m h uc)" "no_panic (list_contacts E m h)" "no_panic (delete_contact E m c h)"
  unfolding lookup_account_profile_def mailbox_created_at_def upsert_account_profile_def ensure_account_profile_def
    create_mailbox_def admin_bootstrap_account_def get_account_profile_def fetch_contact_summary_def
    upsert_contact_def list_contacts_def delete_contact_def Let_def
  by (rule no_panic_then no_panic_intros | simp add: pure_errors)+

lemma no_panic_admin [no_panic_intros]:
  "no_panic (admin_overview E h)" "no_panic (admin_provision_mailbox E h)"
  "no_panic (admin_set_managed_user_status E m h st)" "no_panic (admin_reset_managed_user_access E m h)"
  "no_panic (admin_delete_managed_user E m h)"
  unfolding admin_overview_def admin_provision_mailbox_def admin_set_managed_user_status_def
    admin_reset_managed_user_access_def admin_delete_managed_user_def Let_def
  by (rule no_panic_then no_panic_intros | simp add: pure_errors)+

lemma no_panic_messages [no_panic_intros]:
  "clock_in_range E \<Longrightarrow> no_panic (submit_message E m sm)"
  "no_panic (list_messages E m l h)" "no_panic (delete_message E m i h)"
  unfolding submit_message_def list_messages_def delete_message_def Let_def
  by (assumption | rule no_panic_lift_then no_panic_clock_then no_panic_then no_panic_add_ttl no_panic_intros |
      simp add: pure_errors)+

lemma no_panic_upload [no_panic_intros]:
  "clock_in_range E \<Longrightarrow> no_panic (parse_prekey_bundle_upload E r)"
  "no_panic (insert_one_time_prekeys E now m t ks)"
proof -
  show "no_panic (parse_prekey_bundle_upload E r)" if "clock_in_range E"
    using that unfolding parse_prekey_bundle_upload_def default_signed_prekey_expiry_def
      validate_signed_prekey_expiry_def Let_def
    by - (assumption | rule no_panic_clock_then no_panic_then no_panic_intros | simp only: not_not |
        simp add: pure_errors)+
  show "no_panic (insert_one_time_prekeys E now m t ks)"
  proof (induction ks)
    case (Cons k ks)
    then show ?case
      unfolding insert_one_time_prekeys.simps
      by - (assumption | rule no_panic_then no_panic_intros | simp add: pure_errors)+
  qed (simp only: insert_one_time_prekeys.simps no_panic_basic)
qed

lemma no_panic_prekeys [no_panic_intros]:
  "clock_in_range E \<Longrightarrow> no_panic (publish_prekey_bundle E m h r)" "no_panic (fetch_prekey_bundle E m)"
  "no_panic (get_prekey_inventory_status E m h)" "no_panic (publish_device_record E m h v)"
  "no_panic (list_device_records E m)"
  unfolding publish_prekey_bundle_def fetch_prekey_bundle_def get_prekey_inventory_status_def
    publish_device_record_def list_device_records_def Let_def
  by (assumption | rule no_panic_then no_panic_intros | simp add: pure_errors)+

lemma no_panic_object_store [no_panic_intros]:
  "no_panic (object_store E what f)" "no_panic (presign_upload_request E k t ttl)"
  "no_panic (presign_media_access_request E b k t op ex)" "no_panic (lookup_media_access_grant E g)"
  "no_panic (mark_media_access_grant_redeemed E i)"
  unfolding object_store_def presign_upload_request_def presign_media_access_request_def
    lookup_media_access_grant_def mark_media_access_grant_redeemed_def Let_def
  by (rule no_panic_then no_panic_intros | simp add: pure_errors)+

lemma no_panic_media [no_panic_intros]:
  "clock_in_range E \<Longrightarrow> no_panic (create_media_upload_intent E m h ui)" "no_panic (create_media_manifest E m h mq)"
  "no_panic (list_media_manifests E m l h)" "clock_in_range E \<Longrightarrow> no_panic (create_media_access_grant E m h gq)"
  "no_panic (resolve_media_access_grant E g)" "no_panic (fetch_media_access_grant_content E g)"
  unfolding create_media_upload_intent_def create_media_manifest_def list_media_manifests_def
    create_media_access_grant_def resolve_media_access_grant_def fetch_media_access_grant_content_def Let_def
  by (assumption | rule no_panic_lift_then no_panic_clock_then no_panic_then no_panic_add_ttl no_panic_intros |
      simp add: pure_errors split: option.split)+

lemma no_panic_feed_loops [no_panic_intros]:
  "no_panic (insert_deliveries E now i t ds)" "no_panic (resolve_feed_reply_targets E m p)"
  "no_panic (assemble_posts E m ps g v)" "no_panic (reply_recipient E m i pa x)"
proof -
  show "no_panic (insert_deliveries E now i t ds)"
  proof (induction ds)
    case (Cons d ds)
    then show ?case
      unfolding insert_deliveries.simps
      by - (assumption | rule no_panic_then no_panic_intros | simp add: pure_errors)+
  qed (simp only: insert_deliveries.simps no_panic_basic)
  show targets: "no_panic (resolve_feed_reply_targets E m p)" for p
    unfolding resolve_feed_reply_targets_def by (rule no_panic_intros)+
  show "no_panic (assemble_posts E m ps g v)"
  proof (induction ps arbitrary: g v)
    case (Cons p ps)
    show ?case unfolding assemble_posts.simps by (intro no_panic_then targets Cons)
  qed (simp only: assemble_posts.simps no_panic_basic)
  show "no_panic (reply_recipient E m i pa x)"
    unfolding reply_recipient_def
    by (rule no_panic_then no_panic_intros | simp add: pure_errors)+
qed

lemma no_panic_feed [no_panic_intros]:
  "clock_in_range E \<Longrightarrow> no_panic (create_feed_post E m h fp)" "no_panic (list_feed_posts E m l h)"
  "clock_in_range E \<Longrightarrow> no_panic (create_feed_reply E m i h rq)"
  unfolding create_feed_post_def list_feed_posts_def create_feed_reply_def Let_def
  by (assumption | rule no_panic_lift_then no_panic_clock_then no_panic_then no_panic_add_ttl no_panic_intros |
      simp add: pure_errors split: if_splits)+

lemma no_panic_healthz [no_panic_intros]: "no_panic (healthz E)"
proof -
  have "no_panic (succeeds m)" for m :: "('r, 'b) relay_action"
    by (simp add: no_panic_def succeeds_def split: prod.splits)
  then show ?thesis
    unfolding healthz_def Let_def by (intro no_panic_then no_panic_intros)
qed

lemma no_panic_reply_with: "no_panic m \<Longrightarrow> no_panic (reply_with f m)"
  unfolding reply_with_def by (intro no_panic_then no_panic_intros)

lemma no_panic_handle: "clock_in_range E \<Longrightarrow> no_panic (handle E req)"
  by (cases req) (simp only: handle.simps, intro no_panic_reply_with no_panic_intros, assumption?)+

text \<open>C23: Every request gets a response: its handler returns a success, or an error with an HTTP status; no
  handler panics as long as the date arithmetic is defined from every clock reading for lifetimes up to the
  configured maximum and the seven days of a signed prekey.\<close>

theorem relay_always_responds:
  assumes "clock_in_range E"
  shows "case fst (handle E req s) of Inr r \<Rightarrow> True | Inl e \<Rightarrow> api_error_status e \<noteq> None"
proof -
  have "api_error_status e = None \<longleftrightarrow> e = Panicked" for e by (cases e) simp_all
  then show ?thesis
    using no_panic_handle [OF assms, of req] by (auto simp: no_panic_def split: sum.splits)
qed

theorem relay_always_responds_witness:
  "case fst (handle demo_env (SubmitMessage bob_id \<lparr> sm_ciphertext_b64 = ''x'', sm_sender_device_hint = None,
       sm_ttl_seconds = Some 1, sm_message_id = None, sm_replay_token = ''t'' \<rparr>) demo_state) of
     Inr r \<Rightarrow> True | Inl e \<Rightarrow> api_error_status e \<noteq> None"
  by (rule relay_always_responds) (simp add: clock_in_range_def demo_lib_def)

end
