(* ===== verification/Relay_Reactivation.thy ===== *)
theory Relay_Reactivation
  imports Relay_Demo
begin

text \<open>
  The account upsert of \<^verbatim>\<open>create_mailbox\<close>, on the tables of a mailbox that exists.
\<close>

lemma has_mailbox_accounts [simp]: "has_mailbox (d\<lparr>db_accounts := xs\<rparr>) m = has_mailbox d m"
  by (simp add: has_mailbox_def)

lemma case_all: "(case x of None \<Rightarrow> True | Some m \<Rightarrow> Q m) \<longleftrightarrow> (\<forall>m. x = Some m \<longrightarrow> Q m)"
  by (cases x) auto

lemma db_refs_accounts:
  assumes "db_refs d" "\<And>a. a \<in> set xs \<Longrightarrow> has_mailbox d (ac_mailbox_id a) \<and>
    (\<forall>m. ac_owner_mailbox_id a = Some m \<longrightarrow> m \<in> ac_mailbox_id ` set xs)"
  shows "db_refs (d\<lparr>db_accounts := xs\<rparr>)"
  using assms unfolding db_refs_def case_all by simp

lemma update_accounts_ok:
  assumes "db_ok d" "\<And>a. ac_mailbox_id (f a) = ac_mailbox_id a \<and> ac_role (f a) = ac_role a \<and>
      ac_owner_mailbox_id (f a) = ac_owner_mailbox_id a" "\<And>a. ac_status (f a) \<in> {''provisioned'', ''active'', ''disabled''}"
  shows "db_ok (d\<lparr>db_accounts := update_where P f (db_accounts d)\<rparr>)"
proof -
  have ids: "map ac_mailbox_id (update_where P f (db_accounts d)) = map ac_mailbox_id (db_accounts d)"
    using assms(2) by (simp add: update_where_def)
  then have ids': "ac_mailbox_id ` set (update_where P f (db_accounts d)) = ac_mailbox_id ` set (db_accounts d)"
    by (metis list.set_map)
  moreover have row: "\<exists>a \<in> set (db_accounts d). ac_mailbox_id x = ac_mailbox_id a \<and> ac_role x = ac_role a \<and>
      ac_owner_mailbox_id x = ac_owner_mailbox_id a \<and>
      (ac_status x = ac_status a \<or> ac_status x \<in> {''provisioned'', ''active'', ''disabled''})"
    if "x \<in> set (update_where P f (db_accounts d))" for x
  proof -
    obtain a where "a \<in> set (db_accounts d)" "x = (if P a then f a else a)"
      using \<open>x \<in> set (update_where P f (db_accounts d))\<close> by (auto simp: in_update_where)
    with assms(2,3) [of a] show ?thesis by (intro bexI [of _ a]) auto
  qed
  moreover from assms(1) have "db_checks (d\<lparr>db_accounts := update_where P f (db_accounts d)\<rparr>)"
    by (auto simp: db_ok_def db_checks_def dest!: row)
  moreover from assms(1) ids have "db_keys (d\<lparr>db_accounts := update_where P f (db_accounts d)\<rparr>)"
    by (simp add: db_ok_def db_keys_def)
  moreover have "db_refs (d\<lparr>db_accounts := update_where P f (db_accounts d)\<rparr>)"
  proof (rule db_refs_accounts)
    show "db_refs d" using assms(1) by (simp add: db_ok_def)
    then have "has_mailbox d (ac_mailbox_id a) \<and>
        (\<forall>m. ac_owner_mailbox_id a = Some m \<longrightarrow> m \<in> ac_mailbox_id ` set (db_accounts d))"
      if "a \<in> set (db_accounts d)" for a
      using that by (simp add: db_refs_def case_all)
    with row ids' show "has_mailbox d (ac_mailbox_id a) \<and> (\<forall>m. ac_owner_mailbox_id a = Some m \<longrightarrow>
        m \<in> ac_mailbox_id ` set (update_where P f (db_accounts d)))"
      if "a \<in> set (update_where P f (db_accounts d))" for a
      using that by metis
  qed
  ultimately show ?thesis by (simp add: db_ok_def)
qed

lemma upsert_existing_account:
  assumes "db_ok d" "account_of d (ac_mailbox_id row) = Some a"
    "\<And>a. ac_mailbox_id (f a) = ac_mailbox_id a \<and> ac_role (f a) = ac_role a \<and>
      ac_owner_mailbox_id (f a) = ac_owner_mailbox_id a" "\<And>a. ac_status (f a) \<in> {''provisioned'', ''active'', ''disabled''}"
  obtains d' where "upsert_account row f now d = Inr (f a, d')" "db_ok d'" "db_mailboxes d' = db_mailboxes d"
    "account_of d' (ac_mailbox_id row) = Some (f a)"
proof -
  let ?P = "\<lambda>a. ac_mailbox_id a = ac_mailbox_id row"
  let ?d = "d\<lparr>db_accounts := update_where ?P f (db_accounts d)\<rparr>"
  have ex: "list_ex ?P (db_accounts d)"
    using account_of_Some [OF assms(2)] by (auto simp: list_ex_iff)
  have ok: "db_ok ?d" using assms(1,3,4) by (rule update_accounts_ok)
  have "account_of ?d (ac_mailbox_id row) = map_option f (account_of d (ac_mailbox_id row))"
    unfolding account_of_def using assms(3) by (simp add: find_update_where)
  then show thesis
    using ok ex assms(2) by (intro that [of ?d]) (simp_all add: upsert_account_def sql_write_Inr upsert_def)
qed

text \<open>C24: A managed user whose account an administrator disabled, and whose mailbox token every other route
  refuses, becomes active again by posting to the mailbox creation route with that same token: the account
  upsert sets the status without looking at it, and the token works from then on.\<close>

theorem relay_disabled_user_reactivates:
  assumes "reliable E" and "db_ok (rl_db s)" and "validate_mailbox_id (cr_mailbox_id r) = Inr ()"
    and "decode_mailbox_token (crypto_of E) (cr_mailbox_token_b64 r) = Inr token"
    and "mailbox_of (rl_db s) (cr_mailbox_id r) = Some b"
    and "mb_access_token_hash b = hash_mailbox_token (crypto_of E) (cr_mailbox_id r) token"
    and "account_of (rl_db s) (cr_mailbox_id r) = Some a" and "ac_status a = ''disabled''"
    and "normalize_codename (cr_codename r) (suggested_codename (crypto_of E) (cr_mailbox_id r)) = Inr c"
  shows "\<not> mailbox_access (crypto_of E) (rl_db s) (cr_mailbox_id r) (cr_mailbox_token_b64 r) \<and>
    (\<exists>reply t. create_mailbox E h r s = (Inr (200, reply), t) \<and> cm_status reply = ''active'' \<and>
      mailbox_access (crypto_of E) (rl_db t) (cr_mailbox_id r) (cr_mailbox_token_b64 r))"
proof
  show "\<not> mailbox_access (crypto_of E) (rl_db s) (cr_mailbox_id r) (cr_mailbox_token_b64 r)"
    using assms by (simp add: mailbox_access_def)
  let ?t1 = "wo_now (en_world E (Suc (rl_tick s)))" and ?t3 = "wo_now (en_world E (Suc (Suc (Suc (rl_tick s)))))"
  let ?f = "\<lambda>a. a\<lparr>ac_codename := c, ac_status := ''active'', ac_activated_at := Some (lb_pg_time (en_lib E) ?t1)\<rparr>"
  let ?row = "\<lparr> ac_mailbox_id = cr_mailbox_id r, ac_codename = c, ac_role = ''user'', ac_status = ''active'',
     ac_owner_mailbox_id = None, ac_created_at = lb_pg_time (en_lib E) (mb_created_at b),
     ac_activated_at = Some (lb_pg_time (en_lib E) ?t1) \<rparr>"
  obtain d where d: "upsert_account ?row ?f ?t3 (rl_db s) = Inr (?f a, d)" "db_ok d"
      "db_mailboxes d = db_mailboxes (rl_db s)" "account_of d (cr_mailbox_id r) = Some (?f a)"
    using upsert_existing_account [OF assms(2), of ?row a ?f ?t3] assms(7) by auto
  have "create_mailbox E h r s = (Inr (200, create_mailbox_reply (cr_mailbox_id r) (?f a)),
      s\<lparr>rl_tick := Suc (Suc (Suc (Suc (rl_tick s)))), rl_db := d\<rparr>)"
    using assms d(1)
    by (simp add: create_mailbox_def act_then_run utc_now_def world_def Let_def reliable_sql_read
        upsert_account_profile_def sql_def reliable_run_sql)
  moreover have "mailbox_access (crypto_of E) d (cr_mailbox_id r) (cr_mailbox_token_b64 r)"
    using assms(4-6) d(3,4) by (simp add: mailbox_access_def mailbox_of_def)
  ultimately show "\<exists>reply t. create_mailbox E h r s = (Inr (200, reply), t) \<and> cm_status reply = ''active'' \<and>
      mailbox_access (crypto_of E) (rl_db t) (cr_mailbox_id r) (cr_mailbox_token_b64 r)"
    by (simp add: create_mailbox_reply_def)
qed

text \<open>Bob, disabled.\<close>

definition demo_disabled :: "demo_redis relay_state" where
  "demo_disabled = demo_state\<lparr>rl_db := demo_db\<lparr>db_accounts :=
     [demo_account alice_id ''admin'', (demo_account bob_id ''user'')\<lparr>ac_status := ''disabled''\<rparr>]\<rparr>\<rparr>"

theorem relay_disabled_user_reactivates_witness:
  "\<not> mailbox_access ref_crypto (rl_db demo_disabled) bob_id bob_token \<and>
   (\<exists>reply t. create_mailbox demo_env (mailbox_headers bob_token)
       \<lparr> cr_mailbox_id = bob_id, cr_mailbox_token_b64 = bob_token, cr_codename = Some ''Bob'' \<rparr> demo_disabled
       = (Inr (200, reply), t) \<and> cm_status reply = ''active'')"
proof -
  let ?r = "\<lparr> cr_mailbox_id = bob_id, cr_mailbox_token_b64 = bob_token, cr_codename = Some ''Bob'' \<rparr>"
  have "db_ok (rl_db demo_disabled)"
    by (simp add: demo_disabled_def db_ok_defs demo_rows)
  moreover have "normalize_codename (Some ''Bob'') x = Inr ''Bob''" for x
    by code_simp
  moreover have "decode_mailbox_token ref_crypto bob_token = Inr (as_bytes bob_token)"
    by (simp add: decode_mailbox_token_def ref_crypto_def [THEN arg_cong [where f = b64_decode]])
  moreover have "mailbox_of (rl_db demo_disabled) bob_id = Some (demo_mailbox bob_id bob_token)"
    "account_of (rl_db demo_disabled) bob_id = Some ((demo_account bob_id ''user'')\<lparr>ac_status := ''disabled''\<rparr>)"
    by (simp_all add: demo_disabled_def mailbox_of_def account_of_def demo_rows)
  ultimately show ?thesis
    using relay_disabled_user_reactivates [OF demo_reliable, of demo_disabled ?r "as_bytes bob_token"
        "demo_mailbox bob_id bob_token" "(demo_account bob_id ''user'')\<lparr>ac_status := ''disabled''\<rparr>" "''Bob''"
        "mailbox_headers bob_token"]
    by (auto simp: demo_mailbox_def)
qed

end
