(* ===== verification/Relay_Start.thy ===== *)
theory Relay_Start
  imports Relay_Demo
begin

text \<open>
  Starting the relay: which environments \<^verbatim>\<open>RelayConfig::from_env\<close> accepts, what an accepted configuration
  guarantees and what it does not, and the start-up sequence of \<^verbatim>\<open>main\<close>.
\<close>

section \<open>Start-up\<close>

text \<open>A step of the start-up that a library performs: connecting, migrating, binding the listener.\<close>

definition start_step :: "'r relay_env \<Rightarrow> (string \<Rightarrow> api_error) \<Rightarrow> ('r, unit) relay_action" where
  "start_step E on_error = act_then (world E) (\<lambda>out. if wo_fails out then act_err (on_error (wo_error out)) else act_ok ())"

text \<open>
  \<^verbatim>\<open>main\<close> up to \<^verbatim>\<open>axum::serve\<close>.  \<open>redis_url_error\<close> is the check of \<^verbatim>\<open>redis::Client::open\<close>.  The
  tables of the model are those the migrations create, so migrating only can fail.
\<close>

definition start_up ::
    "(string \<Rightarrow> bool) \<Rightarrow> (string \<Rightarrow> string option) \<Rightarrow> env_vars \<Rightarrow> 'r relay_env \<Rightarrow> ('r, relay_config) relay_action" where
  "start_up valid_addr redis_url_error vars E =
     act_then (act_lift (config_from_env valid_addr vars)) (\<lambda>config.
     act_then (start_step E (\<lambda>error. Dependency (''postgres connection failed: '' @ error))) (\<lambda>_.
     act_then (start_step E (\<lambda>error. Dependency (''database migration failed: '' @ error))) (\<lambda>_.
     act_then (act_lift (case redis_url_error (cf_redis_url config) of
         None \<Rightarrow> Inr () | Some error \<Rightarrow> Inl (Config (''invalid REDIS_URL: '' @ error)))) (\<lambda>_.
     act_then (ping_redis E) (\<lambda>_.
     act_then (start_step E (\<lambda>error. Internal)) (\<lambda>_.
     act_ok config))))))"

text \<open>\<^verbatim>\<open>tokio::time::interval\<close> panics on a zero period, which ends the cleanup task before its first round.\<close>

definition cleanup_task_starts :: "relay_config \<Rightarrow> bool" where
  "cleanup_task_starts config \<longleftrightarrow> cf_cleanup_interval_seconds config \<noteq> 0"

text \<open>The two routes without state: the page from disk, or the copy in the binary, and an empty answer.\<close>

definition index_page :: "'r relay_env \<Rightarrow> string \<Rightarrow> string \<Rightarrow> ('r, nat \<times> string) relay_action" where
  "index_page E embedded on_disk =
     act_then (world E) (\<lambda>out. act_ok (200, if wo_fails out then embedded else on_disk))"

definition favicon :: "('r, nat) relay_action" where
  "favicon = act_ok 204"

section \<open>Accepted environments\<close>

definition env_value :: "(string \<Rightarrow> 'a option) \<Rightarrow> env_vars \<Rightarrow> string \<Rightarrow> 'a \<Rightarrow> 'a option" where
  "env_value parse vars key fallback = (case vars key of None \<Rightarrow> Some fallback | Some value \<Rightarrow> parse value)"

lemma parse_env_value:
  "parse_env parse vars key fallback = ok_or (Config (''invalid '' @ key)) (env_value parse vars key fallback)"
  by (simp add: parse_env_def env_value_def split: option.split)

abbreviation "parse_u32 \<equiv> (\<lambda>s. map_option of_nat (parse_unsigned 32 s)) :: string \<Rightarrow> u32 option"
abbreviation "parse_u64 \<equiv> (\<lambda>s. map_option of_nat (parse_unsigned 64 s)) :: string \<Rightarrow> u64 option"

text \<open>The variables the operator must set, and the numeric ones that must parse if they are set.\<close>

definition required_given :: "env_vars \<Rightarrow> bool" where
  "required_given vars \<longleftrightarrow>
     (\<forall>key \<in> {''POSTGRES_DSN'', ''RELAY_ADMIN_TOKEN'', ''REDIS_URL'', ''MEDIA_OBJECT_STORE_ENDPOINT'',
        ''MEDIA_OBJECT_STORE_BUCKET''}. vars key \<noteq> None) \<and>
     (vars ''MEDIA_OBJECT_STORE_ACCESS_KEY_ID'' \<noteq> None \<or> vars ''MINIO_ROOT_USER'' \<noteq> None) \<and>
     (vars ''MEDIA_OBJECT_STORE_SECRET_ACCESS_KEY'' \<noteq> None \<or> vars ''MINIO_ROOT_PASSWORD'' \<noteq> None)"

definition ttls_given :: "env_vars \<Rightarrow> bool" where
  "ttls_given vars \<longleftrightarrow> (\<exists>low default high.
     env_value parse_i64 vars ''RELAY_MIN_TTL_SECONDS'' 300 = Some low \<and>
     env_value parse_i64 vars ''RELAY_DEFAULT_TTL_SECONDS'' 604800 = Some default \<and>
     env_value parse_i64 vars ''RELAY_MAX_TTL_SECONDS'' 2592000 = Some high \<and>
     0 < low \<and> low \<le> default \<and> default \<le> high)"

definition sizes_given :: "env_vars \<Rightarrow> bool" where
  "sizes_given vars \<longleftrightarrow> (\<exists>bytes intent grant chunk size.
     env_value (parse_unsigned 64) vars ''RELAY_MAX_CIPHERTEXT_BYTES'' 262144 = Some bytes \<and> 0 < bytes \<and>
     env_value parse_i64 vars ''MEDIA_UPLOAD_INTENT_TTL_SECONDS'' 900 = Some intent \<and> 0 < intent \<and>
     env_value parse_i64 vars ''MEDIA_ACCESS_GRANT_TTL_SECONDS'' 900 = Some grant \<and> 0 < grant \<and>
     env_value parse_u32 vars ''MEDIA_DEFAULT_CHUNK_SIZE_BYTES'' 262144 = Some chunk \<and> chunk \<noteq> 0 \<and>
     env_value parse_u64 vars ''MEDIA_MAX_ORIGINAL_SIZE_BYTES'' 52428800 = Some size \<and> size \<noteq> 0)"

definition rates_given :: "env_vars \<Rightarrow> bool" where
  "rates_given vars \<longleftrightarrow>
     env_value parse_i64 vars ''RELAY_REPLAY_TTL_MARGIN_SECONDS'' 300 \<noteq> None \<and>
     env_value parse_u32 vars ''RELAY_SUBMIT_RATE_LIMIT_PER_MINUTE'' 120 \<noteq> None \<and>
     env_value parse_u32 vars ''RELAY_RETRIEVE_RATE_LIMIT_PER_MINUTE'' 240 \<noteq> None \<and>
     env_value parse_u64 vars ''RELAY_CLEANUP_INTERVAL_SECONDS'' 60 \<noteq> None"

definition config_sound :: "relay_config \<Rightarrow> bool" where
  "config_sound cfg \<longleftrightarrow>
     0 < cf_min_ttl_seconds cfg \<and> cf_min_ttl_seconds cfg \<le> cf_default_ttl_seconds cfg \<and>
     cf_default_ttl_seconds cfg \<le> cf_max_ttl_seconds cfg \<and> 0 < cf_max_ciphertext_bytes cfg \<and>
     0 < cf_media_upload_intent_ttl_seconds cfg \<and> 0 < cf_media_access_grant_ttl_seconds cfg \<and>
     cf_media_default_chunk_size_bytes cfg \<noteq> 0 \<and> cf_media_max_original_size_bytes cfg \<noteq> 0"

lemma or_var_None: "or_var x y = None \<longleftrightarrow> x = None \<and> y = None"
  by (simp add: or_var_def split: option.split)

lemmas config_values = config_from_env_def required_env_def parse_i64_env_def parse_u32_env_def parse_u64_env_def
  parse_usize_env_def parse_env_value


text \<open>A Result whose error and whose value have given properties.\<close>

definition outcome_sat :: "('e \<Rightarrow> bool) \<Rightarrow> ('a \<Rightarrow> bool) \<Rightarrow> 'e + 'a \<Rightarrow> bool" where
  "outcome_sat Q P r = (case r of Inl e \<Rightarrow> Q e | Inr a \<Rightarrow> P a)"

lemma outcome_sat_intros:
  "Q e \<Longrightarrow> outcome_sat Q P (Inl e)" "P a \<Longrightarrow> outcome_sat Q P (Inr a)"
  "(b \<Longrightarrow> outcome_sat Q P r) \<Longrightarrow> (\<not> b \<Longrightarrow> outcome_sat Q P r') \<Longrightarrow> outcome_sat Q P (if b then r else r')"
  "Q e \<Longrightarrow> (\<And>a. outcome_sat Q P (f a)) \<Longrightarrow> outcome_sat Q P (and_then (ok_or e x) f)"
  by (cases x; simp add: outcome_sat_def)+

lemma config_from_env_outcome: "outcome_sat (\<lambda>e. \<exists>text. e = Config text) config_sound (config_from_env valid_addr vars)"
  unfolding config_values Let_def
  by (intro outcome_sat_intros; (blast | simp add: config_sound_def))

lemma config_from_env_cases:
  "config_from_env valid_addr vars = Inl e \<Longrightarrow> \<exists>text. e = Config text"
  "config_from_env valid_addr vars = Inr cfg \<Longrightarrow> config_sound cfg"
  using config_from_env_outcome [of valid_addr vars] by (simp_all add: outcome_sat_def)

lemma ok_step: "is_ok (and_then (ok_or e x) f) \<longleftrightarrow> (case x of None \<Rightarrow> False | Some a \<Rightarrow> is_ok (f a))"
  by (simp split: option.split)

lemma ok_if: "is_ok (if b then Inl e else r) \<longleftrightarrow> \<not> b \<and> is_ok r"
  by simp

lemma config_from_env_accepts:
  "is_ok (config_from_env valid_addr vars) \<longleftrightarrow>
     valid_addr (var_or vars ''RELAY_BIND_ADDR'' ''127.0.0.1:8080'') \<and>
     required_given vars \<and> ttls_given vars \<and> sizes_given vars \<and> rates_given vars"
  unfolding config_values Let_def ok_step ok_if is_ok_simps required_given_def ttls_given_def sizes_given_def
    rates_given_def or_var_None [symmetric] de_Morgan_conj [symmetric]
  by (auto split: option.split)


text \<open>C37: The relay accepts exactly the environments with a bind address, the required variables, and numbers
  that parse and are consistent; it reports every other one as a configuration error.  An accepted
  configuration has positive, ordered lifetimes, and its default message lifetime passes its own check.\<close>

theorem relay_config_accepted:
  "(is_ok (config_from_env valid_addr vars) \<longleftrightarrow>
     valid_addr (var_or vars ''RELAY_BIND_ADDR'' ''127.0.0.1:8080'') \<and>
     required_given vars \<and> ttls_given vars \<and> sizes_given vars \<and> rates_given vars) \<and>
   (case config_from_env valid_addr vars of
      Inl e \<Rightarrow> (\<exists>text. e = Config text)
    | Inr cfg \<Rightarrow> config_sound cfg \<and>
        validate_ttl (cf_min_ttl_seconds cfg) (cf_max_ttl_seconds cfg) (cf_default_ttl_seconds cfg) = Inr ())"
  using config_from_env_accepts [of valid_addr vars] config_from_env_outcome [of valid_addr vars]
  by (auto simp: validate_ttl_ok config_sound_def outcome_sat_def split: sum.splits)

section \<open>What the checks leave out\<close>

definition gap_vars :: env_vars where
  "gap_vars = map_of
     [(''POSTGRES_DSN'', ''dsn''), (''RELAY_ADMIN_TOKEN'', ''admin''), (''REDIS_URL'', ''redis''),
      (''MEDIA_OBJECT_STORE_ENDPOINT'', ''s3''), (''MEDIA_OBJECT_STORE_BUCKET'', ''bucket''),
      (''MINIO_ROOT_USER'', ''id''), (''MINIO_ROOT_PASSWORD'', ''key''),
      (''RELAY_DEFAULT_TTL_SECONDS'', ''600''), (''RELAY_MAX_TTL_SECONDS'', ''600''),
      (''RELAY_CLEANUP_INTERVAL_SECONDS'', ''0'')]"

definition gap_config :: relay_config where
  "gap_config = demo_config
     \<lparr>cf_default_ttl_seconds := 600, cf_max_ttl_seconds := 600, cf_cleanup_interval_seconds := 0\<rparr>"

lemma gap_numbers: "parse_i64 ''600'' = Some 600" "parse_unsigned 64 ''0'' = Some 0"
  by (simp_all add: parse_i64_def parse_unsigned_def)

lemma gap_accepted: "config_from_env (\<lambda>_. True) gap_vars = Inr gap_config"
  unfolding config_values Let_def gap_vars_def gap_config_def demo_config_def env_value_def var_or_def or_var_def
  by (simp add: gap_numbers)

lemma grant_default_refused:
  assumes "cf_max_ttl_seconds (en_config E) < cf_media_access_grant_ttl_seconds (en_config E)"
    and "gq_ttl_seconds r = None"
  shows "\<not> is_ok (fst (create_media_access_grant E m h r s))"
proof
  assume "is_ok (fst (create_media_access_grant E m h r s))"
  then obtain x t where "create_media_access_grant E m h r s = (Inr x, t)"
    by (cases "create_media_access_grant E m h r s") (auto simp: is_ok_iff)
  then have "validate_ttl 1 (cf_max_ttl_seconds (en_config E)) (cf_media_access_grant_ttl_seconds (en_config E)) = Inr ()"
    using assms(2) unfolding create_media_access_grant_def Let_def
    by (simp only: act_then_eq_Inr act_run prod.inject unwrap_or_def option.case) auto
  with assms(1) show False by (simp add: validate_ttl_ok)
qed


text \<open>The consistency checks leave gaps.  An accepted configuration may have a default lifetime of media
  grants above the longest lifetime any request may ask for, so that every grant request without an explicit
  lifetime is refused, and a cleanup interval of zero, with which the cleanup task does not start.\<close>

theorem relay_config_gaps:
  "config_from_env (\<lambda>_. True) gap_vars = Inr gap_config \<and> \<not> cleanup_task_starts gap_config \<and>
   (\<forall>(E :: 'r relay_env) m h r s. en_config E = gap_config \<longrightarrow> gq_ttl_seconds r = None \<longrightarrow>
      \<not> is_ok (fst (create_media_access_grant E m h r s)))"
proof (intro conjI allI impI)
  show "\<not> is_ok (fst (create_media_access_grant E m h r s))"
    if "en_config E = gap_config" "gq_ttl_seconds r = None" for E :: "'r relay_env" and m h r s
    by (rule grant_default_refused) (simp_all add: that gap_config_def demo_config_def)
qed (simp_all add: gap_accepted cleanup_task_starts_def gap_config_def)

theorem relay_config_gaps_witness:
  "\<not> is_ok (fst (create_media_access_grant (demo_env\<lparr>en_config := gap_config\<rparr>) bob_id (mailbox_headers bob_token)
      \<lparr> gq_object_key = ''k'', gq_operation = ''download'', gq_ttl_seconds = None \<rparr> demo_state))"
  by (rule relay_config_gaps [THEN conjunct2, THEN conjunct2, rule_format]) simp_all

section \<open>What start-up establishes\<close>

text \<open>The relay serves only with a configuration the checks accepted, and starting it leaves the tables alone.\<close>

lemma start_up_keeps_tables: "preserves (on_db J) (start_up valid_addr redis_url_error vars E)"
  unfolding start_up_def start_step_def by (intro preserves_intros)

lemma start_up_ok:
  assumes "start_up valid_addr redis_url_error vars E s = (Inr config, t)"
  shows "config_from_env valid_addr vars = Inr config \<and> config_sound config \<and>
     redis_url_error (cf_redis_url config) = None \<and> rl_db t = rl_db s"
proof -
  have "config_from_env valid_addr vars = Inr config \<and> redis_url_error (cf_redis_url config) = None"
    using assms by (auto simp: start_up_def result_simps split: option.splits)
  with config_from_env_cases(2) same_db [OF start_up_keeps_tables assms] show ?thesis by blast
qed

text \<open>A failing connection, migration, Redis check or listener ends the start-up with an error.\<close>

lemma start_up_reliable:
  assumes "start_up valid_addr redis_url_error vars E s = (Inr config, t)"
  shows "\<forall>n. rl_tick s \<le> n \<and> n < rl_tick t \<longrightarrow> \<not> wo_fails (en_world E n)"
proof -
  have "rl_tick t = rl_tick s + 5" "\<forall>k < 5. \<not> wo_fails (en_world E (rl_tick s + k))"
    using assms
    by (auto simp: start_up_def start_step_def ping_redis_def redis_connection_def redis_cmd_def result_simps
        act_then_run [of "world E"] world_def Let_def eval_nat_numeral less_Suc_eq
        split: option.splits if_splits prod.splits)
  then show ?thesis by (metis le_add_diff_inverse nat_add_left_cancel_less)
qed

end
