(* ===== verification/Desktop.thy ===== *)
theory Desktop
  imports Crypto_Api
begin

text \<open>
  The part of the desktop client's backend
  (\<^verbatim>\<open>clients/desktop/simy-desktop/src-tauri\<close>) that stands on its own: the managed state, the command
  that opens the store, and \<^verbatim>\<open>greet\<close>.  The other commands call items that \<^verbatim>\<open>comm-core\<close> does not have,
  so they have no meaning against the crate and no model.
\<close>

section \<open>State\<close>

text \<open>
  \<^verbatim>\<open>RatchetState\<close>: a mutex, which a panic of its holder poisons, around the optional store, of which the
  constructor keeps the directory and the key.
\<close>

record desktop_state =
  dt_poisoned :: bool
  dt_store :: "(string \<times> bytes) option"

definition ratchet_state_new :: desktop_state where
  "ratchet_state_new = \<lparr> dt_poisoned = False, dt_store = None \<rparr>"

datatype command_error = Failed string | CommandPanic

type_synonym 'a command = "(desktop_state, command_error, 'a) action"

text \<open>\<^verbatim>\<open>state.store.lock().unwrap()\<close>\<close>

definition lock_store :: "(string \<times> bytes) option command" where
  "lock_store = (\<lambda>s. (if dt_poisoned s then Inl CommandPanic else Inr (dt_store s), s))"

section \<open>Commands\<close>

record init_store_request =
  is_storage_path :: string
  is_encryption_key_b64 :: string

record init_store_response =
  ir_success :: bool
  ir_message :: string

text \<open>\<open>base64_error\<close> is the text \<^verbatim>\<open>base64ct\<close> prints for a string it cannot decode.\<close>

definition init_ratchet_store ::
    "crypto \<Rightarrow> (string \<Rightarrow> string) \<Rightarrow> init_store_request \<Rightarrow> init_store_response command" where
  "init_ratchet_store C base64_error request =
     act_then (act_lift (ok_or
       (Failed (''Invalid base64 encryption key: '' @ base64_error (is_encryption_key_b64 request)))
       (b64_decode C (is_encryption_key_b64 request)))) (\<lambda>encryption_key.
     if length encryption_key \<noteq> 32
     then act_err (Failed (''Encryption key must be 32 bytes, got '' @ nat_to_string (length encryption_key)))
     else
       act_then lock_store (\<lambda>_.
       act_then (act_mod (\<lambda>s. s\<lparr>dt_store := Some (is_storage_path request, encryption_key)\<rparr>)) (\<lambda>_.
       act_ok \<lparr> ir_success = True, ir_message = ''Ratchet store initialized at '' @ is_storage_path request \<rparr>)))"

definition greet :: "string \<Rightarrow> string" where
  "greet name = ''Hello, '' @ name @ ''! You've been greeted from Rust!''"

section \<open>Opening the store\<close>

text \<open>The command opens the store just for 32 bytes of key, and otherwise leaves the state as it was.\<close>

lemma init_ratchet_store_opens:
  "is_ok (fst (init_ratchet_store C base64_error r s)) \<longleftrightarrow>
     (\<exists>key. b64_decode C (is_encryption_key_b64 r) = Some key \<and> length key = 32) \<and> \<not> dt_poisoned s"
  by (cases "b64_decode C (is_encryption_key_b64 r)") (simp_all add: init_ratchet_store_def act_then_run lock_store_def)

lemma init_ratchet_store_state:
  "dt_store (snd (init_ratchet_store C base64_error r s)) =
     (if is_ok (fst (init_ratchet_store C base64_error r s))
      then Some (is_storage_path r, the (b64_decode C (is_encryption_key_b64 r))) else dt_store s)"
  by (cases "b64_decode C (is_encryption_key_b64 r)") (simp_all add: init_ratchet_store_def act_then_run lock_store_def)

end
