(* ===== verification/Ratchet_Exchange.thy ===== *)
theory Ratchet_Exchange
  imports Ratchet_Delivery
begin

text \<open>
  The two ends of \<^verbatim>\<open>crates/comm-core\<close> put together: \<^verbatim>\<open>seal_initial_message\<close> and
  \<^verbatim>\<open>open_initial_message\<close> hand the shared secret to the two bootstrap functions, and single messages
  then pass between the sessions.  The desktop client and the example programs are built on these facts.
\<close>

section \<open>From the first message to two sessions\<close>

lemma sealed_pair_bootstraps:
  assumes "dh_laws C" "kdf_laws C" "sig_laws C" "b64_laws C" "aead_laws C"
    and "identity_wf C alice" "identity_wf C bob"
    and "\<forall>k. opk = Some k \<longrightarrow> one_time_prekey_wf C k"
    and "length nonce = 24" "length pt < 64 * (2 ^ 32 - 1)"
  shows "\<exists>env hs om a b.
     seal_initial_message C ephemeral nonce now alice
       (bundle_from_parts bob (signed_prekey_generate C bob s) opk) pt kind = Inr (env, hs) \<and>
     open_initial_message C bob (signed_prekey_generate C bob s) opk env = Inr om \<and> om_plaintext om = pt \<and>
     handshake_pair C hs (signed_prekey_generate C bob s) om \<and>
     bootstrap_initiator_session C hs = Inr a \<and>
     bootstrap_responder_session C (signed_prekey_generate C bob s) om = Inr b \<and>
     hs_sender_ephemeral_secret hs = ephemeral"
proof -
  let ?spk = "signed_prekey_generate C bob s"
  obtain env hs om where o:
    "seal_initial_message C ephemeral nonce now alice (bundle_from_parts bob ?spk opk) pt kind = Inr (env, hs)"
    "open_initial_message C bob ?spk opk env = Inr om" "om_plaintext om = pt"
    "om_message_keys om = hs_message_keys hs" "om_shared_secret om = hs_shared_secret hs"
    using initial_message_opens [OF assms] by blast
  note i = initiate_message_keys [OF seal_initial_message_Inr(1) [OF o(1)]]
  have pair: "handshake_pair C hs ?spk om"
    using o(4,5) i(1,2) by (simp add: handshake_pair_def bundle_from_parts_def signed_prekey_generate_wf)
  obtain r ck where "derive_root_and_chain_key C (om_shared_secret om)
     (x25519_dh C (spk_secret_key ?spk) (mk_sender_ephemeral_key (om_message_keys om))) = Inr (r, ck)"
    using derive_total(1) [OF assms(2)] by blast
  moreover have "mk_receiver_signed_prekey (om_message_keys om) = spk_public_key ?spk"
    using o(4) i(1) by (simp add: bundle_from_parts_def)
  ultimately obtain b where "bootstrap_responder_session C ?spk om = Inr b"
    using assms(1)
    by (simp add: bootstrap_responder_session_def ratchet_key_from_secret_def Let_def)
  then show ?thesis
    using o pair i(2) bootstrap_initiator_total [OF assms(2)] by blast
qed

lemma sealed_pair_in_step:
  assumes "dh_laws C" "kdf_laws C" "sig_laws C" "b64_laws C" "aead_laws C"
    and "identity_wf C alice" "identity_wf C bob"
    and "\<forall>k. opk = Some k \<longrightarrow> one_time_prekey_wf C k"
    and "length nonce = 24" "length pt < 64 * (2 ^ 32 - 1)" "length ephemeral = 32"
  shows "\<exists>env hs om a b.
     seal_initial_message C ephemeral nonce now alice
       (bundle_from_parts bob (signed_prekey_generate C bob s) opk) pt kind = Inr (env, hs) \<and>
     open_initial_message C bob (signed_prekey_generate C bob s) opk env = Inr om \<and> om_plaintext om = pt \<and>
     om_shared_secret om = hs_shared_secret hs \<and>
     bootstrap_initiator_session C hs = Inr a \<and>
     bootstrap_responder_session C (signed_prekey_generate C bob s) om = Inr b \<and>
     synced C a b \<and> rs_sent_messages a = 0 \<and> session_wf a \<and>
     session_public a = x25519_public C ephemeral \<and> session_public b = x25519_public C s"
proof -
  let ?spk = "signed_prekey_generate C bob s"
  obtain env hs om a b where o:
    "seal_initial_message C ephemeral nonce now alice (bundle_from_parts bob ?spk opk) pt kind = Inr (env, hs)"
    "open_initial_message C bob ?spk opk env = Inr om" "om_plaintext om = pt"
    "handshake_pair C hs ?spk om"
    "bootstrap_initiator_session C hs = Inr a" "bootstrap_responder_session C ?spk om = Inr b"
    "hs_sender_ephemeral_secret hs = ephemeral"
    using sealed_pair_bootstraps [OF assms(1-10)] by metis
  note sync = bootstrap_synced [OF assms(1) o(4-6)]
  from sync have len: "length (session_public b) = 32" "length (session_public a) = 32"
    by (simp_all add: synced_def length_x25519_public [OF assms(1)])
  have "session_wf a"
    using o(5) sync len assms(1,11) o(7)
    by (elim bootstrap_initiator_Inr)
      (auto simp: session_wf_def skipped_wf_def bt_empty_def synced_def ratchet_key_from_secret_def dest!: derive_lengths)
  moreover have "om_shared_secret om = hs_shared_secret hs" using o(4) by (simp add: handshake_pair_def)
  ultimately show ?thesis
    using o sync by (auto simp: signed_prekey_generate_def Let_def)
qed

section \<open>One message through the ratchet\<close>

text \<open>\<open>x\<close> may send the next message to \<open>y\<close>: it holds the sending chain, or it draws a fresh ratchet key.\<close>

definition may_send :: "crypto \<Rightarrow> bytes \<Rightarrow> double_ratchet_session \<Rightarrow> double_ratchet_session \<Rightarrow> bool" where
  "may_send C secret x y \<longleftrightarrow>
     (synced C x y \<and> unat (rs_sent_messages x) < 2 ^ 32 - 1) \<or>
     (synced C y x \<and> unat (rs_sent_messages y) < 2 ^ 32 - 1 \<and> x25519_public C secret \<noteq> session_public x)"

lemma one_exchange:
  assumes laws: "b64_laws C" "aead_laws C" "kdf_laws C" "dh_laws C"
    and send: "may_send C secret x y" and "sendable (nonce, pt)"
  shows "\<exists>env x' y'. ratchet_encrypt C secret nonce pt ad x = (Inr env, x') \<and>
     ratchet_decrypt C env ad y = (Inr pt, y') \<and> synced C x' y' \<and>
     unat (rs_sent_messages x') \<le> Suc (max (unat (rs_sent_messages x)) (unat (rs_sent_messages y))) \<and>
     session_public y' \<in> {session_public x, session_public y}"
proof -
  let ?b = "\<lparr> bt_from_first = True, bt_secret = secret, bt_ad = ad, bt_msgs = [(nonce, pt)], bt_order = [0] \<rparr>"
  have b: "batch_ok ?b" using assms(6) by (simp add: batch_ok_def lessThan_Suc)
  obtain envs s r where "encrypt_all C secret ad [(nonce, pt)] x = (Inr envs, s)"
    "decrypt_all C ad [envs ! 0] y = (Inr [pt], r)" "synced C s r"
    "unat (rs_sent_messages s) \<le> Suc (max (unat (rs_sent_messages x)) (unat (rs_sent_messages y)))"
    "session_public r \<in> {session_public x, session_public y}"
    using send batch_delivered [OF laws b, of x y True] batch_delivered [OF laws b, of y x False]
    by (fastforce simp: may_send_def)
  then show ?thesis by (auto simp: act_then_run split: prod.splits sum.splits)
qed

lemma one_message:
  assumes "b64_laws C" "aead_laws C" "kdf_laws C" "dh_laws C" "may_send C secret x y" "sendable (nonce, pt)"
    and "ratchet_encrypt C secret nonce pt ad x = (Inr env, x')"
  shows "\<exists>y'. ratchet_decrypt C env ad y = (Inr pt, y') \<and> synced C x' y'"
  using one_exchange [OF assms(1-6), of ad] assms(7) by auto

lemma encrypt_keeps_wf:
  assumes "dh_laws C" "length secret = 32" "session_wf x" "ratchet_encrypt C secret nonce pt ad x = (r, x')"
  shows "session_wf x'"
  using preservesD [OF wf_encrypt [OF assms(1,2)] assms(3)] by (metis assms(4) snd_conv)

lemma decrypt_keeps_wf:
  assumes "session_wf y" "ratchet_decrypt C envelope ad y = (r, y')"
  shows "session_wf y'"
  using preservesD [OF wf_decrypt assms(1)] by (metis assms(2) snd_conv)

end
