(* ===== verification/Ref_Codec.thy ===== *)
theory Ref_Codec
  imports Session_Store_Fs
begin

text \<open>
  A concrete serializer for the witnesses: a record becomes the list of its fields as texts, and a list of
  texts becomes bytes in which a 1 announces a character and a 0 ends a text.  It loses nothing and never
  fails, as \<open>serde_laws\<close> asks of \<^verbatim>\<open>serde_json\<close>; no property is about it.
\<close>

fun pack :: "string list \<Rightarrow> bytes" where
  "pack [] = []"
| "pack (s # ss) = concat (map (\<lambda>b. [1, b]) (as_bytes s)) @ 0 # pack ss"

fun unpack :: "bytes \<Rightarrow> bytes \<Rightarrow> string list" where
  "unpack acc (t # b # bs) =
     (if t = 0 then from_bytes acc # unpack [] (b # bs) else unpack (acc @ [b]) bs)"
| "unpack acc [t] = [from_bytes acc]"
| "unpack acc [] = []"

lemma unpack_text: "unpack acc (concat (map (\<lambda>b. [1, b]) bs) @ 0 # rest) = from_bytes (acc @ bs) # unpack [] rest"
proof (induction bs arbitrary: acc)
  case Nil
  then show ?case by (cases rest) simp_all
qed simp

lemma unpack_pack [simp]: "unpack [] (pack ss) = ss"
  by (induction ss) (simp_all add: unpack_text)

section \<open>Fields\<close>

definition number_text :: "u32 \<Rightarrow> string" where
  "number_text n = replicate (unat n) CHR ''1''"

definition text_number :: "string \<Rightarrow> u32" where
  "text_number s = of_nat (length s)"

lemma text_number_text [simp]: "text_number (number_text n) = n"
  by (simp add: text_number_def number_text_def)

fun option_text :: "string option \<Rightarrow> string" where
  "option_text None = []"
| "option_text (Some s) = CHR ''+'' # s"

fun text_option :: "string \<Rightarrow> string option" where
  "text_option [] = None"
| "text_option (c # s) = Some s"

lemma text_option_text [simp]: "text_option (option_text x) = x"
  by (cases x) simp_all

fun skipped_texts :: "persisted_skipped_message_key list \<Rightarrow> string list" where
  "skipped_texts [] = []"
| "skipped_texts (k # ks) =
     [ps_ratchet_public_key_b64 k, number_text (ps_message_number k), ps_message_key_b64 k] @ skipped_texts ks"

fun texts_skipped :: "string list \<Rightarrow> persisted_skipped_message_key list" where
  "texts_skipped (a # n # b # ss) =
     \<lparr> ps_ratchet_public_key_b64 = a, ps_message_number = text_number n, ps_message_key_b64 = b \<rparr> # texts_skipped ss"
| "texts_skipped ss = []"

lemma texts_skipped_texts [simp]: "texts_skipped (skipped_texts ks) = ks"
  by (induction ks) simp_all

section \<open>Sessions, records and envelopes\<close>

definition session_texts :: "persisted_session \<Rightarrow> string list" where
  "session_texts p = [pd_version p, pd_root_key_b64 p, pd_local_ratchet_secret_key_b64 p,
     pd_local_ratchet_public_key_b64 p, option_text (pd_remote_ratchet_public_key_b64 p),
     option_text (pd_sending_chain_key_b64 p), option_text (pd_receiving_chain_key_b64 p),
     number_text (pd_previous_chain_length p), number_text (pd_sent_messages p),
     number_text (pd_received_messages p)] @ skipped_texts (pd_skipped_keys p)"

fun texts_session :: "string list \<Rightarrow> persisted_session option" where
  "texts_session (v # r # s # p # m # c # d # l # n # k # ss) = Some
     \<lparr> pd_version = v, pd_root_key_b64 = r, pd_local_ratchet_secret_key_b64 = s,
       pd_local_ratchet_public_key_b64 = p, pd_remote_ratchet_public_key_b64 = text_option m,
       pd_sending_chain_key_b64 = text_option c, pd_receiving_chain_key_b64 = text_option d,
       pd_previous_chain_length = text_number l, pd_sent_messages = text_number n,
       pd_received_messages = text_number k, pd_skipped_keys = texts_skipped ss \<rparr>"
| "texts_session ss = None"

lemma texts_session_texts [simp]: "texts_session (session_texts p) = Some p"
  by (simp add: session_texts_def)

definition pack_serde :: serde where
  "pack_serde =
     \<lparr> sj_session_to_vec = (\<lambda>p. Some (pack (session_texts p))),
       sj_session_from_slice = (\<lambda>b. texts_session (unpack [] b)),
       sj_record_to_vec = (\<lambda>r. Some (pack [er_nonce_b64 r, er_ciphertext_b64 r])),
       sj_record_from_slice = (\<lambda>b. case unpack [] b of
          [n, c] \<Rightarrow> Some \<lparr> er_nonce_b64 = n, er_ciphertext_b64 = c \<rparr> | _ \<Rightarrow> None) \<rparr>"

lemma pack_serde_laws [simp]: "serde_laws pack_serde"
  by (auto simp: serde_laws_def pack_serde_def simp del: pack.simps)

definition envelope_bytes :: "ratchet_message_envelope \<Rightarrow> bytes" where
  "envelope_bytes e = pack [rm_version e, rh_ratchet_public_key_b64 (rm_header e),
     number_text (rh_previous_chain_length (rm_header e)), number_text (rh_message_number (rm_header e)),
     rm_nonce_b64 e, rm_ciphertext_b64 e]"

definition bytes_envelope :: "bytes \<Rightarrow> ratchet_message_envelope option" where
  "bytes_envelope b = (case unpack [] b of
     [v, k, l, n, nonce, c] \<Rightarrow> Some
       \<lparr> rm_version = v, rm_header = \<lparr> rh_ratchet_public_key_b64 = k, rh_previous_chain_length = text_number l,
           rh_message_number = text_number n \<rparr>, rm_nonce_b64 = nonce, rm_ciphertext_b64 = c \<rparr>
   | _ \<Rightarrow> None)"

lemma bytes_envelope_bytes [simp]: "bytes_envelope (envelope_bytes e) = Some e"
  by (simp add: bytes_envelope_def envelope_bytes_def del: pack.simps)

end
