(* ===== verification/Utf8.thy ===== *)
theory Utf8
  imports Rust_Std
begin

text \<open>
  \<^verbatim>\<open>String::from_utf8\<close>.  A byte list is text when it is a sequence of the well-formed encodings of the
  Unicode standard: no overlong forms, no surrogates, nothing beyond U+10FFFF.
\<close>

definition continuation :: "nat \<Rightarrow> bool" where
  "continuation b \<longleftrightarrow> 128 \<le> b \<and> b \<le> 191"

fun utf8_valid :: "nat list \<Rightarrow> bool" where
  "utf8_valid [] = True"
| "utf8_valid (b # bs) =
     (if b < 128 then utf8_valid bs
      else if 194 \<le> b \<and> b \<le> 223 then
        (case bs of c # cs \<Rightarrow> continuation c \<and> utf8_valid cs | [] \<Rightarrow> False)
      else if 224 \<le> b \<and> b \<le> 239 then
        (case bs of c # d # cs \<Rightarrow> continuation c \<and> continuation d \<and>
            (b = 224 \<longrightarrow> 160 \<le> c) \<and> (b = 237 \<longrightarrow> c \<le> 159) \<and> utf8_valid cs | _ \<Rightarrow> False)
      else if 240 \<le> b \<and> b \<le> 244 then
        (case bs of c # d # e # cs \<Rightarrow> continuation c \<and> continuation d \<and> continuation e \<and>
            (b = 240 \<longrightarrow> 144 \<le> c) \<and> (b = 244 \<longrightarrow> c \<le> 143) \<and> utf8_valid cs | _ \<Rightarrow> False)
      else False)"

definition from_utf8 :: "bytes \<Rightarrow> string option" where
  "from_utf8 bs = (if utf8_valid (map unat bs) then Some (from_bytes bs) else None)"

text \<open>The bytes of a Rust \<^verbatim>\<open>String\<close> are valid by construction.\<close>

definition is_text :: "string \<Rightarrow> bool" where
  "is_text s \<longleftrightarrow> utf8_valid (map of_char s)"

lemma unat_as_bytes: "map unat (as_bytes s) = map of_char s"
proof -
  have "unat (word_of_nat (of_char c) :: byte) = of_char c" for c
    using nat_of_char_less_256 [of c] by (simp add: unat_of_nat take_bit_eq_mod)
  then show ?thesis by (simp add: as_bytes_def comp_def)
qed

lemma from_utf8_as_bytes: "is_text s \<Longrightarrow> from_utf8 (as_bytes s) = Some s"
  by (simp add: from_utf8_def is_text_def unat_as_bytes)

lemma from_utf8_Some: "from_utf8 bs = Some s \<longleftrightarrow> is_text s \<and> bs = as_bytes s"
  using unat_as_bytes [of "from_bytes bs"]
  by (auto simp: from_utf8_def is_text_def unat_as_bytes)

lemma ascii_text: "list_all (\<lambda>c. of_char c < (128 :: nat)) s \<Longrightarrow> is_text s"
  by (induction s) (simp_all add: is_text_def)

end
