(* ===== verification/Programs.thy ===== *)
theory Programs
  imports Media Device Ratchet_Exchange Ref_Codec Utf8
begin

text \<open>
  Whole programs over \<^verbatim>\<open>comm-core\<close>: the vocabulary in which the \<^verbatim>\<open>main\<close> functions of the examples and the
  bodies of the unit tests are written.  A program draws random bytes, reads the clock, prints lines and may
  panic; it is an action whose state is the number of draws so far and the output, and whose error is a
  panic.
\<close>

section \<open>Surroundings\<close>

record surroundings =
  su_crypto :: crypto
  su_serde :: serde
  su_random :: "nat \<Rightarrow> bytes"
  su_clock :: "nat \<Rightarrow> time"

record process =
  pr_tick :: nat
  pr_out :: "string list"

type_synonym 'a program = "(process, string, 'a) action"

definition process_start :: process where
  "process_start = \<lparr> pr_tick = 0, pr_out = [] \<rparr>"

text \<open>The \<open>k\<close>-th draw, cut to the size of the buffer it fills.\<close>

definition drawn :: "surroundings \<Rightarrow> nat \<Rightarrow> nat \<Rightarrow> bytes" where
  "drawn E n k = resize (su_random E k) n 0"

lemma length_drawn [simp]: "length (drawn E n k) = n"
  by (simp add: drawn_def)

definition draw :: "surroundings \<Rightarrow> nat \<Rightarrow> bytes program" where
  "draw E n = (\<lambda>s. (Inr (drawn E n (pr_tick s)), s\<lparr>pr_tick := Suc (pr_tick s)\<rparr>))"

definition read_clock :: "surroundings \<Rightarrow> time program" where
  "read_clock E = (\<lambda>s. (Inr (su_clock E (pr_tick s)), s\<lparr>pr_tick := Suc (pr_tick s)\<rparr>))"

definition println :: "string \<Rightarrow> unit program" where
  "println line = act_mod (\<lambda>s. s\<lparr>pr_out := pr_out s @ [line]\<rparr>)"

text \<open>\<^verbatim>\<open>.expect(..)\<close> and \<^verbatim>\<open>.unwrap()\<close>, \<^verbatim>\<open>assert!\<close>, and \<^verbatim>\<open>{}\<close> for a boolean.\<close>

definition expect :: "string \<Rightarrow> 'e + 'a \<Rightarrow> 'a program" where
  "expect message r = act_lift (map_err (\<lambda>_. message) r)"

definition expect_some :: "string \<Rightarrow> 'a option \<Rightarrow> 'a program" where
  "expect_some message x = act_lift (ok_or message x)"

definition assert_that :: "string \<Rightarrow> bool \<Rightarrow> unit program" where
  "assert_that message b = (if b then act_ok () else act_err message)"

definition assert_eq :: "'a \<Rightarrow> 'a \<Rightarrow> unit program" where
  "assert_eq left right = assert_that ''left == right'' (left = right)"

definition unwrap :: "'e + 'a \<Rightarrow> 'a program" where
  "unwrap r = expect ''unwrap'' r"

definition display_bool :: "bool \<Rightarrow> string" where
  "display_bool b = (if b then ''true'' else ''false'')"

text \<open>A call on a local value: the caller keeps the value the call leaves, unless it panics.\<close>

definition on_local :: "string \<Rightarrow> ('s, 'e, 'a) action \<Rightarrow> 's \<Rightarrow> ('a \<times> 's) program" where
  "on_local message m x = (case m x of (Inl e, _) \<Rightarrow> act_err message | (Inr a, x') \<Rightarrow> act_ok (a, x'))"

text \<open>A unit test passes when it does not panic.\<close>

definition test_passes :: "unit program \<Rightarrow> bool" where
  "test_passes test \<longleftrightarrow> is_ok (fst (test process_start))"

section \<open>Calls that draw\<close>

definition new_identity :: "surroundings \<Rightarrow> identity_key_pair program" where
  "new_identity E = act_then (draw E 32) (\<lambda>signing. act_then (draw E 32) (\<lambda>exchange.
     act_ok (identity_generate (su_crypto E) signing exchange)))"

definition new_signed_prekey :: "surroundings \<Rightarrow> identity_key_pair \<Rightarrow> signed_pre_key program" where
  "new_signed_prekey E identity = act_then (draw E 32) (\<lambda>secret.
     act_ok (signed_prekey_generate (su_crypto E) identity secret))"

definition new_one_time_prekey :: "surroundings \<Rightarrow> one_time_pre_key program" where
  "new_one_time_prekey E = act_then (draw E 32) (\<lambda>secret. act_ok (one_time_prekey_generate (su_crypto E) secret))"

definition new_device_key_pair :: "surroundings \<Rightarrow> device_key_pair program" where
  "new_device_key_pair E = act_then (draw E 32) (\<lambda>signing. act_then (draw E 32) (\<lambda>exchange.
     act_ok (device_key_pair_generate (su_crypto E) signing exchange)))"

text \<open>\<^verbatim>\<open>(0..n).map(|_| OneTimePreKey::generate()).collect()\<close>\<close>

fun new_one_time_prekeys :: "surroundings \<Rightarrow> nat \<Rightarrow> one_time_pre_key list program" where
  "new_one_time_prekeys E 0 = act_ok []"
| "new_one_time_prekeys E (Suc n) =
     act_then (new_one_time_prekey E) (\<lambda>key. act_then (new_one_time_prekeys E n) (\<lambda>keys. act_ok (key # keys)))"

definition seal_message :: "surroundings \<Rightarrow> string \<Rightarrow> identity_key_pair \<Rightarrow> pre_key_bundle \<Rightarrow> bytes \<Rightarrow>
    relay_content_kind \<Rightarrow> (x3dh_envelope \<times> initiator_handshake) program" where
  "seal_message E message sender bundle plaintext kind =
     act_then (draw E 32) (\<lambda>ephemeral. act_then (draw E 24) (\<lambda>nonce. act_then (read_clock E) (\<lambda>now.
     expect message (seal_initial_message (su_crypto E) ephemeral nonce now sender bundle plaintext kind))))"

text \<open>
  \<^verbatim>\<open>session.encrypt(..)\<close> draws a ratchet secret only when it starts a chain; the model draws one each time.
\<close>

definition session_encrypt :: "surroundings \<Rightarrow> string \<Rightarrow> double_ratchet_session \<Rightarrow> string \<Rightarrow> string \<Rightarrow>
    (ratchet_message_envelope \<times> double_ratchet_session) program" where
  "session_encrypt E message session plaintext associated_data =
     act_then (draw E 32) (\<lambda>secret. act_then (draw E 24) (\<lambda>nonce.
     on_local message (ratchet_encrypt (su_crypto E) secret nonce (as_bytes plaintext) (as_bytes associated_data)) session))"

definition session_decrypt :: "surroundings \<Rightarrow> string \<Rightarrow> double_ratchet_session \<Rightarrow> ratchet_message_envelope \<Rightarrow> string \<Rightarrow>
    (bytes \<times> double_ratchet_session) program" where
  "session_decrypt E message session envelope associated_data =
     on_local message (ratchet_decrypt (su_crypto E) envelope (as_bytes associated_data)) session"

lemmas program_unfold =
  draw_def read_clock_def println_def expect_def expect_some_def assert_that_def on_local_def
  new_identity_def new_signed_prekey_def new_one_time_prekey_def new_device_key_pair_def
  seal_message_def session_encrypt_def session_decrypt_def act_then_run

section \<open>What a program may rely on\<close>

text \<open>The laws of the primitives, and that the first \<open>n\<close> draws make different key pairs.\<close>

definition core_laws :: "crypto \<Rightarrow> bool" where
  "core_laws C \<longleftrightarrow> b64_laws C \<and> aead_laws C \<and> kdf_laws C \<and> dh_laws C \<and> sig_laws C"

definition fresh_keys :: "surroundings \<Rightarrow> nat \<Rightarrow> bool" where
  "fresh_keys E n \<longleftrightarrow> inj_on (\<lambda>k. x25519_public (su_crypto E) (drawn E 32 k)) {..<n}"

lemma fresh_keysD:
  "fresh_keys E n \<Longrightarrow> j < n \<Longrightarrow> k < n \<Longrightarrow> j \<noteq> k \<Longrightarrow>
   x25519_public (su_crypto E) (drawn E 32 j) \<noteq> x25519_public (su_crypto E) (drawn E 32 k)"
  by (auto simp: fresh_keys_def inj_on_def)

lemma core_lawsD:
  assumes "core_laws C"
  shows "b64_laws C" "aead_laws C" "kdf_laws C" "dh_laws C" "sig_laws C"
  using assms by (simp_all add: core_laws_def)

lemma ref_core_laws [simp]: "core_laws ref_crypto"
  by (simp add: core_laws_def)

definition demo_surroundings :: surroundings where
  "demo_surroundings =
     \<lparr> su_crypto = ref_crypto, su_serde = pack_serde, su_random = (\<lambda>n. replicate 32 (of_nat n)), su_clock = int \<rparr>"

lemma demo_fresh: "fresh_keys demo_surroundings 64"
proof -
  have "j = k" if "j < 64" "k < 64" "(word_of_nat j :: byte) = word_of_nat k" for j k
    using that by (simp add: word_of_nat_eq_iff take_bit_eq_mod)
  then show ?thesis
    by (auto simp: fresh_keys_def inj_on_def demo_surroundings_def drawn_def ref_crypto_def ref_pad_def resize_def)
qed

end
