(* ===== verification/Core_Tests.thy ===== *)
theory Core_Tests
  imports Programs
begin

text \<open>
  The unit tests of \<^verbatim>\<open>crates/comm-core\<close> as programs: a test fails when it panics.  Not written out are
  \<^verbatim>\<open>decrypt_rejects_wrong_associated_data\<close> and \<^verbatim>\<open>device_record_rejects_tampering\<close>, which pass only because the
  tag and the signature of the concrete primitives differ for the two inputs; no law of \<open>Crypto_Api\<close> excludes
  a collision.
\<close>

section \<open>\<^verbatim>\<open>lib.rs\<close>\<close>

definition new_identity_material :: "surroundings \<Rightarrow> identity_material program" where
  "new_identity_material E = act_then (draw E 32) (\<lambda>key. act_then (read_clock E) (\<lambda>now.
     act_ok \<lparr> im_signing_key = key, im_created_at = now \<rparr>))"

definition new_media_material :: "surroundings \<Rightarrow> media_encryption_material program" where
  "new_media_material E = act_then (draw E 32) (\<lambda>key. act_then (draw E 24) (\<lambda>nonce.
     act_ok (generate_media_encryption_material (su_crypto E) key nonce)))"

definition generated_identity_has_stable_public_bundle_shape :: "surroundings \<Rightarrow> unit program" where
  "generated_identity_has_stable_public_bundle_shape E =
     act_then (new_identity_material E) (\<lambda>identity.
     let public = public_identity_of (su_crypto E) identity in
     act_then (assert_eq (pi_algorithm public) ''ed25519'') (\<lambda>_.
     act_then (assert_that '''' (pi_public_key_b64 public \<noteq> [])) (\<lambda>_.
     assert_that '''' (CHR ''-'' \<in> set (pi_fingerprint public)))))"

definition public_identity_round_trips :: "surroundings \<Rightarrow> unit program" where
  "public_identity_round_trips E =
     act_then (new_identity_material E) (\<lambda>identity.
     let public = public_identity_of (su_crypto E) identity in
     act_then (unwrap (decode_public_identity (su_crypto E) (pi_public_key_b64 public))) (\<lambda>verifying_key.
     assert_eq verifying_key (ed25519_public (su_crypto E) (im_signing_key identity))))"

definition padding_bucket_uses_next_supported_size :: "unit program" where
  "padding_bucket_uses_next_supported_size =
     act_then (unwrap (choose_padding_bucket 600000)) (\<lambda>b. act_then (assert_eq b 1048576) (\<lambda>_.
     act_then (unwrap (choose_padding_bucket 2000000)) (\<lambda>b. act_then (assert_eq b 5242880) (\<lambda>_.
     assert_that '''' (choose_padding_bucket 60000000 = Inl MediaTooLarge)))))"

definition blob_padding_plan_counts_chunks :: "unit program" where
  "blob_padding_plan_counts_chunks =
     act_then (unwrap (build_blob_padding_plan 1400000 262144)) (\<lambda>plan.
     act_then (assert_eq (plan_padded_size_bytes plan) 5242880) (\<lambda>_.
     assert_eq (plan_chunk_count plan) 20))"

definition test_pointer :: "surroundings \<Rightarrow> u64 \<Rightarrow> time \<Rightarrow> encrypted_blob_pointer" where
  "test_pointer E padded now =
     \<lparr> bp_object_key = ''media/demo/abc123'', bp_bucket = ''simy-media'', bp_media_type = ''image/jpeg'',
       bp_original_size_bytes = 900000, bp_padded_size_bytes = padded, bp_chunk_size_bytes = 262144,
       bp_encryption_key_b64 = b64_encode (su_crypto E) (replicate 32 7),
       bp_nonce_b64 = b64_encode (su_crypto E) (replicate 24 9),
       bp_sha256_b64 = b64_encode (su_crypto E) (replicate 32 3), bp_expires_at = now \<rparr>"

definition blob_pointer_validation_rejects_wrong_padding :: "surroundings \<Rightarrow> unit program" where
  "blob_pointer_validation_rejects_wrong_padding E =
     act_then (read_clock E) (\<lambda>now.
     assert_that '''' (blob_pointer_validate (su_crypto E) (test_pointer E 5242880 now) = Inl InvalidMediaSize))"

definition blob_pointer_validation_accepts_consistent_descriptor :: "surroundings \<Rightarrow> unit program" where
  "blob_pointer_validation_accepts_consistent_descriptor E =
     act_then (read_clock E) (\<lambda>now.
     assert_that '''' (is_ok (blob_pointer_validate (su_crypto E) (test_pointer E 1048576 now))))"

definition media_encryption_round_trips :: "surroundings \<Rightarrow> unit program" where
  "media_encryption_round_trips E =
     act_then (new_media_material E) (\<lambda>material.
     let plaintext = concat (replicate 20 (as_bytes ''simy encrypted media round trip'')) in
     act_then (unwrap (encrypt_media_bytes (su_crypto E) plaintext 262144 material)) (\<lambda>encrypted.
     act_then (unwrap (decrypt_media_bytes (su_crypto E) encrypted material)) (\<lambda>decrypted.
     act_then (assert_eq decrypted plaintext) (\<lambda>_.
     assert_eq (mb_padded_size_bytes encrypted) 1048576))))"

definition tampered_chunk_is_rejected :: "surroundings \<Rightarrow> unit program" where
  "tampered_chunk_is_rejected E =
     (let C = su_crypto E in
     act_then (new_media_material E) (\<lambda>material.
     let plaintext = concat (replicate 32 (as_bytes ''tamper test'')) in
     act_then (unwrap (encrypt_media_bytes C plaintext 262144 material)) (\<lambda>encrypted.
     case mb_chunks encrypted of
       [] \<Rightarrow> act_err ''index out of bounds''
     | chunk # rest \<Rightarrow>
         let tampered = encrypted\<lparr>mb_chunks := chunk\<lparr>mc_ciphertext_b64 := b64_encode C (as_bytes ''tampered'')\<rparr> # rest\<rparr> in
         assert_that '''' (decrypt_media_bytes C tampered material \<in> {Inl IntegrityMismatch, Inl CryptoFailure}))))"

section \<open>\<^verbatim>\<open>x3dh.rs\<close>\<close>

definition signed_prekey_signature_verifies :: "surroundings \<Rightarrow> unit program" where
  "signed_prekey_signature_verifies E =
     act_then (new_identity E) (\<lambda>identity.
     act_then (new_signed_prekey E identity) (\<lambda>signed_prekey.
     assert_that '''' (is_ok (signed_prekey_verify (su_crypto E) signed_prekey (ik_verifying_key identity)))))"

definition prekey_bundle_verification_rejects_tampering :: "surroundings \<Rightarrow> unit program" where
  "prekey_bundle_verification_rejects_tampering E =
     act_then (new_identity E) (\<lambda>identity.
     act_then (new_signed_prekey E identity) (\<lambda>signed_prekey.
     act_then (new_identity E) (\<lambda>attacker.
     let bundle = \<lparr> pb_identity_pub = public_bundle attacker, pb_signed_prekey_pub = spk_public_key signed_prekey,
       pb_signed_prekey_sig = spk_signature signed_prekey, pb_one_time_prekey_pub = None \<rparr> in
     assert_that '''' (bundle_verify (su_crypto E) bundle = Inl InvalidSignature))))"

text \<open>\<^verbatim>\<open>initiate_x3dh\<close> with its own draw.\<close>

definition initiate :: "surroundings \<Rightarrow> identity_key_pair \<Rightarrow> pre_key_bundle \<Rightarrow> (core_error + initiator_handshake) program" where
  "initiate E sender bundle = act_then (draw E 32) (\<lambda>ephemeral. act_ok (initiate_x3dh (su_crypto E) ephemeral sender bundle))"

definition x3dh_round_trip_with_one_time_prekey :: "surroundings \<Rightarrow> unit program" where
  "x3dh_round_trip_with_one_time_prekey E =
     act_then (new_identity E) (\<lambda>sender_identity.
     act_then (new_identity E) (\<lambda>receiver_identity.
     act_then (new_signed_prekey E receiver_identity) (\<lambda>receiver_signed_prekey.
     act_then (new_one_time_prekey E) (\<lambda>receiver_one_time_prekey.
     let bundle = bundle_from_parts receiver_identity receiver_signed_prekey (Some receiver_one_time_prekey) in
     act_then (initiate E sender_identity bundle) (\<lambda>r. act_then (unwrap r) (\<lambda>initiator.
     act_then (unwrap (respond_x3dh (su_crypto E) receiver_identity receiver_signed_prekey
       (Some receiver_one_time_prekey) (hs_message_keys initiator))) (\<lambda>responder.
     assert_eq (hs_shared_secret initiator) responder)))))))"

definition x3dh_round_trip_without_one_time_prekey :: "surroundings \<Rightarrow> unit program" where
  "x3dh_round_trip_without_one_time_prekey E =
     act_then (new_identity E) (\<lambda>sender_identity.
     act_then (new_identity E) (\<lambda>receiver_identity.
     act_then (new_signed_prekey E receiver_identity) (\<lambda>receiver_signed_prekey.
     let bundle = bundle_from_parts receiver_identity receiver_signed_prekey None in
     act_then (initiate E sender_identity bundle) (\<lambda>r. act_then (unwrap r) (\<lambda>initiator.
     act_then (unwrap (respond_x3dh (su_crypto E) receiver_identity receiver_signed_prekey None (hs_message_keys initiator)))
       (\<lambda>responder. assert_eq (hs_shared_secret initiator) responder))))))"

definition responder_rejects_missing_one_time_prekey :: "surroundings \<Rightarrow> unit program" where
  "responder_rejects_missing_one_time_prekey E =
     act_then (new_identity E) (\<lambda>sender_identity.
     act_then (new_identity E) (\<lambda>receiver_identity.
     act_then (new_signed_prekey E receiver_identity) (\<lambda>receiver_signed_prekey.
     act_then (new_one_time_prekey E) (\<lambda>receiver_one_time_prekey.
     let bundle = bundle_from_parts receiver_identity receiver_signed_prekey (Some receiver_one_time_prekey) in
     act_then (initiate E sender_identity bundle) (\<lambda>r. act_then (unwrap r) (\<lambda>initiator.
     assert_that '''' (respond_x3dh (su_crypto E) receiver_identity receiver_signed_prekey None
       (hs_message_keys initiator) = Inl MissingOneTimePreKey)))))))"

definition initial_message_envelope_round_trips_with_one_time_prekey :: "surroundings \<Rightarrow> unit program" where
  "initial_message_envelope_round_trips_with_one_time_prekey E =
     act_then (new_identity E) (\<lambda>sender_identity.
     act_then (new_identity E) (\<lambda>receiver_identity.
     act_then (new_signed_prekey E receiver_identity) (\<lambda>receiver_signed_prekey.
     act_then (new_one_time_prekey E) (\<lambda>receiver_one_time_prekey.
     let bundle = bundle_from_parts receiver_identity receiver_signed_prekey (Some receiver_one_time_prekey);
         plaintext = as_bytes ''bootstrap hello'' in
     act_then (seal_message E ''unwrap'' sender_identity bundle plaintext SessionBootstrap) (\<lambda>(envelope, initiator).
     act_then (unwrap (open_initial_message (su_crypto E) receiver_identity receiver_signed_prekey
       (Some receiver_one_time_prekey) envelope)) (\<lambda>opened.
     act_then (assert_eq (om_plaintext opened) plaintext) (\<lambda>_.
     act_then (assert_eq (om_shared_secret opened) (hs_shared_secret initiator)) (\<lambda>_.
     act_then (assert_eq (om_content_kind opened) SessionBootstrap) (\<lambda>_.
     assert_eq (om_sender_identity opened) (public_bundle sender_identity))))))))))"

definition initial_message_envelope_round_trips_without_one_time_prekey :: "surroundings \<Rightarrow> unit program" where
  "initial_message_envelope_round_trips_without_one_time_prekey E =
     act_then (new_identity E) (\<lambda>sender_identity.
     act_then (new_identity E) (\<lambda>receiver_identity.
     act_then (new_signed_prekey E receiver_identity) (\<lambda>receiver_signed_prekey.
     let bundle = bundle_from_parts receiver_identity receiver_signed_prekey None;
         plaintext = as_bytes ''bootstrap hello without opk'' in
     act_then (seal_message E ''unwrap'' sender_identity bundle plaintext DirectMessage) (\<lambda>(envelope, initiator).
     act_then (unwrap (open_initial_message (su_crypto E) receiver_identity receiver_signed_prekey None envelope)) (\<lambda>opened.
     act_then (assert_eq (om_plaintext opened) plaintext) (\<lambda>_.
     act_then (assert_eq (om_shared_secret opened) (hs_shared_secret initiator)) (\<lambda>_.
     assert_eq (om_content_kind opened) DirectMessage)))))))"

definition initial_message_rejects_wrong_receiver_signed_prekey :: "surroundings \<Rightarrow> unit program" where
  "initial_message_rejects_wrong_receiver_signed_prekey E =
     act_then (new_identity E) (\<lambda>sender_identity.
     act_then (new_identity E) (\<lambda>receiver_identity.
     act_then (new_signed_prekey E receiver_identity) (\<lambda>receiver_signed_prekey.
     act_then (new_signed_prekey E receiver_identity) (\<lambda>wrong_signed_prekey.
     let bundle = bundle_from_parts receiver_identity receiver_signed_prekey None in
     act_then (seal_message E ''unwrap'' sender_identity bundle (as_bytes ''hello'') SessionBootstrap) (\<lambda>(envelope, _).
     assert_that '''' (open_initial_message (su_crypto E) receiver_identity wrong_signed_prekey None envelope
       = Inl InvalidPreKeyBundle))))))"

section \<open>\<^verbatim>\<open>device.rs\<close>\<close>

definition device_record_sign_and_verify_round_trip :: "surroundings \<Rightarrow> unit program" where
  "device_record_sign_and_verify_round_trip E =
     (let C = su_crypto E in
     act_then (new_identity E) (\<lambda>identity.
     act_then (new_device_key_pair E) (\<lambda>device.
     act_then (read_clock E) (\<lambda>now.
     act_then (unwrap (device_record_sign C (ik_signing_key identity) ''desktop_primary'' ''Desktop Primary''
       (device_public_keys_of C device) now None)) (\<lambda>record.
     act_then (assert_that '''' (is_ok (device_record_verify C record (ik_verifying_key identity)))) (\<lambda>_.
     assert_that '''' (\<not> is_revoked record)))))))"

section \<open>\<^verbatim>\<open>double_ratchet.rs\<close>\<close>

text \<open>
  The opening lines of the session tests: two identities, Bob's bundle, a sealed and opened first message, and the
  two sessions.
\<close>

definition test_sessions :: "surroundings \<Rightarrow> bool \<Rightarrow> string \<Rightarrow>
    (double_ratchet_session \<times> double_ratchet_session \<times> opened_initial_message) program" where
  "test_sessions E with_one_time_prekey plaintext =
     (let C = su_crypto E in
     act_then (new_identity E) (\<lambda>alice_identity.
     act_then (new_identity E) (\<lambda>bob_identity.
     act_then (new_signed_prekey E bob_identity) (\<lambda>bob_signed_prekey.
     act_then (if with_one_time_prekey then act_then (new_one_time_prekey E) (\<lambda>k. act_ok (Some k)) else act_ok None)
       (\<lambda>bob_one_time_prekey.
     let bob_bundle = bundle_from_parts bob_identity bob_signed_prekey bob_one_time_prekey in
     act_then (seal_message E ''unwrap'' alice_identity bob_bundle (as_bytes plaintext) SessionBootstrap)
       (\<lambda>(initial_envelope, alice_handshake).
     act_then (unwrap (open_initial_message C bob_identity bob_signed_prekey bob_one_time_prekey initial_envelope))
       (\<lambda>opened.
     act_then (unwrap (bootstrap_initiator_session C alice_handshake)) (\<lambda>alice_session.
     act_then (unwrap (bootstrap_responder_session C bob_signed_prekey opened)) (\<lambda>bob_session.
     act_ok (alice_session, bob_session, opened))))))))))"

definition bootstrap_sessions_exchange_messages_bidirectionally :: "surroundings \<Rightarrow> unit program" where
  "bootstrap_sessions_exchange_messages_bidirectionally E =
     act_then (test_sessions E True ''hello bob'') (\<lambda>(alice_session, bob_session, _).
     act_then (session_encrypt E ''unwrap'' bob_session ''hello alice'' ''chat-1'') (\<lambda>(bob_reply, bob_session).
     act_then (session_decrypt E ''unwrap'' alice_session bob_reply ''chat-1'') (\<lambda>(opened_by_alice, alice_session).
     act_then (assert_eq opened_by_alice (as_bytes ''hello alice'')) (\<lambda>_.
     act_then (session_encrypt E ''unwrap'' alice_session ''ack'' ''chat-1'') (\<lambda>(alice_reply, alice_session).
     act_then (session_decrypt E ''unwrap'' bob_session alice_reply ''chat-1'') (\<lambda>(opened_by_bob, bob_session).
     assert_eq opened_by_bob (as_bytes ''ack'')))))))"

definition skipped_message_key_allows_out_of_order_delivery :: "surroundings \<Rightarrow> unit program" where
  "skipped_message_key_allows_out_of_order_delivery E =
     act_then (test_sessions E False ''bootstrap'') (\<lambda>(alice_session, bob_session, _).
     act_then (session_encrypt E ''unwrap'' bob_session ''message-one'' ''chat-1'') (\<lambda>(bob_msg_1, bob_session).
     act_then (session_encrypt E ''unwrap'' bob_session ''message-two'' ''chat-1'') (\<lambda>(bob_msg_2, bob_session).
     act_then (session_decrypt E ''unwrap'' alice_session bob_msg_2 ''chat-1'') (\<lambda>(opened_second, alice_session).
     act_then (session_decrypt E ''unwrap'' alice_session bob_msg_1 ''chat-1'') (\<lambda>(opened_first, alice_session).
     act_then (assert_eq opened_second (as_bytes ''message-two'')) (\<lambda>_.
     assert_eq opened_first (as_bytes ''message-one'')))))))"

definition persisted_session_round_trips :: "surroundings \<Rightarrow> unit program" where
  "persisted_session_round_trips E =
     act_then (test_sessions E False ''bootstrap'') (\<lambda>(alice_session, _, opened).
     let persisted = persist (su_crypto E) alice_session in
     act_then (unwrap (from_persisted (su_crypto E) persisted)) (\<lambda>restored.
     act_then (assert_eq (rk_public_key (rs_local_ratchet_key restored)) (rk_public_key (rs_local_ratchet_key alice_session))) (\<lambda>_.
     act_then (assert_eq (rs_remote_ratchet_key restored) (rs_remote_ratchet_key alice_session)) (\<lambda>_.
     assert_eq (om_content_kind opened) SessionBootstrap))))"

definition stored_session_restores_and_continues_ratchet_flow :: "surroundings \<Rightarrow> unit program" where
  "stored_session_restores_and_continues_ratchet_flow E =
     (let C = su_crypto E; session_id = ''alice:bob:primary'' in
     act_then (test_sessions E False ''bootstrap'') (\<lambda>(alice_session, bob_session, _).
     let store = in_memory_new in
     act_then (session_encrypt E ''unwrap'' bob_session ''first-message'' ''chat-1'') (\<lambda>(inbound, bob_session).
     act_then (session_decrypt E ''unwrap'' alice_session inbound ''chat-1'') (\<lambda>(opened_first, alice_session).
     act_then (assert_eq opened_first (as_bytes ''first-message'')) (\<lambda>_.
     act_then (on_local ''unwrap'' (save_to_store C in_memory_save_session alice_session session_id) store) (\<lambda>(_, store).
     act_then (on_local ''unwrap'' (load_from_store C in_memory_load_session session_id) store) (\<lambda>(loaded, store).
     act_then (expect_some ''unwrap'' loaded) (\<lambda>restored.
     act_then (session_encrypt E ''unwrap'' restored ''reply-after-restore'' ''chat-1'') (\<lambda>(outbound, restored).
     act_then (session_decrypt E ''unwrap'' bob_session outbound ''chat-1'') (\<lambda>(opened_by_bob, bob_session).
     assert_eq opened_by_bob (as_bytes ''reply-after-restore'')))))))))))"

definition session_store_delete_removes_saved_session :: "surroundings \<Rightarrow> unit program" where
  "session_store_delete_removes_saved_session E =
     (let C = su_crypto E; store = in_memory_new;
          session = \<lparr> pd_version = DOUBLE_RATCHET_VERSION,
            pd_root_key_b64 = b64_encode C (replicate 32 7),
            pd_local_ratchet_secret_key_b64 = b64_encode C (replicate 32 8),
            pd_local_ratchet_public_key_b64 = b64_encode C (replicate 32 9),
            pd_remote_ratchet_public_key_b64 = None, pd_sending_chain_key_b64 = None,
            pd_receiving_chain_key_b64 = None, pd_previous_chain_length = 0, pd_sent_messages = 0,
            pd_received_messages = 0, pd_skipped_keys = [] \<rparr> in
     act_then (on_local ''unwrap'' (in_memory_save_session ''session-1'' session) store) (\<lambda>(_, store).
     act_then (on_local ''unwrap'' (in_memory_load_session ''session-1'') store) (\<lambda>(loaded, store).
     act_then (assert_that '''' (loaded \<noteq> None)) (\<lambda>_.
     act_then (on_local ''unwrap'' (in_memory_delete_session ''session-1'') store) (\<lambda>(_, store).
     act_then (on_local ''unwrap'' (in_memory_load_session ''session-1'') store) (\<lambda>(loaded, store).
     assert_that '''' (loaded = None)))))))"

definition session_store_rejects_blank_session_id :: "unit program" where
  "session_store_rejects_blank_session_id =
     assert_that '''' (fst (in_memory_load_session ''   '' in_memory_new) = Inl InvalidRatchetSessionId)"

section \<open>\<^verbatim>\<open>ratchet_store_fs.rs\<close>\<close>

text \<open>
  The directory is a local value and \<open>os\<close> its oracle.  \<^verbatim>\<open>unique_temp_dir\<close> draws the directory's name,
  creates it and starts from an empty directory; \<^verbatim>\<open>remove_dir_all\<close> empties it.
\<close>

definition fs_remove_dir_all :: "os \<Rightarrow> unit fs_action" where
  "fs_remove_dir_all os =
     act_then (fs_next os) (\<lambda>outcome.
     if oo_fails outcome then act_err StorageFailure else act_mod (\<lambda>s. s\<lparr>fs_files := (\<lambda>_. None)\<rparr>))"

definition unique_temp_dir :: "surroundings \<Rightarrow> os \<Rightarrow> file_system program" where
  "unique_temp_dir E os =
     act_then (draw E 8) (\<lambda>suffix.
     act_then (on_local ''unwrap'' (fs_create_dir_all os) \<lparr> fs_files = (\<lambda>_. None), fs_tick = 0 \<rparr>) (\<lambda>(_, dir).
     act_ok dir))"

definition file_store_round_trips_ratchet_session_after_restart :: "surroundings \<Rightarrow> os \<Rightarrow> unit program" where
  "file_store_round_trips_ratchet_session_after_restart E os =
     (let C = su_crypto E; S = su_serde E; session_id = ''alice:bob:main'' in
     act_then (unique_temp_dir E os) (\<lambda>dir.
     act_then (draw E 32) (\<lambda>key.
     act_then (test_sessions E False ''bootstrap'') (\<lambda>(alice_session, bob_session, _).
     act_then (session_encrypt E ''unwrap'' bob_session ''first'' ''chat-1'') (\<lambda>(first, bob_session).
     act_then (session_decrypt E ''unwrap'' alice_session first ''chat-1'') (\<lambda>(opened_first, alice_session).
     act_then (assert_eq opened_first (as_bytes ''first'')) (\<lambda>_.
     act_then (on_local ''unwrap'' (save_to_store C (fs_save_session C S os key) alice_session session_id) dir) (\<lambda>(_, dir).
     act_then (on_local ''unwrap'' (load_from_store C (fs_load_session C S os key) session_id) dir) (\<lambda>(loaded, dir).
     act_then (expect_some ''unwrap'' loaded) (\<lambda>restored.
     act_then (session_encrypt E ''unwrap'' restored ''after-restart'' ''chat-1'') (\<lambda>(outbound, restored).
     act_then (session_decrypt E ''unwrap'' bob_session outbound ''chat-1'') (\<lambda>(opened_by_bob, bob_session).
     act_then (assert_eq opened_by_bob (as_bytes ''after-restart'')) (\<lambda>_.
     act_then (on_local ''unwrap'' (delete_from_store (fs_delete_session C os) session_id) dir) (\<lambda>(_, dir).
     act_then (on_local ''unwrap'' (load_from_store C (fs_load_session C S os key) session_id) dir) (\<lambda>(missing, dir).
     act_then (assert_that '''' (missing = None)) (\<lambda>_.
     act_then (on_local ''unwrap'' (fs_remove_dir_all os) dir) (\<lambda>_.
     act_ok ())))))))))))))))))"

definition file_store_rejects_blank_session_id :: "surroundings \<Rightarrow> os \<Rightarrow> unit program" where
  "file_store_rejects_blank_session_id E os =
     (let C = su_crypto E; S = su_serde E in
     act_then (unique_temp_dir E os) (\<lambda>dir.
     act_then (draw E 32) (\<lambda>key.
     let (result, dir) = fs_load_session C S os key ''   '' dir in
     act_then (assert_that '''' (result = Inl InvalidRatchetSessionId)) (\<lambda>_.
     act_then (on_local ''unwrap'' (fs_remove_dir_all os) dir) (\<lambda>_.
     act_ok ())))))"

section \<open>The test run\<close>

text \<open>
  All tests but those whose outcome rests on a signature, a cipher or a hash telling two given inputs apart,
  which is no law of the primitives.
\<close>

definition core_tests :: "surroundings \<Rightarrow> os \<Rightarrow> unit program list" where
  "core_tests E os =
     [generated_identity_has_stable_public_bundle_shape E, public_identity_round_trips E,
      padding_bucket_uses_next_supported_size, blob_padding_plan_counts_chunks,
      blob_pointer_validation_rejects_wrong_padding E, blob_pointer_validation_accepts_consistent_descriptor E,
      media_encryption_round_trips E, tampered_chunk_is_rejected E,
      signed_prekey_signature_verifies E,
      x3dh_round_trip_with_one_time_prekey E, x3dh_round_trip_without_one_time_prekey E,
      responder_rejects_missing_one_time_prekey E, initial_message_envelope_round_trips_with_one_time_prekey E,
      initial_message_envelope_round_trips_without_one_time_prekey E,
      initial_message_rejects_wrong_receiver_signed_prekey E, device_record_sign_and_verify_round_trip E,
      bootstrap_sessions_exchange_messages_bidirectionally E, skipped_message_key_allows_out_of_order_delivery E,
      persisted_session_round_trips E, stored_session_restores_and_continues_ratchet_flow E,
      session_store_delete_removes_saved_session E, session_store_rejects_blank_session_id,
      file_store_round_trips_ratchet_session_after_restart E os, file_store_rejects_blank_session_id E os]"

end
