(* ===== verification/Program_Runs.thy ===== *)
theory Program_Runs
  imports Programs
begin

text \<open>
  Runs of the pieces that the example programs and the unit tests are made of: key generation, a sealed first
  message with the two sessions it leads to, and messages between sessions in step.
\<close>

section \<open>Fragments of a run\<close>

lemma new_run:
  "new_identity E s = (Inr (identity_generate (su_crypto E) (drawn E 32 (pr_tick s)) (drawn E 32 (pr_tick s + 1))),
     s\<lparr>pr_tick := pr_tick s + 2\<rparr>)"
  "new_signed_prekey E ik s = (Inr (signed_prekey_generate (su_crypto E) ik (drawn E 32 (pr_tick s))),
     s\<lparr>pr_tick := pr_tick s + 1\<rparr>)"
  "new_one_time_prekey E s = (Inr (one_time_prekey_generate (su_crypto E) (drawn E 32 (pr_tick s))),
     s\<lparr>pr_tick := pr_tick s + 1\<rparr>)"
  "new_device_key_pair E s =
     (Inr (device_key_pair_generate (su_crypto E) (drawn E 32 (pr_tick s)) (drawn E 32 (pr_tick s + 1))),
     s\<lparr>pr_tick := pr_tick s + 2\<rparr>)"
  "draw E n s = (Inr (drawn E n (pr_tick s)), s\<lparr>pr_tick := pr_tick s + 1\<rparr>)"
  "read_clock E s = (Inr (su_clock E (pr_tick s)), s\<lparr>pr_tick := pr_tick s + 1\<rparr>)"
  "println line s = (Inr (), s\<lparr>pr_out := pr_out s @ [line]\<rparr>)"
  "expect m (Inr a) s = (Inr a, s)" "expect_some m (Some a) s = (Inr a, s)"
  "assert_that m True s = (Inr (), s)"
  by (simp_all add: program_unfold)

lemma on_local_run: "m x = (Inr a, x') \<Longrightarrow> on_local message m x s = (Inr (a, x'), s)"
  by (simp add: on_local_def)

lemma new_one_time_prekeys_run:
  "new_one_time_prekeys E n s =
     (Inr (map (\<lambda>k. one_time_prekey_generate (su_crypto E) (drawn E 32 k)) [pr_tick s..<pr_tick s + n]),
      s\<lparr>pr_tick := pr_tick s + n\<rparr>)"
  by (induction n arbitrary: s)
    (simp_all add: act_then_run new_run upt_conv_Cons del: upt_Suc)

text \<open>Sealing and opening a first message, and the two sessions, from tick \<open>k\<close> on.\<close>

lemma handshake_run:
  assumes "core_laws (su_crypto E)" "identity_wf (su_crypto E) alice" "identity_wf (su_crypto E) bob"
    and "\<forall>k. opk = Some k \<longrightarrow> one_time_prekey_wf (su_crypto E) k" "length pt < 64 * (2 ^ 32 - 1)"
  shows "\<exists>env hs om a b.
     (\<forall>s m. pr_tick s = k \<longrightarrow>
        seal_message E m alice (bundle_from_parts bob (signed_prekey_generate (su_crypto E) bob x) opk) pt kind s =
        (Inr (env, hs), s\<lparr>pr_tick := k + 3\<rparr>)) \<and>
     open_initial_message (su_crypto E) bob (signed_prekey_generate (su_crypto E) bob x) opk env = Inr om \<and>
     om_plaintext om = pt \<and> om_shared_secret om = hs_shared_secret hs \<and>
     bootstrap_initiator_session (su_crypto E) hs = Inr a \<and>
     bootstrap_responder_session (su_crypto E) (signed_prekey_generate (su_crypto E) bob x) om = Inr b \<and>
     synced (su_crypto E) a b \<and> rs_sent_messages a = 0 \<and> session_wf a \<and>
     session_public a = x25519_public (su_crypto E) (drawn E 32 k) \<and> session_public b = x25519_public (su_crypto E) x"
proof -
  note l = core_lawsD [OF assms(1)]
  from sealed_pair_in_step [OF l(4,3,5,1,2) assms(2-4) _ assms(5), of "drawn E 24 (Suc k)" "drawn E 32 k"
      "su_clock E (Suc (Suc k))" x kind]
  show ?thesis
    by (auto simp: seal_message_def act_then_run new_run expect_def eval_nat_numeral cong: conj_cong)
      (metis (no_types, lifting) length_drawn)
qed

text \<open>A text that a message can carry: nonempty, within the cipher's limit, and valid UTF-8.\<close>

definition sendable_text :: "string \<Rightarrow> bool" where
  "sendable_text s \<longleftrightarrow> s \<noteq> [] \<and> length s < 274877906880 \<and> is_text s"

text \<open>One message, sent from tick \<open>k\<close> on.\<close>

lemma exchange_run:
  assumes "core_laws (su_crypto E)" "may_send (su_crypto E) (drawn E 32 k) x y"
    and "sendable_text pt"
  shows "\<exists>env x' y'.
     (\<forall>s m. pr_tick s = k \<longrightarrow> session_encrypt E m x pt ad s = (Inr (env, x'), s\<lparr>pr_tick := k + 2\<rparr>)) \<and>
     (\<forall>s m. session_decrypt E m y env ad s = (Inr (as_bytes pt, y'), s)) \<and>
     synced (su_crypto E) x' y' \<and> (session_wf x \<longrightarrow> session_wf x') \<and> (session_wf y \<longrightarrow> session_wf y') \<and>
     unat (rs_sent_messages x') \<le> Suc (max (unat (rs_sent_messages x)) (unat (rs_sent_messages y))) \<and>
     session_public y' \<in> {session_public x, session_public y}"
proof -
  note l = core_lawsD [OF assms(1)]
  have "sendable (drawn E 24 (Suc k), as_bytes pt)" using assms(3) by (simp add: sendable_def sendable_text_def as_bytes_def)
  from one_exchange [OF l(1-4) assms(2) this, of "as_bytes ad"] obtain env x' y' where
    enc: "ratchet_encrypt (su_crypto E) (drawn E 32 k) (drawn E 24 (Suc k)) (as_bytes pt) (as_bytes ad) x = (Inr env, x')"
    and dec: "ratchet_decrypt (su_crypto E) env (as_bytes ad) y = (Inr (as_bytes pt), y')"
    and rest: "synced (su_crypto E) x' y'"
    "unat (rs_sent_messages x') \<le> Suc (max (unat (rs_sent_messages x)) (unat (rs_sent_messages y)))"
    "session_public y' \<in> {session_public x, session_public y}" by blast
  have "session_wf x \<longrightarrow> session_wf x'" "session_wf y \<longrightarrow> session_wf y'"
    using encrypt_keeps_wf [OF l(4) length_drawn _ enc] decrypt_keeps_wf [OF _ dec] by simp_all
  with enc dec rest show ?thesis
    by (intro exI [of _ env] exI [of _ x'] exI [of _ y'])
      (simp add: session_encrypt_def session_decrypt_def act_then_run new_run on_local_def)
qed

text \<open>The responder speaks first, the initiator answers.\<close>

lemma dialogue_run:
  assumes laws: "core_laws (su_crypto E)" and sync: "synced (su_crypto E) a b" "rs_sent_messages a = 0"
    and "x25519_public (su_crypto E) (drawn E 32 k) \<noteq> session_public b"
    and "x25519_public (su_crypto E) (drawn E 32 l) \<notin> {session_public a, session_public b}"
    and "sendable_text pt" "sendable_text pt'"
  shows "\<exists>e1 b1 a1 e2 a2 b2.
     (\<forall>s m. pr_tick s = k \<longrightarrow> session_encrypt E m b pt ad s = (Inr (e1, b1), s\<lparr>pr_tick := k + 2\<rparr>)) \<and>
     (\<forall>s m. session_decrypt E m a e1 ad s = (Inr (as_bytes pt, a1), s)) \<and>
     (\<forall>s m. pr_tick s = l \<longrightarrow> session_encrypt E m a1 pt' ad s = (Inr (e2, a2), s\<lparr>pr_tick := l + 2\<rparr>)) \<and>
     (\<forall>s m. session_decrypt E m b1 e2 ad s = (Inr (as_bytes pt', b2), s)) \<and>
     (session_wf a \<longrightarrow> session_wf a1 \<and> session_wf a2)"
proof -
  have "may_send (su_crypto E) (drawn E 32 k) b a" using assms(2-4) by (simp add: may_send_def)
  from exchange_run [OF laws this assms(6), of ad] obtain e1 b1 a1 where x1:
    "\<forall>s m. pr_tick s = k \<longrightarrow> session_encrypt E m b pt ad s = (Inr (e1, b1), s\<lparr>pr_tick := k + 2\<rparr>)"
    "\<forall>s m. session_decrypt E m a e1 ad s = (Inr (as_bytes pt, a1), s)" "synced (su_crypto E) b1 a1"
    "session_wf a \<longrightarrow> session_wf a1"
    "unat (rs_sent_messages b1) \<le> Suc (max (unat (rs_sent_messages b)) (unat (rs_sent_messages a)))"
    "session_public a1 \<in> {session_public b, session_public a}"
    by blast
  have "unat (rs_sent_messages b1) \<le> 1" using x1(5) sync by (simp add: synced_def)
  then have "may_send (su_crypto E) (drawn E 32 l) a1 b1" using x1(3,6) assms(5) by (auto simp: may_send_def)
  from exchange_run [OF laws this assms(7), of ad] x1(1,2,4) show ?thesis by metis
qed

lemma sendable_text_prints: "sendable_text s \<Longrightarrow> from_utf8 (as_bytes s) = Some s"
  by (simp add: sendable_text_def from_utf8_as_bytes)

section \<open>Asserting\<close>

lemma assert_run:
  "assert_that m b s = (if b then Inr () else Inl m, s)" "assert_eq x y s = (if x = y then Inr () else Inl ''left == right'', s)"
  "unwrap (Inr a) s = (Inr a, s)"
  by (simp_all add: assert_that_def assert_eq_def unwrap_def expect_def)

lemmas test_run = test_passes_def process_start_def act_then_run new_run assert_run Let_def

lemmas no_numeral_unfold = One_nat_def add_2_eq_Suc add_2_eq_Suc'

end
