(* ===== verification/Core_Tests_Pass.thy ===== *)
theory Core_Tests_Pass
  imports Core_Tests Program_Runs
begin

text \<open>The unit tests of \<^verbatim>\<open>crates/comm-core\<close> pass, whatever keys, nonces and times are drawn.\<close>

section \<open>\<^verbatim>\<open>lib.rs\<close>\<close>

lemma b64_encode_nonempty:
  assumes "b64_laws C" "bs \<noteq> []"
  shows "b64_encode C bs \<noteq> []"
proof
  assume "b64_encode C bs = []"
  moreover have "map (\<lambda>b. b + 1) bs \<noteq> bs" using assms(2) by (cases bs) auto
  ultimately show False
    using length_b64_encode [OF assms(1), of "map (\<lambda>b. b + 1) bs" bs] b64_encode_inject [OF assms(1), of "map (\<lambda>b. b + 1) bs" bs]
    by simp
qed

lemma media_material_run:
  "new_media_material E s =
     (Inr (generate_media_encryption_material (su_crypto E) (drawn E 32 (pr_tick s)) (drawn E 24 (pr_tick s + 1))),
      s\<lparr>pr_tick := pr_tick s + 2\<rparr>)"
  "new_identity_material E s = (Inr \<lparr> im_signing_key = drawn E 32 (pr_tick s), im_created_at = su_clock E (pr_tick s + 1) \<rparr>,
     s\<lparr>pr_tick := pr_tick s + 2\<rparr>)"
  by (simp_all add: new_media_material_def new_identity_material_def act_then_run new_run)

lemma identity_tests_pass:
  assumes "core_laws (su_crypto E)" "hex_laws (su_crypto E)"
  shows "test_passes (generated_identity_has_stable_public_bundle_shape E)" "test_passes (public_identity_round_trips E)"
proof -
  note l = core_lawsD [OF assms(1)]
  have "CHR ''-'' \<in> set (join ''-'' (chunks 5 xs))" if len: "5 < length xs" for xs :: string
  proof -
    obtain x ys where xs: "xs = x # ys" using len by (cases xs) auto
    then obtain y zs where "drop 4 ys = y # zs" using len by (cases "drop 4 ys") auto
    then show ?thesis by (simp add: xs join_def)
  qed
  moreover have "length (hex_encode_upper (su_crypto E) (sha256 (su_crypto E) k)) = 64" for k
    using assms(2) l(3) by (simp add: hex_laws_def length_sha256)
  ultimately show "test_passes (generated_identity_has_stable_public_bundle_shape E)"
    using b64_encode_nonempty [OF l(1)] length_ed25519(2) [OF l(5)]
    by (auto simp: generated_identity_has_stable_public_bundle_shape_def test_run media_material_run
        public_identity_of_def fingerprint_def) (metis list.size(3) zero_neq_numeral)
  show "test_passes (public_identity_round_trips E)"
    using l by (simp add: public_identity_round_trips_def test_run media_material_run public_identity_of_def
        decode_public_identity_def b64_decode_encode length_ed25519 try_into_array_def ed25519_valid_public)
qed

lemma padding_tests_pass:
  assumes "core_laws (su_crypto E)"
  shows "test_passes padding_bucket_uses_next_supported_size" "test_passes blob_padding_plan_counts_chunks"
    "test_passes (blob_pointer_validation_rejects_wrong_padding E)"
    "test_passes (blob_pointer_validation_accepts_consistent_descriptor E)"
proof -
  have plan: "build_blob_padding_plan 1400000 262144 = Inr \<lparr> plan_original_size_bytes = 1400000,
      plan_padded_size_bytes = 5242880, plan_chunk_size_bytes = 262144, plan_chunk_count = 20 \<rparr>"
    "\<exists>plan. build_blob_padding_plan 900000 262144 = Inr plan \<and> plan_padded_size_bytes plan = 1048576"
    by (simp_all add: build_blob_padding_plan_def choose_padding_bucket_cases u64_div_ceil_def)
  show "test_passes padding_bucket_uses_next_supported_size" "test_passes blob_padding_plan_counts_chunks"
    by (simp_all add: padding_bucket_uses_next_supported_size_def blob_padding_plan_counts_chunks_def test_run
        choose_padding_bucket_cases plan(1))
  show "test_passes (blob_pointer_validation_rejects_wrong_padding E)"
    "test_passes (blob_pointer_validation_accepts_consistent_descriptor E)"
    using plan(2) core_lawsD(1) [OF assms]
    by (auto simp: blob_pointer_validation_rejects_wrong_padding_def test_pointer_def b64_decode_encode
        blob_pointer_validation_accepts_consistent_descriptor_def test_run blob_pointer_validate_def)
qed

lemma media_round_trip_test_passes:
  assumes "core_laws (su_crypto E)"
  shows "test_passes (media_encryption_round_trips E)"
proof -
  note l = core_lawsD [OF assms]
  let ?m = "generate_media_encryption_material (su_crypto E) (drawn E 32 0) (drawn E 24 1)"
    and ?pt = "concat (replicate 20 (as_bytes ''simy encrypted media round trip''))"
  have len: "length ?pt = 620" by (simp add: length_concat sum_list_replicate as_bytes_def)
  have pt: "?pt \<noteq> []" "length ?pt \<le> 52428800" "length ?pt < 2 ^ 64" using len by (force, simp_all)
  obtain blob where blob: "encrypt_media_bytes (su_crypto E) ?pt 262144 ?m = Inr blob"
    using encrypt_media_bytes_total [OF l(2) decode_generated_material [OF l(1)] _ pt(1,2)] by force
  obtain plan where "build_blob_padding_plan (of_nat (length ?pt)) 262144 = Inr plan"
    "mb_padded_size_bytes blob = plan_padded_size_bytes plan"
    using blob by (elim encrypt_media_bytes_Inr) blast
  then have "mb_padded_size_bytes blob = 1048576"
    using build_blob_padding_plan_Inr(2) by (fastforce simp: len choose_padding_bucket_cases)
  then show ?thesis
    using decrypt_encrypt_media [OF l(2,1) pt(3) blob] blob
    by (simp add: media_encryption_round_trips_def test_run media_material_run del: One_nat_def)
qed

lemma tampered_chunk_test_passes:
  assumes "core_laws (su_crypto E)"
  shows "test_passes (tampered_chunk_is_rejected E)"
proof -
  note l = core_lawsD [OF assms]
  let ?C = "su_crypto E"
  let ?m = "generate_media_encryption_material ?C (drawn E 32 0) (drawn E 24 1)"
    and ?pt = "concat (replicate 32 (as_bytes ''tamper test''))"
  have mat: "decode_media_material ?C ?m = Inr (drawn E 32 0, drawn E 24 1)"
    by (rule decode_generated_material [OF l(1)]) simp_all
  have len: "length ?pt = 352" by (simp add: length_concat sum_list_replicate as_bytes_def)
  have pt: "?pt \<noteq> []" "length ?pt \<le> 52428800" using len by (force, simp)
  obtain blob where blob: "encrypt_media_bytes ?C ?pt 262144 ?m = Inr blob"
    using encrypt_media_bytes_total [OF l(2) mat _ pt] by force
  obtain plan h where e: "build_blob_padding_plan (of_nat (length ?pt)) 262144 = Inr plan"
    "encrypt_chunks ?C (drawn E 32 0) (drawn E 24 1) plan 0
       (chunks (unat (262144 :: u32)) (resize ?pt (unat (plan_padded_size_bytes plan)) 0)) = Inr (h, mb_chunks blob)"
    "mb_algorithm blob = mm_algorithm ?m" "mb_original_size_bytes blob = plan_original_size_bytes plan"
    "mb_padded_size_bytes blob = plan_padded_size_bytes plan" "mb_chunk_size_bytes blob = 262144"
    using blob mat by (elim encrypt_media_bytes_Inr) auto
  note plan = build_blob_padding_plan_Inr [OF e(1)]
  have "unat (plan_padded_size_bytes plan) = 1048576"
    using plan(2) by (auto simp: len choose_padding_bucket_cases split: if_splits)
  then have cnt: "length (mb_chunks blob) = 4" "unat (plan_chunk_count plan) = 4"
    using encrypt_chunks_length [OF e(2)] plan(5) by (simp_all add: length_chunks ceil_div_def)
  then obtain c cs where c: "mb_chunks blob = c # cs" by (cases "mb_chunks blob") auto
  have "aead_decrypt ?C k n a (as_bytes ''tampered'') = None" for k n a
  proof (rule ccontr)
    assume "\<not> ?thesis"
    then obtain p where "aead_decrypt ?C k n a (as_bytes ''tampered'') = Some p" by blast
    from aead_encrypt_length [OF l(2) aead_encrypt_decrypt [OF l(2) this]] show False by (simp add: as_bytes_def)
  qed
  moreover have "map mc_index (mb_chunks blob) = map of_nat [0..<4]"
    using encrypt_chunks_index [OF e(2)] encrypt_chunks_length [OF e(2)] cnt(1) by simp
  then have "mc_index c = 0" using c by (simp add: upt_rec)
  ultimately have "\<exists>err \<in> {IntegrityMismatch, CryptoFailure}. decrypt_chunks ?C (drawn E 32 0) (drawn E 24 1) plan
      (plan_original_size_bytes plan) 0 (c\<lparr>mc_ciphertext_b64 := b64_encode ?C (as_bytes ''tampered'')\<rparr> # cs) = Inl err"
    using l(1) by (simp add: b64_decode_encode Let_def)
  then have "decrypt_media_bytes ?C
      (blob\<lparr>mb_chunks := c\<lparr>mc_ciphertext_b64 := b64_encode ?C (as_bytes ''tampered'')\<rparr> # cs\<rparr>) ?m
      \<in> {Inl IntegrityMismatch, Inl CryptoFailure}"
    using e(1,4,5,6) plan(3) mat cnt c by (auto simp: decrypt_media_bytes_def simp del: decrypt_chunks.simps One_nat_def)
  then show ?thesis
    using blob c by (auto simp: tampered_chunk_is_rejected_def test_run media_material_run simp del: One_nat_def)
qed

section \<open>\<^verbatim>\<open>x3dh.rs\<close> and \<^verbatim>\<open>device.rs\<close>\<close>

lemma signature_test_passes:
  assumes "core_laws (su_crypto E)"
  shows "test_passes (signed_prekey_signature_verifies E)"
  using core_lawsD(5) [OF assms]
  by (simp add: signed_prekey_signature_verifies_def test_run signed_prekey_verify_def
      signed_prekey_generate_def identity_generate_def ed25519_verify_sign)

text \<open>The tampering test passes just when the attacker's key does not verify the signature of the other.\<close>

lemma tampering_test_verdict:
  "test_passes (prekey_bundle_verification_rejects_tampering E) \<longleftrightarrow>
     \<not> ed25519_verify (su_crypto E) (ed25519_public (su_crypto E) (drawn E 32 3)) (x25519_public (su_crypto E) (drawn E 32 2))
        (ed25519_sign (su_crypto E) (drawn E 32 0) (x25519_public (su_crypto E) (drawn E 32 2)))"
  by (simp add: prekey_bundle_verification_rejects_tampering_def test_run bundle_verify_def public_bundle_def
      signed_prekey_generate_def identity_generate_def del: no_numeral_unfold)

lemma initiate_run:
  assumes "core_laws (su_crypto E)" "identity_wf (su_crypto E) bob"
  shows "\<exists>hs. initiate_x3dh (su_crypto E) e alice (bundle_from_parts bob (signed_prekey_generate (su_crypto E) bob x) opk)
     = Inr hs \<and> hs_message_keys hs = \<lparr> mk_sender_identity = public_bundle alice,
       mk_sender_ephemeral_key = x25519_public (su_crypto E) e,
       mk_receiver_signed_prekey = spk_public_key (signed_prekey_generate (su_crypto E) bob x),
       mk_receiver_one_time_prekey = map_option opk_public_key opk \<rparr>"
proof -
  note l = core_lawsD [OF assms(1)]
  obtain hs where hs: "initiate_x3dh (su_crypto E) e alice
      (bundle_from_parts bob (signed_prekey_generate (su_crypto E) bob x) opk) = Inr hs"
    using initiate_total [OF l(3) signed_prekey_generate_verifies [OF l(5) assms(2)]] by blast
  from initiate_message_keys(1) [OF hs] hs show ?thesis by (simp add: bundle_from_parts_def)
qed

lemma agreement_tests_pass:
  assumes "core_laws (su_crypto E)"
  shows "test_passes (x3dh_round_trip_with_one_time_prekey E)" "test_passes (x3dh_round_trip_without_one_time_prekey E)"
    "test_passes (responder_rejects_missing_one_time_prekey E)"
proof -
  note l = core_lawsD [OF assms]
  let ?C = "su_crypto E"
  let ?alice = "identity_generate ?C (drawn E 32 0) (drawn E 32 1)" and ?bob = "identity_generate ?C (drawn E 32 2) (drawn E 32 3)"
  let ?spk = "signed_prekey_generate ?C ?bob (drawn E 32 4)" and ?opk = "one_time_prekey_generate ?C (drawn E 32 5)"
  have wf: "identity_wf ?C ?alice" "identity_wf ?C ?bob" "signed_prekey_wf ?C ?spk" "one_time_prekey_wf ?C ?opk"
    by (simp_all add: identity_generate_wf signed_prekey_generate_wf one_time_prekey_generate_wf)
  obtain hs where hs: "initiate_x3dh ?C (drawn E 32 6) ?alice (bundle_from_parts ?bob ?spk (Some ?opk)) = Inr hs"
    "mk_receiver_one_time_prekey (hs_message_keys hs) = Some (opk_public_key ?opk)"
    using initiate_run [OF assms wf(2), of "drawn E 32 6" ?alice "drawn E 32 4" "Some ?opk"] by auto
  obtain hs' where hs': "initiate_x3dh ?C (drawn E 32 5) ?alice (bundle_from_parts ?bob ?spk None) = Inr hs'"
    using initiate_run [OF assms wf(2)] by blast
  have "respond_x3dh ?C ?bob ?spk (Some ?opk) (hs_message_keys hs) = Inr (hs_shared_secret hs)"
    "respond_x3dh ?C ?bob ?spk None (hs_message_keys hs') = Inr (hs_shared_secret hs')"
    using respond_initiate [OF l(4) wf(1-3) _ hs(1)] respond_initiate [OF l(4) wf(1-3) _ hs'] wf(4) by simp_all
  with hs hs' show "test_passes (x3dh_round_trip_with_one_time_prekey E)"
    "test_passes (x3dh_round_trip_without_one_time_prekey E)"
    by (simp_all add: x3dh_round_trip_with_one_time_prekey_def x3dh_round_trip_without_one_time_prekey_def
        initiate_def test_run del: no_numeral_unfold)
  have "respond_x3dh ?C ?bob ?spk None (hs_message_keys hs) = Inl MissingOneTimePreKey"
    using hs(2) by (simp add: respond_x3dh_def Let_def)
  with hs(1) show "test_passes (responder_rejects_missing_one_time_prekey E)"
    by (simp add: responder_rejects_missing_one_time_prekey_def initiate_def test_run del: no_numeral_unfold)
qed

lemma initial_message_run:
  assumes "core_laws (su_crypto E)" "identity_wf (su_crypto E) alice" "identity_wf (su_crypto E) bob"
    and "\<forall>k. opk = Some k \<longrightarrow> one_time_prekey_wf (su_crypto E) k" "length pt < 64 * (2 ^ 32 - 1)"
  shows "\<exists>env hs om.
     (\<forall>s m. pr_tick s = k \<longrightarrow>
        seal_message E m alice (bundle_from_parts bob (signed_prekey_generate (su_crypto E) bob x) opk) pt kind s =
        (Inr (env, hs), s\<lparr>pr_tick := k + 3\<rparr>)) \<and>
     open_initial_message (su_crypto E) bob (signed_prekey_generate (su_crypto E) bob x) opk env = Inr om \<and>
     om_plaintext om = pt \<and> om_content_kind om = kind \<and> om_sender_identity om = public_bundle alice \<and>
     om_shared_secret om = hs_shared_secret hs \<and>
     (\<forall>spk opk'. \<not> x25519_same (su_crypto E) (x25519_public (su_crypto E) x) (spk_public_key spk) \<longrightarrow>
        open_initial_message (su_crypto E) bob spk opk' env = Inl InvalidPreKeyBundle)"
proof -
  note l = core_lawsD [OF assms(1)]
  obtain env hs om where o:
    "seal_initial_message (su_crypto E) (drawn E 32 k) (drawn E 24 (Suc k)) (su_clock E (Suc (Suc k))) alice
       (bundle_from_parts bob (signed_prekey_generate (su_crypto E) bob x) opk) pt kind = Inr (env, hs)"
    "open_initial_message (su_crypto E) bob (signed_prekey_generate (su_crypto E) bob x) opk env = Inr om"
    "om_plaintext om = pt" "om_content_kind om = kind" "om_sender_identity om = public_bundle alice"
    "om_shared_secret om = hs_shared_secret hs" "om_message_keys om = hs_message_keys hs"
    using initial_message_opens [OF l(4,3,5,1,2) assms(2-4) _ assms(5), of "drawn E 24 (Suc k)"] by fastforce
  have key: "mk_receiver_signed_prekey (om_message_keys om) = x25519_public (su_crypto E) x"
    using initiate_message_keys(1) [OF seal_initial_message_Inr(1) [OF o(1)]] o(7)
    by (simp add: bundle_from_parts_def signed_prekey_generate_def Let_def)
  have "\<forall>s m. pr_tick s = k \<longrightarrow>
        seal_message E m alice (bundle_from_parts bob (signed_prekey_generate (su_crypto E) bob x) opk) pt kind s =
        (Inr (env, hs), s\<lparr>pr_tick := k + 3\<rparr>)"
    using o(1) by (simp add: seal_message_def act_then_run new_run expect_def eval_nat_numeral)
  moreover have "open_initial_message (su_crypto E) bob spk opk' env = Inl InvalidPreKeyBundle"
    if "\<not> x25519_same (su_crypto E) (x25519_public (su_crypto E) x) (spk_public_key spk)" for spk opk'
    using o(2) that key by (auto simp: open_initial_message_def result_simps Let_def split: if_splits)
  ultimately show ?thesis using o by blast
qed

lemma initial_message_tests_pass:
  assumes "core_laws (su_crypto E)" "fresh_keys E 6"
  shows "test_passes (initial_message_envelope_round_trips_with_one_time_prekey E)"
    "test_passes (initial_message_envelope_round_trips_without_one_time_prekey E)"
    "test_passes (initial_message_rejects_wrong_receiver_signed_prekey E)"
proof -
  let ?C = "su_crypto E"
  let ?alice = "identity_generate ?C (drawn E 32 0) (drawn E 32 1)" and ?bob = "identity_generate ?C (drawn E 32 2) (drawn E 32 3)"
  let ?opk = "one_time_prekey_generate ?C (drawn E 32 5)"
  have wf: "identity_wf ?C ?alice" "identity_wf ?C ?bob" by (simp_all add: identity_generate_wf)
  have opk: "\<forall>k. Some ?opk = Some k \<longrightarrow> one_time_prekey_wf ?C k" "\<forall>k. None = Some k \<longrightarrow> one_time_prekey_wf ?C k"
    by (simp_all add: one_time_prekey_generate_wf)
  have len: "length (as_bytes s) < 64 * (2 ^ 32 - 1)" if "length s < 100" for s using that by (simp add: as_bytes_def)
  have pt: "length (as_bytes ''bootstrap hello'') < 64 * (2 ^ 32 - 1)"
    "length (as_bytes ''bootstrap hello without opk'') < 64 * (2 ^ 32 - 1)" "length (as_bytes ''hello'') < 64 * (2 ^ 32 - 1)"
    by (rule len, simp)+
  show "test_passes (initial_message_envelope_round_trips_with_one_time_prekey E)"
    using initial_message_run [OF assms(1) wf opk(1) pt(1), of 6 "drawn E 32 4" SessionBootstrap]
    by (elim exE) (simp add: initial_message_envelope_round_trips_with_one_time_prekey_def test_run del: no_numeral_unfold)
  show "test_passes (initial_message_envelope_round_trips_without_one_time_prekey E)"
    using initial_message_run [OF assms(1) wf opk(2) pt(2), of 5 "drawn E 32 4" DirectMessage]
    by (elim exE) (simp add: initial_message_envelope_round_trips_without_one_time_prekey_def test_run del: no_numeral_unfold)
  have "\<not> x25519_same ?C (x25519_public ?C (drawn E 32 4)) (spk_public_key (signed_prekey_generate ?C ?bob (drawn E 32 5)))"
    using fresh_keysD [OF assms(2), of 5 4] core_lawsD(4) [OF assms(1)]
    by (simp add: signed_prekey_generate_def Let_def x25519_same_public)
  then show "test_passes (initial_message_rejects_wrong_receiver_signed_prekey E)"
    using initial_message_run [OF assms(1) wf opk(2) pt(3), of 6 "drawn E 32 4" SessionBootstrap]
    by (elim exE) (simp add: initial_message_rejects_wrong_receiver_signed_prekey_def test_run del: no_numeral_unfold)
qed

lemma device_test_passes:
  assumes "core_laws (su_crypto E)"
  shows "test_passes (device_record_sign_and_verify_round_trip E)"
proof -
  let ?C = "su_crypto E"
  note l = core_lawsD [OF assms]
  let ?dev = "device_public_keys_of ?C (device_key_pair_generate ?C (drawn E 32 2) (drawn E 32 3))"
  have "device_decode_ed25519_public_key ?C (dk_signing_key_b64 ?dev) = Inr (ed25519_public ?C (drawn E 32 2))"
    "device_decode_x25519_public_key ?C (dk_exchange_key_b64 ?dev) = Inr (x25519_public ?C (drawn E 32 3))"
    using l by (simp_all add: device_decode_ed25519_public_key_def device_decode_x25519_public_key_def
        device_public_keys_of_def device_key_pair_generate_def identity_generate_def Let_def b64_decode_encode
        length_ed25519 length_x25519_public ed25519_valid_public)
  then obtain rec where r: "device_record_sign ?C (drawn E 32 0) ''desktop_primary'' ''Desktop Primary'' ?dev
      (su_clock E 4) None = Inr rec"
    by (simp add: device_record_sign_def validate_device_id_def validate_device_label_def trim_def
        is_ascii_alphanumeric_def Let_def)
  then show ?thesis
    using device_verifies [OF l(1,5) r]
    by (simp add: device_record_sign_and_verify_round_trip_def test_run identity_generate_def del: no_numeral_unfold)
qed

section \<open>Sessions\<close>

lemma sendable_test_texts [simp]:
  "sendable_text ''hello alice''" "sendable_text ''ack''" "sendable_text ''first-message''"
  "sendable_text ''reply-after-restore''" "sendable_text ''first''" "sendable_text ''after-restart''"
  "sendable_text ''message-one''" "sendable_text ''message-two''"
  by (simp_all add: sendable_text_def is_text_def)

text \<open>The two sessions of a test, made from tick \<open>n\<close> on: five draws for the keys, one more with a one-time prekey.\<close>

lemma test_sessions_run:
  assumes "core_laws (su_crypto E)" "fresh_keys E m" "n + 6 < m" "length pt < 1000"
  shows "\<exists>a b om. (\<forall>s. pr_tick s = n \<longrightarrow> test_sessions E opk pt s =
       (Inr (a, b, om), s\<lparr>pr_tick := n + (if opk then 9 else 8)\<rparr>)) \<and>
     synced (su_crypto E) a b \<and> rs_sent_messages a = 0 \<and> session_wf a \<and> om_content_kind om = SessionBootstrap \<and>
     (\<forall>k. n + 6 < k \<longrightarrow> k < m \<longrightarrow>
        x25519_public (su_crypto E) (drawn E 32 k) \<notin> {session_public a, session_public b})"
proof -
  let ?C = "su_crypto E"
  let ?alice = "identity_generate ?C (drawn E 32 n) (drawn E 32 (n + 1))"
    and ?bob = "identity_generate ?C (drawn E 32 (n + 2)) (drawn E 32 (n + 3))" and ?s = "drawn E 32 (n + 4)"
    and ?k = "if opk then n + 6 else n + 5"
  let ?opk = "if opk then Some (one_time_prekey_generate ?C (drawn E 32 (n + 5))) else None"
  have wf: "identity_wf ?C ?alice" "identity_wf ?C ?bob" "\<forall>k. ?opk = Some k \<longrightarrow> one_time_prekey_wf ?C k"
    by (auto simp: identity_generate_wf one_time_prekey_generate_wf)
  have len: "length (as_bytes pt) < 64 * (2 ^ 32 - 1)" using assms(4) by (simp add: as_bytes_def)
  obtain env hs om a b where h:
    "\<forall>s m. pr_tick s = ?k \<longrightarrow> seal_message E m ?alice (bundle_from_parts ?bob (signed_prekey_generate ?C ?bob ?s) ?opk)
       (as_bytes pt) SessionBootstrap s = (Inr (env, hs), s\<lparr>pr_tick := ?k + 3\<rparr>)"
    "open_initial_message ?C ?bob (signed_prekey_generate ?C ?bob ?s) ?opk env = Inr om"
    "bootstrap_initiator_session ?C hs = Inr a"
    "bootstrap_responder_session ?C (signed_prekey_generate ?C ?bob ?s) om = Inr b"
    "synced ?C a b" "rs_sent_messages a = 0" "session_wf a" "session_public a = x25519_public ?C (drawn E 32 ?k)"
    "session_public b = x25519_public ?C ?s"
    using handshake_run [OF assms(1) wf len, of ?k ?s SessionBootstrap] by metis
  obtain env' hs' om' where
    "\<forall>s m. pr_tick s = ?k \<longrightarrow> seal_message E m ?alice (bundle_from_parts ?bob (signed_prekey_generate ?C ?bob ?s) ?opk)
       (as_bytes pt) SessionBootstrap s = (Inr (env', hs'), s\<lparr>pr_tick := ?k + 3\<rparr>)"
    "open_initial_message ?C ?bob (signed_prekey_generate ?C ?bob ?s) ?opk env' = Inr om'"
    "om_content_kind om' = SessionBootstrap"
    using initial_message_run [OF assms(1) wf len, of ?k ?s SessionBootstrap] by metis
  moreover from this(1) h(1) have "env' = env" by (metis Pair_inject process.select_convs(1) sum.inject(2))
  ultimately have kind: "om_content_kind om = SessionBootstrap" using h(2) by simp
  have run: "test_sessions E opk pt s = (Inr (a, b, om), s\<lparr>pr_tick := n + (if opk then 9 else 8)\<rparr>)" if "pr_tick s = n" for s
    using that h(1-4)
    by (cases opk) (simp_all add: test_sessions_def act_then_run new_run assert_run Let_def add.assoc del: no_numeral_unfold)
  have "x25519_public ?C (drawn E 32 k) \<notin> {session_public a, session_public b}" if "n + 6 < k" "k < m" for k
    using fresh_keysD [OF assms(2) that(2)] that assms(3) h(8,9) by (auto split: if_splits)
  with run h(5-7) kind show ?thesis by blast
qed

text \<open>A dialogue in a test that starts at tick 0.\<close>

lemma test_dialogue:
  assumes laws: "core_laws (su_crypto E)" and fresh: "fresh_keys E m" and "n + 11 < m" "length pt < 1000"
    and "n' = n + (if opk then 9 else 8)" "sendable_text t" "sendable_text t'"
  shows "\<exists>a b om e1 b1 a1 e2 a2 b2.
     (\<forall>s. pr_tick s = n \<longrightarrow> test_sessions E opk pt s = (Inr (a, b, om), s\<lparr>pr_tick := n'\<rparr>)) \<and>
     (\<forall>s m. pr_tick s = n' \<longrightarrow> session_encrypt E m b t ad s = (Inr (e1, b1), s\<lparr>pr_tick := n' + 2\<rparr>)) \<and>
     (\<forall>s m. session_decrypt E m a e1 ad s = (Inr (as_bytes t, a1), s)) \<and> session_wf a1 \<and>
     (\<forall>s m. pr_tick s = n' + 2 \<longrightarrow> session_encrypt E m a1 t' ad s = (Inr (e2, a2), s\<lparr>pr_tick := n' + 2 + 2\<rparr>)) \<and>
     (\<forall>s m. session_decrypt E m b1 e2 ad s = (Inr (as_bytes t', b2), s))"
proof -
  obtain a b om where s: "\<forall>s. pr_tick s = n \<longrightarrow> test_sessions E opk pt s = (Inr (a, b, om), s\<lparr>pr_tick := n'\<rparr>)"
    "synced (su_crypto E) a b" "rs_sent_messages a = 0" "session_wf a"
    "\<forall>k. n + 6 < k \<longrightarrow> k < m \<longrightarrow> x25519_public (su_crypto E) (drawn E 32 k) \<notin> {session_public a, session_public b}"
    using test_sessions_run [OF laws fresh _ assms(4), of n opk] assms(3,5) by auto
  have "x25519_public (su_crypto E) (drawn E 32 n') \<noteq> session_public b"
    "x25519_public (su_crypto E) (drawn E 32 (n' + 2)) \<notin> {session_public a, session_public b}"
    using s(5) assms(3,5) by (auto split: if_splits)
  from dialogue_run [OF laws s(2,3) this assms(6,7), of ad] obtain e1 b1 a1 e2 a2 b2 where
    "\<forall>s m. pr_tick s = n' \<longrightarrow> session_encrypt E m b t ad s = (Inr (e1, b1), s\<lparr>pr_tick := n' + 2\<rparr>)"
    "\<forall>s m. session_decrypt E m a e1 ad s = (Inr (as_bytes t, a1), s)"
    "\<forall>s m. pr_tick s = n' + 2 \<longrightarrow> session_encrypt E m a1 t' ad s = (Inr (e2, a2), s\<lparr>pr_tick := n' + 2 + 2\<rparr>)"
    "\<forall>s m. session_decrypt E m b1 e2 ad s = (Inr (as_bytes t', b2), s)" "session_wf a \<longrightarrow> session_wf a1 \<and> session_wf a2"
    by (elim exE conjE) (rule that; assumption)
  with s(1,4) show ?thesis by blast
qed

section \<open>\<^verbatim>\<open>double_ratchet.rs\<close>\<close>

lemma dialogue_tests_pass:
  assumes "core_laws (su_crypto E)" "fresh_keys E 24"
  shows "test_passes (bootstrap_sessions_exchange_messages_bidirectionally E)"
    "test_passes (stored_session_restores_and_continues_ratchet_flow E)"
proof -
  note l = core_lawsD [OF assms(1)]
  have n: "0 + 11 < (24 :: nat)" "length ''hello bob'' < 1000" "length ''bootstrap'' < 1000"
    "9 = 0 + (if True then 9 else 8 :: nat)" "8 = 0 + (if False then 9 else 8 :: nat)" by simp_all
  show "test_passes (bootstrap_sessions_exchange_messages_bidirectionally E)"
    using test_dialogue [OF assms n(1,2,4) sendable_test_texts(1,2), of "''chat-1''"]
    by (elim exE) (simp add: bootstrap_sessions_exchange_messages_bidirectionally_def test_run del: no_numeral_unfold)
  have i: "trim ''alice:bob:primary'' \<noteq> []" by (simp add: trim_def)
  have store: "save_to_store (su_crypto E) in_memory_save_session d ''alice:bob:primary'' in_memory_new =
      (Inr (), in_memory_new\<lparr>im_sessions := [(''alice:bob:primary'', persist (su_crypto E) d)]\<rparr>)"
    "session_wf d \<Longrightarrow> load_from_store (su_crypto E) in_memory_load_session ''alice:bob:primary''
       (in_memory_new\<lparr>im_sessions := [(''alice:bob:primary'', persist (su_crypto E) d)]\<rparr>) =
      (Inr (Some d), in_memory_new\<lparr>im_sessions := [(''alice:bob:primary'', persist (su_crypto E) d)]\<rparr>)" for d
    using i by (simp_all add: save_to_store_def load_from_store_def in_memory_unfold in_memory_new_def bt_empty_def
        persist_round_trip [OF l(1)])
  show "test_passes (stored_session_restores_and_continues_ratchet_flow E)"
    using test_dialogue [OF assms n(1,3,5) sendable_test_texts(3,4), of "''chat-1''"]
    by (elim exE) (simp add: stored_session_restores_and_continues_ratchet_flow_def test_run on_local_def store
        del: no_numeral_unfold)
qed

lemma encrypt_keeps_chain:
  "ratchet_encrypt C secret nonce pt ad s = (Inr e, t) \<Longrightarrow> rs_sending_chain_key t \<noteq> None"
  by (auto simp: ratchet_encrypt_def act_then_eq_Inr split: if_splits prod.splits)

lemma encrypt_ignores_secret:
  assumes "rs_sending_chain_key s \<noteq> None"
  shows "ratchet_encrypt C secret nonce pt ad s = ratchet_encrypt C secret' nonce pt ad s"
proof -
  have "ensure_sending_chain C sec s = (Inr (), s)" for sec
    using assms by (simp add: ensure_sending_chain_def act_then_run)
  then show ?thesis by (simp add: ratchet_encrypt_def act_then_run [of "ensure_sending_chain _ _"])
qed

text \<open>Two messages of one chain, read in the other order.\<close>

lemma swapped_run:
  assumes laws: "core_laws (su_crypto E)" and sync: "synced (su_crypto E) a b" "rs_sent_messages a = 0"
    and "x25519_public (su_crypto E) (drawn E 32 k) \<noteq> session_public b" "sendable_text t" "sendable_text t'"
  shows "\<exists>e1 b1 e2 b2 a1 a2.
     (\<forall>s m. pr_tick s = k \<longrightarrow> session_encrypt E m b t ad s = (Inr (e1, b1), s\<lparr>pr_tick := k + 2\<rparr>)) \<and>
     (\<forall>s m. pr_tick s = k + 2 \<longrightarrow> session_encrypt E m b1 t' ad s = (Inr (e2, b2), s\<lparr>pr_tick := k + 2 + 2\<rparr>)) \<and>
     (\<forall>s m. session_decrypt E m a e2 ad s = (Inr (as_bytes t', a1), s)) \<and>
     (\<forall>s m. session_decrypt E m a1 e1 ad s = (Inr (as_bytes t, a2), s))"
proof -
  note l = core_lawsD [OF laws]
  let ?C = "su_crypto E" and ?n = "drawn E 24 (k + 1)" and ?n' = "drawn E 24 (k + 3)" and ?sec = "drawn E 32 k"
  let ?b = "\<lparr> bt_from_first = True, bt_secret = ?sec, bt_ad = as_bytes ad, bt_msgs = [(?n, as_bytes t), (?n', as_bytes t')],
      bt_order = [1, 0] \<rparr>"
  have ok: "batch_ok ?b"
    using assms(5,6) by (auto simp: batch_ok_def sendable_def sendable_text_def as_bytes_def)
  have "unat (rs_sent_messages a) + length (bt_msgs ?b) \<le> 2 ^ 32 - 1" using sync(2) by simp
  from batch_delivered [OF l(1-4) ok sync(1) _ this, of False] assms(4) obtain envs s r where
    "encrypt_all ?C ?sec (as_bytes ad) [(?n, as_bytes t), (?n', as_bytes t')] b = (Inr envs, s)"
    "decrypt_all ?C (as_bytes ad) (map ((!) envs) [1, 0]) a = (Inr [as_bytes t', as_bytes t], r)"
    by (auto simp del: encrypt_all.simps decrypt_all.simps)
  then obtain e1 b1 e2 a1 a2 b2 where
    e: "ratchet_encrypt ?C ?sec ?n (as_bytes t) (as_bytes ad) b = (Inr e1, b1)"
      "ratchet_encrypt ?C ?sec ?n' (as_bytes t') (as_bytes ad) b1 = (Inr e2, b2)"
    and d: "ratchet_decrypt ?C e2 (as_bytes ad) a = (Inr (as_bytes t'), a1)"
      "ratchet_decrypt ?C e1 (as_bytes ad) a1 = (Inr (as_bytes t), a2)"
    by (auto simp: act_then_eq_Inr)
  have "ratchet_encrypt ?C (drawn E 32 (k + 2)) ?n' (as_bytes t') (as_bytes ad) b1 = (Inr e2, b2)"
    using encrypt_ignores_secret [OF encrypt_keeps_chain [OF e(1)]] e(2) by metis
  with e(1) d show ?thesis
    by (intro exI [of _ e1] exI [of _ b1] exI [of _ e2] exI [of _ b2] exI [of _ a1] exI [of _ a2])
      (simp add: session_encrypt_def session_decrypt_def act_then_run new_run on_local_def add.assoc del: no_numeral_unfold)
qed

lemma session_tests_pass:
  assumes "core_laws (su_crypto E)" "fresh_keys E 24"
  shows "test_passes (skipped_message_key_allows_out_of_order_delivery E)" "test_passes (persisted_session_round_trips E)"
proof -
  note l = core_lawsD [OF assms(1)]
  obtain a b om where s: "\<forall>s. pr_tick s = 0 \<longrightarrow> test_sessions E False ''bootstrap'' s = (Inr (a, b, om), s\<lparr>pr_tick := 8\<rparr>)"
    "synced (su_crypto E) a b" "rs_sent_messages a = 0" "session_wf a" "om_content_kind om = SessionBootstrap"
    "\<forall>k. 6 < k \<longrightarrow> k < 24 \<longrightarrow> x25519_public (su_crypto E) (drawn E 32 k) \<notin> {session_public a, session_public b}"
    using test_sessions_run [OF assms, of 0 "''bootstrap''" False] by auto
  have "x25519_public (su_crypto E) (drawn E 32 8) \<noteq> session_public b" using s(6) by simp
  from swapped_run [OF assms(1) s(2,3) this sendable_test_texts(7,8), of "''chat-1''"] s(1)
  show "test_passes (skipped_message_key_allows_out_of_order_delivery E)"
    by (elim exE) (simp add: skipped_message_key_allows_out_of_order_delivery_def test_run del: no_numeral_unfold)
  show "test_passes (persisted_session_round_trips E)"
    using s(1,5) persist_round_trip [OF l(1) s(4)]
    by (simp add: persisted_session_round_trips_def test_run del: no_numeral_unfold)
qed

lemma store_tests_pass:
  "test_passes (session_store_delete_removes_saved_session E)" "test_passes session_store_rejects_blank_session_id"
  by (simp_all add: session_store_delete_removes_saved_session_def session_store_rejects_blank_session_id_def test_run
      on_local_def in_memory_unfold in_memory_new_def bt_empty_def trim_def)

section \<open>\<^verbatim>\<open>ratchet_store_fs.rs\<close>\<close>

text \<open>A disk on which no call fails, and whose files can hold every session the ratchet can reach.\<close>

definition disk_works :: "surroundings \<Rightarrow> os \<Rightarrow> string \<Rightarrow> bool" where
  "disk_works E os i \<longleftrightarrow> (\<forall>n. \<not> oo_fails (os n)) \<and> fs_laws (su_crypto E) (su_serde E) os {i} \<and>
     (\<forall>key d n. session_wf d \<longrightarrow>
        encrypted_file (su_crypto E) (su_serde E) os key i (persist (su_crypto E) d) n \<noteq> None)"

lemma disk_store_run:
  assumes "core_laws (su_crypto E)" "disk_works E os i" "trim i \<noteq> []" "session_wf d"
    and inv: "fs_inv (su_crypto E) (su_serde E) os key {i} s"
  shows "\<exists>t u. save_to_store (su_crypto E) (fs_save_session (su_crypto E) (su_serde E) os key) d i s = (Inr (), t) \<and>
     load_from_store (su_crypto E) (fs_load_session (su_crypto E) (su_serde E) os key) i t = (Inr (Some d), u) \<and>
     fs_inv (su_crypto E) (su_serde E) os key {i} u"
proof -
  note l = core_lawsD [OF assms(1)]
  let ?C = "su_crypto E" and ?S = "su_serde E" and ?p = "persist (su_crypto E) d"
  obtain b where b: "encrypted_file ?C ?S os key i ?p (Suc (fs_tick s)) = Some b" and ok: "\<And>n. \<not> oo_fails (os n)"
    using assms(2,4) unfolding disk_works_def by blast
  have "with_extension (session_path ?C i) ''json.tmp'' \<noteq> session_path ?C i"
    using inv temp_path_distinct by (simp add: fs_inv_def fs_laws_def)
  then have "\<exists>t. fs_save_session ?C ?S os key i ?p s = (Inr (), t)"
    using fs_save_run [OF b assms(3) ok] ok by (auto simp: fs_unfold)
  then obtain t where t: "fs_save_session ?C ?S os key i ?p s = (Inr (), t)" by blast
  from fs_save_step [OF inv, of i ?p] t have t': "fs_inv ?C ?S os key {i} t" "fs_view ?C ?S key t i = Some ?p" by simp_all
  from fs_load_healthy [OF t'(1) _ assms(3) ok ok] t'(2) obtain u where u: "fs_load_session ?C ?S os key i t = (Inr (Some ?p), u)"
    by auto
  then have "fs_files u = fs_files t" using fs_load_run [of ?C ?S os key i t] by simp
  from fs_inv_cong(1) [OF this] t'(1) t u show ?thesis
    by (simp add: save_to_store_def load_from_store_def act_then_run persist_round_trip [OF l(1) assms(4)])
qed

lemma disk_delete_run:
  assumes "disk_works E os i" "trim i \<noteq> []" and inv: "fs_inv (su_crypto E) (su_serde E) os key {i} s"
  shows "\<exists>t u. delete_from_store (fs_delete_session (su_crypto E) os) i s = (Inr (), t) \<and>
     load_from_store (su_crypto E) (fs_load_session (su_crypto E) (su_serde E) os key) i t = (Inr None, u)"
proof -
  have ok: "\<And>n. \<not> oo_fails (os n)" using assms(1) by (simp add: disk_works_def)
  then have "\<exists>t. fs_delete_session (su_crypto E) os i s = (Inr (), t)"
    using assms(2) by (auto simp: fs_delete_session_def validate_session_id_def fs_unfold Let_def)
  then obtain t where t: "fs_delete_session (su_crypto E) os i s = (Inr (), t)" by blast
  from fs_delete_step [OF inv, of i] t have t': "fs_inv (su_crypto E) (su_serde E) os key {i} t"
    "fs_view (su_crypto E) (su_serde E) key t i = None" by (simp_all add: ok)
  from fs_load_healthy [OF t'(1) _ assms(2) ok ok] t'(2) t show ?thesis
    by (auto simp: delete_from_store_def load_from_store_def act_then_run)
qed

lemma file_store_tests_pass:
  assumes "core_laws (su_crypto E)" "fresh_keys E 24" "disk_works E os ''alice:bob:main''"
  shows "test_passes (file_store_round_trips_ratchet_session_after_restart E os)"
    "test_passes (file_store_rejects_blank_session_id E os)"
proof -
  let ?C = "su_crypto E" and ?S = "su_serde E" and ?i = "''alice:bob:main''" and ?key = "drawn E 32 1"
  have ok: "\<And>n. \<not> oo_fails (os n)" using assms(3) by (simp add: disk_works_def)
  have dir: "unique_temp_dir E os s = (Inr \<lparr> fs_files = \<lambda>_. None, fs_tick = 1 \<rparr>, s\<lparr>pr_tick := pr_tick s + 1\<rparr>)" for s
    by (simp add: unique_temp_dir_def act_then_run new_run on_local_def fs_unfold ok)
  have remove: "on_local m (fs_remove_dir_all os) x s = (Inr ((), \<lparr> fs_files = \<lambda>_. None, fs_tick = Suc (fs_tick x) \<rparr>), s)"
    for m x and s :: process
    by (simp add: on_local_def fs_remove_dir_all_def fs_unfold ok)
  have "fs_load_session ?C ?S os k ''   '' x = (Inl InvalidRatchetSessionId, x)" for k x
    by (simp add: fs_load_session_def validate_session_id_def trim_def act_then_run)
  then show "test_passes (file_store_rejects_blank_session_id E os)"
    by (simp add: file_store_rejects_blank_session_id_def test_run dir remove del: no_numeral_unfold)
  have i: "trim ?i \<noteq> []" by (simp add: trim_def)
  have n: "2 + 11 < (24 :: nat)" "length ''bootstrap'' < 1000" "10 = 2 + (if False then 9 else 8 :: nat)" by simp_all
  obtain a b om e1 b1 a1 e2 a2 b2 where d:
    "\<forall>s. pr_tick s = 2 \<longrightarrow> test_sessions E False ''bootstrap'' s = (Inr (a, b, om), s\<lparr>pr_tick := 10\<rparr>)"
    "\<forall>s m. pr_tick s = 10 \<longrightarrow> session_encrypt E m b ''first'' ''chat-1'' s = (Inr (e1, b1), s\<lparr>pr_tick := 10 + 2\<rparr>)"
    "\<forall>s m. session_decrypt E m a e1 ''chat-1'' s = (Inr (as_bytes ''first'', a1), s)" "session_wf a1"
    "\<forall>s m. pr_tick s = 10 + 2 \<longrightarrow> session_encrypt E m a1 ''after-restart'' ''chat-1'' s = (Inr (e2, a2), s\<lparr>pr_tick := 10 + 2 + 2\<rparr>)"
    "\<forall>s m. session_decrypt E m b1 e2 ''chat-1'' s = (Inr (as_bytes ''after-restart'', b2), s)"
    using test_dialogue [OF assms(1,2) n sendable_test_texts(5,6), of "''chat-1''"] by (elim exE conjE) (rule that; assumption)
  have "fs_inv ?C ?S os ?key {?i} \<lparr> fs_files = \<lambda>_. None, fs_tick = 1 \<rparr>"
    using assms(3) by (simp add: fs_inv_def disk_works_def)
  from disk_store_run [OF assms(1,3) i d(4) this] obtain t u where
    t: "save_to_store ?C (fs_save_session ?C ?S os ?key) a1 ?i \<lparr> fs_files = \<lambda>_. None, fs_tick = 1 \<rparr> = (Inr (), t)"
    "load_from_store ?C (fs_load_session ?C ?S os ?key) ?i t = (Inr (Some a1), u)" "fs_inv ?C ?S os ?key {?i} u" by blast
  from disk_delete_run [OF assms(3) i t(3)] obtain v w where
    v: "delete_from_store (fs_delete_session ?C os) ?i u = (Inr (), v)"
    "load_from_store ?C (fs_load_session ?C ?S os ?key) ?i v = (Inr None, w)" by blast
  have run: "on_local m (save_to_store ?C (fs_save_session ?C ?S os ?key) a1 ?i) \<lparr> fs_files = \<lambda>_. None, fs_tick = 1 \<rparr> s = (Inr ((), t), s)"
    "on_local m (load_from_store ?C (fs_load_session ?C ?S os ?key) ?i) t s = (Inr (Some a1, u), s)"
    "on_local m (delete_from_store (fs_delete_session ?C os) ?i) u s = (Inr ((), v), s)"
    "on_local m (load_from_store ?C (fs_load_session ?C ?S os ?key) ?i) v s = (Inr (None, w), s)" for m and s :: process
    by (simp_all add: on_local_def t(1,2) v del: One_nat_def)
  show "test_passes (file_store_round_trips_ratchet_session_after_restart E os)"
    by (simp add: file_store_round_trips_ratchet_session_after_restart_def test_run dir remove d run del: no_numeral_unfold)
qed

section \<open>Properties\<close>

text \<open>C40: The crate's unit tests pass in the model.  For every draw of keys, nonces and times, as long as the
  primitives keep their laws, different draws make different X25519 keys, and no call of the tests' disk
  fails, each of the 24 listed tests runs to its end without a failed assertion.\<close>

theorem core_tests_pass:
  assumes "core_laws (su_crypto E)" "hex_laws (su_crypto E)" "fresh_keys E 24" "disk_works E os ''alice:bob:main''"
  shows "list_all test_passes (core_tests E os)"
proof -
  have "fresh_keys E 6" using assms(3) by (auto simp: fresh_keys_def inj_on_def)
  note pass = identity_tests_pass [OF assms(1,2)] padding_tests_pass [OF assms(1)] media_round_trip_test_passes [OF assms(1)]
    tampered_chunk_test_passes [OF assms(1)] signature_test_passes [OF assms(1)] agreement_tests_pass [OF assms(1)]
    initial_message_tests_pass [OF assms(1) this] device_test_passes [OF assms(1)] dialogue_tests_pass [OF assms(1,3)]
    session_tests_pass [OF assms(1,3)] store_tests_pass file_store_tests_pass [OF assms(1,3,4)]
  show ?thesis by (simp add: core_tests_def pass)
qed

definition ref_os_working :: os where
  "ref_os_working = (\<lambda>n. \<lparr> oo_fails = False, oo_partial = None, oo_random = replicate 24 7 \<rparr>)"

theorem core_tests_pass_witness:
  "list_all test_passes (core_tests demo_surroundings (ref_os_working))"
proof -
  have C: "su_crypto demo_surroundings = ref_crypto" by (simp add: demo_surroundings_def)
  have "fresh_keys demo_surroundings 24" using demo_fresh by (auto simp: fresh_keys_def inj_on_def)
  moreover have "encrypted_file ref_crypto pack_serde ref_os_working key i p n \<noteq> None" for key i p n
  proof -
    have "aead_encrypt ref_crypto k v a m = Some (m @ ref_tag k v a m)" for k v a m by (simp add: ref_crypto_def)
    then show ?thesis by (simp add: encrypted_file_def pack_serde_def)
  qed
  then have "disk_works demo_surroundings ref_os_working ''alice:bob:main''"
    by (simp add: disk_works_def fs_laws_def C) (simp add: ref_os_working_def demo_surroundings_def)
  ultimately show ?thesis using core_tests_pass [of demo_surroundings ref_os_working] by (simp add: C)
qed

end
