(* ===== verification/Examples.thy ===== *)
theory Examples
  imports Programs
begin

text \<open>
  The example programs under \<^verbatim>\<open>crates/comm-core/examples\<close>: five \<^verbatim>\<open>main\<close> functions, and the encrypted
  in-memory session store that \<^verbatim>\<open>encrypted_ratchet_store.rs\<close> defines, a third implementor of the
  session-store contract.
\<close>

section \<open>A conversation\<close>

definition bootstrap_double_ratchet_main :: "surroundings \<Rightarrow> unit program" where
  "bootstrap_double_ratchet_main E =
     (let C = su_crypto E in
     act_then (new_identity E) (\<lambda>alice_identity.
     act_then (new_identity E) (\<lambda>bob_identity.
     act_then (new_signed_prekey E bob_identity) (\<lambda>bob_signed_prekey.
     act_then (new_one_time_prekey E) (\<lambda>bob_one_time_prekey.
     let bob_bundle = bundle_from_parts bob_identity bob_signed_prekey (Some bob_one_time_prekey) in
     act_then (seal_message E ''failed to create bootstrap envelope'' alice_identity bob_bundle
       (as_bytes ''alice bootstrap message'') SessionBootstrap) (\<lambda>(initial_envelope, alice_handshake).
     act_then (expect ''failed to open bootstrap envelope''
       (open_initial_message C bob_identity bob_signed_prekey (Some bob_one_time_prekey) initial_envelope)) (\<lambda>opened.
     act_then (expect ''failed to bootstrap alice session''
       (bootstrap_initiator_session C alice_handshake)) (\<lambda>alice_session.
     act_then (expect ''failed to bootstrap bob session''
       (bootstrap_responder_session C bob_signed_prekey opened)) (\<lambda>bob_session.
     act_then (session_encrypt E ''failed to encrypt bob reply'' bob_session ''bob reply one'' ''example-chat'')
       (\<lambda>(bob_reply, bob_session).
     act_then (session_decrypt E ''failed to decrypt bob reply'' alice_session bob_reply ''example-chat'')
       (\<lambda>(alice_plaintext, alice_session).
     act_then (session_encrypt E ''failed to encrypt alice reply'' alice_session ''alice reply two'' ''example-chat'')
       (\<lambda>(alice_reply, alice_session).
     act_then (session_decrypt E ''failed to decrypt alice reply'' bob_session alice_reply ''example-chat'')
       (\<lambda>(bob_plaintext, bob_session).
     act_then (expect_some ''demo plaintext should be utf8'' (from_utf8 alice_plaintext)) (\<lambda>alice_text.
     act_then (println (''Alice decrypted: '' @ alice_text)) (\<lambda>_.
     act_then (expect_some ''demo plaintext should be utf8'' (from_utf8 bob_plaintext)) (\<lambda>bob_text.
     println (''Bob decrypted: '' @ bob_text)))))))))))))))))"

section \<open>A first message\<close>

definition bootstrap_initial_message_main :: "surroundings \<Rightarrow> (x3dh_envelope \<Rightarrow> string option) \<Rightarrow> unit program" where
  "bootstrap_initial_message_main E to_string_pretty =
     (let C = su_crypto E in
     act_then (new_identity E) (\<lambda>sender_identity.
     act_then (new_identity E) (\<lambda>receiver_identity.
     act_then (new_signed_prekey E receiver_identity) (\<lambda>receiver_signed_prekey.
     act_then (new_one_time_prekey E) (\<lambda>receiver_one_time_prekey.
     let receiver_bundle = bundle_from_parts receiver_identity receiver_signed_prekey (Some receiver_one_time_prekey);
         plaintext = as_bytes ''hello from the X3DH bootstrap envelope'' in
     act_then (seal_message E ''failed to seal initial message'' sender_identity receiver_bundle plaintext SessionBootstrap)
       (\<lambda>(envelope, initiator_handshake).
     act_then (expect ''failed to open initial message''
       (open_initial_message C receiver_identity receiver_signed_prekey (Some receiver_one_time_prekey) envelope)) (\<lambda>opened.
     act_then (expect_some ''unwrap'' (to_string_pretty envelope)) (\<lambda>text.
     act_then (println (''Envelope:'' @ [CHR 0x0A] @ text)) (\<lambda>_.
     act_then (println '''') (\<lambda>_.
     act_then (expect_some ''plaintext must be valid UTF-8 for this example'' (from_utf8 (om_plaintext opened))) (\<lambda>plaintext.
     act_then (println (''Opened plaintext: '' @ plaintext)) (\<lambda>_.
     println (''Shared secret matches: '' @
       display_bool (om_shared_secret opened = hs_shared_secret initiator_handshake))))))))))))))"

section \<open>An encrypted store in memory\<close>

record encrypted_record =
  xr_nonce_b64 :: string
  xr_ciphertext_b64 :: string

record encrypted_in_memory_store =
  es_key :: bytes
  es_poisoned :: bool
  es_records :: "(string \<times> encrypted_record) list"

type_synonym 'a store_action = "(encrypted_in_memory_store, core_error, 'a) action"

definition encrypted_store_new_random :: "bytes \<Rightarrow> encrypted_in_memory_store" where
  "encrypted_store_new_random key = \<lparr> es_key = key, es_poisoned = False, es_records = bt_empty \<rparr>"

definition encrypt_persisted ::
    "crypto \<Rightarrow> serde \<Rightarrow> bytes \<Rightarrow> bytes \<Rightarrow> string \<Rightarrow> persisted_session \<Rightarrow> core_error + encrypted_record" where
  "encrypt_persisted C S nonce key session_id session =
     and_then (ok_or StorageFailure (sj_session_to_vec S session)) (\<lambda>serialized.
     and_then (ok_or StorageFailure (aead_encrypt C key nonce (as_bytes session_id) serialized)) (\<lambda>ciphertext.
     Inr \<lparr> xr_nonce_b64 = b64_encode C nonce, xr_ciphertext_b64 = b64_encode C ciphertext \<rparr>))"

definition decrypt_persisted ::
    "crypto \<Rightarrow> serde \<Rightarrow> bytes \<Rightarrow> string \<Rightarrow> encrypted_record \<Rightarrow> core_error + persisted_session" where
  "decrypt_persisted C S key session_id rec =
     and_then (ok_or StorageFailure (b64_decode C (xr_nonce_b64 rec))) (\<lambda>nonce_bytes.
     and_then (ok_or StorageFailure (try_into_array 24 nonce_bytes)) (\<lambda>nonce.
     and_then (ok_or StorageFailure (b64_decode C (xr_ciphertext_b64 rec))) (\<lambda>ciphertext.
     and_then (ok_or StorageFailure (aead_decrypt C key nonce (as_bytes session_id) ciphertext)) (\<lambda>plaintext.
     ok_or StorageFailure (sj_session_from_slice S plaintext)))))"

definition es_lock :: "(string \<times> encrypted_record) list store_action" where
  "es_lock = (\<lambda>s. (if es_poisoned s then Inl StorageFailure else Inr (es_records s), s))"

definition es_load_session :: "crypto \<Rightarrow> serde \<Rightarrow> string \<Rightarrow> persisted_session option store_action" where
  "es_load_session C S session_id =
     (if trim session_id = [] then act_err InvalidRatchetSessionId
      else
        act_then es_lock (\<lambda>records.
        act_then (act_get es_key) (\<lambda>key.
        act_lift (transpose_map (decrypt_persisted C S key session_id) (bt_get session_id records)))))"

definition es_save_session :: "crypto \<Rightarrow> serde \<Rightarrow> bytes \<Rightarrow> string \<Rightarrow> persisted_session \<Rightarrow> unit store_action" where
  "es_save_session C S nonce session_id session =
     (if trim session_id = [] then act_err InvalidRatchetSessionId
      else
        act_then (act_get es_key) (\<lambda>key.
        act_then (act_lift (encrypt_persisted C S nonce key session_id session)) (\<lambda>encrypted.
        act_then es_lock (\<lambda>records.
        act_mod (\<lambda>s. s\<lparr>es_records := bt_insert session_id encrypted records\<rparr>)))))"

definition es_delete_session :: "string \<Rightarrow> unit store_action" where
  "es_delete_session session_id =
     (if trim session_id = [] then act_err InvalidRatchetSessionId
      else act_then es_lock (\<lambda>records. act_mod (\<lambda>s. s\<lparr>es_records := bt_remove session_id records\<rparr>)))"

section \<open>The store meets the contract\<close>

definition es_inv :: "crypto \<Rightarrow> serde \<Rightarrow> bytes \<Rightarrow> encrypted_in_memory_store \<Rightarrow> bool" where
  "es_inv C S nonce s \<longleftrightarrow> b64_laws C \<and> aead_laws C \<and> serde_laws S \<and> length nonce = 24 \<and> bt_inv (es_records s) \<and>
     (\<forall>i rec. bt_get i (es_records s) = Some rec \<longrightarrow> is_ok (decrypt_persisted C S (es_key s) i rec))"

definition es_view :: "crypto \<Rightarrow> serde \<Rightarrow> encrypted_in_memory_store \<Rightarrow> string \<Rightarrow> persisted_session option" where
  "es_view C S s i =
     (case bt_get i (es_records s) of
        None \<Rightarrow> None
      | Some rec \<Rightarrow> (case decrypt_persisted C S (es_key s) i rec of Inl _ \<Rightarrow> None | Inr p \<Rightarrow> Some p))"

lemma decrypt_encrypt_persisted:
  assumes "b64_laws C" "aead_laws C" "serde_laws S" "length nonce = 24"
    and "encrypt_persisted C S nonce key i p = Inr rec"
  shows "decrypt_persisted C S key i rec = Inr p"
  using assms
  by (auto simp: encrypt_persisted_def decrypt_persisted_def result_simps b64_decode_encode
      aead_decrypt_encrypt serde_laws_def)

lemma es_run:
  "es_load_session C S i s =
     (if trim i = [] then Inl InvalidRatchetSessionId else if es_poisoned s then Inl StorageFailure
      else transpose_map (decrypt_persisted C S (es_key s) i) (bt_get i (es_records s)), s)"
  "es_save_session C S nonce i p s =
     (if trim i = [] then (Inl InvalidRatchetSessionId, s)
      else case encrypt_persisted C S nonce (es_key s) i p of
        Inl e \<Rightarrow> (Inl e, s)
      | Inr rec \<Rightarrow> if es_poisoned s then (Inl StorageFailure, s)
          else (Inr (), s\<lparr>es_records := bt_insert i rec (es_records s)\<rparr>))"
  "es_delete_session i s =
     (if trim i = [] then (Inl InvalidRatchetSessionId, s) else if es_poisoned s then (Inl StorageFailure, s)
      else (Inr (), s\<lparr>es_records := bt_remove i (es_records s)\<rparr>))"
  by (simp_all add: es_load_session_def es_save_session_def es_delete_session_def es_lock_def act_then_run
      split: sum.split)

lemma es_save_run:
  assumes "es_inv C S nonce s"
  shows "es_inv C S nonce (snd (es_save_session C S nonce i p s)) \<and>
     (\<forall>j. j \<noteq> i \<longrightarrow> es_view C S (snd (es_save_session C S nonce i p s)) j = es_view C S s j) \<and>
     (fst (es_save_session C S nonce i p s) = Inr () \<longrightarrow> es_view C S (snd (es_save_session C S nonce i p s)) i = Some p)"
proof (cases "encrypt_persisted C S nonce (es_key s) i p")
  case (Inl e)
  then show ?thesis using assms by (auto simp: es_run)
next
  case (Inr rec)
  then have "decrypt_persisted C S (es_key s) i rec = Inr p"
    using assms by (auto simp: es_inv_def intro: decrypt_encrypt_persisted)
  then show ?thesis
    using assms Inr by (auto simp: es_run es_inv_def es_view_def bt_get_insert cong: option.case_cong)
qed

interpretation es: session_store UNIV "es_inv C S nonce" "es_view C S" "\<lambda>_. True"
  "es_load_session C S" "es_save_session C S nonce" es_delete_session for C S nonce
proof (unfold_locales, goal_cases)
  case (5 s i x)
  then show ?case
    by (cases "bt_get i (es_records s)") (auto simp: es_run es_view_def result_simps split: if_splits)
next
  case (6 s i p)
  then show ?case using es_save_run by blast
next
  case (7 s i j p)
  then show ?case using es_save_run by blast
next
  case (8 s i p)
  then show ?case using es_save_run by blast
qed (auto simp: es_run es_inv_def es_view_def bt_get_remove split: if_splits cong: option.case_cong)

section \<open>A restored session\<close>

definition encrypted_ratchet_store_main :: "surroundings \<Rightarrow> unit program" where
  "encrypted_ratchet_store_main E =
     (let C = su_crypto E; S = su_serde E; session_id = ''alice:bob:primary'' in
     act_then (new_identity E) (\<lambda>alice_identity.
     act_then (new_identity E) (\<lambda>bob_identity.
     act_then (new_signed_prekey E bob_identity) (\<lambda>bob_signed_prekey.
     let bob_bundle = bundle_from_parts bob_identity bob_signed_prekey None in
     act_then (seal_message E ''failed to create bootstrap envelope'' alice_identity bob_bundle
       (as_bytes ''session-bootstrap'') SessionBootstrap) (\<lambda>(initial_envelope, alice_handshake).
     act_then (expect ''failed to open bootstrap envelope''
       (open_initial_message C bob_identity bob_signed_prekey None initial_envelope)) (\<lambda>opened.
     act_then (expect ''failed to bootstrap alice'' (bootstrap_initiator_session C alice_handshake)) (\<lambda>alice_session.
     act_then (expect ''failed to bootstrap bob'' (bootstrap_responder_session C bob_signed_prekey opened)) (\<lambda>bob_session.
     act_then (draw E 32) (\<lambda>key.
     let store = encrypted_store_new_random key in
     act_then (draw E 24) (\<lambda>nonce.
     act_then (on_local ''failed to save alice session''
       (save_to_store C (es_save_session C S nonce) alice_session session_id) store) (\<lambda>(_, store).
     act_then (on_local ''failed to load from store''
       (load_from_store C (es_load_session C S) session_id) store) (\<lambda>(loaded, store).
     act_then (expect_some ''session missing from store'' loaded) (\<lambda>restored_alice.
     act_then (session_encrypt E ''bob encrypt failed'' bob_session ''message after restore'' ''chat-1'')
       (\<lambda>(message_from_bob, bob_session).
     act_then (session_decrypt E ''alice decrypt failed'' restored_alice message_from_bob ''chat-1'')
       (\<lambda>(opened_by_alice, restored_alice).
     act_then (expect_some ''plaintext should be utf8'' (from_utf8 opened_by_alice)) (\<lambda>text.
     act_then (println (''Restored Alice decrypted: '' @ text)) (\<lambda>_.
     act_then (session_encrypt E ''alice encrypt failed'' restored_alice ''alice persisted reply'' ''chat-1'')
       (\<lambda>(reply_from_alice, restored_alice).
     act_then (session_decrypt E ''bob decrypt failed'' bob_session reply_from_alice ''chat-1'')
       (\<lambda>(opened_by_bob, bob_session).
     act_then (expect_some ''plaintext should be utf8'' (from_utf8 opened_by_bob)) (\<lambda>text.
     act_then (println (''Bob decrypted from restored Alice: '' @ text)) (\<lambda>_.
     act_then (draw E 24) (\<lambda>nonce.
     act_then (on_local ''failed to persist updated session''
       (save_to_store C (es_save_session C S nonce) restored_alice session_id) store) (\<lambda>(_, store).
     act_then (on_local ''failed to delete persisted session''
       (delete_from_store es_delete_session session_id) store) (\<lambda>(_, store).
     act_then (on_local ''failed to load after delete''
       (load_from_store C (es_load_session C S) session_id) store) (\<lambda>(exists_after_delete, store).
     println (''Session exists after delete: '' @ display_bool (exists_after_delete \<noteq> None)))))))))))))))))))))))))))"

section \<open>Printed key material\<close>

definition quoted :: "string \<Rightarrow> string" where
  "quoted text = [CHR 0x22] @ text @ [CHR 0x22]"

definition generate_prekey_bundle_main :: "surroundings \<Rightarrow> unit program" where
  "generate_prekey_bundle_main E =
     (let C = su_crypto E; nl = [CHR 0x0A] in
     act_then (new_identity E) (\<lambda>identity.
     act_then (new_signed_prekey E identity) (\<lambda>signed_prekey.
     act_then (new_one_time_prekeys E 5) (\<lambda>one_time_prekeys.
     let one_time_prekeys_json =
       join ('','' @ nl) (map (\<lambda>prekey. ''    '' @ quoted (b64_encode C (opk_public_key prekey))) one_time_prekeys) in
     println (''{'' @ nl @
       ''  '' @ quoted ''identity_signing_key_b64'' @ '': '' @ quoted (b64_encode C (ik_verifying_key identity)) @ '','' @ nl @
       ''  '' @ quoted ''identity_exchange_key_b64'' @ '': '' @ quoted (b64_encode C (ik_exchange_public_key identity)) @ '','' @ nl @
       ''  '' @ quoted ''signed_prekey_b64'' @ '': '' @ quoted (b64_encode C (spk_public_key signed_prekey)) @ '','' @ nl @
       ''  '' @ quoted ''signed_prekey_signature_b64'' @ '': '' @ quoted (b64_encode C (spk_signature signed_prekey)) @ '','' @ nl @
       ''  '' @ quoted ''one_time_prekeys_b64'' @ '': ['' @ nl @ one_time_prekeys_json @ nl @ ''  ]'' @ nl @ ''}'')))))"

record bundle_fixture =
  fx_identity_signing_key_b64 :: string
  fx_identity_exchange_key_b64 :: string
  fx_signed_prekey_b64 :: string
  fx_signed_prekey_signature_b64 :: string
  fx_signed_prekey_expires_at :: string
  fx_one_time_prekeys_b64 :: "string list"

record identity_fixture =
  fx_prekey_bundle :: bundle_fixture
  fx_device_record :: device_record

text \<open>\<open>add_days\<close> is \<^verbatim>\<open>chrono\<close>'s addition, which panics beyond its range; \<open>to_string_pretty\<close> is \<^verbatim>\<open>serde_json\<close>.\<close>

definition generate_identity_fixture_main ::
    "surroundings \<Rightarrow> (time \<Rightarrow> nat \<Rightarrow> time option) \<Rightarrow> (identity_fixture \<Rightarrow> string option) \<Rightarrow> unit program" where
  "generate_identity_fixture_main E add_days to_string_pretty =
     (let C = su_crypto E in
     act_then (new_identity E) (\<lambda>identity.
     act_then (new_signed_prekey E identity) (\<lambda>signed_prekey.
     act_then (new_one_time_prekeys E 5) (\<lambda>one_time_prekeys.
     act_then (new_device_key_pair E) (\<lambda>device.
     act_then (read_clock E) (\<lambda>created_at.
     act_then (expect ''failed to sign device record''
       (device_record_sign C (ik_signing_key identity) ''desktop_primary'' ''Desktop Primary''
         (device_public_keys_of C device) created_at None)) (\<lambda>device_record.
     act_then (read_clock E) (\<lambda>now.
     act_then (expect_some ''date arithmetic'' (add_days now 7)) (\<lambda>expires_at.
     let fixture =
       \<lparr> fx_prekey_bundle =
           \<lparr> fx_identity_signing_key_b64 = b64_encode C (ik_verifying_key identity),
             fx_identity_exchange_key_b64 = b64_encode C (ik_exchange_public_key identity),
             fx_signed_prekey_b64 = b64_encode C (spk_public_key signed_prekey),
             fx_signed_prekey_signature_b64 = b64_encode C (spk_signature signed_prekey),
             fx_signed_prekey_expires_at = to_rfc3339 C expires_at,
             fx_one_time_prekeys_b64 = map (\<lambda>prekey. b64_encode C (opk_public_key prekey)) one_time_prekeys \<rparr>,
         fx_device_record = device_record \<rparr> in
     act_then (expect_some ''unwrap'' (to_string_pretty fixture)) println)))))))))"

end
