(* ===== verification/Examples_Run.thy ===== *)
theory Examples_Run
  imports Examples Program_Runs
begin

text \<open>
  What the example programs print.  Each run is computed once, from the facts that a sealed first message
  opens and that two sessions in step exchange a message.
\<close>

section \<open>The runs\<close>

lemma sendable_literals [simp]:
  "sendable_text ''bob reply one''" "sendable_text ''alice reply two''"
  "sendable_text ''message after restore''" "sendable_text ''alice persisted reply''"
  "is_text ''hello from the X3DH bootstrap envelope''"
  by (simp_all add: sendable_text_def is_text_def)

lemma bootstrap_double_ratchet_run:
  assumes laws: "core_laws (su_crypto E)" and fresh: "fresh_keys E 13"
  shows "\<exists>t. bootstrap_double_ratchet_main E process_start = (Inr (), t) \<and>
     pr_out t = [''Alice decrypted: bob reply one'', ''Bob decrypted: alice reply two'']"
proof -
  let ?C = "su_crypto E"
  let ?alice = "identity_generate ?C (drawn E 32 0) (drawn E 32 1)"
    and ?bob = "identity_generate ?C (drawn E 32 2) (drawn E 32 3)" and ?s = "drawn E 32 4"
    and ?opk = "one_time_prekey_generate ?C (drawn E 32 5)" and ?pt = "as_bytes ''alice bootstrap message''"
  have wf: "identity_wf ?C ?alice" "identity_wf ?C ?bob" "\<forall>k. Some ?opk = Some k \<longrightarrow> one_time_prekey_wf ?C k"
    by (simp_all add: identity_generate_wf one_time_prekey_generate_wf)
  have "length ?pt < 64 * (2 ^ 32 - 1)" by (simp add: as_bytes_def)
  from handshake_run [OF laws wf this, of 6 ?s SessionBootstrap] obtain env hs om a b where h:
    "\<forall>s m. pr_tick s = 6 \<longrightarrow> seal_message E m ?alice (bundle_from_parts ?bob (signed_prekey_generate ?C ?bob ?s) (Some ?opk))
       ?pt SessionBootstrap s = (Inr (env, hs), s\<lparr>pr_tick := 6 + 3\<rparr>)"
    "open_initial_message ?C ?bob (signed_prekey_generate ?C ?bob ?s) (Some ?opk) env = Inr om"
    "bootstrap_initiator_session ?C hs = Inr a"
    "bootstrap_responder_session ?C (signed_prekey_generate ?C ?bob ?s) om = Inr b"
    "synced ?C a b" "rs_sent_messages a = 0" "session_public a = x25519_public ?C (drawn E 32 6)"
    "session_public b = x25519_public ?C ?s"
    by blast
  have "x25519_public ?C (drawn E 32 9) \<noteq> session_public b"
    "x25519_public ?C (drawn E 32 11) \<notin> {session_public a, session_public b}"
    using h(7,8) fresh_keysD [OF fresh] by simp_all
  from dialogue_run [OF laws h(5,6) this sendable_literals(1,2), of "''example-chat''"]
  obtain e1 b1 a1 e2 a2 b2 where d:
    "\<forall>s m. pr_tick s = 9 \<longrightarrow> session_encrypt E m b ''bob reply one'' ''example-chat'' s = (Inr (e1, b1), s\<lparr>pr_tick := 9 + 2\<rparr>)"
    "\<forall>s m. session_decrypt E m a e1 ''example-chat'' s = (Inr (as_bytes ''bob reply one'', a1), s)"
    "\<forall>s m. pr_tick s = 11 \<longrightarrow> session_encrypt E m a1 ''alice reply two'' ''example-chat'' s = (Inr (e2, a2), s\<lparr>pr_tick := 11 + 2\<rparr>)"
    "\<forall>s m. session_decrypt E m b1 e2 ''example-chat'' s = (Inr (as_bytes ''alice reply two'', b2), s)"
    by blast
  show ?thesis
    by (simp add: bootstrap_double_ratchet_main_def process_start_def act_then_run new_run Let_def
        h(1-4) d sendable_text_prints del: One_nat_def add_2_eq_Suc add_2_eq_Suc')
qed

lemma bootstrap_initial_message_run:
  assumes laws: "core_laws (su_crypto E)" and json: "\<forall>e. to_string_pretty e \<noteq> None"
  shows "\<exists>t env. bootstrap_initial_message_main E to_string_pretty process_start = (Inr (), t) \<and>
     pr_out t = [''Envelope:'' @ [CHR 0x0A] @ the (to_string_pretty env), '''',
       ''Opened plaintext: hello from the X3DH bootstrap envelope'', ''Shared secret matches: true'']"
proof -
  let ?C = "su_crypto E"
  let ?alice = "identity_generate ?C (drawn E 32 0) (drawn E 32 1)"
    and ?bob = "identity_generate ?C (drawn E 32 2) (drawn E 32 3)" and ?s = "drawn E 32 4"
    and ?opk = "one_time_prekey_generate ?C (drawn E 32 5)"
    and ?pt = "as_bytes ''hello from the X3DH bootstrap envelope''"
  have wf: "identity_wf ?C ?alice" "identity_wf ?C ?bob" "\<forall>k. Some ?opk = Some k \<longrightarrow> one_time_prekey_wf ?C k"
    by (simp_all add: identity_generate_wf one_time_prekey_generate_wf)
  have "length ?pt < 64 * (2 ^ 32 - 1)" by (simp add: as_bytes_def)
  from handshake_run [OF laws wf this, of 6 ?s SessionBootstrap] obtain env hs om where h:
    "\<forall>s m. pr_tick s = 6 \<longrightarrow> seal_message E m ?alice (bundle_from_parts ?bob (signed_prekey_generate ?C ?bob ?s) (Some ?opk))
       ?pt SessionBootstrap s = (Inr (env, hs), s\<lparr>pr_tick := 6 + 3\<rparr>)"
    "open_initial_message ?C ?bob (signed_prekey_generate ?C ?bob ?s) (Some ?opk) env = Inr om"
    "om_plaintext om = ?pt" "om_shared_secret om = hs_shared_secret hs"
    by blast
  obtain json_text where "to_string_pretty env = Some json_text" using json by blast
  then show ?thesis
    by (intro exI [of _ "\<lparr> pr_tick = 9, pr_out = [''Envelope:'' @ [CHR 0x0A] @ json_text, '''',
       ''Opened plaintext: hello from the X3DH bootstrap envelope'', ''Shared secret matches: true''] \<rparr>"] exI [of _ env])
      (simp add: bootstrap_initial_message_main_def process_start_def act_then_run new_run Let_def
        h from_utf8_as_bytes display_bool_def del: One_nat_def add_2_eq_Suc add_2_eq_Suc')
qed

text \<open>Every session the ratchet can hold is serialized and encrypted.\<close>

definition storable :: "surroundings \<Rightarrow> bool" where
  "storable E \<longleftrightarrow> serde_laws (su_serde E) \<and> (\<forall>key nonce i d. session_wf d \<longrightarrow>
     is_ok (encrypt_persisted (su_crypto E) (su_serde E) nonce key i (persist (su_crypto E) d)))"

lemma store_run:
  assumes "core_laws (su_crypto E)" "storable E" "session_wf d" "trim i \<noteq> []" "length nonce = 24"
    and "bt_inv (es_records store)" "\<not> es_poisoned store"
  shows "\<exists>t. save_to_store (su_crypto E) (es_save_session (su_crypto E) (su_serde E) nonce) d i store = (Inr (), t) \<and>
     load_from_store (su_crypto E) (es_load_session (su_crypto E) (su_serde E)) i t = (Inr (Some d), t) \<and>
     bt_inv (es_records t) \<and> \<not> es_poisoned t"
proof -
  note l = core_lawsD [OF assms(1)]
  obtain rec where r: "encrypt_persisted (su_crypto E) (su_serde E) nonce (es_key store) i (persist (su_crypto E) d) = Inr rec"
    using assms(2,3) unfolding storable_def is_ok_iff by blast
  from decrypt_encrypt_persisted [OF l(1,2) _ assms(5) r] assms(2) show ?thesis
    using r assms(4,6,7)
    by (simp add: save_to_store_def load_from_store_def es_run act_then_run bt_get_insert storable_def
        persist_round_trip [OF l(1) assms(3)])
qed

lemma store_delete_run:
  assumes "trim i \<noteq> []" "bt_inv (es_records t)" "\<not> es_poisoned t"
  shows "\<exists>u. delete_from_store es_delete_session i t = (Inr (), u) \<and>
     load_from_store C (es_load_session C S) i u = (Inr None, u)"
  using assms by (simp add: delete_from_store_def load_from_store_def es_run act_then_run bt_get_remove)

lemma encrypted_ratchet_store_run:
  assumes laws: "core_laws (su_crypto E)" and fresh: "fresh_keys E 13" and store: "storable E"
  shows "\<exists>t. encrypted_ratchet_store_main E process_start = (Inr (), t) \<and>
     pr_out t = [''Restored Alice decrypted: message after restore'',
       ''Bob decrypted from restored Alice: alice persisted reply'', ''Session exists after delete: false'']"
proof -
  let ?C = "su_crypto E" and ?S = "su_serde E" and ?i = "''alice:bob:primary''"
  let ?alice = "identity_generate ?C (drawn E 32 0) (drawn E 32 1)"
    and ?bob = "identity_generate ?C (drawn E 32 2) (drawn E 32 3)" and ?s = "drawn E 32 4"
    and ?pt = "as_bytes ''session-bootstrap''"
  have wf: "identity_wf ?C ?alice" "identity_wf ?C ?bob" "\<forall>k. None = Some k \<longrightarrow> one_time_prekey_wf ?C k"
    by (simp_all add: identity_generate_wf)
  have "length ?pt < 64 * (2 ^ 32 - 1)" by (simp add: as_bytes_def)
  from handshake_run [OF laws wf this, of 5 ?s SessionBootstrap] obtain env hs om a b where h:
    "\<forall>s m. pr_tick s = 5 \<longrightarrow> seal_message E m ?alice (bundle_from_parts ?bob (signed_prekey_generate ?C ?bob ?s) None)
       ?pt SessionBootstrap s = (Inr (env, hs), s\<lparr>pr_tick := 5 + 3\<rparr>)"
    "open_initial_message ?C ?bob (signed_prekey_generate ?C ?bob ?s) None env = Inr om"
    "bootstrap_initiator_session ?C hs = Inr a"
    "bootstrap_responder_session ?C (signed_prekey_generate ?C ?bob ?s) om = Inr b"
    "synced ?C a b" "rs_sent_messages a = 0" "session_public a = x25519_public ?C (drawn E 32 5)"
    "session_public b = x25519_public ?C ?s" "session_wf a"
    by blast
  have "x25519_public ?C (drawn E 32 10) \<noteq> session_public b"
    "x25519_public ?C (drawn E 32 12) \<notin> {session_public a, session_public b}"
    using h(7,8) fresh_keysD [OF fresh] by simp_all
  from dialogue_run [OF laws h(5,6) this sendable_literals(3,4), of "''chat-1''"]
  obtain e1 b1 a1 e2 a2 b2 where d:
    "\<forall>s m. pr_tick s = 10 \<longrightarrow> session_encrypt E m b ''message after restore'' ''chat-1'' s = (Inr (e1, b1), s\<lparr>pr_tick := 10 + 2\<rparr>)"
    "\<forall>s m. session_decrypt E m a e1 ''chat-1'' s = (Inr (as_bytes ''message after restore'', a1), s)"
    "\<forall>s m. pr_tick s = 12 \<longrightarrow> session_encrypt E m a1 ''alice persisted reply'' ''chat-1'' s = (Inr (e2, a2), s\<lparr>pr_tick := 12 + 2\<rparr>)"
    "\<forall>s m. session_decrypt E m b1 e2 ''chat-1'' s = (Inr (as_bytes ''alice persisted reply'', b2), s)"
    "session_wf a2"
    using h(9) by blast
  have i: "trim ?i \<noteq> []" by (simp add: trim_def)
  have new: "bt_inv (es_records (encrypted_store_new_random (drawn E 32 8)))" "\<not> es_poisoned (encrypted_store_new_random (drawn E 32 8))"
    by (simp_all add: encrypted_store_new_random_def bt_empty_def)
  obtain s1 where s1: "save_to_store ?C (es_save_session ?C ?S (drawn E 24 9)) a ?i (encrypted_store_new_random (drawn E 32 8)) = (Inr (), s1)"
    "load_from_store ?C (es_load_session ?C ?S) ?i s1 = (Inr (Some a), s1)" "bt_inv (es_records s1)" "\<not> es_poisoned s1"
    using store_run [OF laws store h(9) i length_drawn new] by blast
  obtain s2 where s2: "save_to_store ?C (es_save_session ?C ?S (drawn E 24 14)) a2 ?i s1 = (Inr (), s2)"
    "bt_inv (es_records s2)" "\<not> es_poisoned s2"
    using store_run [OF laws store d(5) i length_drawn s1(3,4)] by blast
  obtain s3 where s3: "delete_from_store es_delete_session ?i s2 = (Inr (), s3)"
    "load_from_store ?C (es_load_session ?C ?S) ?i s3 = (Inr None, s3)"
    using store_delete_run [OF i s2(2,3)] by blast
  show ?thesis
    by (simp add: encrypted_ratchet_store_main_def process_start_def act_then_run new_run Let_def
        h(1-4) d(1-4) on_local_def s1(1,2) s2(1) s3 sendable_text_prints display_bool_def del: One_nat_def add_2_eq_Suc add_2_eq_Suc')
qed

section \<open>Properties\<close>

text \<open>C38: The example programs run to their end and print what they announce.  Whatever keys and nonces are
  drawn, as long as different draws make different key pairs, no \<^verbatim>\<open>expect\<close> panics: the two demo sides read
  each other's messages, the opened first message is the one sealed and both sides hold the same secret, and
  a session restored from the encrypted in-memory store continues its conversation and is gone after deletion.\<close>

theorem example_programs_run:
  assumes "core_laws (su_crypto E)" "fresh_keys E 13" "storable E" "\<forall>e. to_string_pretty e \<noteq> None"
  shows "(\<exists>t. bootstrap_double_ratchet_main E process_start = (Inr (), t) \<and>
       pr_out t = [''Alice decrypted: bob reply one'', ''Bob decrypted: alice reply two'']) \<and>
     (\<exists>t env. bootstrap_initial_message_main E to_string_pretty process_start = (Inr (), t) \<and>
       pr_out t = [''Envelope:'' @ [CHR 0x0A] @ the (to_string_pretty env), '''',
         ''Opened plaintext: hello from the X3DH bootstrap envelope'', ''Shared secret matches: true'']) \<and>
     (\<exists>t. encrypted_ratchet_store_main E process_start = (Inr (), t) \<and>
       pr_out t = [''Restored Alice decrypted: message after restore'',
         ''Bob decrypted from restored Alice: alice persisted reply'', ''Session exists after delete: false''])"
  using bootstrap_double_ratchet_run [OF assms(1,2)] bootstrap_initial_message_run [OF assms(1,4)]
    encrypted_ratchet_store_run [OF assms(1-3)]
  by blast

lemma demo_storable: "storable demo_surroundings"
  by (auto simp: storable_def encrypt_persisted_def demo_surroundings_def is_ok_def)
    (simp_all add: pack_serde_def ref_crypto_def)

theorem example_programs_run_witness:
  "\<exists>t. encrypted_ratchet_store_main demo_surroundings process_start = (Inr (), t) \<and>
     pr_out t = [''Restored Alice decrypted: message after restore'',
       ''Bob decrypted from restored Alice: alice persisted reply'', ''Session exists after delete: false'']"
proof -
  have "core_laws (su_crypto demo_surroundings)" by (simp add: demo_surroundings_def)
  moreover have "fresh_keys demo_surroundings 13" using demo_fresh by (auto simp: fresh_keys_def inj_on_def)
  ultimately show ?thesis using example_programs_run [OF _ _ demo_storable, of "\<lambda>_. Some []"] by simp
qed

end
