(* ===== verification/Fixture_Upload.thy ===== *)
theory Fixture_Upload
  imports Examples_Run Relay_Demo
begin

text \<open>
  The fixture that \<^verbatim>\<open>generate_identity_fixture.rs\<close> prints is meant to be posted to the relay: what the
  relay's parser and the record check make of it.
\<close>

section \<open>One-time prekeys in transport\<close>

lemma decode_one_time_prekeys_distinct:
  assumes "b64_laws C" "\<forall>k \<in> set ks. length k = 32" "distinct (keys @ ks)"
  shows "decode_one_time_prekeys C (map (b64_encode C) ks) keys = Inr (keys @ ks)"
  using assms(2,3)
proof (induction ks arbitrary: keys)
  case (Cons k ks)
  have "relay_decode_fixed_base64 C 32 (b64_encode C k) ''one_time_prekeys_b64 entry'' = Inr k"
    using Cons.prems(1) assms(1) by (simp add: relay_decode_fixed_base64_def b64_decode_encode)
  moreover have "decode_one_time_prekeys C (map (b64_encode C) ks) (keys @ [k]) = Inr ((keys @ [k]) @ ks)"
    using Cons.prems by (intro Cons.IH) auto
  ultimately show ?case using Cons.prems by simp
qed simp

text \<open>The request a client makes of the fixture: the expiry text becomes the instant it denotes.\<close>

definition upload_of :: "bundle_fixture \<Rightarrow> time \<Rightarrow> publish_prekey_bundle_request" where
  "upload_of f expires_at =
     \<lparr> pq_identity_signing_key_b64 = fx_identity_signing_key_b64 f,
       pq_identity_exchange_key_b64 = fx_identity_exchange_key_b64 f,
       pq_signed_prekey_b64 = fx_signed_prekey_b64 f,
       pq_signed_prekey_signature_b64 = fx_signed_prekey_signature_b64 f,
       pq_signed_prekey_expires_at = Some expires_at,
       pq_one_time_prekeys_b64 = fx_one_time_prekeys_b64 f \<rparr>"

lemma upload_parses:
  assumes "core_laws C" "lb_crypto (en_lib R) = C" "identity_wf C identity" "spk = signed_prekey_generate C identity s"
    and "\<forall>k \<in> set ks. length k = 32" "distinct ks" "length ks \<le> 256"
    and "wo_now (en_world R (rl_tick st)) < expires_at"
    and f: "fx_identity_signing_key_b64 f = b64_encode C (ik_verifying_key identity)"
      "fx_identity_exchange_key_b64 f = b64_encode C (ik_exchange_public_key identity)"
      "fx_signed_prekey_b64 f = b64_encode C (spk_public_key spk)"
      "fx_signed_prekey_signature_b64 f = b64_encode C (spk_signature spk)"
      "fx_one_time_prekeys_b64 f = map (b64_encode C) ks"
  shows "\<exists>t. parse_prekey_bundle_upload R (upload_of f expires_at) st =
     (Inr \<lparr> pp_identity_signing_key = ik_verifying_key identity,
        pp_identity_exchange_key = ik_exchange_public_key identity, pp_signed_prekey = spk_public_key spk,
        pp_signed_prekey_signature = spk_signature spk, pp_one_time_prekeys = ks,
        pp_signed_prekey_expires_at = expires_at \<rparr>, t)"
proof -
  note l = core_lawsD [OF assms(1)]
  have field: "relay_decode_fixed_base64 C n (b64_encode C k) what = Inr k" if "length k = n" for n k what
    using that l(1) by (simp add: relay_decode_fixed_base64_def b64_decode_encode)
  have keys: "length (ik_verifying_key identity) = 32" "length (ik_exchange_public_key identity) = 32"
    "length (spk_public_key spk) = 32" "length (spk_signature spk) = 64" "ed25519_valid_key C (ik_verifying_key identity)"
    using assms(3,4) l(4,5)
    by (simp_all add: identity_wf_def signed_prekey_generate_def Let_def length_ed25519 length_x25519_public
        ed25519_valid_public)
  have "bundle_verify C (bundle_from_parts identity spk None) = Inr ()"
    using signed_prekey_generate_verifies [OF l(5) assms(3)] assms(4) by simp
  then have ver: "bundle_verify C
      \<lparr> pb_identity_pub = \<lparr> ip_signing_key = ik_verifying_key identity, ip_exchange_key = ik_exchange_public_key identity \<rparr>,
        pb_signed_prekey_pub = spk_public_key spk, pb_signed_prekey_sig = spk_signature spk,
        pb_one_time_prekey_pub = None \<rparr> = Inr ()"
    by (simp add: bundle_from_parts_def public_bundle_def)
  have "decode_one_time_prekeys C (map (b64_encode C) ks) [] = Inr ks"
    using decode_one_time_prekeys_distinct [OF l(1) assms(5), of "[]"] assms(6) by simp
  with assms(2,7,8) f keys field ver show ?thesis
    by (simp add: parse_prekey_bundle_upload_def upload_of_def validate_signed_prekey_expiry_def utc_now_def world_def
        act_then_run Let_def)
qed

section \<open>Properties\<close>

text \<open>C39: The identity fixture is accepted where it is meant to go.  Whatever is drawn, as long as the
  one-time keys differ, \<^verbatim>\<open>generate_identity_fixture\<close> prints one document; the relay's upload parser accepts
  its prekey bundle at every moment before the printed expiry, with all five one-time prekeys, and its device
  record verifies under the bundle's identity key.\<close>

theorem identity_fixture_accepted:
  assumes laws: "core_laws (su_crypto E)" "fresh_keys E 8"
    and "\<forall>t. add_days t 7 \<noteq> None" "\<forall>f. to_string_pretty f \<noteq> None"
  shows "\<exists>t fixture expires_at identity_key.
     generate_identity_fixture_main E add_days to_string_pretty process_start = (Inr (), t) \<and>
     pr_out t = [the (to_string_pretty fixture)] \<and> add_days (su_clock E 11) 7 = Some expires_at \<and>
     fx_signed_prekey_expires_at (fx_prekey_bundle fixture) = to_rfc3339 (su_crypto E) expires_at \<and>
     (\<forall>(R :: 'r relay_env) s. lb_crypto (en_lib R) = su_crypto E \<longrightarrow> wo_now (en_world R (rl_tick s)) < expires_at \<longrightarrow>
        (\<exists>parsed u. parse_prekey_bundle_upload R (upload_of (fx_prekey_bundle fixture) expires_at) s = (Inr parsed, u) \<and>
           length (pp_one_time_prekeys parsed) = 5 \<and> pp_identity_signing_key parsed = identity_key)) \<and>
     device_record_verify (su_crypto E) (fx_device_record fixture) identity_key = Inr ()"
proof -
  let ?C = "su_crypto E"
  note l = core_lawsD [OF laws(1)]
  let ?id = "identity_generate ?C (drawn E 32 0) (drawn E 32 1)"
  let ?spk = "signed_prekey_generate ?C ?id (drawn E 32 2)"
  let ?dev = "device_public_keys_of ?C (device_key_pair_generate ?C (drawn E 32 8) (drawn E 32 9))"
  let ?opks = "map (\<lambda>k. x25519_public ?C (drawn E 32 k)) [3, 4, 5, 6, 7]"
  have dev: "device_decode_ed25519_public_key ?C (dk_signing_key_b64 ?dev) = Inr (ed25519_public ?C (drawn E 32 8))"
    "device_decode_x25519_public_key ?C (dk_exchange_key_b64 ?dev) = Inr (x25519_public ?C (drawn E 32 9))"
    using l by (simp_all add: device_decode_ed25519_public_key_def device_decode_x25519_public_key_def
        device_public_keys_of_def device_key_pair_generate_def identity_generate_def Let_def b64_decode_encode
        length_ed25519 length_x25519_public ed25519_valid_public)
  obtain rec where r: "device_record_sign ?C (ik_signing_key ?id) ''desktop_primary'' ''Desktop Primary'' ?dev
      (su_clock E 10) None = Inr rec"
    by (simp add: device_record_sign_def validate_device_id_def validate_device_label_def trim_def
        is_ascii_alphanumeric_def dev Let_def)
  obtain expires_at where x: "add_days (su_clock E 11) 7 = Some expires_at" using assms(3) by blast
  let ?keys = "\<lparr> fx_identity_signing_key_b64 = b64_encode ?C (ik_verifying_key ?id),
      fx_identity_exchange_key_b64 = b64_encode ?C (ik_exchange_public_key ?id),
      fx_signed_prekey_b64 = b64_encode ?C (spk_public_key ?spk),
      fx_signed_prekey_signature_b64 = b64_encode ?C (spk_signature ?spk),
      fx_signed_prekey_expires_at = to_rfc3339 ?C expires_at, fx_one_time_prekeys_b64 = map (b64_encode ?C) ?opks \<rparr>"
  obtain document where doc:
    "to_string_pretty \<lparr> fx_prekey_bundle = ?keys, fx_device_record = rec \<rparr> = Some document" using assms(4) by blast
  have upt: "[3..<8] = [3, 4, 5, 6, 7 :: nat]" by (simp add: upt_rec)
  have run: "generate_identity_fixture_main E add_days to_string_pretty process_start =
      (Inr (), \<lparr> pr_tick = 12, pr_out = [document] \<rparr>)"
    using r x doc
    by (simp add: generate_identity_fixture_main_def process_start_def act_then_run new_run new_one_time_prekeys_run
        Let_def upt one_time_prekey_generate_def comp_def del: One_nat_def add_2_eq_Suc add_2_eq_Suc')
  have "distinct ?opks" using fresh_keysD [OF laws(2)] by simp
  moreover have "\<forall>k \<in> set ?opks. length k = 32" using l(4) by (simp add: length_x25519_public)
  ultimately have accept: "\<exists>parsed u. parse_prekey_bundle_upload R (upload_of ?keys expires_at) s = (Inr parsed, u) \<and>
      length (pp_one_time_prekeys parsed) = 5 \<and> pp_identity_signing_key parsed = ik_verifying_key ?id"
    if "lb_crypto (en_lib R) = ?C" "wo_now (en_world R (rl_tick s)) < expires_at" for R :: "'r relay_env" and s
    using upload_parses [OF laws(1) that(1) identity_generate_wf refl _ _ _ that(2), of ?opks ?keys] by fastforce
  have "device_record_verify ?C rec (ik_verifying_key ?id) = Inr ()"
    using device_verifies [OF l(1,5) r] by (simp add: identity_generate_def)
  with run accept doc x show ?thesis
    by (intro exI [of _ "\<lparr> pr_tick = 12, pr_out = [document] \<rparr>"]
        exI [of _ "\<lparr> fx_prekey_bundle = ?keys, fx_device_record = rec \<rparr>"] exI [of _ expires_at]
        exI [of _ "ik_verifying_key ?id"]) simp
qed

theorem identity_fixture_accepted_witness:
  "\<exists>t (fixture :: identity_fixture) parsed u.
     generate_identity_fixture_main demo_surroundings (\<lambda>t n. Some (2000 + t)) (\<lambda>_. Some ''{}'') process_start = (Inr (), t) \<and>
     pr_out t = [''{}''] \<and>
     parse_prekey_bundle_upload demo_env (upload_of (fx_prekey_bundle fixture) 2011) demo_state = (Inr parsed, u) \<and>
     length (pp_one_time_prekeys parsed) = 5"
proof -
  have C: "su_crypto demo_surroundings = ref_crypto" "su_clock demo_surroundings 11 = 11"
    by (simp_all add: demo_surroundings_def)
  have fresh: "fresh_keys demo_surroundings 8" using demo_fresh by (auto simp: fresh_keys_def inj_on_def)
  have laws: "core_laws (su_crypto demo_surroundings)" by (simp add: C)
  have days: "\<forall>t. (\<lambda>t n. Some (2000 + t)) t (7 :: nat) \<noteq> (None :: time option)"
    and json: "\<forall>f. (\<lambda>_. Some ''{}'') (f :: identity_fixture) \<noteq> None" by simp_all
  obtain t and fixture :: identity_fixture and expires_at identity_key where run:
    "generate_identity_fixture_main demo_surroundings (\<lambda>t n. Some (2000 + t)) (\<lambda>_. Some ''{}'') process_start = (Inr (), t)"
    "pr_out t = [the (Some ''{}'')]" "Some (2000 + 11) = Some expires_at"
    and parse: "\<forall>(R :: demo_redis relay_env) s. lb_crypto (en_lib R) = ref_crypto \<longrightarrow>
        wo_now (en_world R (rl_tick s)) < expires_at \<longrightarrow>
        (\<exists>parsed u. parse_prekey_bundle_upload R (upload_of (fx_prekey_bundle fixture) expires_at) s = (Inr parsed, u) \<and>
           length (pp_one_time_prekeys parsed) = 5 \<and> pp_identity_signing_key parsed = identity_key)"
    using identity_fixture_accepted [OF laws fresh days json, where 'r = demo_redis] unfolding C
    by (elim exE conjE) (rule that; assumption)
  from run(3) have x: "expires_at = 2011" by simp
  have "lb_crypto (en_lib demo_env) = ref_crypto" "wo_now (en_world demo_env (rl_tick demo_state)) < expires_at"
    by (simp_all add: demo_steps x)
  with parse obtain parsed u where
    "parse_prekey_bundle_upload demo_env (upload_of (fx_prekey_bundle fixture) expires_at) demo_state = (Inr parsed, u)"
    "length (pp_one_time_prekeys parsed) = 5" by blast
  with run(1,2) show ?thesis unfolding x option.sel by blast
qed

end
