(* ===== verification/Relay_Tests.thy ===== *)
theory Relay_Tests
  imports Program_Runs Fixture_Upload
begin

text \<open>
  The unit tests of the relay (\<^verbatim>\<open>services/relay/src/main.rs\<close>) as programs.  Left out is
  \<^verbatim>\<open>mailbox_token_hash_is_mailbox_scoped\<close>, whose assertion is that two SHA-256 digests differ.
\<close>

section \<open>Field checks\<close>

definition mailbox_id_rules_are_enforced :: "unit program" where
  "mailbox_id_rules_are_enforced =
     act_then (assert_that ''short'' (\<not> is_ok (validate_mailbox_id ''short''))) (\<lambda>_.
     act_then (assert_that ''valid'' (is_ok (validate_mailbox_id ''valid_mailbox_id_123''))) (\<lambda>_.
     assert_that ''invalid'' (\<not> is_ok (validate_mailbox_id ''invalid/mailbox/id''))))"

definition mailbox_token_requires_entropy :: "crypto \<Rightarrow> unit program" where
  "mailbox_token_requires_entropy C =
     (let weak = b64_encode C (replicate 12 7); strong = b64_encode C (replicate 32 9) in
     act_then (assert_that ''weak'' (\<not> is_ok (decode_mailbox_token C weak))) (\<lambda>_.
     act_then (unwrap (decode_mailbox_token C strong)) (\<lambda>token. assert_eq (length token) 32)))"

definition replay_token_character_policy_is_enforced :: "unit program" where
  "replay_token_character_policy_is_enforced =
     act_then (assert_that ''good'' (is_ok (validate_replay_token ''good-token_123456789''))) (\<lambda>_.
     assert_that ''bad'' (\<not> is_ok (validate_replay_token ''bad token with spaces'')))"

definition media_type_must_look_like_mime_type :: "unit program" where
  "media_type_must_look_like_mime_type =
     act_then (assert_that ''good'' (is_ok (validate_media_type ''image/jpeg''))) (\<lambda>_.
     assert_that ''bad'' (\<not> is_ok (validate_media_type ''bad value'')))"

definition sha256_base64_requires_32_bytes :: "crypto \<Rightarrow> unit program" where
  "sha256_base64_requires_32_bytes C =
     (let valid = b64_encode C (replicate 32 1); invalid = b64_encode C (replicate 16 1) in
     act_then (assert_that ''valid'' (is_ok (validate_sha256_b64 C valid))) (\<lambda>_.
     assert_that ''invalid'' (\<not> is_ok (validate_sha256_b64 C invalid))))"

definition grant_operation_is_restricted :: "unit program" where
  "grant_operation_is_restricted =
     act_then (assert_that ''download'' (is_ok (validate_grant_operation ''download''))) (\<lambda>_.
     assert_that ''invalid'' (\<not> is_ok (validate_grant_operation ''invalid'')))"

definition grant_token_must_be_hex :: "unit program" where
  "grant_token_must_be_hex =
     act_then (assert_that ''hex'' (is_ok (validate_grant_token (replicate 64 CHR ''a'')))) (\<lambda>_.
     assert_that ''not-hex'' (\<not> is_ok (validate_grant_token ''not-hex'')))"

section \<open>Prekey uploads\<close>

text \<open>\<^verbatim>\<open>Utc::now() + Duration::seconds(k)\<close>, which panics out of range, and \<^verbatim>\<open>str::contains\<close>.\<close>

definition now_plus :: "surroundings \<Rightarrow> 'r relay_env \<Rightarrow> int \<Rightarrow> time program" where
  "now_plus E R seconds =
     act_then (read_clock E) (\<lambda>now. expect_some ''date arithmetic'' (lb_add_seconds (en_lib R) now seconds))"

fun contains :: "string \<Rightarrow> string \<Rightarrow> bool" where
  "contains [] needle = (needle = [])"
| "contains (c # s) needle = (take (length needle) (c # s) = needle \<or> contains s needle)"

definition signed_prekey_expiry_must_be_future :: "surroundings \<Rightarrow> 'r relay_env \<Rightarrow> 'r relay_state \<Rightarrow> unit program" where
  "signed_prekey_expiry_must_be_future E R st =
     act_then (now_plus E R (- 1)) (\<lambda>past.
     let (r, st) = validate_signed_prekey_expiry R past st in
     act_then (assert_that ''past'' (\<not> is_ok r)) (\<lambda>_.
     act_then (now_plus E R (7 * 24 * 60 * 60)) (\<lambda>future.
     assert_that ''future'' (is_ok (fst (validate_signed_prekey_expiry R future st))))))"

definition prekey_upload_parser_accepts_valid_bundle :: "surroundings \<Rightarrow> 'r relay_env \<Rightarrow> 'r relay_state \<Rightarrow> unit program" where
  "prekey_upload_parser_accepts_valid_bundle E R st =
     (let C = su_crypto E in
     act_then (new_identity E) (\<lambda>identity.
     act_then (new_signed_prekey E identity) (\<lambda>signed_prekey.
     act_then (new_one_time_prekey E) (\<lambda>one_time_prekey.
     act_then (now_plus E R (7 * 24 * 60 * 60)) (\<lambda>expires_at.
     let request =
       \<lparr> pq_identity_signing_key_b64 = b64_encode C (ik_verifying_key identity),
         pq_identity_exchange_key_b64 = b64_encode C (ik_exchange_public_key identity),
         pq_signed_prekey_b64 = b64_encode C (spk_public_key signed_prekey),
         pq_signed_prekey_signature_b64 = b64_encode C (spk_signature signed_prekey),
         pq_signed_prekey_expires_at = Some expires_at,
         pq_one_time_prekeys_b64 = [b64_encode C (opk_public_key one_time_prekey)] \<rparr> in
     act_then (unwrap (fst (parse_prekey_bundle_upload R request st))) (\<lambda>parsed.
     act_then (assert_eq (length (pp_one_time_prekeys parsed)) 1) (\<lambda>_.
     assert_eq (pp_signed_prekey parsed) (spk_public_key signed_prekey))))))))"

definition prekey_upload_parser_rejects_duplicate_one_time_prekeys ::
    "surroundings \<Rightarrow> 'r relay_env \<Rightarrow> 'r relay_state \<Rightarrow> unit program" where
  "prekey_upload_parser_rejects_duplicate_one_time_prekeys E R st =
     (let C = su_crypto E in
     act_then (new_identity E) (\<lambda>identity.
     act_then (new_signed_prekey E identity) (\<lambda>signed_prekey.
     act_then (new_one_time_prekey E) (\<lambda>one_time_prekey.
     let encoded_one_time_prekey = b64_encode C (opk_public_key one_time_prekey) in
     act_then (now_plus E R (7 * 24 * 60 * 60)) (\<lambda>expires_at.
     let request =
       \<lparr> pq_identity_signing_key_b64 = b64_encode C (ik_verifying_key identity),
         pq_identity_exchange_key_b64 = b64_encode C (ik_exchange_public_key identity),
         pq_signed_prekey_b64 = b64_encode C (spk_public_key signed_prekey),
         pq_signed_prekey_signature_b64 = b64_encode C (spk_signature signed_prekey),
         pq_signed_prekey_expires_at = Some expires_at,
         pq_one_time_prekeys_b64 = [encoded_one_time_prekey, encoded_one_time_prekey] \<rparr> in
     assert_that ''duplicates'' (case fst (parse_prekey_bundle_upload R request st) of
        Inl (BadRequest message) \<Rightarrow> contains message ''duplicates'' | _ \<Rightarrow> False))))))"

definition prekey_upload_parser_rejects_bad_signature :: "surroundings \<Rightarrow> 'r relay_env \<Rightarrow> 'r relay_state \<Rightarrow> unit program" where
  "prekey_upload_parser_rejects_bad_signature E R st =
     (let C = su_crypto E in
     act_then (new_identity E) (\<lambda>identity.
     act_then (new_signed_prekey E identity) (\<lambda>signed_prekey.
     act_then (new_identity E) (\<lambda>attacker.
     act_then (now_plus E R (7 * 24 * 60 * 60)) (\<lambda>expires_at.
     let request =
       \<lparr> pq_identity_signing_key_b64 = b64_encode C (ik_verifying_key attacker),
         pq_identity_exchange_key_b64 = b64_encode C (ik_exchange_public_key identity),
         pq_signed_prekey_b64 = b64_encode C (spk_public_key signed_prekey),
         pq_signed_prekey_signature_b64 = b64_encode C (spk_signature signed_prekey),
         pq_signed_prekey_expires_at = Some expires_at, pq_one_time_prekeys_b64 = [] \<rparr> in
     assert_that ''bad signature'' (case fst (parse_prekey_bundle_upload R request st) of
        Inl (BadRequest message) \<Rightarrow> contains message ''does not verify'' | _ \<Rightarrow> False))))))"

text \<open>All tests but the two whose outcome rests on a signature or a hash telling two given inputs apart.\<close>

definition relay_tests :: "surroundings \<Rightarrow> 'r relay_env \<Rightarrow> 'r relay_state \<Rightarrow> unit program list" where
  "relay_tests E R st =
     [mailbox_id_rules_are_enforced, mailbox_token_requires_entropy (su_crypto E), replay_token_character_policy_is_enforced,
      media_type_must_look_like_mime_type, sha256_base64_requires_32_bytes (su_crypto E), grant_operation_is_restricted,
      grant_token_must_be_hex, signed_prekey_expiry_must_be_future E R st, prekey_upload_parser_accepts_valid_bundle E R st,
      prekey_upload_parser_rejects_duplicate_one_time_prekeys E R st]"

section \<open>The tests pass\<close>

text \<open>The relay reads a clock that is not behind the test's and less than a week ahead of it.\<close>

definition clocks_agree :: "surroundings \<Rightarrow> 'r relay_env \<Rightarrow> 'r relay_state \<Rightarrow> bool" where
  "clocks_agree E R st \<longleftrightarrow> (\<forall>k < 8. \<forall>n < 4. \<exists>past future.
     lb_add_seconds (en_lib R) (su_clock E k) (- 1) = Some past \<and> past \<le> wo_now (en_world R (rl_tick st + n)) \<and>
     lb_add_seconds (en_lib R) (su_clock E k) (7 * 24 * 60 * 60) = Some future \<and> wo_now (en_world R (rl_tick st + n)) < future)"

lemma field_tests_pass:
  assumes "b64_laws C"
  shows "test_passes mailbox_id_rules_are_enforced" "test_passes (mailbox_token_requires_entropy C)"
    "test_passes replay_token_character_policy_is_enforced" "test_passes media_type_must_look_like_mime_type"
    "test_passes (sha256_base64_requires_32_bytes C)" "test_passes grant_operation_is_restricted"
    "test_passes grant_token_must_be_hex"
  using assms
  by (simp_all add: test_run mailbox_id_rules_are_enforced_def validate_mailbox_id_def is_id_char_def is_ascii_alphanumeric_def
      mailbox_token_requires_entropy_def decode_mailbox_token_def b64_decode_encode
      replay_token_character_policy_is_enforced_def validate_replay_token_def
      media_type_must_look_like_mime_type_def validate_media_type_def
      sha256_base64_requires_32_bytes_def validate_sha256_b64_def
      grant_operation_is_restricted_def validate_grant_operation_def
      grant_token_must_be_hex_def validate_grant_token_def is_ascii_hexdigit_def list_all_iff)

lemma clocks_agreeD:
  assumes "clocks_agree E R st" "k < 8" "n < 4"
  obtains past future where
    "lb_add_seconds (en_lib R) (su_clock E k) (- 1) = Some past" "past \<le> wo_now (en_world R (rl_tick st + n))"
    "lb_add_seconds (en_lib R) (su_clock E k) 604800 = Some future" "wo_now (en_world R (rl_tick st + n)) < future"
  using assms unfolding clocks_agree_def by (auto dest!: spec)

lemma expiry_test_passes:
  assumes "clocks_agree E R st"
  shows "test_passes (signed_prekey_expiry_must_be_future E R st)"
proof -
  obtain past where p: "lb_add_seconds (en_lib R) (su_clock E 0) (- 1) = Some past" "past \<le> wo_now (en_world R (rl_tick st))"
    by (rule clocks_agreeD [OF assms, of 0 0]) simp_all
  obtain future where f: "lb_add_seconds (en_lib R) (su_clock E 1) 604800 = Some future"
    "wo_now (en_world R (Suc (rl_tick st))) < future"
    by (rule clocks_agreeD [OF assms, of 1 1]) simp_all
  show ?thesis
    using p f by (simp add: signed_prekey_expiry_must_be_future_def now_plus_def test_run validate_signed_prekey_expiry_def
        utc_now_def world_def del: no_numeral_unfold)
qed

text \<open>The parser on fields that decode, up to the signature and the list of one-time prekeys.\<close>

lemma parse_fields:
  assumes "core_laws (su_crypto E)" "lb_crypto (en_lib R) = su_crypto E" "length x = 32" "length p = 32" "length g = 64"
    and "wo_now (en_world R (rl_tick st)) < t" "length ks \<le> 256"
  shows "fst (parse_prekey_bundle_upload R
     \<lparr> pq_identity_signing_key_b64 = b64_encode (su_crypto E) (ed25519_public (su_crypto E) i),
       pq_identity_exchange_key_b64 = b64_encode (su_crypto E) x, pq_signed_prekey_b64 = b64_encode (su_crypto E) p,
       pq_signed_prekey_signature_b64 = b64_encode (su_crypto E) g, pq_signed_prekey_expires_at = Some t,
       pq_one_time_prekeys_b64 = ks \<rparr> st) =
     (if ed25519_verify (su_crypto E) (ed25519_public (su_crypto E) i) p g
      then and_then (decode_one_time_prekeys (su_crypto E) ks []) (\<lambda>keys. Inr
        \<lparr> pp_identity_signing_key = ed25519_public (su_crypto E) i, pp_identity_exchange_key = x, pp_signed_prekey = p,
          pp_signed_prekey_signature = g, pp_one_time_prekeys = keys, pp_signed_prekey_expires_at = t \<rparr>)
      else Inl (BadRequest ''signed_prekey_signature_b64 does not verify against the identity key''))"
proof -
  note l = core_lawsD [OF assms(1)]
  have field: "relay_decode_fixed_base64 (su_crypto E) n (b64_encode (su_crypto E) k) what = Inr k" if "length k = n" for n k what
    using that l(1) by (simp add: relay_decode_fixed_base64_def b64_decode_encode)
  show ?thesis
    using assms(2-7) l(5)
    by (cases "decode_one_time_prekeys (su_crypto E) ks []")
      (simp_all add: parse_prekey_bundle_upload_def field length_ed25519 ed25519_valid_public validate_signed_prekey_expiry_def
        utc_now_def world_def act_then_run bundle_verify_def Let_def)
qed

lemma decode_test_prekeys:
  assumes "b64_laws C" "length k = 32"
  shows "decode_one_time_prekeys C [b64_encode C k] [] = Inr [k]"
    "decode_one_time_prekeys C [b64_encode C k, b64_encode C k] [] = Inl (BadRequest ''one_time_prekeys_b64 contains duplicates'')"
  using assms by (simp_all add: relay_decode_fixed_base64_def b64_decode_encode)

lemma upload_tests_pass:
  assumes "core_laws (su_crypto E)" "lb_crypto (en_lib R) = su_crypto E" "clocks_agree E R st"
  shows "test_passes (prekey_upload_parser_accepts_valid_bundle E R st)"
    "test_passes (prekey_upload_parser_rejects_duplicate_one_time_prekeys E R st)"
    and "test_passes (prekey_upload_parser_rejects_bad_signature E R st) \<longleftrightarrow>
      \<not> ed25519_verify (su_crypto E) (ed25519_public (su_crypto E) (drawn E 32 3)) (x25519_public (su_crypto E) (drawn E 32 2))
        (ed25519_sign (su_crypto E) (drawn E 32 0) (x25519_public (su_crypto E) (drawn E 32 2)))"
proof -
  note l = core_lawsD [OF assms(1)]
  obtain t where t: "lb_add_seconds (en_lib R) (su_clock E 4) 604800 = Some t" "wo_now (en_world R (rl_tick st)) < t"
    by (rule clocks_agreeD [OF assms(3), of 4 0]) simp_all
  obtain t' where t': "lb_add_seconds (en_lib R) (su_clock E 5) 604800 = Some t'" "wo_now (en_world R (rl_tick st)) < t'"
    by (rule clocks_agreeD [OF assms(3), of 5 0]) simp_all
  note len = length_x25519_public [OF l(4)] length_ed25519 [OF l(5)]
  have contains: "contains ''one_time_prekeys_b64 contains duplicates'' ''duplicates''"
    "contains ''signed_prekey_signature_b64 does not verify against the identity key'' ''does not verify''"
    by simp_all
  note run = test_run now_plus_def signed_prekey_generate_def identity_generate_def one_time_prekey_generate_def
  show "test_passes (prekey_upload_parser_accepts_valid_bundle E R st)"
    "test_passes (prekey_upload_parser_rejects_duplicate_one_time_prekeys E R st)"
    using t l(5)
    by (simp_all add: prekey_upload_parser_accepts_valid_bundle_def prekey_upload_parser_rejects_duplicate_one_time_prekeys_def
        run parse_fields [OF assms(1,2)] len ed25519_verify_sign decode_test_prekeys [OF l(1)] contains
        del: no_numeral_unfold contains.simps decode_one_time_prekeys.simps)
  show "test_passes (prekey_upload_parser_rejects_bad_signature E R st) \<longleftrightarrow>
      \<not> ed25519_verify (su_crypto E) (ed25519_public (su_crypto E) (drawn E 32 3)) (x25519_public (su_crypto E) (drawn E 32 2))
        (ed25519_sign (su_crypto E) (drawn E 32 0) (x25519_public (su_crypto E) (drawn E 32 2)))"
    using t'
    by (simp add: prekey_upload_parser_rejects_bad_signature_def run parse_fields [OF assms(1,2)] len contains
        del: no_numeral_unfold contains.simps)
qed

section \<open>Properties\<close>

text \<open>The relay's unit tests pass in the model: each of the 10 listed tests runs without a failed assertion, when
  the primitives keep their laws and the relay's clock is neither behind the test's nor a week ahead of it.\<close>

theorem relay_tests_pass:
  assumes "core_laws (su_crypto E)" "lb_crypto (en_lib R) = su_crypto E" "clocks_agree E R st"
  shows "list_all test_passes (relay_tests E R st)"
  using field_tests_pass [OF core_lawsD(1) [OF assms(1)]] expiry_test_passes [OF assms(3)] upload_tests_pass [OF assms]
  by (simp add: relay_tests_def)

theorem relay_tests_pass_witness:
  "list_all test_passes (relay_tests demo_surroundings demo_env demo_state)"
proof -
  have C: "su_crypto demo_surroundings = ref_crypto" by (simp add: demo_surroundings_def)
  have "clocks_agree demo_surroundings demo_env demo_state"
    by (simp add: clocks_agree_def demo_steps demo_surroundings_def) (simp add: demo_lib_def)
  then show ?thesis
    using relay_tests_pass [of demo_surroundings demo_env demo_state] by (simp add: C)
qed

end
