(* ===== verification/Spec2Isabelle.thy ===== *)
theory Spec2Isabelle
  imports Media X3dh Device Ratchet_Auth Ratchet_Rounds Session_Store_Fs Relay_Prekey_Once Relay_Delivery Relay_Mail
    Relay_Feed_Listing Relay_Liveness Relay_Retention Relay_Responses Relay_Reactivation Relay_Rate Relay_Start Desktop
    Core_Tests_Pass Fixture_Upload Relay_Tests
begin

text \<open>
  A verification library for Simy, a relay for encrypted messages with its cryptographic core.

  The program.  \<^verbatim>\<open>crates/comm-core\<close> is the client's library: it encrypts media into padded chunks
  (\<^verbatim>\<open>lib.rs\<close>), agrees on keys and seals first messages (\<^verbatim>\<open>x3dh.rs\<close>), signs device records
  (\<^verbatim>\<open>device.rs\<close>), runs double ratchet sessions (\<^verbatim>\<open>double_ratchet.rs\<close>) and stores them encrypted
  (\<^verbatim>\<open>ratchet_store_fs.rs\<close>).  \<^verbatim>\<open>services/relay/src/main.rs\<close> is the server: it keeps mailboxes,
  accounts, messages, prekeys, media grants and a feed in Postgres, limits rates and refuses replays with
  Redis, and presigns object store requests.  The relay uses the core for device records, prekey bundles
  and padding plans, and the clients use the relay to exchange what the core produces.

  The Tauri backend of the desktop client (\<^verbatim>\<open>clients/desktop/simy-desktop/src-tauri\<close>) is meant to offer the
  core's sessions as commands over an encrypted file store.  \<^verbatim>\<open>crates/comm-core/examples\<close> holds five programs over the core.

  The theories.
  \<^item> Prelude, Rust_Std, BTree_Map: Results and actions (\<open>'e + 'a\<close> and state-passing functions that
    keep the state on errors), the parts of the Rust library the source calls, and \<^verbatim>\<open>BTreeMap\<close> as a
    sorted association list behind the locale \<open>ordered_map\<close>.
  \<^item> Crypto_Api: the cryptographic primitives, base64, hex and time printing as one record of functions,
    the laws that the theorems assume of it, and \<open>ref_crypto\<close>, which satisfies all of them.
  \<^item> Core_Types, Media, X3dh, Device: the functions of \<^verbatim>\<open>lib.rs\<close>, \<^verbatim>\<open>x3dh.rs\<close> and \<^verbatim>\<open>device.rs\<close>
    under their own names, each followed by its round trip, authenticity and binding theorems.
  \<^item> Ratchet: the sessions of \<^verbatim>\<open>double_ratchet.rs\<close>, a record changed by actions.  Ratchet_Sessions has the
    invariant of reachable sessions and persistence, Ratchet_Delivery conversations with messages out of
    order, Ratchet_Auth authenticity and the behaviour on bad envelopes, Ratchet_Rounds the bound on the
    work of a header.
  \<^item> Session_Store, Session_Store_Fs: the trait \<^verbatim>\<open>DoubleRatchetSessionStore\<close> as a locale, interpreted on
    the in-memory store and on the encrypted file store, whose system calls may fail.
  \<^item> Relay_Db: the tables of the migrations as lists of rows, with their CHECK, key and REFERENCES clauses
    and cascading deletes.  Relay_World: configuration, errors, and the surroundings of a handler.
    Relay_Validate: the pure checks.  Relay_Auth: authentication, with the locale \<open>gate\<close>, the contract
    handlers rely on, interpreted on the mailbox, administrator and creation checks.
  \<^item> Relay_Accounts, Relay_Admin, Relay_Messages, Relay_Prekeys, Relay_Media, Relay_Feed, Relay_Cleanup: the
    handlers, one definition per Rust function, each step in the order of the source, followed by what its
    statements may change and whom it refuses.  Relay_System: the routes as a request type, its dispatcher,
    and the states that requests and cleanup rounds reach from empty tables.
  \<^item> Relay_Demo: a concrete world for witnesses.  Relay_Invariants: what holds of the tables in every
    reachable state.  Relay_Prekey_Use, Relay_Prekey_Once: fetched bundles are usable and one-time prekeys are
    handed out once.  Relay_Delivery, Relay_Mail: delivery of messages, and the relay as an implementation of
    an abstract message service.  Relay_Feed_Listing: what a listing shows.  Relay_Authorization,
    Relay_Liveness: requests without entitlement are refused, entitled reads are answered.  Relay_Responses: no
    handler panics.  Relay_Reactivation: a disabled user can enable itself.
  \<^item> Relay_Redis: what every step of the relay keeps of Redis.  Relay_Replay and Relay_Rate: replay tokens and
    submission limits over whole runs, under laws of the two Redis commands.  Relay_Start: start-up, the static
    routes, and which environments \<^verbatim>\<open>from_env\<close> accepts.
  \<^item> Relay_Retention: a cleanup round removes exactly the dead rows, and the deletion of a managed user leaves
    no row that names its mailbox.
  \<^item> Desktop: the state of \<^verbatim>\<open>src-tauri/src/ratchet.rs\<close> and the command that opens the store.  Utf8:
    \<^verbatim>\<open>String::from_utf8\<close>.  Ref_Codec: a concrete serializer for witnesses.
  \<^item> Programs, Program_Runs: programs that draw, read the clock, print and may panic, and how they run.
    Examples, Examples_Run, Fixture_Upload: the example programs and their encrypted in-memory store, what they
    print, and that the relay accepts the printed fixture.  Core_Tests, Core_Tests_Pass, Relay_Tests: the unit
    tests of both crates under their own names, and which of them pass for every draw of distinct keys.
    Ratchet_Exchange: single messages between two sessions, on which the programs rest.
  \<^item> This theory: the core's handshake and ratchet together.

  How the relay is modelled.  A handler is a function on the state \<open>rl_db\<close>, \<open>rl_redis\<close> and a
  counter \<open>rl_tick\<close>.  Every SQL statement, transaction boundary, Redis command, clock reading, random
  draw and object store call takes the next outcome of the oracle \<open>en_world\<close>, which says whether it
  fails, whether a failed call took effect, and the time and random material it sees.  Invariants are
  stated for every oracle, so they cover lost commits and arbitrary clocks; theorems that something
  succeeds assume \<open>reliable\<close>.  Requests are handled one at a time: interleavings of two handlers'
  statements are not modelled.  Redis, the object store, \<^verbatim>\<open>uuid\<close>, \<^verbatim>\<open>chrono\<close>'s date arithmetic and
  formatting, Postgres's base64 and the rounding of timestamps to what Postgres stores are parameters.  In
  ORDER BY, ties keep the order of the table.  Postgres refuses text with a NUL character, which the model
  does not show.  A panic in date arithmetic is the error value \<open>Panicked\<close>.

  How invariants are proved.  \<open>sql_keeps J q\<close> says that a statement keeps a property of the tables, and
  \<open>preserves\<close> lifts it through a handler by the rules \<open>preserves_intros\<close>.  Each theory collects its
  statements in a predicate such as \<open>message_statements_keep\<close>, and \<open>statements_keep\<close> collects those, so that a
  property of the tables is an invariant of the relay once the statements keep it.

  Bounds and loops.  Loops over data are structural recursions; \<open>skip_loop\<close> ends because its counter
  approaches a fixed number, and 129 evaluations of its condition are enough on every input
  (\<open>ratchet_skip_rounds_bounded\<close>).  Integers that can wrap are words; time and row counts are unbounded.
  The oracle stands for unbounded time, so no fuel occurs in the relay.  The demo world's clock stops after
  500 ticks, so that one expiry can lie beyond it.

  What the database contributes.  \<open>sql_write\<close> refuses a statement after which a CHECK, key or REFERENCES
  clause of the migrations would not hold, as Postgres refuses it: the clauses are part of the program (they
  are its migrations), and handlers see the refusal as an error, for instance \<open>UniqueViolation\<close> in
  \<^verbatim>\<open>create_mailbox\<close>.  That \<open>db_ok\<close> holds in every reachable state is therefore a fact of the schema and not a
  property of the handlers, and it is a lemma only.  What handlers must ensure beyond the schema (ownership,
  bounds, verified bundles, confined replies, privacy) is stated separately.

  Keys and files.  Two X25519 public keys are the same when they encode the same field element
  (\<open>x25519_same\<close>, the \<^verbatim>\<open>==\<close> of \<^verbatim>\<open>PublicKey\<close>), which for keys computed from secrets is equality of bytes.
  Every system call of the file store may fail, the look-up of \<^verbatim>\<open>path.exists()\<close> included, which then
  answers false.

  Not modelled.  Connection pools, \<^verbatim>\<open>build_s3_client\<close> and \<^verbatim>\<open>shutdown_signal\<close> are wiring without logic of their
  own.  \<^verbatim>\<open>axum\<close>'s extraction of paths, queries and JSON is assumed to have succeeded.  Five unit tests are
  not among those proved to pass: \<^verbatim>\<open>decrypt_rejects_wrong_associated_data\<close>, \<^verbatim>\<open>device_record_rejects_tampering\<close>,
  \<^verbatim>\<open>prekey_bundle_verification_rejects_tampering\<close>, \<^verbatim>\<open>prekey_upload_parser_rejects_bad_signature\<close> and
  \<^verbatim>\<open>mailbox_token_hash_is_mailbox_scoped\<close> assert that a cipher, a signature or a hash tells two given inputs
  apart, which no law assumed here implies.  Memory zeroing has no effect on results.
  The other commands of the Tauri backend call items that \<^verbatim>\<open>comm-core\<close> does not have, such as
  \<^verbatim>\<open>IdentityKeyPair::from_bytes\<close> and a byte form of envelopes, and \<^verbatim>\<open>bootstrap_initiator\<close> reads a moved value:
  they do not compile, so they have no behaviour to model.  The web page, the
  desktop front end and the Android and iOS wrappers are not Rust.
\<close>

section \<open>From key agreement to conversation\<close>

text \<open>C1: End to end.  A message sealed for a receiver's prekey bundle opens at the receiver, both sides can then
  start a double ratchet session, and the two sessions decrypt everything they send each other afterwards as
  long as messages come in batches: each batch is 1 to 129 non-empty messages from one side (of a length the
  cipher takes), all of which arrive, in any order within the batch, before the next batch is sent; every batch draws a ratchet key that no other one
  and not the handshake has; and at most \<open>2 ^ 32 - 1\<close> messages are sent in all.\<close>

theorem end_to_end_conversation:
  assumes "dh_laws C" "kdf_laws C" "sig_laws C" "b64_laws C" "aead_laws C"
    and "identity_wf C alice" "identity_wf C bob"
    and "\<forall>k. opk = Some k \<longrightarrow> one_time_prekey_wf C k"
    and "length nonce = 24" "length pt < 64 * (2 ^ 32 - 1)"
  shows "\<exists>env hs om a b.
     seal_initial_message C ephemeral nonce now alice
       (bundle_from_parts bob (signed_prekey_generate C bob s) opk) pt kind = Inr (env, hs) \<and>
     open_initial_message C bob (signed_prekey_generate C bob s) opk env = Inr om \<and> om_plaintext om = pt \<and>
     bootstrap_initiator_session C hs = Inr a \<and>
     bootstrap_responder_session C (signed_prekey_generate C bob s) om = Inr b \<and>
     (\<forall>bs. (\<forall>x \<in> set bs. batch_ok x) \<longrightarrow>
        distinct (map (\<lambda>x. x25519_public C (bt_secret x)) bs) \<longrightarrow>
        (\<forall>x \<in> set bs. x25519_public C (bt_secret x) \<notin> {x25519_public C ephemeral, x25519_public C s}) \<longrightarrow>
        sum_list (map (length \<circ> bt_msgs) bs) \<le> 2 ^ 32 - 1 \<longrightarrow>
        converse C bs (a, b) = Inr (map (\<lambda>x. map (\<lambda>i. snd (bt_msgs x ! i)) (bt_order x)) bs))"
proof -
  let ?spk = "signed_prekey_generate C bob s"
  obtain env hs om a b where o:
    "seal_initial_message C ephemeral nonce now alice (bundle_from_parts bob ?spk opk) pt kind = Inr (env, hs)"
    "open_initial_message C bob ?spk opk env = Inr om" "om_plaintext om = pt"
    "handshake_pair C hs ?spk om"
    "bootstrap_initiator_session C hs = Inr a" "bootstrap_responder_session C ?spk om = Inr b"
    "hs_sender_ephemeral_secret hs = ephemeral"
    using sealed_pair_bootstraps [OF assms] by metis
  have sync: "synced C a b" "rs_sent_messages a = 0" "session_public a = x25519_public C ephemeral"
    "session_public b = x25519_public C s"
    using bootstrap_synced [OF assms(1) o(4-6)] o(7)
    by (simp_all add: signed_prekey_generate_def Let_def)
  have "converse C bs (a, b) = Inr (map (\<lambda>x. map (\<lambda>i. snd (bt_msgs x ! i)) (bt_order x)) bs)"
    if "\<forall>x \<in> set bs. batch_ok x" "distinct (map (\<lambda>x. x25519_public C (bt_secret x)) bs)"
      "\<forall>x \<in> set bs. x25519_public C (bt_secret x) \<notin> {x25519_public C ephemeral, x25519_public C s}"
      "sum_list (map (length \<circ> bt_msgs) bs) \<le> 2 ^ 32 - 1" for bs
    by (rule converse_delivers [OF assms(4,5,2,1) that(1) disjI1 [OF sync(1)] that(2)])
      (use that(3,4) sync in \<open>simp_all add: synced_def\<close>)
  with o show ?thesis by blast
qed

theorem end_to_end_conversation_witness:
  "\<exists>env hs om a b.
     seal_initial_message ref_crypto (replicate 32 5) (replicate 24 0) 17
       (identity_generate ref_crypto (replicate 32 1) (replicate 32 2))
       (bundle_from_parts (identity_generate ref_crypto (replicate 32 3) (replicate 32 4))
         (signed_prekey_generate ref_crypto (identity_generate ref_crypto (replicate 32 3) (replicate 32 4)) (replicate 32 6))
         None) [104, 105] SessionBootstrap = Inr (env, hs) \<and>
     open_initial_message ref_crypto (identity_generate ref_crypto (replicate 32 3) (replicate 32 4))
       (signed_prekey_generate ref_crypto (identity_generate ref_crypto (replicate 32 3) (replicate 32 4)) (replicate 32 6))
       None env = Inr om \<and> om_plaintext om = [104, 105] \<and>
     converse ref_crypto
       [\<lparr> bt_from_first = False, bt_secret = replicate 32 7, bt_ad = [1], bt_msgs = [(replicate 24 0, [1]), (replicate 24 1, [2])], bt_order = [1, 0] \<rparr>]
       (a, b) = Inr [[[2], [1]]]"
proof -
  let ?alice = "identity_generate ref_crypto (replicate 32 1) (replicate 32 2)"
  let ?bob = "identity_generate ref_crypto (replicate 32 3) (replicate 32 4)"
  let ?bs = "[\<lparr> bt_from_first = False, bt_secret = replicate 32 7, bt_ad = [1], bt_msgs = [(replicate 24 0, [1]), (replicate 24 1, [2])], bt_order = [1, 0] \<rparr>] :: batch list"
  have pub: "x25519_public ref_crypto (replicate 32 n) = replicate 32 n" for n
    by (simp add: ref_crypto_def ref_pad_def resize_def)
  have b: "\<forall>x \<in> set ?bs. batch_ok x" by (auto simp: batch_ok_def sendable_def)
  have f: "\<forall>x \<in> set ?bs. x25519_public ref_crypto (bt_secret x) \<notin>
      {x25519_public ref_crypto (replicate 32 5), x25519_public ref_crypto (replicate 32 6)}"
    by (simp add: pub)
  have "\<exists>env hs om a b.
     seal_initial_message ref_crypto (replicate 32 5) (replicate 24 0) 17 ?alice
       (bundle_from_parts ?bob (signed_prekey_generate ref_crypto ?bob (replicate 32 6)) None) [104, 105] SessionBootstrap = Inr (env, hs) \<and>
     open_initial_message ref_crypto ?bob (signed_prekey_generate ref_crypto ?bob (replicate 32 6)) None env = Inr om \<and>
     om_plaintext om = [104, 105] \<and>
     bootstrap_initiator_session ref_crypto hs = Inr a \<and>
     bootstrap_responder_session ref_crypto (signed_prekey_generate ref_crypto ?bob (replicate 32 6)) om = Inr b \<and>
     (\<forall>bs. (\<forall>x \<in> set bs. batch_ok x) \<longrightarrow>
        distinct (map (\<lambda>x. x25519_public ref_crypto (bt_secret x)) bs) \<longrightarrow>
        (\<forall>x \<in> set bs. x25519_public ref_crypto (bt_secret x) \<notin>
           {x25519_public ref_crypto (replicate 32 5), x25519_public ref_crypto (replicate 32 6)}) \<longrightarrow>
        sum_list (map (length \<circ> bt_msgs) bs) \<le> 2 ^ 32 - 1 \<longrightarrow>
        converse ref_crypto bs (a, b) = Inr (map (\<lambda>x. map (\<lambda>i. snd (bt_msgs x ! i)) (bt_order x)) bs))"
    by (rule end_to_end_conversation) (simp_all add: identity_generate_wf)
  then obtain env hs om a b' where o:
    "seal_initial_message ref_crypto (replicate 32 5) (replicate 24 0) 17 ?alice
       (bundle_from_parts ?bob (signed_prekey_generate ref_crypto ?bob (replicate 32 6)) None) [104, 105] SessionBootstrap = Inr (env, hs)"
    "open_initial_message ref_crypto ?bob (signed_prekey_generate ref_crypto ?bob (replicate 32 6)) None env = Inr om"
    "om_plaintext om = [104, 105]"
    and conv: "\<And>bs. \<forall>x \<in> set bs. batch_ok x \<Longrightarrow>
        distinct (map (\<lambda>x. x25519_public ref_crypto (bt_secret x)) bs) \<Longrightarrow>
        \<forall>x \<in> set bs. x25519_public ref_crypto (bt_secret x) \<notin>
           {x25519_public ref_crypto (replicate 32 5), x25519_public ref_crypto (replicate 32 6)} \<Longrightarrow>
        sum_list (map (length \<circ> bt_msgs) bs) \<le> 2 ^ 32 - 1 \<Longrightarrow>
        converse ref_crypto bs (a, b') = Inr (map (\<lambda>x. map (\<lambda>i. snd (bt_msgs x ! i)) (bt_order x)) bs)"
    by blast
  have "converse ref_crypto ?bs (a, b') = Inr [[[2], [1]]]"
    using conv [OF b _ f] by simp
  with o show ?thesis by blast
qed

end
